(* ===== verification/Canary_Prelude.thy ===== *)
theory Canary_Prelude
  imports Main
    "HOL-Library.Word"
    "HOL-Library.Char_ord"
    "HOL-Library.List_Lexorder"
    "HOL-Library.Product_Lexorder"
    "HOL-Library.Sublist"
    "HOL-Library.AList"
    "HOL-Library.Multiset"
begin

text \<open>
  The vocabulary every component of the development shares: the parts of Go and of its
  standard library that the modelled sources use, and the generic lemmas about them.
  \<^item> \<open>gotime\<close> is \<^verbatim>\<open>time.Time\<close> as an instant (nanoseconds since Go's zero time, so that the zero
    value is \<open>Instant 0\<close>); \<^verbatim>\<open>Before\<close>, \<^verbatim>\<open>After\<close> and \<^verbatim>\<open>Equal\<close> are its linear order. The location
    of a time value is not modelled: \<^verbatim>\<open>UTC()\<close> is the identity on instants.
  \<^item> \<open>slice\<close> distinguishes a nil slice from an empty one, since several validators do.
  \<^item> \<open>goerror\<close> models \<^verbatim>\<open>errors.New\<close>, wrapping with \<^verbatim>\<open>%w\<close> and \<^verbatim>\<open>errors.Is\<close>; operands that are only
    formatted into a message are left out. The two error types the code inspects with
    \<^verbatim>\<open>errors.As\<close>, SQLite's coded error and the store's revision conflict, are constructors.
  \<^item> \<open>first_refusal\<close> is a chain of \<^verbatim>\<open>if cond { return err }\<close> statements.
  \<^item> a Go map whose size or contents matter is an association list (\<open>AList.update\<close>,
    \<open>AList.delete\<close>, \<open>map_of\<close>).
  \<^item> \<open>golib\<close> collects what the sources use of \<^verbatim>\<open>encoding/json\<close> and \<^verbatim>\<open>crypto/sha256\<close>: it is an argument
    of the definitions that hash, and \<open>golib_ok\<close> states the documented shape of a digest.
  Strings are byte strings; trimming, case mapping and \<^verbatim>\<open>EqualFold\<close> act on ASCII letters and
  blanks only.
\<close>

named_theorems guard_simps \<open>unfolding chains of early returns\<close>
named_theorems field_simps_canary \<open>how an update of one component reads back\<close>

subsection \<open>Time\<close>

datatype gotime = Instant (nanos: int)

instantiation gotime :: linorder
begin
definition less_eq_gotime :: "gotime \<Rightarrow> gotime \<Rightarrow> bool" where
  "less_eq_gotime t u \<longleftrightarrow> nanos t \<le> nanos u"
definition less_gotime :: "gotime \<Rightarrow> gotime \<Rightarrow> bool" where
  "less_gotime t u \<longleftrightarrow> nanos t < nanos u"
instance
  by standard (auto simp: less_eq_gotime_def less_gotime_def gotime.expand)
end

type_synonym duration = int

definition zero_time :: gotime where
  "zero_time = Instant 0"

definition IsZero :: "gotime \<Rightarrow> bool" where
  "IsZero t \<longleftrightarrow> t = zero_time"

definition time_Add :: "gotime \<Rightarrow> duration \<Rightarrow> gotime" where
  "time_Add t d = Instant (nanos t + d)"

text \<open>\<^verbatim>\<open>Sub\<close> saturates at the bounds of an int64 duration.\<close>

definition time_Sub :: "gotime \<Rightarrow> gotime \<Rightarrow> duration" where
  "time_Sub t u = max (- (2 ^ 63)) (min (2 ^ 63 - 1) (nanos t - nanos u))"

text \<open>Two's-complement wrap-around of int64 sums.\<close>

definition wrap_int64 :: "int \<Rightarrow> int" where
  "wrap_int64 x = (x + 2 ^ 63) mod 2 ^ 64 - 2 ^ 63"

abbreviation minute :: duration where "minute \<equiv> 60000000000"
abbreviation hour :: duration where "hour \<equiv> 3600000000000"

subsection \<open>Slices, errors and early returns\<close>

datatype 'a slice = NilSlice | Slice "'a list"

fun elems :: "'a slice \<Rightarrow> 'a list" where
  "elems NilSlice = []"
| "elems (Slice xs) = xs"

datatype goerror =
    New string
  | Wrap string goerror
  | SQLiteError nat
  | RevisionConflictError int int bool

abbreviation ErrRevisionConflict :: goerror where
  "ErrRevisionConflict \<equiv> New ''corestore: revision conflict''"

fun errors_Is :: "goerror \<Rightarrow> goerror \<Rightarrow> bool" where
  "errors_Is (New m) target = (New m = target)"
| "errors_Is (Wrap m e) target = (Wrap m e = target \<or> errors_Is e target)"
| "errors_Is (SQLiteError c) target = (SQLiteError c = target)"
| "errors_Is (RevisionConflictError x a ex) target =
     (RevisionConflictError x a ex = target \<or> target = ErrRevisionConflict)"

text \<open>What \<^verbatim>\<open>errors.As\<close> finds at the end of a chain of wrapped errors.\<close>

fun error_cause :: "goerror \<Rightarrow> goerror" where
  "error_cause (Wrap m e) = error_cause e"
| "error_cause e = e"

type_synonym 'a result = "goerror + 'a"

definition reject_if :: "bool \<Rightarrow> goerror \<Rightarrow> goerror option" where
  "reject_if c e = (if c then Some e else None)"

fun first_refusal :: "goerror option list \<Rightarrow> goerror option" where
  "first_refusal [] = None"
| "first_refusal (None # es) = first_refusal es"
| "first_refusal (Some e # es) = Some e"

fun bind_result :: "'a result \<Rightarrow> ('a \<Rightarrow> 'b result) \<Rightarrow> 'b result" where
  "bind_result (Inl e) f = Inl e"
| "bind_result (Inr x) f = f x"

subsection \<open>Strings\<close>

definition is_lower_hex :: "char \<Rightarrow> bool" where
  "is_lower_hex c \<longleftrightarrow> (CHR ''0'' \<le> c \<and> c \<le> CHR ''9'') \<or> (CHR ''a'' \<le> c \<and> c \<le> CHR ''f'')"

definition is_hex :: "char \<Rightarrow> bool" where
  "is_hex c \<longleftrightarrow> is_lower_hex c \<or> (CHR ''A'' \<le> c \<and> c \<le> CHR ''F'')"

definition HasPrefix :: "string \<Rightarrow> string \<Rightarrow> bool" where
  "HasPrefix s p \<longleftrightarrow> take (length p) s = p"

definition TrimPrefix :: "string \<Rightarrow> string \<Rightarrow> string" where
  "TrimPrefix s p = (if HasPrefix s p then drop (length p) s else s)"

definition is_space :: "char \<Rightarrow> bool" where
  "is_space c \<longleftrightarrow> c \<in> {CHR '' '', CHR 0x09, CHR 0x0A, CHR 0x0B, CHR 0x0C, CHR 0x0D}"

definition TrimSpace :: "string \<Rightarrow> string" where
  "TrimSpace s = rev (dropWhile is_space (rev (dropWhile is_space s)))"

definition lower_char :: "char \<Rightarrow> char" where
  "lower_char c = (if CHR ''A'' \<le> c \<and> c \<le> CHR ''Z'' then char_of (of_char c + 32 :: nat) else c)"

definition upper_char :: "char \<Rightarrow> char" where
  "upper_char c = (if CHR ''a'' \<le> c \<and> c \<le> CHR ''z'' then char_of (of_char c - 32 :: nat) else c)"

definition ToLower :: "string \<Rightarrow> string" where
  "ToLower s = map lower_char s"

definition ToUpper :: "string \<Rightarrow> string" where
  "ToUpper s = map upper_char s"

definition EqualFold :: "string \<Rightarrow> string \<Rightarrow> bool" where
  "EqualFold s t \<longleftrightarrow> ToLower s = ToLower t"

text \<open>\<^verbatim>\<open>hex.DecodeString\<close> succeeds on an even number of hex digits of either case.\<close>

definition hex_decodes :: "string \<Rightarrow> bool" where
  "hex_decodes s \<longleftrightarrow> even (length s) \<and> list_all is_hex s"

fun digits10 :: "nat \<Rightarrow> string" where
  "digits10 n = (if n < 10 then [char_of (48 + n)] else digits10 (n div 10) @ [char_of (48 + n mod 10)])"

declare digits10.simps [simp del]

subsection \<open>JSON values and digests\<close>

datatype json =
    JString string
  | JBool bool
  | JTime gotime
  | JArray "json list"
  | JObject "(string \<times> json) list"

record golib =
  json_Marshal :: "json \<Rightarrow> string option"
  json_Valid :: "string \<Rightarrow> bool"
  sha256_hex :: "string \<Rightarrow> string"

definition golib_ok :: "golib \<Rightarrow> bool" where
  "golib_ok L \<longleftrightarrow> (\<forall>s. length (sha256_hex L s) = 64 \<and> list_all is_lower_hex (sha256_hex L s))"

subsection \<open>Sorting and searching\<close>

text \<open>Index of the last element that satisfies a predicate: what a Go index map built by a
  loop over a slice returns.\<close>

fun last_index :: "('a \<Rightarrow> bool) \<Rightarrow> 'a list \<Rightarrow> nat option" where
  "last_index P [] = None"
| "last_index P (x # xs) =
     (case last_index P xs of Some i \<Rightarrow> Some (Suc i) | None \<Rightarrow> if P x then Some 0 else None)"

text \<open>Index of the first element that satisfies a predicate: a loop with a break.\<close>

fun first_index :: "('a \<Rightarrow> bool) \<Rightarrow> 'a list \<Rightarrow> nat option" where
  "first_index P [] = None"
| "first_index P (x # xs) = (if P x then Some 0 else map_option Suc (first_index P xs))"

text \<open>A loop that finds the first matching element and updates it in place.\<close>

fun update_first :: "('a \<Rightarrow> bool) \<Rightarrow> ('a \<Rightarrow> 'a) \<Rightarrow> 'a list \<Rightarrow> 'a list" where
  "update_first P f [] = []"
| "update_first P f (x # xs) = (if P x then f x # xs else x # update_first P f xs)"

text \<open>A lookup loop that returns the first matching element.\<close>

fun find_first :: "('a \<Rightarrow> bool) \<Rightarrow> 'a list \<Rightarrow> 'a option" where
  "find_first P [] = None"
| "find_first P (x # xs) = (if P x then Some x else find_first P xs)"

text \<open>A list of structures read as a map from one of their fields.\<close>

definition lookup_by :: "('a \<Rightarrow> 'k) \<Rightarrow> 'a list \<Rightarrow> 'k \<Rightarrow> 'a option" where
  "lookup_by f xs k = find_first (\<lambda>x. f x = k) xs"

text \<open>The elements of a list carry pairwise different keys.\<close>

definition distinct_by :: "('a \<Rightarrow> 'k) \<Rightarrow> 'a list \<Rightarrow> bool" where
  "distinct_by k xs \<longleftrightarrow> distinct (map k xs)"

subsection \<open>Lemmas\<close>

lemma IsZero_zero [simp]: "IsZero zero_time"
  by (simp add: IsZero_def)

lemma reject_if_None [simp, guard_simps]: "reject_if c e = None \<longleftrightarrow> \<not> c"
  by (simp add: reject_if_def)

lemma reject_if_simps [simp]: "reject_if True e = Some e" "reject_if False e = None"
  by (simp_all add: reject_if_def)

lemma first_refusal_Cons_None [simp, guard_simps]:
  "first_refusal (r # rs) = None \<longleftrightarrow> r = None \<and> first_refusal rs = None"
  by (cases r) auto

lemma first_refusal_append_None [guard_simps]:
  "first_refusal (rs @ qs) = None \<longleftrightarrow> first_refusal rs = None \<and> first_refusal qs = None"
  by (induction rs) (auto split: option.splits)

lemma first_refusal_map_None [guard_simps]:
  "first_refusal (map f xs) = None \<longleftrightarrow> (\<forall>x\<in>set xs. f x = None)"
  by (induction xs) auto

lemma bind_result_Inr [guard_simps]:
  "bind_result r f = Inr y \<longleftrightarrow> (\<exists>x. r = Inr x \<and> f x = Inr y)"
  by (cases r) auto

lemma last_index_Some:
  "last_index P xs = Some i \<Longrightarrow> i < length xs \<and> P (xs ! i) \<and> (\<forall>j. i < j \<and> j < length xs \<longrightarrow> \<not> P (xs ! j))"
proof (induction xs arbitrary: i)
  case (Cons x xs)
  show ?case
  proof (cases "last_index P xs")
    case None
    have "\<forall>y\<in>set xs. \<not> P y"
      using None by (induction xs) (auto split: option.splits if_splits)
    with None Cons.prems show ?thesis
      by (auto split: if_splits simp: nth_Cons split: nat.splits)
  next
    case (Some j)
    with Cons.prems have "i = Suc j" by simp
    with Cons.IH [OF Some] show ?thesis
      by (auto simp: nth_Cons split: nat.splits)
  qed
qed simp

lemma last_index_None: "last_index P xs = None \<longleftrightarrow> (\<forall>x\<in>set xs. \<not> P x)"
  by (induction xs) (auto split: option.splits)

lemma first_index_Some:
  "first_index P xs = Some i \<Longrightarrow> i < length xs \<and> P (xs ! i) \<and> (\<forall>j<i. \<not> P (xs ! j))"
proof (induction xs arbitrary: i)
  case (Cons x xs)
  then show ?case
    by (auto split: if_splits simp: nth_Cons split: nat.splits)
qed simp

lemma first_index_None: "first_index P xs = None \<longleftrightarrow> (\<forall>x\<in>set xs. \<not> P x)"
  by (induction xs) auto

lemma distinct_by_eqD:
  "distinct_by k xs \<Longrightarrow> x \<in> set xs \<Longrightarrow> y \<in> set xs \<Longrightarrow> k x = k y \<Longrightarrow> x = y"
  unfolding distinct_by_def by (metis distinct_map inj_onD)

lemma distinct_by_snoc:
  "distinct_by k (xs @ [x]) \<longleftrightarrow> distinct_by k xs \<and> k x \<notin> k ` set xs"
  by (auto simp: distinct_by_def)

lemma distinct_by_list_update:
  assumes "distinct_by k xs" and "i < length xs" and "k y = k (xs ! i)"
  shows "distinct_by k (xs[i := y])"
proof -
  have "map k (xs[i := y]) = (map k xs)[i := k (xs ! i)]"
    using assms(3) by (simp add: map_update)
  also have "\<dots> = map k xs"
    using assms(2) by (metis list_update_id nth_map)
  finally show ?thesis
    using assms(1) by (simp add: distinct_by_def)
qed

lemma distinct_by_mset:
  "mset xs = mset ys \<Longrightarrow> distinct_by k xs \<longleftrightarrow> distinct_by k ys"
  unfolding distinct_by_def by (metis distinct_count_atmost_1 mset_map set_mset_mset)

lemma distinct_by_sort_key [simp]: "distinct_by k (sort_key f xs) \<longleftrightarrow> distinct_by k xs"
  by (rule distinct_by_mset) simp

lemma distinct_by_filter: "distinct_by k xs \<Longrightarrow> distinct_by k (filter P xs)"
  by (auto simp: distinct_by_def distinct_map intro: inj_on_subset)

lemma update_first_map:
  "(\<And>x. g (f x) = g x) \<Longrightarrow> map g (update_first P f xs) = map g xs"
  by (induction xs) auto

lemma length_update_first [simp]: "length (update_first P f xs) = length xs"
  by (induction xs) auto

lemma update_first_id: "\<forall>x\<in>set xs. \<not> P x \<Longrightarrow> update_first P f xs = xs"
  by (induction xs) auto

lemma update_first_set:
  "y \<in> set (update_first P f xs) \<Longrightarrow> y \<in> set xs \<or> (\<exists>x\<in>set xs. P x \<and> y = f x)"
  by (induction xs) (auto split: if_splits)

lemma of_char_lower:
  "(of_char (lower_char c) :: nat) = (let n = of_char c in if 65 \<le> n \<and> n \<le> 90 then n + 32 else n)"
  by (auto simp: lower_char_def less_eq_char_def Let_def)

lemma of_char_upper:
  "(of_char (upper_char c) :: nat) = (let n = of_char c in if 97 \<le> n \<and> n \<le> 122 then n - 32 else n)"
proof -
  have "(of_char c :: nat) < 256" by simp
  then show ?thesis by (auto simp: upper_char_def less_eq_char_def Let_def)
qed

lemma upper_lower_char: "upper_char (lower_char c) = upper_char c"
proof -
  have "(of_char (upper_char (lower_char c)) :: nat) = of_char (upper_char c)"
    by (simp only: of_char_upper of_char_lower Let_def) auto
  then show ?thesis by (simp only: of_char_eq_iff)
qed

lemma ToUpper_ToLower: "ToUpper (ToLower s) = ToUpper s"
  by (simp add: ToUpper_def ToLower_def upper_lower_char)

lemma EqualFold_ToUpper: "EqualFold s t \<Longrightarrow> ToUpper s = ToUpper t"
  unfolding EqualFold_def by (metis ToUpper_ToLower)

lemma find_first_Some: "find_first P xs = Some x \<Longrightarrow> x \<in> set xs \<and> P x"
  by (induction xs) (auto split: if_splits)

lemma find_first_None: "find_first P xs = None \<longleftrightarrow> (\<forall>x\<in>set xs. \<not> P x)"
  by (induction xs) auto

lemma find_first_unique:
  "distinct_by k xs \<Longrightarrow> x \<in> set xs \<Longrightarrow> find_first (\<lambda>y. k y = k x) xs = Some x"
  by (induction xs) (auto simp: distinct_by_def image_iff)

lemma lookup_by_SomeD: "lookup_by f xs k = Some x \<Longrightarrow> x \<in> set xs \<and> f x = k"
  unfolding lookup_by_def by (drule find_first_Some) simp

lemma lookup_by_None: "lookup_by f xs k = None \<longleftrightarrow> k \<notin> f ` set xs"
  by (auto simp: lookup_by_def find_first_None)

lemma lookup_by_Some_iff:
  "distinct_by f xs \<Longrightarrow> lookup_by f xs k = Some x \<longleftrightarrow> x \<in> set xs \<and> f x = k"
  using find_first_unique [of f xs x] by (auto simp: lookup_by_def dest: find_first_Some)

lemma lookup_by_cong_set:
  assumes "distinct_by f xs" and "distinct_by f ys" and "set xs = set ys"
  shows "lookup_by f xs k = lookup_by f ys k"
  using assms lookup_by_Some_iff [OF assms(1)] lookup_by_Some_iff [OF assms(2)]
  by (metis not_None_eq)

lemma lookup_by_map [simp]:
  "(\<And>x. f (g x) = f x) \<Longrightarrow> lookup_by f (map g xs) k = map_option g (lookup_by f xs k)"
  by (induction xs) (auto simp: lookup_by_def)

lemma lookup_by_append:
  "lookup_by f (xs @ ys) k = (case lookup_by f xs k of Some x \<Rightarrow> Some x | None \<Rightarrow> lookup_by f ys k)"
  by (induction xs) (auto simp: lookup_by_def)

lemma lookup_by_single [simp]: "lookup_by f [x] k = (if f x = k then Some x else None)"
  by (simp add: lookup_by_def)

lemma lookup_by_update:
  assumes "distinct_by f xs" and "i < length xs" and "f y = f (xs ! i)"
  shows "lookup_by f (xs[i := y]) k = (if k = f y then Some y else lookup_by f xs k)"
  using assms
proof (induction xs arbitrary: i)
  case (Cons x xs)
  show ?case
  proof (cases i)
    case 0
    with Cons.prems show ?thesis by (auto simp: lookup_by_def)
  next
    case (Suc j)
    with Cons.prems have "lookup_by f (xs[j := y]) k = (if k = f y then Some y else lookup_by f xs k)"
      by (intro Cons.IH) (auto simp: distinct_by_def)
    moreover have "f x \<noteq> f y"
      using Suc Cons.prems by (auto simp: distinct_by_def)
    ultimately show ?thesis
      using Suc by (auto simp: lookup_by_def)
  qed
qed simp

lemma last_index_lookup_by:
  assumes "distinct_by f xs"
  shows "map_option ((!) xs) (last_index (\<lambda>x. f x = k) xs) = lookup_by f xs k"
proof (cases "last_index (\<lambda>x. f x = k) xs")
  case None
  then show ?thesis by (simp add: last_index_None lookup_by_def find_first_None [THEN iffD2])
next
  case (Some i)
  from last_index_Some [OF Some] assms have "lookup_by f xs k = Some (xs ! i)"
    by (simp add: lookup_by_Some_iff)
  with Some show ?thesis by simp
qed

lemma HasPrefix_iff: "HasPrefix s p \<longleftrightarrow> (\<exists>t. s = p @ t)"
  unfolding HasPrefix_def by (metis append_eq_conv_conj append_take_drop_id)

subsection \<open>Simulation\<close>

text \<open>An abstract machine behind a program: every operation moves the abstraction along steps of the
  machine, and the machine keeps \<open>ok\<close>. Then so does every sequence of operations.\<close>

locale op_simulation =
  fixes exec :: "'op \<Rightarrow> 's \<Rightarrow> 's" and abstraction :: "'s \<Rightarrow> 'a" and step :: "'a \<Rightarrow> 'a \<Rightarrow> bool" and ok :: "'a \<Rightarrow> bool"
  assumes simulates: "ok (abstraction s) \<Longrightarrow> step\<^sup>*\<^sup>* (abstraction s) (abstraction (exec op s))"
    and step_ok: "step x y \<Longrightarrow> ok x \<Longrightarrow> ok y"
begin

lemma steps_ok: "step\<^sup>*\<^sup>* x y \<Longrightarrow> ok x \<Longrightarrow> ok y"
  by (induction rule: rtranclp_induct) (auto intro: step_ok)

lemma run_simulates:
  "ok (abstraction s) \<Longrightarrow> step\<^sup>*\<^sup>* (abstraction s) (abstraction (fold exec ops s)) \<and> ok (abstraction (fold exec ops s))"
proof (induction ops arbitrary: s)
  case (Cons op ops)
  have step: "step\<^sup>*\<^sup>* (abstraction s) (abstraction (exec op s))" by (rule simulates [OF Cons.prems])
  from Cons.IH [OF steps_ok [OF step Cons.prems]] show ?case using step by (auto intro: rtranclp_trans)
qed simp

end

end
