(* ===== verification/Alert_Contract.thy ===== *)
theory Alert_Contract
  imports Canary_Prelude
begin

text \<open>
  The pure alert contract of \<^verbatim>\<open>src/internal/risk/alert_candidate.go\<close>: the wire vocabulary, the
  candidate, coverage and snapshot structures, the construction of opaque identities and the
  validators the daemon and the app share. An enumeration of string constants is a datatype
  with the source's constants as constructors and one further constructor for every string
  that is not one of them, so that validation is not vacuous. The presentation codes, which the
  code only compares, stay strings.
  The lemmas characterise the validators, show that built identities pass them, and that a
  clear snapshot is a statement about complete and current coverage.
\<close>

subsection \<open>Vocabulary\<close>

definition AlertCandidateSnapshotVersion :: string where
  "AlertCandidateSnapshotVersion = ''alert-candidate-snapshot-v3''"

definition alertEpisodeKeyPrefix :: string where
  "alertEpisodeKeyPrefix = ''alert-episode-v1:''"

definition alertOccurrenceKeyPrefix :: string where
  "alertOccurrenceKeyPrefix = ''alert-occurrence-v1:''"

definition alertEvidenceFingerprintPrefix :: string where
  "alertEvidenceFingerprintPrefix = ''sha256:''"

definition alertAuthorityScopePrefix :: string where
  "alertAuthorityScopePrefix = ''alert-authority-scope-v1:''"

definition alertEpisodeIdentityVersion :: string where
  "alertEpisodeIdentityVersion = ''alert-episode-v1''"

definition alertOccurrenceIdentityVersion :: string where
  "alertOccurrenceIdentityVersion = ''alert-occurrence-v1''"

definition alertAuthorityIdentityVersion :: string where
  "alertAuthorityIdentityVersion = ''alert-authority-scope-v1''"

datatype AlertSource =
    AlertSourceStress
  | AlertSourceRegime
  | AlertSourceRulebook
  | AlertSourceRiskPolicy
  | AlertSourceProtection
  | AlertSourceOrderIntegrity
  | AlertSourceReconciliation
  | AlertSourceGovernance
  | AlertSourceDataHealth
  | AlertSourceDelivery
  | OtherSource string

fun AlertSource_wire :: "AlertSource \<Rightarrow> string" where
  "AlertSource_wire AlertSourceStress = ''canary''"
| "AlertSource_wire AlertSourceRegime = ''regime''"
| "AlertSource_wire AlertSourceRulebook = ''rulebook''"
| "AlertSource_wire AlertSourceRiskPolicy = ''risk_policy''"
| "AlertSource_wire AlertSourceProtection = ''protection''"
| "AlertSource_wire AlertSourceOrderIntegrity = ''order_integrity''"
| "AlertSource_wire AlertSourceReconciliation = ''reconciliation''"
| "AlertSource_wire AlertSourceGovernance = ''governance''"
| "AlertSource_wire AlertSourceDataHealth = ''data_health''"
| "AlertSource_wire AlertSourceDelivery = ''delivery''"
| "AlertSource_wire (OtherSource s) = s"

datatype AlertKind =
    AlertKindMarketState
  | AlertKindPortfolioRisk
  | AlertKindMarginSafety
  | AlertKindDrawdown
  | AlertKindProtectionGap
  | AlertKindProtectionAutomatic
  | AlertKindOrderIntegrity
  | AlertKindReconciliationException
  | AlertKindGovernance
  | AlertKindPolicyDrift
  | AlertKindDataHealth
  | AlertKindDeliveryHealth
  | OtherKind string

fun AlertKind_wire :: "AlertKind \<Rightarrow> string" where
  "AlertKind_wire AlertKindMarketState = ''market_state''"
| "AlertKind_wire AlertKindPortfolioRisk = ''portfolio_risk''"
| "AlertKind_wire AlertKindMarginSafety = ''margin_safety''"
| "AlertKind_wire AlertKindDrawdown = ''drawdown''"
| "AlertKind_wire AlertKindProtectionGap = ''protection_gap''"
| "AlertKind_wire AlertKindProtectionAutomatic = ''protection_automatic''"
| "AlertKind_wire AlertKindOrderIntegrity = ''order_integrity''"
| "AlertKind_wire AlertKindReconciliationException = ''reconciliation_exception''"
| "AlertKind_wire AlertKindGovernance = ''governance''"
| "AlertKind_wire AlertKindPolicyDrift = ''policy_drift''"
| "AlertKind_wire AlertKindDataHealth = ''data_health''"
| "AlertKind_wire AlertKindDeliveryHealth = ''delivery_health''"
| "AlertKind_wire (OtherKind s) = s"

datatype AlertEpisodeState =
    AlertEpisodeOpen
  | AlertEpisodeEscalated
  | AlertEpisodeRecovered
  | OtherEpisodeState string

datatype AlertSeverity =
    AlertSeverityObserve
  | AlertSeverityWatch
  | AlertSeverityAct
  | AlertSeverityUrgent
  | OtherSeverity string

datatype AlertEvidenceHealth =
    AlertEvidenceCurrent
  | AlertEvidencePartial
  | AlertEvidenceStale
  | AlertEvidenceUnavailable
  | AlertEvidenceError
  | OtherHealth string

datatype AlertDestination =
    AlertDestinationMonitor
  | AlertDestinationAlerts
  | AlertDestinationBrief
  | OtherDestination string

datatype AlertCoverageState =
    AlertCoverageComplete
  | AlertCoveragePartial
  | AlertCoverageUnavailable
  | OtherCoverage string

datatype AlertCoverageFreshness =
    AlertCoverageCurrent
  | AlertCoverageStale
  | AlertCoverageUnknown
  | OtherFreshness string

datatype AlertSnapshotState =
    AlertSnapshotClear
  | AlertSnapshotActive
  | AlertSnapshotUnknown
  | OtherSnapshotState string

fun AlertSeverity_wire :: "AlertSeverity \<Rightarrow> string" where
  "AlertSeverity_wire AlertSeverityObserve = ''observe''"
| "AlertSeverity_wire AlertSeverityWatch = ''watch''"
| "AlertSeverity_wire AlertSeverityAct = ''act''"
| "AlertSeverity_wire AlertSeverityUrgent = ''urgent''"
| "AlertSeverity_wire (OtherSeverity s) = s"

fun AlertEvidenceHealth_wire :: "AlertEvidenceHealth \<Rightarrow> string" where
  "AlertEvidenceHealth_wire AlertEvidenceCurrent = ''current''"
| "AlertEvidenceHealth_wire AlertEvidencePartial = ''partial''"
| "AlertEvidenceHealth_wire AlertEvidenceStale = ''stale''"
| "AlertEvidenceHealth_wire AlertEvidenceUnavailable = ''unavailable''"
| "AlertEvidenceHealth_wire AlertEvidenceError = ''error''"
| "AlertEvidenceHealth_wire (OtherHealth s) = s"

fun AlertDestination_wire :: "AlertDestination \<Rightarrow> string" where
  "AlertDestination_wire AlertDestinationMonitor = ''monitor''"
| "AlertDestination_wire AlertDestinationAlerts = ''alerts''"
| "AlertDestination_wire AlertDestinationBrief = ''brief''"
| "AlertDestination_wire (OtherDestination s) = s"

type_synonym AlertPresentationCode = string

abbreviation AlertPresentationPortfolioStress :: AlertPresentationCode where
  "AlertPresentationPortfolioStress \<equiv> ''portfolio_stress''"

abbreviation AlertPresentationMarginCushion :: AlertPresentationCode where
  "AlertPresentationMarginCushion \<equiv> ''margin_cushion''"

abbreviation AlertPresentationRegimeMarketStress :: AlertPresentationCode where
  "AlertPresentationRegimeMarketStress \<equiv> ''regime_market_stress''"

abbreviation AlertPresentationRulebookSingleNameExposure :: AlertPresentationCode where
  "AlertPresentationRulebookSingleNameExposure \<equiv> ''rulebook_single_name_exposure''"

abbreviation AlertPresentationRulebookOptionLinePremium :: AlertPresentationCode where
  "AlertPresentationRulebookOptionLinePremium \<equiv> ''rulebook_option_line_premium''"

abbreviation AlertPresentationRulebookCashSellOnly :: AlertPresentationCode where
  "AlertPresentationRulebookCashSellOnly \<equiv> ''rulebook_cash_sell_only''"

abbreviation AlertPresentationRulebookExtrinsicBudget :: AlertPresentationCode where
  "AlertPresentationRulebookExtrinsicBudget \<equiv> ''rulebook_extrinsic_budget''"

abbreviation AlertPresentationRulebookExpiryRunway :: AlertPresentationCode where
  "AlertPresentationRulebookExpiryRunway \<equiv> ''rulebook_expiry_runway''"

abbreviation AlertPresentationRulebookCatalystCoverage :: AlertPresentationCode where
  "AlertPresentationRulebookCatalystCoverage \<equiv> ''rulebook_catalyst_coverage''"

abbreviation AlertPresentationRulebookOverwriteEarnings :: AlertPresentationCode where
  "AlertPresentationRulebookOverwriteEarnings \<equiv> ''rulebook_overwrite_earnings''"

abbreviation AlertPresentationRulebookEarningsSizeFreeze :: AlertPresentationCode where
  "AlertPresentationRulebookEarningsSizeFreeze \<equiv> ''rulebook_earnings_size_freeze''"

abbreviation AlertPresentationRulebookRedOnGreen :: AlertPresentationCode where
  "AlertPresentationRulebookRedOnGreen \<equiv> ''rulebook_red_on_green''"

abbreviation AlertPresentationRulebookWinnerTrim :: AlertPresentationCode where
  "AlertPresentationRulebookWinnerTrim \<equiv> ''rulebook_winner_trim''"

abbreviation AlertPresentationRulebookGreenDayAction :: AlertPresentationCode where
  "AlertPresentationRulebookGreenDayAction \<equiv> ''rulebook_green_day_action''"

abbreviation AlertPresentationRulebookHedgeIntegrity :: AlertPresentationCode where
  "AlertPresentationRulebookHedgeIntegrity \<equiv> ''rulebook_hedge_integrity''"

abbreviation AlertPresentationRulebookExitDiscipline :: AlertPresentationCode where
  "AlertPresentationRulebookExitDiscipline \<equiv> ''rulebook_exit_discipline''"

abbreviation AlertPresentationRulebookFXExposure :: AlertPresentationCode where
  "AlertPresentationRulebookFXExposure \<equiv> ''rulebook_fx_exposure''"

abbreviation AlertPresentationRulebookNetExposure :: AlertPresentationCode where
  "AlertPresentationRulebookNetExposure \<equiv> ''rulebook_net_exposure''"

abbreviation AlertPresentationRulebookDeltaSwing :: AlertPresentationCode where
  "AlertPresentationRulebookDeltaSwing \<equiv> ''rulebook_delta_swing''"

abbreviation AlertPresentationRulebookClusterStress :: AlertPresentationCode where
  "AlertPresentationRulebookClusterStress \<equiv> ''rulebook_cluster_stress''"

abbreviation AlertPresentationRulebookLossBudget :: AlertPresentationCode where
  "AlertPresentationRulebookLossBudget \<equiv> ''rulebook_loss_budget''"

abbreviation AlertPresentationRulebookMarginHeadroom :: AlertPresentationCode where
  "AlertPresentationRulebookMarginHeadroom \<equiv> ''rulebook_margin_headroom''"

abbreviation AlertPresentationRulebookEarningsPremium :: AlertPresentationCode where
  "AlertPresentationRulebookEarningsPremium \<equiv> ''rulebook_earnings_premium_freeze''"

abbreviation AlertPresentationProtectionOrphanedOrder :: AlertPresentationCode where
  "AlertPresentationProtectionOrphanedOrder \<equiv> ''protection_orphaned_order''"

abbreviation AlertPresentationProtectionAutoTrailingStop :: AlertPresentationCode where
  "AlertPresentationProtectionAutoTrailingStop \<equiv> ''protection_auto_trailing_stop''"

abbreviation AlertPresentationProtectionAutoTrailingStopNow :: AlertPresentationCode where
  "AlertPresentationProtectionAutoTrailingStopNow \<equiv> ''protection_auto_trailing_stop_now''"

abbreviation AlertPresentationProtectionAutoOptionLossExit :: AlertPresentationCode where
  "AlertPresentationProtectionAutoOptionLossExit \<equiv> ''protection_auto_option_loss_exit''"

abbreviation AlertPresentationProtectionAutoOptionLossExitNow :: AlertPresentationCode where
  "AlertPresentationProtectionAutoOptionLossExitNow \<equiv> ''protection_auto_option_loss_exit_now''"

abbreviation AlertPresentationProtectionAutoOptionProfitTrail :: AlertPresentationCode where
  "AlertPresentationProtectionAutoOptionProfitTrail \<equiv> ''protection_auto_option_profit_trail''"

abbreviation AlertPresentationProtectionAutoOptionProfitTrailNow :: AlertPresentationCode where
  "AlertPresentationProtectionAutoOptionProfitTrailNow \<equiv> ''protection_auto_option_profit_trail_now''"

abbreviation AlertPresentationProtectionAutoBudgetReduction :: AlertPresentationCode where
  "AlertPresentationProtectionAutoBudgetReduction \<equiv> ''protection_auto_budget_reduction''"

abbreviation AlertPresentationProtectionAutoBudgetReductionNow :: AlertPresentationCode where
  "AlertPresentationProtectionAutoBudgetReductionNow \<equiv> ''protection_auto_budget_reduction_now''"

abbreviation AlertPresentationProtectionAutoCashSweep :: AlertPresentationCode where
  "AlertPresentationProtectionAutoCashSweep \<equiv> ''protection_auto_cash_sweep''"

abbreviation AlertPresentationProtectionAutoMandateReduction :: AlertPresentationCode where
  "AlertPresentationProtectionAutoMandateReduction \<equiv> ''protection_auto_mandate_reduction''"

abbreviation AlertPresentationProtectionAutoDeferred :: AlertPresentationCode where
  "AlertPresentationProtectionAutoDeferred \<equiv> ''protection_auto_deferred''"

abbreviation AlertPresentationProtectionAutoHeld :: AlertPresentationCode where
  "AlertPresentationProtectionAutoHeld \<equiv> ''protection_auto_held''"

abbreviation AlertPresentationProtectionAutoHeldUnverified :: AlertPresentationCode where
  "AlertPresentationProtectionAutoHeldUnverified \<equiv> ''protection_auto_held_unverified''"

abbreviation AlertPresentationProtectionAutoHeldMandate :: AlertPresentationCode where
  "AlertPresentationProtectionAutoHeldMandate \<equiv> ''protection_auto_held_mandate''"

abbreviation AlertPresentationProtectionReconciliationRequired :: AlertPresentationCode where
  "AlertPresentationProtectionReconciliationRequired \<equiv> ''protection_reconciliation_required''"

abbreviation AlertPresentationOrderIntegrityMismatch :: AlertPresentationCode where
  "AlertPresentationOrderIntegrityMismatch \<equiv> ''order_integrity_mismatch''"

abbreviation AlertPresentationDataHealthGateway :: AlertPresentationCode where
  "AlertPresentationDataHealthGateway \<equiv> ''data_health_gateway''"

abbreviation AlertPresentationDataHealthStorage :: AlertPresentationCode where
  "AlertPresentationDataHealthStorage \<equiv> ''data_health_storage''"

abbreviation AlertPresentationDataHealthProposals :: AlertPresentationCode where
  "AlertPresentationDataHealthProposals \<equiv> ''data_health_proposals''"

abbreviation AlertPresentationDataHealthOpportunities :: AlertPresentationCode where
  "AlertPresentationDataHealthOpportunities \<equiv> ''data_health_opportunities''"

abbreviation AlertPresentationDataHealthDataFarms :: AlertPresentationCode where
  "AlertPresentationDataHealthDataFarms \<equiv> ''data_health_data_farms''"

abbreviation AlertPresentationDataHealthRegime :: AlertPresentationCode where
  "AlertPresentationDataHealthRegime \<equiv> ''data_health_regime''"

abbreviation AlertPresentationDataHealthGamma :: AlertPresentationCode where
  "AlertPresentationDataHealthGamma \<equiv> ''data_health_gamma''"

abbreviation AlertPresentationDataHealthQuality :: AlertPresentationCode where
  "AlertPresentationDataHealthQuality \<equiv> ''data_health_quality''"

abbreviation AlertPresentationDataHealthConfig :: AlertPresentationCode where
  "AlertPresentationDataHealthConfig \<equiv> ''data_health_config''"

abbreviation AlertPresentationRiskPolicyLimitWouldBlock :: AlertPresentationCode where
  "AlertPresentationRiskPolicyLimitWouldBlock \<equiv> ''risk_policy_limit_would_block''"

abbreviation AlertPresentationRiskPolicyDrawdownLatched :: AlertPresentationCode where
  "AlertPresentationRiskPolicyDrawdownLatched \<equiv> ''risk_policy_drawdown_latched''"

abbreviation AlertPresentationRiskPolicyDrift :: AlertPresentationCode where
  "AlertPresentationRiskPolicyDrift \<equiv> ''risk_policy_drift''"

abbreviation AlertPresentationReconciliationDue :: AlertPresentationCode where
  "AlertPresentationReconciliationDue \<equiv> ''reconciliation_due''"

abbreviation AlertPresentationReconciliationException :: AlertPresentationCode where
  "AlertPresentationReconciliationException \<equiv> ''reconciliation_exception''"

abbreviation AlertPresentationReconciliationConfirmedFlow :: AlertPresentationCode where
  "AlertPresentationReconciliationConfirmedFlow \<equiv> ''reconciliation_confirmed_flow''"

abbreviation AlertPresentationGovernanceMonthlyPulse :: AlertPresentationCode where
  "AlertPresentationGovernanceMonthlyPulse \<equiv> ''governance_monthly_pulse''"

abbreviation AlertPresentationDeliveryHealth :: AlertPresentationCode where
  "AlertPresentationDeliveryHealth \<equiv> ''delivery_health''"

abbreviation AlertPresentationRulebookLegacyCondition :: AlertPresentationCode where
  "AlertPresentationRulebookLegacyCondition \<equiv> ''rulebook_condition''"

abbreviation AlertPresentationRiskPolicyLegacyCondition :: AlertPresentationCode where
  "AlertPresentationRiskPolicyLegacyCondition \<equiv> ''risk_policy_condition''"

abbreviation AlertPresentationReconciliationLegacyCondition :: AlertPresentationCode where
  "AlertPresentationReconciliationLegacyCondition \<equiv> ''reconciliation_condition''"

abbreviation AlertPresentationGovernanceLegacyCondition :: AlertPresentationCode where
  "AlertPresentationGovernanceLegacyCondition \<equiv> ''governance_condition''"

subsection \<open>Structures\<close>

record AlertCandidate =
  ac_EpisodeKey :: string
  ac_OccurrenceKey :: string
  ac_EvidenceFingerprint :: string
  ac_Source :: AlertSource
  ac_Kind :: AlertKind
  ac_PresentationCode :: AlertPresentationCode
  ac_State :: AlertEpisodeState
  ac_Severity :: AlertSeverity
  ac_EvidenceHealth :: AlertEvidenceHealth
  ac_Destination :: AlertDestination
  ac_EvidenceAsOf :: gotime
  ac_StateChangedAt :: gotime
  ac_ObservedAt :: gotime

record AlertSourceCoverage =
  asc_Source :: AlertSource
  asc_Status :: string
  asc_Reason :: string
  asc_EvidenceHealth :: AlertEvidenceHealth
  asc_InputAsOf :: gotime
  asc_ObservedAt :: gotime
  asc_EvidenceAsOf :: gotime
  asc_FreshUntil :: gotime
  asc_Covered :: bool

record AlertCoverage =
  cov_State :: AlertCoverageState
  cov_Freshness :: AlertCoverageFreshness
  cov_AsOf :: gotime
  cov_ExpectedSources :: "AlertSource slice"
  cov_CoveredSources :: "AlertSource slice"

record AlertCandidateSnapshot =
  snap_SchemaVersion :: string
  snap_AuthorityScope :: string
  snap_AsOf :: gotime
  snap_CurrentState :: AlertSnapshotState
  snap_Coverage :: AlertCoverage
  snap_Sources :: "AlertSourceCoverage slice"
  snap_Candidates :: "AlertCandidate slice"

abbreviation expected_sources :: "AlertCoverage \<Rightarrow> AlertSource list" where
  "expected_sources c \<equiv> elems (cov_ExpectedSources c)"

abbreviation covered_sources :: "AlertCoverage \<Rightarrow> AlertSource list" where
  "covered_sources c \<equiv> elems (cov_CoveredSources c)"

subsection \<open>Membership tests\<close>

definition validOpaqueSHA256 :: "string \<Rightarrow> string \<Rightarrow> bool" where
  "validOpaqueSHA256 value pre \<longleftrightarrow>
     length value = length pre + 64 \<and> HasPrefix value pre \<and> list_all is_lower_hex (drop (length pre) value)"

fun validAlertSource :: "AlertSource \<Rightarrow> bool" where
  "validAlertSource (OtherSource _) = False"
| "validAlertSource _ = True"

fun validAlertKind :: "AlertKind \<Rightarrow> bool" where
  "validAlertKind (OtherKind _) = False"
| "validAlertKind _ = True"

definition validAlertEpisodeState :: "AlertEpisodeState \<Rightarrow> bool" where
  "validAlertEpisodeState v \<longleftrightarrow> v = AlertEpisodeOpen \<or> v = AlertEpisodeEscalated \<or> v = AlertEpisodeRecovered"

definition validAlertSeverity :: "AlertSeverity \<Rightarrow> bool" where
  "validAlertSeverity v \<longleftrightarrow> v = AlertSeverityObserve \<or> v = AlertSeverityWatch \<or> v = AlertSeverityAct \<or> v = AlertSeverityUrgent"

definition validAlertEvidenceHealth :: "AlertEvidenceHealth \<Rightarrow> bool" where
  "validAlertEvidenceHealth v \<longleftrightarrow> v = AlertEvidenceCurrent \<or> v = AlertEvidencePartial \<or>
     v = AlertEvidenceStale \<or> v = AlertEvidenceUnavailable \<or> v = AlertEvidenceError"

definition validAlertDestination :: "AlertDestination \<Rightarrow> bool" where
  "validAlertDestination v \<longleftrightarrow> v = AlertDestinationMonitor \<or> v = AlertDestinationAlerts \<or> v = AlertDestinationBrief"

definition validAlertCoverageState :: "AlertCoverageState \<Rightarrow> bool" where
  "validAlertCoverageState v \<longleftrightarrow> v = AlertCoverageComplete \<or> v = AlertCoveragePartial \<or> v = AlertCoverageUnavailable"

definition validAlertCoverageFreshness :: "AlertCoverageFreshness \<Rightarrow> bool" where
  "validAlertCoverageFreshness v \<longleftrightarrow> v = AlertCoverageCurrent \<or> v = AlertCoverageStale \<or> v = AlertCoverageUnknown"

definition is_lower_letter :: "char \<Rightarrow> bool" where
  "is_lower_letter c \<longleftrightarrow> CHR ''a'' \<le> c \<and> c \<le> CHR ''z''"

definition is_digit_char :: "char \<Rightarrow> bool" where
  "is_digit_char c \<longleftrightarrow> CHR ''0'' \<le> c \<and> c \<le> CHR ''9''"

definition validAlertCode :: "string \<Rightarrow> bool" where
  "validAlertCode v \<longleftrightarrow>
     (case v of [] \<Rightarrow> False
      | c # cs \<Rightarrow> length v \<le> 64 \<and> is_lower_letter c \<and>
          list_all (\<lambda>d. is_lower_letter d \<or> is_digit_char d \<or> d = CHR ''_'') cs)"

fun validAlertPresentationCode :: "AlertSource \<Rightarrow> AlertPresentationCode \<Rightarrow> bool" where
  "validAlertPresentationCode AlertSourceStress v =
     (v = AlertPresentationPortfolioStress \<or> v = AlertPresentationMarginCushion)"
| "validAlertPresentationCode AlertSourceRegime v = (v = AlertPresentationRegimeMarketStress)"
| "validAlertPresentationCode AlertSourceRulebook v =
     (v \<in> {AlertPresentationRulebookSingleNameExposure, AlertPresentationRulebookOptionLinePremium,
       AlertPresentationRulebookCashSellOnly, AlertPresentationRulebookExtrinsicBudget,
       AlertPresentationRulebookExpiryRunway, AlertPresentationRulebookCatalystCoverage,
       AlertPresentationRulebookOverwriteEarnings, AlertPresentationRulebookEarningsSizeFreeze,
       AlertPresentationRulebookRedOnGreen, AlertPresentationRulebookWinnerTrim,
       AlertPresentationRulebookGreenDayAction, AlertPresentationRulebookHedgeIntegrity,
       AlertPresentationRulebookExitDiscipline, AlertPresentationRulebookFXExposure,
       AlertPresentationRulebookNetExposure, AlertPresentationRulebookDeltaSwing,
       AlertPresentationRulebookClusterStress, AlertPresentationRulebookLossBudget,
       AlertPresentationRulebookMarginHeadroom, AlertPresentationRulebookEarningsPremium,
       AlertPresentationRulebookLegacyCondition})"
| "validAlertPresentationCode AlertSourceRiskPolicy v =
     (v = AlertPresentationRiskPolicyLimitWouldBlock \<or> v = AlertPresentationRiskPolicyDrawdownLatched \<or>
      v = AlertPresentationRiskPolicyDrift \<or> v = AlertPresentationRiskPolicyLegacyCondition)"
| "validAlertPresentationCode AlertSourceProtection v =
     (v \<in> {AlertPresentationProtectionOrphanedOrder, AlertPresentationProtectionReconciliationRequired,
       AlertPresentationProtectionAutoTrailingStop, AlertPresentationProtectionAutoTrailingStopNow,
       AlertPresentationProtectionAutoOptionLossExit, AlertPresentationProtectionAutoOptionLossExitNow,
       AlertPresentationProtectionAutoOptionProfitTrail, AlertPresentationProtectionAutoOptionProfitTrailNow,
       AlertPresentationProtectionAutoBudgetReduction, AlertPresentationProtectionAutoBudgetReductionNow,
       AlertPresentationProtectionAutoCashSweep, AlertPresentationProtectionAutoMandateReduction,
       AlertPresentationProtectionAutoDeferred, AlertPresentationProtectionAutoHeld,
       AlertPresentationProtectionAutoHeldUnverified, AlertPresentationProtectionAutoHeldMandate})"
| "validAlertPresentationCode AlertSourceOrderIntegrity v = (v = AlertPresentationOrderIntegrityMismatch)"
| "validAlertPresentationCode AlertSourceReconciliation v =
     (v = AlertPresentationReconciliationDue \<or> v = AlertPresentationReconciliationException \<or>
      v = AlertPresentationReconciliationConfirmedFlow \<or> v = AlertPresentationReconciliationLegacyCondition)"
| "validAlertPresentationCode AlertSourceGovernance v =
     (v = AlertPresentationGovernanceMonthlyPulse \<or> v = AlertPresentationGovernanceLegacyCondition)"
| "validAlertPresentationCode AlertSourceDataHealth v =
     (v \<in> {AlertPresentationDataHealthGateway, AlertPresentationDataHealthStorage,
       AlertPresentationDataHealthProposals, AlertPresentationDataHealthOpportunities,
       AlertPresentationDataHealthDataFarms, AlertPresentationDataHealthRegime,
       AlertPresentationDataHealthGamma, AlertPresentationDataHealthQuality,
       AlertPresentationDataHealthConfig})"
| "validAlertPresentationCode AlertSourceDelivery v = (v = AlertPresentationDeliveryHealth)"
| "validAlertPresentationCode (OtherSource _) v = False"

fun alertSourceSet_from :: "string \<Rightarrow> AlertSource list \<Rightarrow> AlertSource list \<Rightarrow> AlertSource list result" where
  "alertSourceSet_from field seen [] = Inr seen"
| "alertSourceSet_from field seen (s # ss) =
     (if \<not> validAlertSource s then Inl (New (''alert coverage contains invalid source: '' @ field))
      else if s \<in> set seen then Inl (New (''alert coverage contains duplicate source: '' @ field))
      else alertSourceSet_from field (seen @ [s]) ss)"

definition alertSourceSet :: "string \<Rightarrow> AlertSource list \<Rightarrow> AlertSource list result" where
  "alertSourceSet field sources = alertSourceSet_from field [] sources"

subsection \<open>Opaque identities\<close>

definition BuildAlertAuthorityScope :: "golib \<Rightarrow> string \<Rightarrow> string \<Rightarrow> string result" where
  "BuildAlertAuthorityScope L account0 mode0 =
     (let account = ToUpper (TrimSpace account0); mode = ToLower (TrimSpace mode0) in
      if account = [] \<or> mode = [] then Inl (New ''alert authority scope requires account and mode'')
      else if length account > 256 \<or> length mode > 32 then Inl (New ''alert authority scope input is too long'')
      else case json_Marshal L (JObject [(''version'', JString alertAuthorityIdentityVersion),
               (''account'', JString account), (''mode'', JString mode)]) of
          None \<Rightarrow> Inl (New ''encode alert authority scope'')
        | Some raw \<Rightarrow> Inr (alertAuthorityScopePrefix @ sha256_hex L raw))"

definition ValidateAlertAuthorityScope :: "string \<Rightarrow> goerror option" where
  "ValidateAlertAuthorityScope v =
     reject_if (\<not> validOpaqueSHA256 v alertAuthorityScopePrefix) (New ''invalid alert authority_scope'')"

text \<open>The loop over the identity parts that both key builders contain.\<close>

fun trim_identity_parts :: "string \<Rightarrow> string list \<Rightarrow> string list result" where
  "trim_identity_parts msg [] = Inr []"
| "trim_identity_parts msg (p # ps) =
     (let part = TrimSpace p in
      if part = [] \<or> length part > 1024 then Inl (New msg)
      else bind_result (trim_identity_parts msg ps) (\<lambda>rest. Inr (part # rest)))"

definition BuildAlertEpisodeKey :: "golib \<Rightarrow> AlertSource \<Rightarrow> AlertKind \<Rightarrow> string list \<Rightarrow> string result" where
  "BuildAlertEpisodeKey L source kind identityParts =
     (if \<not> validAlertSource source then Inl (New ''invalid alert episode source'')
      else if \<not> validAlertKind kind then Inl (New ''invalid alert episode kind'')
      else if identityParts = [] \<or> length identityParts > 16
        then Inl (New ''alert episode identity requires between 1 and 16 parts'')
      else bind_result (trim_identity_parts ''invalid alert episode identity part'' identityParts) (\<lambda>parts.
        case json_Marshal L (JObject [(''version'', JString alertEpisodeIdentityVersion),
               (''source'', JString (AlertSource_wire source)), (''kind'', JString (AlertKind_wire kind)),
               (''parts'', JArray (map JString parts))]) of
          None \<Rightarrow> Inl (New ''encode alert episode identity'')
        | Some raw \<Rightarrow> Inr (alertEpisodeKeyPrefix @ sha256_hex L raw)))"

definition BuildAlertOccurrenceKey :: "golib \<Rightarrow> string \<Rightarrow> string list \<Rightarrow> string result" where
  "BuildAlertOccurrenceKey L episodeKey identityParts =
     (if \<not> validOpaqueSHA256 episodeKey alertEpisodeKeyPrefix then Inl (New ''invalid alert occurrence episode_key'')
      else if identityParts = [] \<or> length identityParts > 16
        then Inl (New ''alert occurrence identity requires between 1 and 16 parts'')
      else bind_result (trim_identity_parts ''invalid alert occurrence identity part'' identityParts) (\<lambda>parts.
        case json_Marshal L (JObject [(''version'', JString alertOccurrenceIdentityVersion),
               (''episode_key'', JString episodeKey), (''parts'', JArray (map JString parts))]) of
          None \<Rightarrow> Inl (New ''encode alert occurrence identity'')
        | Some raw \<Rightarrow> Inr (alertOccurrenceKeyPrefix @ sha256_hex L raw)))"

subsection \<open>Validators\<close>

definition AlertCandidate_Validate :: "AlertCandidate \<Rightarrow> goerror option" where
  "AlertCandidate_Validate c = first_refusal [
     reject_if (\<not> validOpaqueSHA256 (ac_EpisodeKey c) alertEpisodeKeyPrefix) (New ''invalid alert candidate episode_key''),
     reject_if (\<not> validOpaqueSHA256 (ac_OccurrenceKey c) alertOccurrenceKeyPrefix) (New ''invalid alert candidate occurrence_key''),
     reject_if (\<not> validOpaqueSHA256 (ac_EvidenceFingerprint c) alertEvidenceFingerprintPrefix) (New ''invalid alert candidate evidence_fingerprint''),
     reject_if (\<not> validAlertSource (ac_Source c)) (New ''invalid alert candidate source''),
     reject_if (\<not> validAlertKind (ac_Kind c)) (New ''invalid alert candidate kind''),
     reject_if (\<not> validAlertPresentationCode (ac_Source c) (ac_PresentationCode c)) (New ''invalid alert candidate presentation_code''),
     reject_if (\<not> validAlertEpisodeState (ac_State c)) (New ''invalid alert candidate state''),
     reject_if (\<not> validAlertSeverity (ac_Severity c)) (New ''invalid alert candidate severity''),
     reject_if (\<not> validAlertEvidenceHealth (ac_EvidenceHealth c)) (New ''invalid alert candidate evidence_health''),
     reject_if (\<not> validAlertDestination (ac_Destination c)) (New ''invalid alert candidate destination''),
     reject_if (IsZero (ac_EvidenceAsOf c) \<or> IsZero (ac_StateChangedAt c) \<or> IsZero (ac_ObservedAt c))
       (New ''alert candidate timestamps must be present''),
     reject_if (ac_EvidenceAsOf c > ac_ObservedAt c) (New ''alert candidate evidence_as_of is after observed_at''),
     reject_if (ac_StateChangedAt c > ac_ObservedAt c) (New ''alert candidate state_changed_at is after observed_at''),
     reject_if (ac_State c = AlertEpisodeRecovered \<and> ac_EvidenceHealth c \<noteq> AlertEvidenceCurrent)
       (New ''recovered alert candidate requires current evidence'')]"

definition AlertSourceCoverage_Validate :: "AlertSourceCoverage \<Rightarrow> gotime \<Rightarrow> goerror option" where
  "AlertSourceCoverage_Validate s snapshotAsOf =
     (let allZero = IsZero (asc_InputAsOf s) \<and> IsZero (asc_ObservedAt s) \<and> IsZero (asc_EvidenceAsOf s) \<and> IsZero (asc_FreshUntil s) in
      first_refusal ([
       reject_if (\<not> validAlertSource (asc_Source s)) (New ''invalid alert source coverage source''),
       reject_if (\<not> validAlertCode (asc_Status s) \<or> \<not> validAlertCode (asc_Reason s)) (New ''invalid alert source coverage status or reason''),
       reject_if (\<not> validAlertEvidenceHealth (asc_EvidenceHealth s)) (New ''invalid alert source coverage evidence_health''),
       reject_if (IsZero snapshotAsOf) (New ''alert source coverage requires snapshot as_of'')] @
      (if allZero then
        [reject_if (asc_Covered s \<or> asc_EvidenceHealth s \<noteq> AlertEvidenceUnavailable)
           (New ''unobserved alert source coverage must be unavailable and uncovered'')]
       else [
        reject_if (IsZero (asc_InputAsOf s) \<or> IsZero (asc_ObservedAt s) \<or> IsZero (asc_EvidenceAsOf s) \<or> IsZero (asc_FreshUntil s))
          (New ''observed alert source coverage requires all timestamps''),
        reject_if (asc_InputAsOf s > asc_ObservedAt s \<or> asc_ObservedAt s > snapshotAsOf \<or> asc_EvidenceAsOf s > snapshotAsOf)
          (New ''alert source coverage timestamps are out of order''),
        reject_if (asc_FreshUntil s < asc_ObservedAt s) (New ''alert source coverage fresh_until precedes observed_at''),
        reject_if (asc_Covered s \<and> asc_EvidenceHealth s \<noteq> AlertEvidenceCurrent \<and> asc_EvidenceHealth s \<noteq> AlertEvidenceStale)
          (New ''covered alert source requires current or stale evidence'')])))"

definition coverage_state_coherent :: "AlertCoverage \<Rightarrow> nat \<Rightarrow> nat \<Rightarrow> goerror option" where
  "coverage_state_coherent c n_covered n_expected =
     (case cov_State c of
        AlertCoverageComplete \<Rightarrow> first_refusal [
          reject_if (n_covered \<noteq> n_expected) (New ''complete alert coverage does not cover every expected source''),
          reject_if (cov_Freshness c = AlertCoverageUnknown) (New ''complete alert coverage cannot have unknown freshness'')]
      | AlertCoveragePartial \<Rightarrow> first_refusal [
          reject_if (n_covered = 0 \<or> n_covered = n_expected) (New ''partial alert coverage requires a non-empty proper subset''),
          reject_if (cov_Freshness c = AlertCoverageUnknown) (New ''partial alert coverage cannot have unknown freshness'')]
      | AlertCoverageUnavailable \<Rightarrow> first_refusal [
          reject_if (n_covered \<noteq> 0) (New ''unavailable alert coverage cannot cover a source''),
          reject_if (cov_Freshness c \<noteq> AlertCoverageUnknown) (New ''unavailable alert coverage requires unknown freshness'')]
      | _ \<Rightarrow> None)"

definition AlertCoverage_Validate :: "AlertCoverage \<Rightarrow> goerror option" where
  "AlertCoverage_Validate c =
     (case first_refusal [
       reject_if (\<not> validAlertCoverageState (cov_State c)) (New ''invalid alert coverage state''),
       reject_if (\<not> validAlertCoverageFreshness (cov_Freshness c)) (New ''invalid alert coverage freshness''),
       reject_if (IsZero (cov_AsOf c)) (New ''alert coverage is missing as_of''),
       reject_if (expected_sources c = []) (New ''alert coverage requires expected_sources''),
       reject_if (cov_CoveredSources c = NilSlice) (New ''alert coverage requires covered_sources'')] of
      Some e \<Rightarrow> Some e
    | None \<Rightarrow>
      (case alertSourceSet ''expected_sources'' (expected_sources c) of Inl e \<Rightarrow> Some e
       | Inr expected \<Rightarrow>
      (case alertSourceSet ''covered_sources'' (covered_sources c) of Inl e \<Rightarrow> Some e
       | Inr covered \<Rightarrow>
         if \<exists>s\<in>set covered. s \<notin> set expected
         then Some (New ''alert coverage covered_sources is not a subset of expected_sources'')
         else coverage_state_coherent c (length covered) (length expected))))"

text \<open>One row of the source loop of the snapshot validator; the state is the previous source's
  wire value and the sources seen so far.\<close>

fun snapshot_source_rows :: "gotime \<Rightarrow> AlertSource list \<Rightarrow> AlertSource list \<Rightarrow> string \<Rightarrow> AlertSource list \<Rightarrow> AlertSourceCoverage list \<Rightarrow> goerror option" where
  "snapshot_source_rows asOf expected covered previous seen [] = None"
| "snapshot_source_rows asOf expected covered previous seen (row # rows) =
     (case AlertSourceCoverage_Validate row asOf of
        Some e \<Rightarrow> Some (Wrap ''invalid alert candidate snapshot source'' e)
      | None \<Rightarrow>
        first_refusal [
          reject_if (asc_Source row \<notin> set expected) (New ''invalid alert candidate snapshot source: source is not expected''),
          reject_if (asc_Source row \<in> set seen) (New ''invalid alert candidate snapshot source: duplicate source''),
          reject_if (previous \<noteq> [] \<and> AlertSource_wire (asc_Source row) \<le> previous)
            (New ''alert candidate snapshot sources are not canonical''),
          reject_if (asc_Covered row \<noteq> (asc_Source row \<in> set covered))
            (New ''invalid alert candidate snapshot source: covered state disagrees with aggregate''),
          snapshot_source_rows asOf expected covered (AlertSource_wire (asc_Source row)) (asc_Source row # seen) rows])"

fun snapshot_candidates :: "gotime \<Rightarrow> AlertSource list \<Rightarrow> AlertSource list \<Rightarrow> string list \<Rightarrow> string list \<Rightarrow> AlertCandidate list \<Rightarrow> goerror option" where
  "snapshot_candidates asOf expected covered seenE seenO [] = None"
| "snapshot_candidates asOf expected covered seenE seenO (c # cs) =
     (case AlertCandidate_Validate c of
        Some e \<Rightarrow> Some (Wrap ''invalid alert candidate'' e)
      | None \<Rightarrow>
        first_refusal [
          reject_if (ac_ObservedAt c > asOf) (New ''invalid alert candidate: observed_at is after snapshot as_of''),
          reject_if (ac_Source c \<notin> set expected) (New ''invalid alert candidate: source is outside snapshot coverage''),
          reject_if (ac_EvidenceHealth c = AlertEvidenceCurrent \<and> ac_Source c \<notin> set covered)
            (New ''invalid alert candidate: current evidence source is not covered''),
          reject_if (ac_EpisodeKey c \<in> set seenE) (New ''invalid alert candidate: duplicate episode_key''),
          reject_if (ac_OccurrenceKey c \<in> set seenO) (New ''invalid alert candidate: duplicate occurrence_key''),
          snapshot_candidates asOf expected covered (ac_EpisodeKey c # seenE) (ac_OccurrenceKey c # seenO) cs])"

definition candidate_active :: "AlertCandidate \<Rightarrow> bool" where
  "candidate_active c \<longleftrightarrow> ac_State c = AlertEpisodeOpen \<or> ac_State c = AlertEpisodeEscalated"

definition derived_snapshot_state :: "AlertCandidate list \<Rightarrow> AlertCoverage \<Rightarrow> AlertSnapshotState" where
  "derived_snapshot_state cs cov =
     (if \<exists>c\<in>set cs. candidate_active c then AlertSnapshotActive
      else if cov_State cov = AlertCoverageComplete \<and> cov_Freshness cov = AlertCoverageCurrent then AlertSnapshotClear
      else AlertSnapshotUnknown)"

text \<open>The two source sets are rebuilt after the coverage has been validated; the code discards
  their errors, which cannot occur then.\<close>

definition AlertCandidateSnapshot_Validate :: "AlertCandidateSnapshot \<Rightarrow> goerror option" where
  "AlertCandidateSnapshot_Validate s =
     (let cov = snap_Coverage s; expected = expected_sources cov; covered = covered_sources cov in
      first_refusal [
        reject_if (snap_SchemaVersion s \<noteq> AlertCandidateSnapshotVersion) (New ''invalid alert candidate snapshot schema_version''),
        ValidateAlertAuthorityScope (snap_AuthorityScope s),
        reject_if (IsZero (snap_AsOf s)) (New ''alert candidate snapshot is missing as_of''),
        reject_if (snap_Candidates s = NilSlice) (New ''alert candidate snapshot requires candidates''),
        reject_if (snap_Sources s = NilSlice) (New ''alert candidate snapshot requires sources''),
        map_option (Wrap ''invalid alert candidate snapshot coverage'') (AlertCoverage_Validate cov),
        reject_if (cov_AsOf cov > snap_AsOf s) (New ''alert candidate snapshot coverage is after as_of''),
        reject_if (cov_Freshness cov = AlertCoverageCurrent \<and> cov_AsOf cov \<noteq> snap_AsOf s)
          (New ''current alert candidate coverage must match snapshot as_of''),
        reject_if (length (elems (snap_Sources s)) \<noteq> length expected)
          (New ''alert candidate snapshot requires one source row per expected source''),
        snapshot_source_rows (snap_AsOf s) expected covered [] [] (elems (snap_Sources s)),
        snapshot_candidates (snap_AsOf s) expected covered [] [] (elems (snap_Candidates s)),
        reject_if (snap_CurrentState s \<noteq> derived_snapshot_state (elems (snap_Candidates s)) cov)
          (New ''alert candidate snapshot current_state does not match derived state'')])"

definition IsClear :: "AlertCandidateSnapshot \<Rightarrow> bool" where
  "IsClear s \<longleftrightarrow> snap_CurrentState s = AlertSnapshotClear \<and> AlertCandidateSnapshot_Validate s = None"

subsection \<open>What the validators accept\<close>

lemma alertSourceSet_from_Inr:
  "alertSourceSet_from field seen ss = Inr r \<longleftrightarrow>
     (\<forall>s\<in>set ss. validAlertSource s) \<and> distinct ss \<and> set ss \<inter> set seen = {} \<and> r = seen @ ss"
  by (induction ss arbitrary: seen) auto

lemma alertSourceSet_Inr:
  "alertSourceSet field ss = Inr r \<longleftrightarrow> (\<forall>s\<in>set ss. validAlertSource s) \<and> distinct ss \<and> r = ss"
  by (simp add: alertSourceSet_def alertSourceSet_from_Inr)

definition coverage_sets_ok :: "AlertCoverage \<Rightarrow> bool" where
  "coverage_sets_ok c \<longleftrightarrow> expected_sources c \<noteq> [] \<and> distinct (expected_sources c) \<and> distinct (covered_sources c) \<and>
     set (covered_sources c) \<subseteq> set (expected_sources c) \<and> (\<forall>s\<in>set (expected_sources c). validAlertSource s)"

lemma AlertCoverage_Validate_None:
  "AlertCoverage_Validate c = None \<longleftrightarrow>
     validAlertCoverageState (cov_State c) \<and> validAlertCoverageFreshness (cov_Freshness c) \<and> \<not> IsZero (cov_AsOf c) \<and>
     cov_CoveredSources c \<noteq> NilSlice \<and> coverage_sets_ok c \<and>
     coverage_state_coherent c (length (covered_sources c)) (length (expected_sources c)) = None"
proof (cases "alertSourceSet ''expected_sources'' (expected_sources c)")
  case (Inl e)
  have "\<not> coverage_sets_ok c"
    using Inl alertSourceSet_Inr [of "''expected_sources''" "expected_sources c" "expected_sources c"]
    by (auto simp: coverage_sets_ok_def)
  with Inl show ?thesis
    by (auto simp: AlertCoverage_Validate_def split: option.splits)
next
  case exp: (Inr expected)
  note e = exp [unfolded alertSourceSet_Inr]
  show ?thesis
  proof (cases "alertSourceSet ''covered_sources'' (covered_sources c)")
    case (Inl err)
    have "\<not> coverage_sets_ok c"
      using Inl alertSourceSet_Inr [of "''covered_sources''" "covered_sources c" "covered_sources c"]
      by (auto simp: coverage_sets_ok_def)
    with Inl exp show ?thesis
      by (auto simp: AlertCoverage_Validate_def split: option.splits)
  next
    case (Inr covered)
    note f = Inr [unfolded alertSourceSet_Inr]
    from exp Inr e f show ?thesis
      by (auto simp: AlertCoverage_Validate_def coverage_sets_ok_def split: option.splits if_splits)
  qed
qed

lemma coverage_complete_sets:
  assumes "AlertCoverage_Validate c = None" and "cov_State c = AlertCoverageComplete"
  shows "set (covered_sources c) = set (expected_sources c)"
proof -
  from assms have sub: "set (covered_sources c) \<subseteq> set (expected_sources c)"
    and d: "distinct (covered_sources c)" "distinct (expected_sources c)"
    and len: "length (covered_sources c) = length (expected_sources c)"
    by (auto simp: AlertCoverage_Validate_None coverage_sets_ok_def coverage_state_coherent_def)
  have "card (set (covered_sources c)) = card (set (expected_sources c))"
    using d len by (simp add: distinct_card)
  with sub show ?thesis by (simp add: card_subset_eq)
qed

lemma snapshot_source_rows_None:
  "snapshot_source_rows asOf expected covered previous seen rows = None \<Longrightarrow>
     (\<forall>row\<in>set rows. AlertSourceCoverage_Validate row asOf = None \<and> asc_Source row \<in> set expected \<and>
        (asc_Covered row \<longleftrightarrow> asc_Source row \<in> set covered)) \<and>
     distinct (map asc_Source rows) \<and> asc_Source ` set rows \<inter> set seen = {}"
proof (induction rows arbitrary: previous seen)
  case (Cons row rows)
  then have "snapshot_source_rows asOf expected covered (AlertSource_wire (asc_Source row)) (asc_Source row # seen) rows = None"
    by (auto split: option.splits)
  note IH = Cons.IH [OF this]
  with Cons.prems show ?case
    by (auto split: option.splits)
qed simp

lemma snapshot_source_rows_facts:
  assumes "snapshot_source_rows asOf expected covered previous seen rows = None"
  shows "\<forall>row\<in>set rows. AlertSourceCoverage_Validate row asOf = None \<and> asc_Source row \<in> set expected \<and>
        (asc_Covered row \<longleftrightarrow> asc_Source row \<in> set covered)"
    and "distinct (map asc_Source rows)"
  using snapshot_source_rows_None [OF assms] by simp_all

lemma snapshot_candidates_None:
  "snapshot_candidates asOf expected covered seenE seenO cs = None \<longleftrightarrow>
     (\<forall>c\<in>set cs. AlertCandidate_Validate c = None \<and> ac_ObservedAt c \<le> asOf \<and> ac_Source c \<in> set expected \<and>
        (ac_EvidenceHealth c = AlertEvidenceCurrent \<longrightarrow> ac_Source c \<in> set covered)) \<and>
     distinct (map ac_EpisodeKey cs) \<and> set (map ac_EpisodeKey cs) \<inter> set seenE = {} \<and>
     distinct (map ac_OccurrenceKey cs) \<and> set (map ac_OccurrenceKey cs) \<inter> set seenO = {}"
  by (induction cs arbitrary: seenE seenO) (auto split: option.splits simp: not_less)

lemmas contract_validators =
  AlertCandidate_Validate_def AlertSourceCoverage_Validate_def AlertCoverage_Validate_None
  AlertCandidateSnapshot_Validate_def snapshot_candidates_None

lemma AlertCandidateSnapshot_Validate_None:
  assumes "AlertCandidateSnapshot_Validate s = None"
  shows "AlertCoverage_Validate (snap_Coverage s) = None"
    and "snapshot_source_rows (snap_AsOf s) (expected_sources (snap_Coverage s)) (covered_sources (snap_Coverage s)) [] [] (elems (snap_Sources s)) = None"
    and "snapshot_candidates (snap_AsOf s) (expected_sources (snap_Coverage s)) (covered_sources (snap_Coverage s)) [] [] (elems (snap_Candidates s)) = None"
    and "length (elems (snap_Sources s)) = length (expected_sources (snap_Coverage s))"
    and "snap_CurrentState s = derived_snapshot_state (elems (snap_Candidates s)) (snap_Coverage s)"
    and "\<not> IsZero (snap_AsOf s)"
    and "cov_AsOf (snap_Coverage s) \<le> snap_AsOf s"
    and "validOpaqueSHA256 (snap_AuthorityScope s) alertAuthorityScopePrefix"
    and "cov_Freshness (snap_Coverage s) = AlertCoverageCurrent \<Longrightarrow> cov_AsOf (snap_Coverage s) = snap_AsOf s"
  using assms by (auto simp: AlertCandidateSnapshot_Validate_def Let_def ValidateAlertAuthorityScope_def not_less)

text \<open>Every expected source has exactly one row of a valid snapshot.\<close>

lemma snapshot_rows_cover_expected:
  assumes "AlertCandidateSnapshot_Validate s = None"
  shows "asc_Source ` set (elems (snap_Sources s)) = set (expected_sources (snap_Coverage s))"
proof -
  note v = AlertCandidateSnapshot_Validate_None [OF assms]
  note rows = snapshot_source_rows_facts [OF v(2)]
  have sub: "asc_Source ` set (elems (snap_Sources s)) \<subseteq> set (expected_sources (snap_Coverage s))"
    using rows(1) by auto
  have "card (asc_Source ` set (elems (snap_Sources s))) = length (elems (snap_Sources s))"
    using rows(2) by (metis distinct_card length_map list.set_map)
  also have "\<dots> = card (set (expected_sources (snap_Coverage s)))"
    using v(1,4) by (simp add: AlertCoverage_Validate_None coverage_sets_ok_def distinct_card)
  finally show ?thesis
    using sub by (simp add: card_subset_eq)
qed

subsection \<open>Identities\<close>

lemma validOpaqueSHA256_build:
  "golib_ok L \<Longrightarrow> validOpaqueSHA256 (pre @ sha256_hex L raw) pre"
  by (auto simp: validOpaqueSHA256_def golib_ok_def HasPrefix_iff)

lemma BuildAlertOccurrenceKey_valid:
  assumes "golib_ok L" and "BuildAlertOccurrenceKey L ek ps = Inr k"
  shows "validOpaqueSHA256 k alertOccurrenceKeyPrefix" and "validOpaqueSHA256 ek alertEpisodeKeyPrefix"
  using assms validOpaqueSHA256_build [OF assms(1)]
  by (auto simp: BuildAlertOccurrenceKey_def bind_result_Inr split: if_splits option.splits)

lemma BuildAlertEpisodeKey_valid:
  assumes "golib_ok L" and "BuildAlertEpisodeKey L src kind ps = Inr k"
  shows "validOpaqueSHA256 k alertEpisodeKeyPrefix"
  using assms validOpaqueSHA256_build [OF assms(1)]
  by (auto simp: BuildAlertEpisodeKey_def bind_result_Inr split: if_splits option.splits)

lemma BuildAlertAuthorityScope_valid:
  assumes "golib_ok L" and "BuildAlertAuthorityScope L a m = Inr k"
  shows "ValidateAlertAuthorityScope k = None"
  using assms validOpaqueSHA256_build [OF assms(1)]
  by (auto simp: BuildAlertAuthorityScope_def ValidateAlertAuthorityScope_def Let_def split: if_splits option.splits)

subsection \<open>A concrete instance\<close>

text \<open>A printer of JSON values and a digest of the documented shape, and a small clear snapshot on
  them, for the witnesses of this and of the later theories.\<close>

fun demo_text :: "json \<Rightarrow> string" where
  "demo_text (JString s) = s"
| "demo_text (JBool b) = (if b then ''1'' else ''0'')"
| "demo_text (JTime t) = digits10 (nat (nanos t))"
| "demo_text (JArray js) = concat (map demo_text js)"
| "demo_text (JObject kvs) = concat (map (\<lambda>(k, v). demo_text v) kvs)"

definition demo_lib :: golib where
  "demo_lib = \<lparr>json_Marshal = \<lambda>j. Some (demo_text j), json_Valid = \<lambda>_. True,
     sha256_hex = \<lambda>s. take 64 (filter is_lower_hex (rev s) @ replicate 64 CHR ''0'')\<rparr>"

definition demo_scope :: string where
  "demo_scope = alertAuthorityScopePrefix @ ''ea3211ecaea'' @ replicate 53 CHR ''0''"

definition demo_row :: "AlertSource \<Rightarrow> AlertSourceCoverage" where
  "demo_row src = \<lparr>asc_Source = src, asc_Status = ''current'', asc_Reason = ''current'',
     asc_EvidenceHealth = AlertEvidenceCurrent, asc_InputAsOf = Instant 90, asc_ObservedAt = Instant 95,
     asc_EvidenceAsOf = Instant 90, asc_FreshUntil = Instant 200, asc_Covered = True\<rparr>"

definition demo_clear_snapshot :: AlertCandidateSnapshot where
  "demo_clear_snapshot = \<lparr>snap_SchemaVersion = AlertCandidateSnapshotVersion, snap_AuthorityScope = demo_scope,
     snap_AsOf = Instant 100, snap_CurrentState = AlertSnapshotClear,
     snap_Coverage = \<lparr>cov_State = AlertCoverageComplete, cov_Freshness = AlertCoverageCurrent, cov_AsOf = Instant 100,
        cov_ExpectedSources = Slice [AlertSourceStress, AlertSourceRegime],
        cov_CoveredSources = Slice [AlertSourceRegime, AlertSourceStress]\<rparr>,
     snap_Sources = Slice [demo_row AlertSourceStress, demo_row AlertSourceRegime],
     snap_Candidates = Slice []\<rparr>"

lemma demo_lib_ok: "golib_ok demo_lib"
proof -
  have zero: "is_lower_hex CHR ''0''" by code_simp
  have "list_all is_lower_hex (take 64 (filter is_lower_hex (rev s) @ replicate 64 CHR ''0''))" for s
    using zero by (auto simp: list_all_iff dest!: in_set_takeD)
  moreover have "length (take 64 (filter is_lower_hex (rev s) @ replicate 64 CHR ''0'')) = 64" for s
    by simp
  ultimately show ?thesis unfolding golib_ok_def demo_lib_def by (simp del: length_take take_append)
qed

lemma demo_clear: "IsClear demo_clear_snapshot"
  by code_simp

subsection \<open>Properties\<close>

text \<open>A snapshot that reports clear is a positive statement: its coverage is complete, current
  and taken at the snapshot's own boundary, every expected source has a row and every row is
  covered, and no candidate of the snapshot is active. Missing or old evidence can therefore
  never read as clear.\<close>

theorem clear_snapshot_is_covered:
  assumes "IsClear s"
  shows "cov_State (snap_Coverage s) = AlertCoverageComplete \<and>
    cov_Freshness (snap_Coverage s) = AlertCoverageCurrent \<and>
    cov_AsOf (snap_Coverage s) = snap_AsOf s \<and>
    asc_Source ` set (elems (snap_Sources s)) = set (expected_sources (snap_Coverage s)) \<and>
    (\<forall>row\<in>set (elems (snap_Sources s)). asc_Covered row) \<and>
    (\<forall>c\<in>set (elems (snap_Candidates s)). ac_State c = AlertEpisodeRecovered \<and> ac_EvidenceHealth c = AlertEvidenceCurrent)"
proof -
  from assms have v0: "AlertCandidateSnapshot_Validate s = None" and st: "snap_CurrentState s = AlertSnapshotClear"
    by (auto simp: IsClear_def)
  note v = AlertCandidateSnapshot_Validate_None [OF v0]
  from v(5) st have comp: "cov_State (snap_Coverage s) = AlertCoverageComplete"
    and cur: "cov_Freshness (snap_Coverage s) = AlertCoverageCurrent"
    by (auto simp: derived_snapshot_state_def split: if_splits)
  have covered: "\<forall>row\<in>set (elems (snap_Sources s)). asc_Covered row"
    using snapshot_source_rows_facts(1) [OF v(2)] coverage_complete_sets [OF v(1) comp] by blast
  have inactive: "\<forall>c\<in>set (elems (snap_Candidates s)). \<not> candidate_active c"
    using v(5) st by (auto simp: derived_snapshot_state_def split: if_splits)
  have "\<forall>c\<in>set (elems (snap_Candidates s)). ac_State c = AlertEpisodeRecovered \<and> ac_EvidenceHealth c = AlertEvidenceCurrent"
    using v(3) inactive
    by (auto simp: snapshot_candidates_None AlertCandidate_Validate_def validAlertEpisodeState_def candidate_active_def)
  with comp cur v(9) [OF cur] snapshot_rows_cover_expected [OF v0] covered show ?thesis
    by blast
qed

theorem clear_snapshot_is_covered_witness:
  "cov_State (snap_Coverage demo_clear_snapshot) = AlertCoverageComplete \<and>
   list_all asc_Covered (elems (snap_Sources demo_clear_snapshot))"
  unfolding list_all_iff using clear_snapshot_is_covered [OF demo_clear] by blast

text \<open>An authority scope identifies the broker account and mode, not their spelling: surrounding
  blanks and letter case do not change the scope, and every scope that is built passes the scope
  validator.\<close>

theorem authority_scope_canonical:
  assumes "golib_ok L"
    and "EqualFold (TrimSpace a) (TrimSpace a')" and "EqualFold (TrimSpace m) (TrimSpace m')"
  shows "BuildAlertAuthorityScope L a m = BuildAlertAuthorityScope L a' m' \<and>
    (\<forall>k. BuildAlertAuthorityScope L a m = Inr k \<longrightarrow> ValidateAlertAuthorityScope k = None)"
proof -
  have "ToUpper (TrimSpace a) = ToUpper (TrimSpace a')"
    by (rule EqualFold_ToUpper [OF assms(2)])
  moreover have "ToLower (TrimSpace m) = ToLower (TrimSpace m')"
    using assms(3) by (simp only: EqualFold_def)
  ultimately have "BuildAlertAuthorityScope L a m = BuildAlertAuthorityScope L a' m'"
    by (simp add: BuildAlertAuthorityScope_def)
  then show ?thesis
    using BuildAlertAuthorityScope_valid [OF assms(1)] by blast
qed

lemma demo_scope_built: "BuildAlertAuthorityScope demo_lib '' u123'' ''Paper'' = Inr demo_scope"
  by code_simp

theorem authority_scope_canonical_witness:
  "BuildAlertAuthorityScope demo_lib '' u123'' ''Paper'' = BuildAlertAuthorityScope demo_lib ''U123 '' ''paper'' \<and>
   ValidateAlertAuthorityScope demo_scope = None"
proof -
  have a: "EqualFold (TrimSpace '' u123'') (TrimSpace ''U123 '')" by code_simp
  have m: "EqualFold (TrimSpace ''Paper'') (TrimSpace ''paper'')" by code_simp
  show ?thesis
    using authority_scope_canonical [OF demo_lib_ok a m] demo_scope_built by blast
qed

text \<open>The built keys of an episode and of its occurrences pass the candidate validator, and
  an occurrence key is only built under a well-formed episode key.\<close>

theorem built_keys_validate:
  assumes "golib_ok L" and "BuildAlertEpisodeKey L src kind ps = Inr ek" and "BuildAlertOccurrenceKey L ek qs = Inr ok"
  shows "validOpaqueSHA256 ek alertEpisodeKeyPrefix \<and> validOpaqueSHA256 ok alertOccurrenceKeyPrefix \<and>
    validAlertSource src \<and> validAlertKind kind"
  using BuildAlertEpisodeKey_valid [OF assms(1,2)] BuildAlertOccurrenceKey_valid [OF assms(1,3)] assms(2)
  by (auto simp: BuildAlertEpisodeKey_def split: if_splits)

definition demo_episode_key :: string where
  "demo_episode_key = alertEpisodeKeyPrefix @ ''1eaeaee1edeea'' @ replicate 51 CHR ''0''"

lemma demo_episode_key_built:
  "BuildAlertEpisodeKey demo_lib AlertSourceRegime AlertKindMarketState [''1''] = Inr demo_episode_key"
  by code_simp

theorem built_keys_validate_witness:
  "validOpaqueSHA256 demo_episode_key alertEpisodeKeyPrefix \<and> validAlertSource AlertSourceRegime"
proof -
  have o: "BuildAlertOccurrenceKey demo_lib demo_episode_key [''sequence:1''] =
      Inr (projr (BuildAlertOccurrenceKey demo_lib demo_episode_key [''sequence:1'']))" by code_simp
  show ?thesis using built_keys_validate [OF demo_lib_ok demo_episode_key_built o] by simp
qed

end
