(* ===== verification/Alert_Registry_Types.thy ===== *)
theory Alert_Registry_Types
  imports Alert_Contract
begin

text \<open>
  The data of the producer registry, \<^verbatim>\<open>src/internal/daemon/alert_episode_registry.go\<close>, with the source
  universe, status codes and metric structure it takes from
  \<^verbatim>\<open>src/internal/daemon/alert_shadow_composer.go\<close>, and the helpers that build or copy that data:
  clones, observation fingerprints, decisions. Record fields carry the prefixes \<open>obs\<close> (observation),
  \<open>ev\<close> (evaluation), \<open>ss\<close> (source state), \<open>rec\<close> (registry record), \<open>dec\<close> (decision), \<open>sd\<close> (scope
  document) and \<open>doc\<close> (registry document). Counters of type uint64 are \<open>64 word\<close>, durations are
  integers. A decision without a before or after state holds the empty state string.
\<close>

subsection \<open>Constants\<close>

abbreviation alertEpisodeRegistryDocumentVersion :: int where
  "alertEpisodeRegistryDocumentVersion \<equiv> 4"

definition alertEpisodeRegistryInactiveLimit :: int where
  "alertEpisodeRegistryInactiveLimit = 256"

definition alertEpisodeRegistryCASAttempts :: nat where
  "alertEpisodeRegistryCASAttempts = 8"

abbreviation alertDecisionOpened :: string where "alertDecisionOpened \<equiv> ''opened''"

abbreviation alertDecisionReopened :: string where "alertDecisionReopened \<equiv> ''reopened''"

abbreviation alertDecisionEscalated :: string where "alertDecisionEscalated \<equiv> ''escalated''"

abbreviation alertDecisionRefreshedActive :: string where "alertDecisionRefreshedActive \<equiv> ''refreshed_active''"

abbreviation alertDecisionRecovered :: string where "alertDecisionRecovered \<equiv> ''recovered''"

abbreviation alertDecisionConfirmedRecovered :: string where "alertDecisionConfirmedRecovered \<equiv> ''confirmed_recovered''"

abbreviation alertDecisionNegativeWithoutEpisode :: string where
  "alertDecisionNegativeWithoutEpisode \<equiv> ''negative_without_episode''"

abbreviation alertDecisionHeldOmitted :: string where "alertDecisionHeldOmitted \<equiv> ''held_omitted''"

abbreviation alertDecisionHeldPartial :: string where "alertDecisionHeldPartial \<equiv> ''held_partial''"

abbreviation alertDecisionHeldStale :: string where "alertDecisionHeldStale \<equiv> ''held_stale''"

abbreviation alertDecisionHeldUnavailable :: string where "alertDecisionHeldUnavailable \<equiv> ''held_unavailable''"

abbreviation alertDecisionHeldUntrustedEvidence :: string where
  "alertDecisionHeldUntrustedEvidence \<equiv> ''held_untrusted_evidence''"

abbreviation alertDecisionReasonPositive :: string where "alertDecisionReasonPositive \<equiv> ''producer_positive''"

abbreviation alertDecisionReasonAuthoritativeNegative :: string where
  "alertDecisionReasonAuthoritativeNegative \<equiv> ''authoritative_negative''"

abbreviation alertDecisionReasonSourceOmitted :: string where "alertDecisionReasonSourceOmitted \<equiv> ''source_omitted''"

abbreviation alertDecisionReasonLegacyRetired :: string where
  "alertDecisionReasonLegacyRetired \<equiv> ''legacy_presentation_retired''"

abbreviation alertShadowDispositionDuplicate :: string where "alertShadowDispositionDuplicate \<equiv> ''duplicate''"

abbreviation alertShadowDispositionStale :: string where "alertShadowDispositionStale \<equiv> ''stale''"

abbreviation alertShadowDispositionEquivocation :: string where "alertShadowDispositionEquivocation \<equiv> ''equivocation''"

abbreviation alertShadowStatusNotObserved :: string where "alertShadowStatusNotObserved \<equiv> ''not_observed''"

abbreviation alertShadowStatusCurrent :: string where "alertShadowStatusCurrent \<equiv> ''current''"

abbreviation alertShadowStatusStale :: string where "alertShadowStatusStale \<equiv> ''stale''"

abbreviation alertShadowStatusUnavailable :: string where "alertShadowStatusUnavailable \<equiv> ''unavailable''"

abbreviation alertShadowReasonNotObserved :: string where "alertShadowReasonNotObserved \<equiv> ''not_observed''"

abbreviation alertShadowReasonCurrent :: string where "alertShadowReasonCurrent \<equiv> ''current''"

abbreviation alertShadowReasonSourceTimeInvalid :: string where
  "alertShadowReasonSourceTimeInvalid \<equiv> ''source_time_invalid''"

abbreviation alertShadowReasonRegistryApplyFailed :: string where
  "alertShadowReasonRegistryApplyFailed \<equiv> ''registry_apply_failed''"

abbreviation alertShadowReasonProducerSilent :: string where "alertShadowReasonProducerSilent \<equiv> ''producer_silent''"

abbreviation alertShadowCursorStress :: string where "alertShadowCursorStress \<equiv> ''stress''"

abbreviation alertShadowCursorNudges :: string where "alertShadowCursorNudges \<equiv> ''nudges''"

abbreviation alertShadowCursorRegime :: string where "alertShadowCursorRegime \<equiv> ''regime''"

abbreviation alertShadowCursorRulebook :: string where "alertShadowCursorRulebook \<equiv> ''rulebook''"

abbreviation alertShadowCursorProtection :: string where "alertShadowCursorProtection \<equiv> ''protection''"

abbreviation alertShadowCursorOrderIntegrity :: string where "alertShadowCursorOrderIntegrity \<equiv> ''order_integrity''"

abbreviation alertShadowCursorDataHealth :: string where "alertShadowCursorDataHealth \<equiv> ''data_health''"

definition alertShadowExpectedSources :: "AlertSource list" where
  "alertShadowExpectedSources = [AlertSourceStress, AlertSourceRegime, AlertSourceRulebook, AlertSourceRiskPolicy,
     AlertSourceProtection, AlertSourceOrderIntegrity, AlertSourceReconciliation, AlertSourceGovernance,
     AlertSourceDataHealth]"

definition alertShadowExpectedSourceSlice :: "AlertSource slice" where
  "alertShadowExpectedSourceSlice = Slice alertShadowExpectedSources"

subsection \<open>Structures\<close>

record alertEpisodeObservation =
  obs_EpisodeKey :: string
  obs_Source :: AlertSource
  obs_Kind :: AlertKind
  obs_PresentationCode :: AlertPresentationCode
  obs_Active :: bool
  obs_EscalationFingerprint :: string
  obs_Severity :: AlertSeverity
  obs_EvidenceFingerprint :: string
  obs_EvidenceHealth :: AlertEvidenceHealth
  obs_Destination :: AlertDestination
  obs_EvidenceAsOf :: gotime
  obs_ObservedAt :: gotime
  obs_PolicyFingerprint :: string
  obs_ProducerDecisionReason :: string

record alertShadowInputCursor =
  cur_AsOf :: gotime
  cur_Fingerprint :: string

record alertEpisodeRegistrySourceState =
  ss_Source :: AlertSource
  ss_Status :: string
  ss_Reason :: string
  ss_InputAsOf :: gotime
  ss_ObservedAt :: gotime
  ss_EvidenceAsOf :: gotime
  ss_EvidenceHealth :: AlertEvidenceHealth
  ss_Covered :: bool
  ss_FreshUntil :: gotime
  ss_DuplicateCandidates :: "64 word"

record alertEpisodeEvaluation =
  ev_AuthorityScope :: string
  ev_AsOf :: gotime
  ev_Coverage :: AlertCoverage
  ev_Observations :: "alertEpisodeObservation slice"
  ev_OpportunitySources :: "AlertSource slice"
  ev_SourceStates :: "alertEpisodeRegistrySourceState slice"
  ev_CursorKind :: string
  ev_Cursor :: alertShadowInputCursor
  ev_PendingApplyFailures :: "64 word"

record alertShadowDurableCursors =
  cu_Stress :: alertShadowInputCursor
  cu_Nudges :: alertShadowInputCursor
  cu_Regime :: alertShadowInputCursor
  cu_Rulebook :: alertShadowInputCursor
  cu_Protection :: alertShadowInputCursor
  cu_OrderIntegrity :: alertShadowInputCursor
  cu_DataHealth :: alertShadowInputCursor

record alertShadowSourceMetrics =
  sm_Evaluations :: "64 word"
  sm_CoveredEvaluations :: "64 word"
  sm_ActiveEvaluations :: "64 word"
  sm_ActiveObservations :: "64 word"
  sm_EpisodesOpened :: "64 word"
  sm_EpisodesEscalated :: "64 word"
  sm_EpisodesRecovered :: "64 word"
  sm_EpisodesReopened :: "64 word"
  sm_DuplicateInputs :: "64 word"
  sm_DuplicateCandidates :: "64 word"
  sm_RepeatedActive :: "64 word"
  sm_ActiveEvidenceChurn :: "64 word"
  sm_Equivocations :: "64 word"
  sm_StaleSuppressions :: "64 word"
  sm_CoverageFailures :: "64 word"
  sm_TimeToObserveSamples :: "64 word"
  sm_TimeToObserveTotal :: duration
  sm_TimeToObserveMax :: duration

record alertShadowDurableSourceMeasurements =
  row_Source :: AlertSource
  row_Measurements :: alertShadowSourceMetrics

record alertShadowDurableMetrics =
  mt_AsOf :: gotime
  mt_Evaluations :: "64 word"
  mt_RegistryApplyFailures :: "64 word"
  mt_Equivocations :: "64 word"
  mt_LastErrorCode :: string
  mt_Sources :: "alertShadowDurableSourceMeasurements slice"

record alertEpisodeRegistryRecord =
  rec_AuthorityScope :: string
  rec_EpisodeKey :: string
  rec_OccurrenceKey :: string
  rec_Source :: AlertSource
  rec_Kind :: AlertKind
  rec_PresentationCode :: AlertPresentationCode
  rec_State :: AlertEpisodeState
  rec_Severity :: AlertSeverity
  rec_EvidenceFingerprint :: string
  rec_EvidenceHealth :: AlertEvidenceHealth
  rec_Destination :: AlertDestination
  rec_EvidenceAsOf :: gotime
  rec_StateChangedAt :: gotime
  rec_ObservedAt :: gotime
  rec_PolicyFingerprint :: string
  rec_ProducerDecisionReason :: string
  rec_RegistryDecisionReason :: string
  rec_LastSourceObservedAt :: gotime
  rec_LastObservationFingerprint :: string
  rec_LastEscalationFingerprint :: string
  rec_EmitRecovered :: bool

record alertEpisodeDecision =
  dec_EpisodeKey :: string
  dec_OccurrenceKey :: string
  dec_Source :: AlertSource
  dec_Kind :: AlertKind
  dec_PresentationCode :: AlertPresentationCode
  dec_Action :: string
  dec_BeforeState :: AlertEpisodeState
  dec_AfterState :: AlertEpisodeState
  dec_Severity :: AlertSeverity
  dec_EvidenceFingerprint :: string
  dec_EvidenceHealth :: AlertEvidenceHealth
  dec_Destination :: AlertDestination
  dec_EvidenceAsOf :: gotime
  dec_ObservedAt :: gotime
  dec_PolicyFingerprint :: string
  dec_ProducerDecisionReason :: string
  dec_RegistryDecisionReason :: string

record alertEpisodeRegistryScopeDocument =
  sd_AuthorityScope :: string
  sd_AsOf :: gotime
  sd_Coverage :: AlertCoverage
  sd_SourceStates :: "alertEpisodeRegistrySourceState slice"
  sd_Cursors :: alertShadowDurableCursors
  sd_Metrics :: alertShadowDurableMetrics
  sd_Episodes :: "alertEpisodeRegistryRecord slice"

record alertEpisodeLegacyUnscoped =
  leg_MigratedAt :: gotime
  leg_Fingerprint :: string
  leg_Document :: string

record alertEpisodeRegistryDocument =
  doc_Version :: int
  doc_UpdatedAt :: gotime
  doc_NextOccurrenceSequence :: "64 word"
  doc_Scopes :: "alertEpisodeRegistryScopeDocument slice"
  doc_LegacyUnscoped :: "alertEpisodeLegacyUnscoped option"

abbreviation no_state :: AlertEpisodeState where
  "no_state \<equiv> OtherEpisodeState []"

subsection \<open>Zero values\<close>

definition zero_coverage :: AlertCoverage where
  "zero_coverage = \<lparr>cov_State = OtherCoverage [], cov_Freshness = OtherFreshness [], cov_AsOf = zero_time,
     cov_ExpectedSources = NilSlice, cov_CoveredSources = NilSlice\<rparr>"

definition zero_cursor :: alertShadowInputCursor where
  "zero_cursor = \<lparr>cur_AsOf = zero_time, cur_Fingerprint = []\<rparr>"

definition zero_cursors :: alertShadowDurableCursors where
  "zero_cursors = \<lparr>cu_Stress = zero_cursor, cu_Nudges = zero_cursor, cu_Regime = zero_cursor, cu_Rulebook = zero_cursor,
     cu_Protection = zero_cursor, cu_OrderIntegrity = zero_cursor, cu_DataHealth = zero_cursor\<rparr>"

definition zero_source_metrics :: alertShadowSourceMetrics where
  "zero_source_metrics = \<lparr>sm_Evaluations = 0, sm_CoveredEvaluations = 0, sm_ActiveEvaluations = 0,
     sm_ActiveObservations = 0, sm_EpisodesOpened = 0, sm_EpisodesEscalated = 0, sm_EpisodesRecovered = 0,
     sm_EpisodesReopened = 0, sm_DuplicateInputs = 0, sm_DuplicateCandidates = 0, sm_RepeatedActive = 0,
     sm_ActiveEvidenceChurn = 0, sm_Equivocations = 0, sm_StaleSuppressions = 0, sm_CoverageFailures = 0,
     sm_TimeToObserveSamples = 0, sm_TimeToObserveTotal = 0, sm_TimeToObserveMax = 0\<rparr>"

definition newAlertShadowDurableSourceMeasurements :: "alertShadowDurableSourceMeasurements slice" where
  "newAlertShadowDurableSourceMeasurements =
     Slice (map (\<lambda>src. \<lparr>row_Source = src, row_Measurements = zero_source_metrics\<rparr>) alertShadowExpectedSources)"

definition empty_registry :: alertEpisodeRegistryDocument where
  "empty_registry = \<lparr>doc_Version = alertEpisodeRegistryDocumentVersion, doc_UpdatedAt = zero_time, doc_NextOccurrenceSequence = 0,
     doc_Scopes = Slice [], doc_LegacyUnscoped = None\<rparr>"

subsection \<open>Copies, lookups and codes\<close>

definition alertCoverageContains :: "AlertSource list \<Rightarrow> AlertSource \<Rightarrow> bool" where
  "alertCoverageContains sources source \<longleftrightarrow> source \<in> set sources"

definition cloneAlertCoverage :: "AlertCoverage \<Rightarrow> AlertCoverage" where
  "cloneAlertCoverage c = c\<lparr>cov_ExpectedSources := Slice (expected_sources c), cov_CoveredSources := Slice (covered_sources c)\<rparr>"

definition cloneAlertEpisodeScopeDocument :: "alertEpisodeRegistryScopeDocument \<Rightarrow> alertEpisodeRegistryScopeDocument" where
  "cloneAlertEpisodeScopeDocument d = d\<lparr>
     sd_Coverage := cloneAlertCoverage (sd_Coverage d),
     sd_SourceStates := Slice (elems (sd_SourceStates d)),
     sd_Metrics := (sd_Metrics d)\<lparr>mt_Sources := Slice (elems (mt_Sources (sd_Metrics d)))\<rparr>,
     sd_Episodes := Slice (elems (sd_Episodes d))\<rparr>"

definition cloneAlertEpisodeRegistryDocument :: "alertEpisodeRegistryDocument \<Rightarrow> alertEpisodeRegistryDocument" where
  "cloneAlertEpisodeRegistryDocument d = d\<lparr>doc_Scopes := Slice (map cloneAlertEpisodeScopeDocument (elems (doc_Scopes d)))\<rparr>"

definition findAlertEpisodeScope :: "alertEpisodeRegistryScopeDocument list \<Rightarrow> string \<Rightarrow> alertEpisodeRegistryScopeDocument option" where
  "findAlertEpisodeScope scopes authorityScope = find_first (\<lambda>d. sd_AuthorityScope d = authorityScope) scopes"

definition alertEpisodeOpportunitySet :: "alertEpisodeEvaluation \<Rightarrow> AlertSource list" where
  "alertEpisodeOpportunitySet ev = remdups
     (case ev_OpportunitySources ev of NilSlice \<Rightarrow> expected_sources (ev_Coverage ev) | Slice ss \<Rightarrow> ss)"

definition validAlertRegistryFingerprint :: "string \<Rightarrow> bool" where
  "validAlertRegistryFingerprint v \<longleftrightarrow> length v = length ''sha256:'' + 64 \<and> HasPrefix v ''sha256:'' \<and>
     hex_decodes (TrimPrefix v ''sha256:'') \<and> v = ToLower v"

definition validAlertDecisionCode :: "string \<Rightarrow> bool" where
  "validAlertDecisionCode v \<longleftrightarrow>
     (case v of [] \<Rightarrow> False
      | c # cs \<Rightarrow> length v \<le> 64 \<and> is_lower_letter c \<and>
          list_all (\<lambda>d. is_lower_letter d \<or> is_digit_char d \<or> d = CHR ''_'') cs)"

definition alertEpisodeObservationFingerprint :: "golib \<Rightarrow> alertEpisodeObservation \<Rightarrow> string result" where
  "alertEpisodeObservationFingerprint L ob =
     (case json_Marshal L (JObject ([
          (''episode_key'', JString (obs_EpisodeKey ob)),
          (''source'', JString (AlertSource_wire (obs_Source ob))),
          (''kind'', JString (AlertKind_wire (obs_Kind ob))),
          (''presentation_code'', JString (obs_PresentationCode ob)),
          (''active'', JBool (obs_Active ob))] @
          (if obs_EscalationFingerprint ob = [] then []
           else [(''escalation_fingerprint'', JString (obs_EscalationFingerprint ob))]) @ [
          (''severity'', JString (AlertSeverity_wire (obs_Severity ob))),
          (''evidence_fingerprint'', JString (obs_EvidenceFingerprint ob)),
          (''evidence_health'', JString (AlertEvidenceHealth_wire (obs_EvidenceHealth ob))),
          (''destination'', JString (AlertDestination_wire (obs_Destination ob))),
          (''evidence_as_of'', JTime (obs_EvidenceAsOf ob)),
          (''observed_at'', JTime (obs_ObservedAt ob)),
          (''policy_fingerprint'', JString (obs_PolicyFingerprint ob)),
          (''producer_decision_reason'', JString (obs_ProducerDecisionReason ob))])) of
        None \<Rightarrow> Inl (New ''fingerprint alert episode observation'')
      | Some raw \<Rightarrow> Inr (''sha256:'' @ sha256_hex L raw))"

definition alertCandidateFromRecord :: "alertEpisodeRegistryRecord \<Rightarrow> AlertCandidate" where
  "alertCandidateFromRecord r = \<lparr>
     ac_EpisodeKey = rec_EpisodeKey r, ac_OccurrenceKey = rec_OccurrenceKey r,
     ac_EvidenceFingerprint = rec_EvidenceFingerprint r, ac_Source = rec_Source r, ac_Kind = rec_Kind r,
     ac_PresentationCode = rec_PresentationCode r, ac_State = rec_State r, ac_Severity = rec_Severity r,
     ac_EvidenceHealth = rec_EvidenceHealth r, ac_Destination = rec_Destination r,
     ac_EvidenceAsOf = rec_EvidenceAsOf r, ac_StateChangedAt = rec_StateChangedAt r, ac_ObservedAt = rec_ObservedAt r\<rparr>"

definition decisionFromAlertRecord :: "alertEpisodeRegistryRecord \<Rightarrow> AlertEpisodeState \<Rightarrow> string \<Rightarrow> alertEpisodeDecision" where
  "decisionFromAlertRecord r beforeState action = \<lparr>
     dec_EpisodeKey = rec_EpisodeKey r, dec_OccurrenceKey = rec_OccurrenceKey r, dec_Source = rec_Source r,
     dec_Kind = rec_Kind r, dec_PresentationCode = rec_PresentationCode r, dec_Action = action,
     dec_BeforeState = beforeState, dec_AfterState = rec_State r, dec_Severity = rec_Severity r,
     dec_EvidenceFingerprint = rec_EvidenceFingerprint r, dec_EvidenceHealth = rec_EvidenceHealth r,
     dec_Destination = rec_Destination r, dec_EvidenceAsOf = rec_EvidenceAsOf r, dec_ObservedAt = rec_ObservedAt r,
     dec_PolicyFingerprint = rec_PolicyFingerprint r, dec_ProducerDecisionReason = rec_ProducerDecisionReason r,
     dec_RegistryDecisionReason = rec_RegistryDecisionReason r\<rparr>"

definition decisionFromAlertObservation :: "alertEpisodeObservation \<Rightarrow> string \<Rightarrow> AlertEpisodeState \<Rightarrow> alertEpisodeDecision" where
  "decisionFromAlertObservation ob action after = \<lparr>
     dec_EpisodeKey = obs_EpisodeKey ob, dec_OccurrenceKey = [], dec_Source = obs_Source ob,
     dec_Kind = obs_Kind ob, dec_PresentationCode = obs_PresentationCode ob, dec_Action = action,
     dec_BeforeState = no_state, dec_AfterState = after, dec_Severity = obs_Severity ob,
     dec_EvidenceFingerprint = obs_EvidenceFingerprint ob, dec_EvidenceHealth = obs_EvidenceHealth ob,
     dec_Destination = obs_Destination ob, dec_EvidenceAsOf = obs_EvidenceAsOf ob, dec_ObservedAt = obs_ObservedAt ob,
     dec_PolicyFingerprint = obs_PolicyFingerprint ob, dec_ProducerDecisionReason = obs_ProducerDecisionReason ob,
     dec_RegistryDecisionReason = alertDecisionReasonAuthoritativeNegative\<rparr>"

subsection \<open>Lemmas\<close>

lemma clone_scope_simps [simp, field_simps_canary]:
  "sd_AuthorityScope (cloneAlertEpisodeScopeDocument d) = sd_AuthorityScope d"
  "sd_AsOf (cloneAlertEpisodeScopeDocument d) = sd_AsOf d"
  "elems (sd_Episodes (cloneAlertEpisodeScopeDocument d)) = elems (sd_Episodes d)"
  "elems (sd_SourceStates (cloneAlertEpisodeScopeDocument d)) = elems (sd_SourceStates d)"
  "sd_Cursors (cloneAlertEpisodeScopeDocument d) = sd_Cursors d"
  by (simp_all add: cloneAlertEpisodeScopeDocument_def)

lemma clone_coverage_simps [simp, field_simps_canary]:
  "cov_State (cloneAlertCoverage c) = cov_State c"
  "cov_Freshness (cloneAlertCoverage c) = cov_Freshness c"
  "cov_AsOf (cloneAlertCoverage c) = cov_AsOf c"
  "expected_sources (cloneAlertCoverage c) = expected_sources c"
  "covered_sources (cloneAlertCoverage c) = covered_sources c"
  "cov_CoveredSources (cloneAlertCoverage c) \<noteq> NilSlice"
  by (simp_all add: cloneAlertCoverage_def)

lemma clone_scope_idem [simp]:
  "cloneAlertEpisodeScopeDocument (cloneAlertEpisodeScopeDocument d) = cloneAlertEpisodeScopeDocument d"
  by (simp add: cloneAlertEpisodeScopeDocument_def cloneAlertCoverage_def)

lemma clone_document_simps [simp, field_simps_canary]:
  "doc_Version (cloneAlertEpisodeRegistryDocument d) = doc_Version d"
  "doc_UpdatedAt (cloneAlertEpisodeRegistryDocument d) = doc_UpdatedAt d"
  "doc_NextOccurrenceSequence (cloneAlertEpisodeRegistryDocument d) = doc_NextOccurrenceSequence d"
  "doc_LegacyUnscoped (cloneAlertEpisodeRegistryDocument d) = doc_LegacyUnscoped d"
  "elems (doc_Scopes (cloneAlertEpisodeRegistryDocument d)) = map cloneAlertEpisodeScopeDocument (elems (doc_Scopes d))"
  by (simp_all add: cloneAlertEpisodeRegistryDocument_def)

lemma decision_simps [simp, field_simps_canary]:
  "dec_EpisodeKey (decisionFromAlertRecord r b a) = rec_EpisodeKey r"
  "dec_Action (decisionFromAlertRecord r b a) = a"
  "dec_OccurrenceKey (decisionFromAlertRecord r b a) = rec_OccurrenceKey r"
  "dec_BeforeState (decisionFromAlertRecord r b a) = b"
  "dec_AfterState (decisionFromAlertRecord r b a) = rec_State r"
  "dec_EpisodeKey (decisionFromAlertObservation ob a st) = obs_EpisodeKey ob"
  "dec_Action (decisionFromAlertObservation ob a st) = a"
  by (simp_all add: decisionFromAlertRecord_def decisionFromAlertObservation_def)

end
