(* ===== verification/Alert_Registry_Validate.thy ===== *)
theory Alert_Registry_Validate
  imports Alert_Registry_Types
begin

text \<open>
  The validators of the producer registry: \<^verbatim>\<open>validateAlertEpisodeEvaluation\<close>, which guards every
  evaluation before it is applied, and \<^verbatim>\<open>validateAlertEpisodeRegistryDocument\<close>, which guards every
  document that is persisted or loaded. The loops of the document validator are recursive
  functions whose extra arguments are the loop's local variables. The lemmas read off what an
  accepted document satisfies: canonical order and unique scopes, unique episode keys per scope,
  occurrence keys unique across all scopes, the bound on recovered history.
\<close>

subsection \<open>Evaluations\<close>

definition validateAlertEpisodeSourceState :: "alertEpisodeRegistrySourceState \<Rightarrow> AlertSource list \<Rightarrow> gotime \<Rightarrow> goerror option" where
  "validateAlertEpisodeSourceState st expected asOf = first_refusal [
     reject_if (\<not> alertCoverageContains expected (ss_Source st)) (New ''alert episode source state is outside expected coverage''),
     reject_if (\<not> validAlertDecisionCode (ss_Status st) \<or> \<not> validAlertDecisionCode (ss_Reason st))
       (New ''alert episode source state has invalid status or reason''),
     reject_if (IsZero (ss_InputAsOf st) \<or> IsZero (ss_ObservedAt st) \<or> IsZero (ss_EvidenceAsOf st) \<or> IsZero (ss_FreshUntil st))
       (New ''alert episode source state requires timestamps''),
     reject_if (ss_InputAsOf st > ss_ObservedAt st \<or> ss_ObservedAt st > asOf \<or> ss_EvidenceAsOf st > asOf)
       (New ''alert episode source state timestamps are out of order''),
     reject_if (ss_FreshUntil st < ss_ObservedAt st) (New ''alert episode source state fresh_until precedes observation''),
     reject_if (\<not> validAlertEvidenceHealth (ss_EvidenceHealth st)) (New ''alert episode source state has invalid evidence health''),
     reject_if (ss_Covered st \<and> ss_EvidenceHealth st \<noteq> AlertEvidenceCurrent)
       (New ''covered alert episode source state requires current evidence'')]"

definition observation_candidate :: "alertEpisodeObservation \<Rightarrow> string \<Rightarrow> AlertCandidate" where
  "observation_candidate ob dummyOccurrence = \<lparr>
     ac_EpisodeKey = obs_EpisodeKey ob, ac_OccurrenceKey = dummyOccurrence,
     ac_EvidenceFingerprint = obs_EvidenceFingerprint ob, ac_Source = obs_Source ob, ac_Kind = obs_Kind ob,
     ac_PresentationCode = obs_PresentationCode ob, ac_State = AlertEpisodeOpen, ac_Severity = obs_Severity ob,
     ac_EvidenceHealth = obs_EvidenceHealth ob, ac_Destination = obs_Destination ob,
     ac_EvidenceAsOf = obs_EvidenceAsOf ob, ac_StateChangedAt = obs_ObservedAt ob, ac_ObservedAt = obs_ObservedAt ob\<rparr>"

definition validateAlertEpisodeObservation :: "golib \<Rightarrow> alertEpisodeObservation \<Rightarrow> AlertCoverage \<Rightarrow> gotime \<Rightarrow> goerror option" where
  "validateAlertEpisodeObservation L ob coverage asOf =
     (case BuildAlertOccurrenceKey L (obs_EpisodeKey ob) [''validation''] of
        Inl e \<Rightarrow> Some e
      | Inr dummyOccurrence \<Rightarrow> first_refusal [
          AlertCandidate_Validate (observation_candidate ob dummyOccurrence),
          reject_if (obs_ObservedAt ob > asOf) (New ''observation observed_at is after evaluation as_of''),
          reject_if (\<not> alertCoverageContains (expected_sources coverage) (obs_Source ob))
            (New ''observation source is outside expected coverage''),
          reject_if (obs_EvidenceHealth ob = AlertEvidenceCurrent \<and> \<not> alertCoverageContains (covered_sources coverage) (obs_Source ob))
            (New ''current observation source is not covered''),
          reject_if (\<not> validAlertRegistryFingerprint (obs_PolicyFingerprint ob)) (New ''observation policy fingerprint is invalid''),
          reject_if (obs_EscalationFingerprint ob \<noteq> [] \<and> \<not> validAlertRegistryFingerprint (obs_EscalationFingerprint ob))
            (New ''observation escalation fingerprint is invalid''),
          reject_if (\<not> validAlertDecisionCode (obs_ProducerDecisionReason ob))
            (New ''observation producer decision reason is invalid'')])"

definition validateAlertShadowInputCursor :: "alertShadowInputCursor \<Rightarrow> goerror option" where
  "validateAlertShadowInputCursor c =
     reject_if (IsZero (cur_AsOf c) \<or> \<not> validAlertRegistryFingerprint (cur_Fingerprint c)) (New ''alert registry input cursor is invalid'')"

definition validateAlertShadowInputCursorOptional :: "alertShadowInputCursor \<Rightarrow> goerror option" where
  "validateAlertShadowInputCursorOptional c =
     (if IsZero (cur_AsOf c) \<and> cur_Fingerprint c = [] then None else validateAlertShadowInputCursor c)"

fun evaluation_opportunities :: "AlertSource list \<Rightarrow> AlertSource list \<Rightarrow> AlertSource list \<Rightarrow> goerror option" where
  "evaluation_opportunities expected seen [] = None"
| "evaluation_opportunities expected seen (s # ss) = first_refusal [
     reject_if (\<not> alertCoverageContains expected s) (New ''alert episode opportunity source is outside expected coverage''),
     reject_if (s \<in> set seen) (New ''alert episode evaluation contains duplicate opportunity source''),
     evaluation_opportunities expected (s # seen) ss]"

fun evaluation_source_states :: "AlertSource list \<Rightarrow> gotime \<Rightarrow> AlertSource list \<Rightarrow> AlertSource list \<Rightarrow> alertEpisodeRegistrySourceState list \<Rightarrow> goerror option" where
  "evaluation_source_states expected asOf opportunities seen [] = None"
| "evaluation_source_states expected asOf opportunities seen (st # sts) = first_refusal [
     validateAlertEpisodeSourceState st expected asOf,
     reject_if (ss_Source st \<in> set seen) (New ''alert episode evaluation contains duplicate source state''),
     reject_if (opportunities \<noteq> [] \<and> ss_Source st \<notin> set opportunities)
       (New ''alert episode source state has no evaluation opportunity''),
     evaluation_source_states expected asOf opportunities (ss_Source st # seen) sts]"

definition alertShadowCursorKinds :: "string list" where
  "alertShadowCursorKinds = [alertShadowCursorStress, alertShadowCursorNudges, alertShadowCursorRegime,
     alertShadowCursorRulebook, alertShadowCursorProtection, alertShadowCursorOrderIntegrity, alertShadowCursorDataHealth]"

definition validateAlertEpisodeEvaluation :: "golib \<Rightarrow> alertEpisodeEvaluation \<Rightarrow> goerror option" where
  "validateAlertEpisodeEvaluation L ev =
     (let cov = ev_Coverage ev; opportunities = elems (ev_OpportunitySources ev) in
      first_refusal ([
       ValidateAlertAuthorityScope (ev_AuthorityScope ev),
       reject_if (IsZero (ev_AsOf ev)) (New ''alert episode evaluation requires as_of''),
       map_option (Wrap ''invalid alert episode coverage'') (AlertCoverage_Validate cov),
       reject_if (cov_AsOf cov > ev_AsOf ev) (New ''alert episode coverage is after evaluation as_of''),
       reject_if (cov_Freshness cov = AlertCoverageCurrent \<and> cov_AsOf cov \<noteq> ev_AsOf ev)
         (New ''current alert episode coverage must match evaluation as_of''),
       reject_if (ev_Observations ev = NilSlice) (New ''alert episode evaluation requires observations''),
       evaluation_opportunities (expected_sources cov) [] opportunities,
       evaluation_source_states (expected_sources cov) (ev_AsOf ev) opportunities [] (elems (ev_SourceStates ev)),
       (if ev_CursorKind ev = [] then None
        else first_refusal [
          reject_if (ev_CursorKind ev \<notin> set alertShadowCursorKinds) (New ''alert episode evaluation has invalid cursor kind''),
          validateAlertShadowInputCursor (ev_Cursor ev)])] @
       map (\<lambda>ob. map_option (Wrap ''invalid alert episode observation'') (validateAlertEpisodeObservation L ob cov (ev_AsOf ev)))
         (elems (ev_Observations ev))))"

subsection \<open>Documents\<close>

fun validate_metric_rows :: "AlertSource list \<Rightarrow> alertShadowDurableSourceMeasurements list \<Rightarrow> goerror option" where
  "validate_metric_rows (src # srcs) (row # rows) =
     (let m = row_Measurements row in first_refusal [
       reject_if (row_Source row \<noteq> src) (New ''commissioning metrics source universe is not canonical''),
       reject_if (sm_TimeToObserveTotal m < 0 \<or> sm_TimeToObserveMax m < 0) (New ''commissioning metrics contain negative latency''),
       reject_if (sm_TimeToObserveSamples m = 0 \<and> (sm_TimeToObserveTotal m \<noteq> 0 \<or> sm_TimeToObserveMax m \<noteq> 0))
         (New ''commissioning metrics latency has no samples''),
       reject_if (sm_TimeToObserveSamples m > 0 \<and> sm_TimeToObserveMax m > sm_TimeToObserveTotal m)
         (New ''commissioning metrics maximum latency exceeds total''),
       validate_metric_rows srcs rows])"
| "validate_metric_rows _ _ = None"

definition validateAlertShadowDurableMetrics :: "alertShadowDurableMetrics \<Rightarrow> gotime \<Rightarrow> goerror option" where
  "validateAlertShadowDurableMetrics m documentAsOf = first_refusal [
     reject_if (mt_Sources m = NilSlice \<or> length (elems (mt_Sources m)) \<noteq> length alertShadowExpectedSources)
       (New ''commissioning metrics require the fixed source universe''),
     reject_if (\<not> IsZero (mt_AsOf m) \<and> mt_AsOf m > documentAsOf) (New ''commissioning metrics timestamp is after document''),
     reject_if (mt_LastErrorCode m \<noteq> [] \<and> \<not> validAlertDecisionCode (mt_LastErrorCode m))
       (New ''commissioning metrics last error code is invalid''),
     validate_metric_rows alertShadowExpectedSources (elems (mt_Sources m))]"

definition validate_legacy_unscoped :: "golib \<Rightarrow> gotime \<Rightarrow> alertEpisodeLegacyUnscoped option \<Rightarrow> goerror option" where
  "validate_legacy_unscoped L updatedAt legacy =
     (case legacy of None \<Rightarrow> None
      | Some l \<Rightarrow> first_refusal [
          reject_if (IsZero (leg_MigratedAt l) \<or> leg_MigratedAt l > updatedAt \<or>
              \<not> validAlertRegistryFingerprint (leg_Fingerprint l) \<or> leg_Document l = [])
            (New ''alert episode registry legacy unscoped evidence is invalid''),
          reject_if (leg_Fingerprint l \<noteq> ''sha256:'' @ sha256_hex L (leg_Document l))
            (New ''alert episode registry legacy unscoped fingerprint mismatch'')])"

fun validate_scope_source_states :: "AlertSource list \<Rightarrow> gotime \<Rightarrow> string \<Rightarrow> alertEpisodeRegistrySourceState list \<Rightarrow> goerror option" where
  "validate_scope_source_states expected asOf previous [] = None"
| "validate_scope_source_states expected asOf previous (st # sts) = first_refusal [
     reject_if (previous \<noteq> [] \<and> AlertSource_wire (ss_Source st) \<le> previous)
       (New ''alert episode registry source states are not canonical''),
     map_option (Wrap ''invalid alert episode registry source state'') (validateAlertEpisodeSourceState st expected asOf),
     validate_scope_source_states expected asOf (AlertSource_wire (ss_Source st)) sts]"

definition validate_cursors :: "alertShadowDurableCursors \<Rightarrow> goerror option" where
  "validate_cursors c = first_refusal [
     map_option (Wrap ''invalid alert episode registry Stress cursor'') (validateAlertShadowInputCursorOptional (cu_Stress c)),
     map_option (Wrap ''invalid alert episode registry Nudge cursor'') (validateAlertShadowInputCursorOptional (cu_Nudges c)),
     map_option (Wrap ''invalid alert episode registry Regime cursor'') (validateAlertShadowInputCursorOptional (cu_Regime c)),
     map_option (Wrap ''invalid alert episode registry Rulebook cursor'') (validateAlertShadowInputCursorOptional (cu_Rulebook c)),
     map_option (Wrap ''invalid alert episode registry Protection cursor'') (validateAlertShadowInputCursorOptional (cu_Protection c)),
     map_option (Wrap ''invalid alert episode registry Order Integrity cursor'') (validateAlertShadowInputCursorOptional (cu_OrderIntegrity c)),
     map_option (Wrap ''invalid alert episode registry Data Health cursor'') (validateAlertShadowInputCursorOptional (cu_DataHealth c))]"

definition validate_record :: "string \<Rightarrow> gotime \<Rightarrow> string \<Rightarrow> string list \<Rightarrow> string list \<Rightarrow> alertEpisodeRegistryRecord \<Rightarrow> goerror option" where
  "validate_record scope asOf previousKey seenEpisodes seenOccurrences r = first_refusal [
     reject_if (rec_AuthorityScope r \<noteq> scope) (New ''alert episode registry record has wrong authority scope''),
     reject_if (previousKey \<noteq> [] \<and> rec_EpisodeKey r \<le> previousKey) (New ''alert episode registry episodes are not canonical''),
     map_option (Wrap ''invalid alert episode registry record'') (AlertCandidate_Validate (alertCandidateFromRecord r)),
     reject_if (rec_ObservedAt r > asOf) (New ''alert episode registry record is after scoped as_of''),
     reject_if (rec_EpisodeKey r \<in> set seenEpisodes) (New ''alert episode registry contains duplicate episode''),
     reject_if (rec_OccurrenceKey r \<in> set seenOccurrences) (New ''alert episode registry contains duplicate occurrence''),
     reject_if (\<not> validAlertRegistryFingerprint (rec_PolicyFingerprint r) \<or> \<not> validAlertRegistryFingerprint (rec_LastObservationFingerprint r))
       (New ''invalid alert episode registry audit fingerprint''),
     reject_if (rec_LastEscalationFingerprint r \<noteq> [] \<and> \<not> validAlertRegistryFingerprint (rec_LastEscalationFingerprint r))
       (New ''invalid alert episode registry escalation fingerprint''),
     reject_if (\<not> validAlertDecisionCode (rec_ProducerDecisionReason r) \<or> \<not> validAlertDecisionCode (rec_RegistryDecisionReason r))
       (New ''invalid alert episode registry decision reason''),
     reject_if (IsZero (rec_LastSourceObservedAt r) \<or> rec_LastSourceObservedAt r > asOf)
       (New ''invalid alert episode registry source timestamp''),
     reject_if (rec_State r \<noteq> AlertEpisodeRecovered \<and> rec_EmitRecovered r)
       (New ''active alert episode registry record emits recovery'')]"

text \<open>The record loop returns the occurrence keys seen so far, which the next scope inherits, and
  the number of recovered records.\<close>

fun validate_records :: "string \<Rightarrow> gotime \<Rightarrow> string \<Rightarrow> string list \<Rightarrow> string list \<Rightarrow> nat \<Rightarrow> alertEpisodeRegistryRecord list \<Rightarrow> (string list \<times> nat) result" where
  "validate_records scope asOf previousKey seenEpisodes seenOccurrences inactive [] = Inr (seenOccurrences, inactive)"
| "validate_records scope asOf previousKey seenEpisodes seenOccurrences inactive (r # rs) =
     (case validate_record scope asOf previousKey seenEpisodes seenOccurrences r of
        Some e \<Rightarrow> Inl e
      | None \<Rightarrow> validate_records scope asOf (rec_EpisodeKey r) (rec_EpisodeKey r # seenEpisodes)
          (rec_OccurrenceKey r # seenOccurrences)
          (if rec_State r = AlertEpisodeRecovered then Suc inactive else inactive) rs)"

definition validate_scope_header :: "gotime \<Rightarrow> string \<Rightarrow> alertEpisodeRegistryScopeDocument \<Rightarrow> goerror option" where
  "validate_scope_header updatedAt previousScope sd = (let cov = sd_Coverage sd in first_refusal [
     map_option (Wrap ''invalid alert episode registry scope'') (ValidateAlertAuthorityScope (sd_AuthorityScope sd)),
     reject_if (previousScope \<noteq> [] \<and> sd_AuthorityScope sd \<le> previousScope) (New ''alert episode registry scopes are not canonical''),
     reject_if (IsZero (sd_AsOf sd) \<or> sd_AsOf sd > updatedAt) (New ''invalid alert episode registry scope timestamp''),
     map_option (Wrap ''invalid alert episode registry scope coverage'') (AlertCoverage_Validate cov),
     reject_if (cov_AsOf cov > sd_AsOf sd \<or> (cov_Freshness cov = AlertCoverageCurrent \<and> cov_AsOf cov \<noteq> sd_AsOf sd))
       (New ''invalid alert episode registry scope coverage timestamp''),
     reject_if (sd_SourceStates sd = NilSlice \<or> sd_Episodes sd = NilSlice)
       (New ''alert episode registry scope requires source states and episodes''),
     validate_scope_source_states (expected_sources cov) (sd_AsOf sd) [] (elems (sd_SourceStates sd)),
     validate_cursors (sd_Cursors sd),
     map_option (Wrap ''invalid alert episode registry commissioning metrics'')
       (validateAlertShadowDurableMetrics (sd_Metrics sd) updatedAt)])"

text \<open>The scope loop returns the total number of episodes.\<close>

fun validate_scopes :: "gotime \<Rightarrow> nat \<Rightarrow> string \<Rightarrow> string list \<Rightarrow> nat \<Rightarrow> alertEpisodeRegistryScopeDocument list \<Rightarrow> nat result" where
  "validate_scopes updatedAt inactiveLimit previousScope seenOccurrences totalEpisodes [] = Inr totalEpisodes"
| "validate_scopes updatedAt inactiveLimit previousScope seenOccurrences totalEpisodes (sd # sds) =
     (case validate_scope_header updatedAt previousScope sd of
        Some e \<Rightarrow> Inl e
      | None \<Rightarrow> bind_result
          (validate_records (sd_AuthorityScope sd) (sd_AsOf sd) [] [] seenOccurrences 0 (elems (sd_Episodes sd)))
          (\<lambda>(seen, inactive).
             if inactive > inactiveLimit then Inl (New ''alert episode registry inactive history exceeds bound'')
             else validate_scopes updatedAt inactiveLimit (sd_AuthorityScope sd) seen
               (totalEpisodes + length (elems (sd_Episodes sd))) sds))"

definition validateAlertEpisodeRegistryDocument :: "golib \<Rightarrow> alertEpisodeRegistryDocument \<Rightarrow> nat \<Rightarrow> goerror option" where
  "validateAlertEpisodeRegistryDocument L d inactiveLimit =
     (case first_refusal [
       reject_if (doc_Version d \<noteq> alertEpisodeRegistryDocumentVersion) (New ''invalid alert episode registry version''),
       reject_if (IsZero (doc_UpdatedAt d)) (New ''alert episode registry is missing updated_at''),
       reject_if (doc_Scopes d = NilSlice) (New ''alert episode registry requires scopes''),
       validate_legacy_unscoped L (doc_UpdatedAt d) (doc_LegacyUnscoped d)] of
        Some e \<Rightarrow> Some e
      | None \<Rightarrow>
       (case validate_scopes (doc_UpdatedAt d) inactiveLimit [] [] 0 (elems (doc_Scopes d)) of
          Inl e \<Rightarrow> Some e
        | Inr totalEpisodes \<Rightarrow> reject_if (doc_NextOccurrenceSequence d < of_nat totalEpisodes)
            (New ''alert episode registry occurrence sequence regressed'')))"

subsection \<open>What an accepted document satisfies\<close>

lemma validOpaque_nonempty: "validOpaqueSHA256 v p \<Longrightarrow> v \<noteq> []"
  by (auto simp: validOpaqueSHA256_def)

lemma validate_record_None:
  assumes "validate_record scope asOf prev se so r = None"
  shows "rec_AuthorityScope r = scope" "prev = [] \<or> prev < rec_EpisodeKey r"
    "AlertCandidate_Validate (alertCandidateFromRecord r) = None" "rec_ObservedAt r \<le> asOf"
    "rec_EpisodeKey r \<notin> set se" "rec_OccurrenceKey r \<notin> set so"
    "rec_LastSourceObservedAt r \<le> asOf" "rec_State r = AlertEpisodeRecovered \<or> \<not> rec_EmitRecovered r"
    "rec_EpisodeKey r \<noteq> []"
  using assms validOpaque_nonempty
  by (auto simp: validate_record_def not_le not_less AlertCandidate_Validate_def alertCandidateFromRecord_def)

lemma validate_records_Inr:
  "validate_records scope asOf prev se so n rs = Inr (so', n') \<Longrightarrow>
     (\<forall>r\<in>set rs. rec_AuthorityScope r = scope \<and> AlertCandidate_Validate (alertCandidateFromRecord r) = None \<and>
        rec_ObservedAt r \<le> asOf \<and> rec_LastSourceObservedAt r \<le> asOf \<and>
        (rec_State r = AlertEpisodeRecovered \<or> \<not> rec_EmitRecovered r)) \<and>
     distinct (map rec_EpisodeKey rs) \<and> set (map rec_EpisodeKey rs) \<inter> set se = {} \<and>
     so' = rev (map rec_OccurrenceKey rs) @ so \<and> (distinct so \<longrightarrow> distinct so') \<and>
     n' = n + length (filter (\<lambda>r. rec_State r = AlertEpisodeRecovered) rs) \<and>
     sorted_wrt (<) (map rec_EpisodeKey rs) \<and> (prev \<noteq> [] \<longrightarrow> (\<forall>r\<in>set rs. prev < rec_EpisodeKey r))"
proof (induction rs arbitrary: prev se so n)
  case (Cons r rs)
  from Cons.prems have v: "validate_record scope asOf prev se so r = None"
    and rest: "validate_records scope asOf (rec_EpisodeKey r) (rec_EpisodeKey r # se) (rec_OccurrenceKey r # so)
       (if rec_State r = AlertEpisodeRecovered then Suc n else n) rs = Inr (so', n')"
    by (auto split: option.splits)
  note f = validate_record_None [OF v]
  note IH = Cons.IH [OF rest]
  have "distinct so \<longrightarrow> distinct so'"
    using IH f(6) by (meson distinct.simps(2))
  with IH f show ?case
    by (auto simp: disjoint_iff)
qed simp

lemma validate_scopes_Inr:
  "validate_scopes updatedAt limit prev so n sds = Inr totalEpisodes \<Longrightarrow> distinct so \<Longrightarrow>
     (\<forall>sd\<in>set sds. (\<exists>p. validate_scope_header updatedAt p sd = None) \<and>
        (\<forall>r\<in>set (elems (sd_Episodes sd)). rec_AuthorityScope r = sd_AuthorityScope sd \<and>
            AlertCandidate_Validate (alertCandidateFromRecord r) = None \<and>
            rec_ObservedAt r \<le> sd_AsOf sd \<and> rec_LastSourceObservedAt r \<le> sd_AsOf sd \<and>
            (rec_State r = AlertEpisodeRecovered \<or> \<not> rec_EmitRecovered r)) \<and>
        distinct_by rec_EpisodeKey (elems (sd_Episodes sd)) \<and>
        length (filter (\<lambda>r. rec_State r = AlertEpisodeRecovered) (elems (sd_Episodes sd))) \<le> limit) \<and>
     sorted_wrt (<) (map sd_AuthorityScope sds) \<and> (prev \<noteq> [] \<longrightarrow> (\<forall>sd\<in>set sds. prev < sd_AuthorityScope sd)) \<and>
     distinct (rev (concat (map (\<lambda>sd. map rec_OccurrenceKey (elems (sd_Episodes sd))) sds)) @ so) \<and>
     totalEpisodes = n + sum_list (map (\<lambda>sd. length (elems (sd_Episodes sd))) sds)"
proof (induction sds arbitrary: prev so n)
  case (Cons sd sds)
  from Cons.prems(1) obtain so' k where h: "validate_scope_header updatedAt prev sd = None"
    and rs: "validate_records (sd_AuthorityScope sd) (sd_AsOf sd) [] [] so 0 (elems (sd_Episodes sd)) = Inr (so', k)"
    and k: "k \<le> limit"
    and rest: "validate_scopes updatedAt limit (sd_AuthorityScope sd) so' (n + length (elems (sd_Episodes sd))) sds = Inr totalEpisodes"
    by (auto simp: bind_result_Inr split: option.splits if_splits)
  note r = validate_records_Inr [OF rs]
  from r Cons.prems(2) have "distinct so'" by blast
  note IH = Cons.IH [OF rest this]
  have sc: "prev = [] \<or> prev < sd_AuthorityScope sd" "sd_AuthorityScope sd \<noteq> []"
    using h validOpaque_nonempty
    by (auto simp: validate_scope_header_def Let_def not_le ValidateAlertAuthorityScope_def)
  have hd: "(\<exists>p. validate_scope_header updatedAt p sd = None) \<and>
        (\<forall>r\<in>set (elems (sd_Episodes sd)). rec_AuthorityScope r = sd_AuthorityScope sd \<and>
            AlertCandidate_Validate (alertCandidateFromRecord r) = None \<and>
            rec_ObservedAt r \<le> sd_AsOf sd \<and> rec_LastSourceObservedAt r \<le> sd_AsOf sd \<and>
            (rec_State r = AlertEpisodeRecovered \<or> \<not> rec_EmitRecovered r)) \<and>
        distinct_by rec_EpisodeKey (elems (sd_Episodes sd)) \<and>
        length (filter (\<lambda>r. rec_State r = AlertEpisodeRecovered) (elems (sd_Episodes sd))) \<le> limit"
    using h r k by (auto simp: distinct_by_def)
  have so': "so' = rev (map rec_OccurrenceKey (elems (sd_Episodes sd))) @ so"
    using r by blast
  show ?case
    using IH hd sc by (auto simp: so')
qed simp

lemma registry_document_facts:
  assumes "validateAlertEpisodeRegistryDocument L d limit = None"
  shows "distinct_by sd_AuthorityScope (elems (doc_Scopes d))"
    and "sd \<in> set (elems (doc_Scopes d)) \<Longrightarrow> distinct_by rec_EpisodeKey (elems (sd_Episodes sd))"
    and "sd \<in> set (elems (doc_Scopes d)) \<Longrightarrow>
       length (filter (\<lambda>r. rec_State r = AlertEpisodeRecovered) (elems (sd_Episodes sd))) \<le> limit"
    and "distinct (concat (map (\<lambda>sd. map rec_OccurrenceKey (elems (sd_Episodes sd))) (elems (doc_Scopes d))))"
    and "sd \<in> set (elems (doc_Scopes d)) \<Longrightarrow> \<not> IsZero (sd_AsOf sd) \<and> sd_AsOf sd \<le> doc_UpdatedAt d"
    and "sd \<in> set (elems (doc_Scopes d)) \<Longrightarrow> AlertCoverage_Validate (sd_Coverage sd) = None"
    and "sd \<in> set (elems (doc_Scopes d)) \<Longrightarrow> r \<in> set (elems (sd_Episodes sd)) \<Longrightarrow>
       AlertCandidate_Validate (alertCandidateFromRecord r) = None \<and> rec_AuthorityScope r = sd_AuthorityScope sd \<and>
       rec_ObservedAt r \<le> sd_AsOf sd \<and> (rec_State r = AlertEpisodeRecovered \<or> \<not> rec_EmitRecovered r)"
proof -
  from assms obtain totalEpisodes where t: "validate_scopes (doc_UpdatedAt d) limit [] [] 0 (elems (doc_Scopes d)) = Inr totalEpisodes"
    by (auto simp: validateAlertEpisodeRegistryDocument_def split: option.splits sum.splits)
  note v = validate_scopes_Inr [OF t distinct.simps(1) [THEN iffD2, OF TrueI]]
  show "distinct_by sd_AuthorityScope (elems (doc_Scopes d))"
    using v strict_sorted_iff unfolding distinct_by_def by blast
  show "sd \<in> set (elems (doc_Scopes d)) \<Longrightarrow> distinct_by rec_EpisodeKey (elems (sd_Episodes sd))"
    "sd \<in> set (elems (doc_Scopes d)) \<Longrightarrow>
       length (filter (\<lambda>r. rec_State r = AlertEpisodeRecovered) (elems (sd_Episodes sd))) \<le> limit"
    "sd \<in> set (elems (doc_Scopes d)) \<Longrightarrow> r \<in> set (elems (sd_Episodes sd)) \<Longrightarrow>
       AlertCandidate_Validate (alertCandidateFromRecord r) = None \<and> rec_AuthorityScope r = sd_AuthorityScope sd \<and>
       rec_ObservedAt r \<le> sd_AsOf sd \<and> (rec_State r = AlertEpisodeRecovered \<or> \<not> rec_EmitRecovered r)"
    using v by blast+
  show "distinct (concat (map (\<lambda>sd. map rec_OccurrenceKey (elems (sd_Episodes sd))) (elems (doc_Scopes d))))"
    using v by simp
  have h: "sd \<in> set (elems (doc_Scopes d)) \<Longrightarrow> \<exists>p. validate_scope_header (doc_UpdatedAt d) p sd = None"
    using v by blast
  then show "sd \<in> set (elems (doc_Scopes d)) \<Longrightarrow> \<not> IsZero (sd_AsOf sd) \<and> sd_AsOf sd \<le> doc_UpdatedAt d"
    by (auto simp: validate_scope_header_def Let_def not_less)
  from h show "sd \<in> set (elems (doc_Scopes d)) \<Longrightarrow> AlertCoverage_Validate (sd_Coverage sd) = None"
    by (auto simp: validate_scope_header_def Let_def)
qed

end
