(* ===== verification/Alert_Registry.thy ===== *)
theory Alert_Registry
  imports Alert_Registry_Validate
begin

text \<open>
  The producer lifecycle of \<^verbatim>\<open>src/internal/daemon/alert_episode_registry.go\<close>:
  \<^verbatim>\<open>applyAlertEpisodeEvaluation\<close> and everything it calls. The loop over the observations is
  \<open>observe_all\<close>; one iteration is \<open>observation_step\<close>, whose state is the occurrence sequence, the
  episodes, the keys seen and the decisions, and whose effect on one episode is
  \<open>observe_episode\<close>. The loop over the episodes that were not observed is \<open>omission_pass\<close>. The index
  map \<^verbatim>\<open>byEpisode\<close> is the last index of a key; \<^verbatim>\<open>sort.Slice\<close> is \<open>sort_key\<close> (the keys that are sorted are
  unique in every document and evaluation that is accepted, so stability is irrelevant).
  The lemmas describe the lifecycle per episode key: which record a key has after an evaluation,
  and the properties say when an episode recovers, when it gets a new occurrence, and that
  neither the storage bound nor an omission ever removes an active episode.
\<close>

subsection \<open>One record\<close>

definition alertObservationCanRecover :: "AlertCoverage \<Rightarrow> alertEpisodeObservation \<Rightarrow> bool" where
  "alertObservationCanRecover cov ob \<longleftrightarrow>
     (if cov_Freshness cov \<noteq> AlertCoverageCurrent \<or> obs_EvidenceHealth ob \<noteq> AlertEvidenceCurrent then False
      else alertCoverageContains (covered_sources cov) (obs_Source ob))"

definition alertHoldDecision :: "AlertCoverage \<Rightarrow> alertEpisodeObservation \<Rightarrow> string" where
  "alertHoldDecision cov ob =
     (if cov_State cov = AlertCoverageUnavailable then alertDecisionHeldUnavailable
      else if cov_Freshness cov = AlertCoverageStale then alertDecisionHeldStale
      else if \<not> alertCoverageContains (covered_sources cov) (obs_Source ob) then alertDecisionHeldPartial
      else alertDecisionHeldUntrustedEvidence)"

definition omittedAlertEvidenceHealth :: "AlertCoverage \<Rightarrow> AlertSource \<Rightarrow> AlertEvidenceHealth" where
  "omittedAlertEvidenceHealth cov source =
     (if cov_State cov = AlertCoverageUnavailable then AlertEvidenceUnavailable
      else if cov_Freshness cov = AlertCoverageStale then AlertEvidenceStale
      else if \<not> alertCoverageContains (covered_sources cov) source then AlertEvidencePartial
      else AlertEvidenceUnavailable)"

definition alertLegacyPresentationCanRetire :: "alertEpisodeEvaluation \<Rightarrow> alertEpisodeRegistryRecord \<Rightarrow> bool" where
  "alertLegacyPresentationCanRetire ev r \<longleftrightarrow>
     (if rec_PresentationCode r \<noteq> AlertPresentationRulebookLegacyCondition \<or> rec_Source r \<noteq> AlertSourceRulebook then False
      else if cov_Freshness (ev_Coverage ev) \<noteq> AlertCoverageCurrent \<or>
              \<not> alertCoverageContains (covered_sources (ev_Coverage ev)) (rec_Source r) then False
      else \<exists>ob\<in>set (elems (ev_Observations ev)). obs_Source ob = AlertSourceRulebook \<and>
              obs_PresentationCode ob \<noteq> AlertPresentationRulebookLegacyCondition)"

definition allocateAlertOccurrence :: "golib \<Rightarrow> 64 word \<Rightarrow> string \<Rightarrow> (string \<times> 64 word) result" where
  "allocateAlertOccurrence L seq episodeKey =
     (let seq' = seq + 1 in
      case BuildAlertOccurrenceKey L episodeKey [''sequence:'' @ digits10 (unat seq')] of
        Inl e \<Rightarrow> Inl (Wrap ''allocate alert occurrence'' e)
      | Inr key \<Rightarrow> Inr (key, seq'))"

definition applyAlertObservationToRecord :: "alertEpisodeRegistryRecord \<Rightarrow> alertEpisodeObservation \<Rightarrow> string \<Rightarrow> alertEpisodeRegistryRecord" where
  "applyAlertObservationToRecord r ob fp = r\<lparr>
     rec_Severity := obs_Severity ob,
     rec_PresentationCode := obs_PresentationCode ob,
     rec_EvidenceFingerprint := obs_EvidenceFingerprint ob,
     rec_EvidenceHealth := obs_EvidenceHealth ob,
     rec_Destination := obs_Destination ob,
     rec_EvidenceAsOf := obs_EvidenceAsOf ob,
     rec_ObservedAt := obs_ObservedAt ob,
     rec_PolicyFingerprint := obs_PolicyFingerprint ob,
     rec_ProducerDecisionReason := obs_ProducerDecisionReason ob,
     rec_LastSourceObservedAt := obs_ObservedAt ob,
     rec_LastObservationFingerprint := fp\<rparr>"

definition recordFromAlertObservation :: "string \<Rightarrow> alertEpisodeObservation \<Rightarrow> string \<Rightarrow> AlertEpisodeState \<Rightarrow> gotime \<Rightarrow> string \<Rightarrow> alertEpisodeRegistryRecord" where
  "recordFromAlertObservation scope ob occurrence st changedAt fp =
     applyAlertObservationToRecord \<lparr>
       rec_AuthorityScope = scope, rec_EpisodeKey = obs_EpisodeKey ob, rec_OccurrenceKey = occurrence,
       rec_Source = obs_Source ob, rec_Kind = obs_Kind ob, rec_PresentationCode = [], rec_State = st,
       rec_Severity = OtherSeverity [], rec_EvidenceFingerprint = [], rec_EvidenceHealth = OtherHealth [],
       rec_Destination = OtherDestination [], rec_EvidenceAsOf = zero_time, rec_StateChangedAt = changedAt,
       rec_ObservedAt = zero_time, rec_PolicyFingerprint = [], rec_ProducerDecisionReason = [],
       rec_RegistryDecisionReason = [], rec_LastSourceObservedAt = zero_time, rec_LastObservationFingerprint = [],
       rec_LastEscalationFingerprint = obs_EscalationFingerprint ob, rec_EmitRecovered = False\<rparr> ob fp"

subsection \<open>One observation\<close>

definition opened_state :: "alertEpisodeObservation \<Rightarrow> AlertEpisodeState" where
  "opened_state ob = (if obs_EscalationFingerprint ob \<noteq> [] then AlertEpisodeEscalated else AlertEpisodeOpen)"

definition observation_conflict :: "alertEpisodeRegistryRecord \<Rightarrow> alertEpisodeObservation \<Rightarrow> string \<Rightarrow> goerror option" where
  "observation_conflict r ob fp = first_refusal [
     reject_if (rec_Source r \<noteq> obs_Source ob \<or> rec_Kind r \<noteq> obs_Kind ob) (New ''alert episode identity equivocation''),
     reject_if (obs_ObservedAt ob < rec_LastSourceObservedAt r) (New ''alert episode observation is out of order''),
     reject_if (obs_ObservedAt ob = rec_LastSourceObservedAt r \<and> fp \<noteq> rec_LastObservationFingerprint r)
       (New ''alert episode observation timestamp equivocation'')]"

definition active_without_episode :: "golib \<Rightarrow> string \<Rightarrow> 64 word \<Rightarrow> alertEpisodeObservation \<Rightarrow> string \<Rightarrow> (64 word \<times> alertEpisodeRegistryRecord \<times> alertEpisodeDecision) result" where
  "active_without_episode L scope seq ob fp =
     bind_result (allocateAlertOccurrence L seq (obs_EpisodeKey ob)) (\<lambda>(occurrence, seq').
       let r = (recordFromAlertObservation scope ob occurrence (opened_state ob) (obs_ObservedAt ob) fp)
                 \<lparr>rec_RegistryDecisionReason := alertDecisionReasonPositive\<rparr>
       in Inr (seq', r, decisionFromAlertRecord r no_state alertDecisionOpened))"

text \<open>The part of the active branch that may rotate the occurrence: the record, the sequence and
  the action after it.\<close>

definition rotate_occurrence :: "golib \<Rightarrow> 64 word \<Rightarrow> alertEpisodeRegistryRecord \<Rightarrow> alertEpisodeObservation \<Rightarrow> (64 word \<times> alertEpisodeRegistryRecord \<times> string) result" where
  "rotate_occurrence L seq r ob =
     (if rec_State r = AlertEpisodeRecovered then
        bind_result (allocateAlertOccurrence L seq (obs_EpisodeKey ob)) (\<lambda>(occurrence, seq').
          Inr (seq', r\<lparr>rec_OccurrenceKey := occurrence, rec_State := opened_state ob, rec_StateChangedAt := obs_ObservedAt ob,
                 rec_LastEscalationFingerprint := obs_EscalationFingerprint ob\<rparr>, alertDecisionReopened))
      else if obs_EscalationFingerprint ob \<noteq> [] \<and> obs_EscalationFingerprint ob \<noteq> rec_LastEscalationFingerprint r then
        bind_result (allocateAlertOccurrence L seq (obs_EpisodeKey ob)) (\<lambda>(occurrence, seq').
          Inr (seq', r\<lparr>rec_OccurrenceKey := occurrence, rec_State := AlertEpisodeEscalated, rec_StateChangedAt := obs_ObservedAt ob,
                 rec_LastEscalationFingerprint := obs_EscalationFingerprint ob\<rparr>, alertDecisionEscalated))
      else Inr (seq, r, alertDecisionRefreshedActive))"

definition active_with_episode :: "golib \<Rightarrow> 64 word \<Rightarrow> alertEpisodeRegistryRecord \<Rightarrow> alertEpisodeObservation \<Rightarrow> string \<Rightarrow> (64 word \<times> alertEpisodeRegistryRecord \<times> alertEpisodeDecision) result" where
  "active_with_episode L seq r ob fp =
     bind_result (rotate_occurrence L seq r ob) (\<lambda>(seq', r1, action).
       let r2 = (applyAlertObservationToRecord r1 ob fp)\<lparr>rec_RegistryDecisionReason := alertDecisionReasonPositive\<rparr>
       in Inr (seq', r2, decisionFromAlertRecord r2 (rec_State r) action))"

definition negative_on_recovered :: "AlertCoverage \<Rightarrow> alertEpisodeRegistryRecord \<Rightarrow> alertEpisodeObservation \<Rightarrow> string \<Rightarrow> alertEpisodeRegistryRecord \<times> alertEpisodeDecision" where
  "negative_on_recovered cov r ob fp =
     (let beforeState = rec_State r in
      if alertObservationCanRecover cov ob then
        let r1 = (applyAlertObservationToRecord r ob fp)\<lparr>rec_EvidenceHealth := AlertEvidenceCurrent,
                   rec_RegistryDecisionReason := alertDecisionReasonAuthoritativeNegative\<rparr>
        in (r1, decisionFromAlertRecord r1 beforeState alertDecisionConfirmedRecovered)
      else
        let action = alertHoldDecision cov ob;
            r1 = r\<lparr>rec_LastSourceObservedAt := obs_ObservedAt ob, rec_LastObservationFingerprint := fp,
                   rec_PolicyFingerprint := obs_PolicyFingerprint ob,
                   rec_ProducerDecisionReason := obs_ProducerDecisionReason ob,
                   rec_RegistryDecisionReason := action\<rparr>
        in (r1, (decisionFromAlertObservation ob action (rec_State r1))
                  \<lparr>dec_OccurrenceKey := rec_OccurrenceKey r1, dec_BeforeState := beforeState, dec_RegistryDecisionReason := action\<rparr>))"

definition negative_on_active :: "AlertCoverage \<Rightarrow> alertEpisodeRegistryRecord \<Rightarrow> alertEpisodeObservation \<Rightarrow> string \<Rightarrow> alertEpisodeRegistryRecord \<times> alertEpisodeDecision" where
  "negative_on_active cov r ob fp =
     (let beforeState = rec_State r; r1 = applyAlertObservationToRecord r ob fp in
      if alertObservationCanRecover cov ob then
        let r2 = r1\<lparr>rec_State := AlertEpisodeRecovered, rec_StateChangedAt := obs_ObservedAt ob,
                   rec_EvidenceHealth := AlertEvidenceCurrent,
                   rec_RegistryDecisionReason := alertDecisionReasonAuthoritativeNegative, rec_EmitRecovered := True\<rparr>
        in (r2, decisionFromAlertRecord r2 beforeState alertDecisionRecovered)
      else
        let action = alertHoldDecision cov ob; r2 = r1\<lparr>rec_RegistryDecisionReason := action\<rparr>
        in (r2, decisionFromAlertRecord r2 beforeState action))"

definition negative_with_episode :: "AlertCoverage \<Rightarrow> alertEpisodeRegistryRecord \<Rightarrow> alertEpisodeObservation \<Rightarrow> string \<Rightarrow> alertEpisodeRegistryRecord \<times> alertEpisodeDecision" where
  "negative_with_episode cov r ob fp =
     (if rec_State r = AlertEpisodeRecovered then negative_on_recovered cov r ob fp else negative_on_active cov r ob fp)"

text \<open>The effect of one observation on the record of its episode key, if there is one.\<close>

definition observe_episode :: "golib \<Rightarrow> string \<Rightarrow> AlertCoverage \<Rightarrow> 64 word \<Rightarrow> alertEpisodeRegistryRecord option \<Rightarrow> alertEpisodeObservation \<Rightarrow> string \<Rightarrow> (64 word \<times> alertEpisodeRegistryRecord option \<times> alertEpisodeDecision) result" where
  "observe_episode L scope cov seq old ob fp =
     (case old of
        None \<Rightarrow>
          if obs_Active ob
          then bind_result (active_without_episode L scope seq ob fp) (\<lambda>(seq', r, d). Inr (seq', Some r, d))
          else Inr (seq, None, decisionFromAlertObservation ob alertDecisionNegativeWithoutEpisode no_state)
      | Some r \<Rightarrow>
         (case observation_conflict r ob fp of
            Some e \<Rightarrow> Inl e
          | None \<Rightarrow>
              if obs_Active ob
              then bind_result (active_with_episode L seq r ob fp) (\<lambda>(seq', r', d). Inr (seq', Some r', d))
              else (let (r', d) = negative_with_episode cov r ob fp in Inr (seq, Some r', d))))"

record apply_state =
  as_seq :: "64 word"
  as_episodes :: "alertEpisodeRegistryRecord list"
  as_seen :: "string list"
  as_decisions :: "alertEpisodeDecision list"

definition observation_step :: "golib \<Rightarrow> alertEpisodeEvaluation \<Rightarrow> apply_state \<Rightarrow> alertEpisodeObservation \<Rightarrow> apply_state result" where
  "observation_step L ev st ob =
     (if obs_EpisodeKey ob \<in> set (as_seen st) then Inl (New ''alert episode observation equivocation'')
      else bind_result (alertEpisodeObservationFingerprint L ob) (\<lambda>fp.
        let idx = last_index (\<lambda>r. rec_EpisodeKey r = obs_EpisodeKey ob) (as_episodes st) in
        bind_result (observe_episode L (ev_AuthorityScope ev) (ev_Coverage ev) (as_seq st)
            (map_option (\<lambda>i. as_episodes st ! i) idx) ob fp) (\<lambda>(seq', new, d).
          Inr \<lparr>as_seq = seq',
               as_episodes = (case (idx, new) of (Some i, Some r) \<Rightarrow> (as_episodes st)[i := r]
                   | (None, Some r) \<Rightarrow> as_episodes st @ [r] | (_, None) \<Rightarrow> as_episodes st),
               as_seen = obs_EpisodeKey ob # as_seen st,
               as_decisions = as_decisions st @ [d]\<rparr>)))"

fun observe_all :: "golib \<Rightarrow> alertEpisodeEvaluation \<Rightarrow> apply_state \<Rightarrow> alertEpisodeObservation list \<Rightarrow> apply_state result" where
  "observe_all L ev st [] = Inr st"
| "observe_all L ev st (ob # obs) = bind_result (observation_step L ev st ob) (\<lambda>st'. observe_all L ev st' obs)"

subsection \<open>Omissions and the storage bound\<close>

definition omitted :: "alertEpisodeEvaluation \<Rightarrow> string list \<Rightarrow> alertEpisodeRegistryRecord \<Rightarrow> bool" where
  "omitted ev seen r \<longleftrightarrow> rec_State r \<noteq> AlertEpisodeRecovered \<and> rec_Source r \<in> set (alertEpisodeOpportunitySet ev) \<and>
     rec_EpisodeKey r \<notin> set seen"

definition omission_record :: "alertEpisodeEvaluation \<Rightarrow> string list \<Rightarrow> alertEpisodeRegistryRecord \<Rightarrow> alertEpisodeRegistryRecord" where
  "omission_record ev seen r =
     (if \<not> omitted ev seen r then r
      else if alertLegacyPresentationCanRetire ev r then
        r\<lparr>rec_State := AlertEpisodeRecovered, rec_StateChangedAt := ev_AsOf ev, rec_ObservedAt := ev_AsOf ev,
          rec_LastSourceObservedAt := ev_AsOf ev, rec_EvidenceAsOf := ev_AsOf ev, rec_EvidenceHealth := AlertEvidenceCurrent,
          rec_RegistryDecisionReason := alertDecisionReasonLegacyRetired, rec_EmitRecovered := True\<rparr>
      else r\<lparr>rec_EvidenceHealth := omittedAlertEvidenceHealth (ev_Coverage ev) (rec_Source r),
             rec_ObservedAt := ev_AsOf ev, rec_RegistryDecisionReason := alertDecisionReasonSourceOmitted\<rparr>)"

definition omission_decisions :: "alertEpisodeEvaluation \<Rightarrow> string list \<Rightarrow> alertEpisodeRegistryRecord \<Rightarrow> alertEpisodeDecision list" where
  "omission_decisions ev seen r =
     (if \<not> omitted ev seen r then []
      else [decisionFromAlertRecord (omission_record ev seen r) (rec_State r)
              (if alertLegacyPresentationCanRetire ev r then alertDecisionRecovered else alertDecisionHeldOmitted)])"

definition omission_pass :: "alertEpisodeEvaluation \<Rightarrow> apply_state \<Rightarrow> apply_state" where
  "omission_pass ev st = st\<lparr>as_episodes := map (omission_record ev (as_seen st)) (as_episodes st),
     as_decisions := as_decisions st @ concat (map (omission_decisions ev (as_seen st)) (as_episodes st))\<rparr>"

definition is_recovered :: "alertEpisodeRegistryRecord \<Rightarrow> bool" where
  "is_recovered r \<longleftrightarrow> rec_State r = AlertEpisodeRecovered"

definition trimInactiveAlertEpisodes :: "alertEpisodeRegistryRecord list \<Rightarrow> nat \<Rightarrow> alertEpisodeRegistryRecord list" where
  "trimInactiveAlertEpisodes episodes inactiveLimit =
     (let recovered = filter (\<lambda>(i, r). is_recovered r) (enumerate 0 episodes) in
      if length recovered \<le> inactiveLimit then episodes
      else
        let ordered = sort_key (\<lambda>(i, r). (rec_ObservedAt r, rec_EpisodeKey r)) recovered;
            dropped = map fst (take (length recovered - inactiveLimit) ordered)
        in map snd (filter (\<lambda>(i, r). i \<notin> set dropped) (enumerate 0 episodes)))"

subsection \<open>Source states, metrics and cursors\<close>

definition mergeAlertEpisodeSourceStates :: "alertEpisodeRegistrySourceState slice \<Rightarrow> alertEpisodeRegistrySourceState list \<Rightarrow> alertEpisodeRegistrySourceState slice" where
  "mergeAlertEpisodeSourceStates states updates =
     (if updates = [] then Slice (elems states)
      else
        let put = (\<lambda>st m. AList.update (ss_Source st) (st\<lparr>ss_DuplicateCandidates := 0\<rparr>) m);
            bySource = fold put updates (fold put (elems states) [])
        in Slice (sort_key (\<lambda>st. AlertSource_wire (ss_Source st)) (map snd bySource)))"

definition alertShadowDurableSourceMetric :: "alertShadowDurableSourceMeasurements list \<Rightarrow> AlertSource \<Rightarrow> alertShadowSourceMetrics option" where
  "alertShadowDurableSourceMetric rows source = map_option row_Measurements (find_first (\<lambda>row. row_Source row = source) rows)"

text \<open>Updating the metric that the lookup above points to; nothing happens when there is none.\<close>

definition with_source_metric :: "AlertSource \<Rightarrow> (alertShadowSourceMetrics \<Rightarrow> alertShadowSourceMetrics) \<Rightarrow> alertShadowDurableSourceMeasurements list \<Rightarrow> alertShadowDurableSourceMeasurements list" where
  "with_source_metric source f rows =
     update_first (\<lambda>row. row_Source row = source) (\<lambda>row. row\<lparr>row_Measurements := f (row_Measurements row)\<rparr>) rows"

definition observe_delay :: "alertEpisodeEvaluation \<Rightarrow> alertEpisodeRegistrySourceState \<Rightarrow> duration" where
  "observe_delay ev st = max (time_Sub (ev_AsOf ev) (ss_InputAsOf st)) 0"

definition source_state_metric :: "alertEpisodeEvaluation \<Rightarrow> alertEpisodeRegistrySourceState option \<Rightarrow> alertShadowSourceMetrics \<Rightarrow> alertShadowSourceMetrics" where
  "source_state_metric ev state m =
     (case state of None \<Rightarrow> m
      | Some st \<Rightarrow>
         let m1 = m\<lparr>sm_DuplicateCandidates := sm_DuplicateCandidates m + ss_DuplicateCandidates st\<rparr>;
             delay = observe_delay ev st;
             m2 = (if IsZero (ss_InputAsOf st) then m1
                   else m1\<lparr>sm_TimeToObserveSamples := sm_TimeToObserveSamples m1 + 1,
                          sm_TimeToObserveTotal := wrap_int64 (sm_TimeToObserveTotal m1 + delay),
                          sm_TimeToObserveMax := (if delay > sm_TimeToObserveMax m1 then delay else sm_TimeToObserveMax m1)\<rparr>)
         in (if ss_Status st = alertShadowStatusStale then m2\<lparr>sm_StaleSuppressions := sm_StaleSuppressions m2 + 1\<rparr> else m2))"

definition opportunity_metric :: "alertEpisodeEvaluation \<Rightarrow> AlertSource \<Rightarrow> alertShadowSourceMetrics \<Rightarrow> alertShadowSourceMetrics" where
  "opportunity_metric ev source m =
     (let m1 = m\<lparr>sm_Evaluations := sm_Evaluations m + 1\<rparr>;
          m2 = (if source \<in> set (covered_sources (ev_Coverage ev))
                then m1\<lparr>sm_CoveredEvaluations := sm_CoveredEvaluations m1 + 1\<rparr>
                else m1\<lparr>sm_CoverageFailures := sm_CoverageFailures m1 + 1\<rparr>);
          count = (of_nat (length (filter (\<lambda>ob. obs_Active ob \<and> obs_Source ob = source) (elems (ev_Observations ev)))) :: 64 word);
          m3 = (if count > 0 then m2\<lparr>sm_ActiveEvaluations := sm_ActiveEvaluations m2 + 1,
                                    sm_ActiveObservations := sm_ActiveObservations m2 + count\<rparr> else m2)
      in source_state_metric ev (map_of (rev (map (\<lambda>st. (ss_Source st, st)) (elems (ev_SourceStates ev)))) source) m3)"

definition decision_metric :: "alertEpisodeRegistryRecord list \<Rightarrow> alertEpisodeDecision \<Rightarrow> alertShadowSourceMetrics \<Rightarrow> alertShadowSourceMetrics" where
  "decision_metric beforeEpisodes d m =
     (if dec_Action d = alertDecisionOpened then m\<lparr>sm_EpisodesOpened := sm_EpisodesOpened m + 1\<rparr>
      else if dec_Action d = alertDecisionReopened then m\<lparr>sm_EpisodesReopened := sm_EpisodesReopened m + 1\<rparr>
      else if dec_Action d = alertDecisionEscalated then m\<lparr>sm_EpisodesEscalated := sm_EpisodesEscalated m + 1\<rparr>
      else if dec_Action d = alertDecisionRecovered then m\<lparr>sm_EpisodesRecovered := sm_EpisodesRecovered m + 1\<rparr>
      else if dec_Action d = alertDecisionRefreshedActive then
       (case map_of (rev (map (\<lambda>r. (rec_EpisodeKey r, r)) beforeEpisodes)) (dec_EpisodeKey d) of
          None \<Rightarrow> m
        | Some prior \<Rightarrow>
            if rec_EvidenceFingerprint prior = dec_EvidenceFingerprint d
            then m\<lparr>sm_RepeatedActive := sm_RepeatedActive m + 1\<rparr>
            else m\<lparr>sm_ActiveEvidenceChurn := sm_ActiveEvidenceChurn m + 1\<rparr>)
      else m)"

definition applyAlertShadowEvaluationMetrics :: "alertShadowDurableMetrics \<Rightarrow> alertEpisodeRegistryRecord list \<Rightarrow> alertEpisodeEvaluation \<Rightarrow> alertEpisodeDecision list \<Rightarrow> alertShadowDurableMetrics" where
  "applyAlertShadowEvaluationMetrics m beforeEpisodes ev decisions =
     (let rows0 = (case mt_Sources m of NilSlice \<Rightarrow> elems newAlertShadowDurableSourceMeasurements | Slice rows \<Rightarrow> rows);
          rows1 = fold (\<lambda>source. with_source_metric source (opportunity_metric ev source)) (alertEpisodeOpportunitySet ev) rows0;
          rows2 = fold (\<lambda>d. with_source_metric (dec_Source d) (decision_metric beforeEpisodes d)) decisions rows1
      in m\<lparr>mt_AsOf := ev_AsOf ev, mt_Evaluations := mt_Evaluations m + 1,
           mt_RegistryApplyFailures := mt_RegistryApplyFailures m + ev_PendingApplyFailures ev,
           mt_LastErrorCode := [], mt_Sources := Slice rows2\<rparr>)"

definition applyAlertShadowCursor :: "alertShadowDurableCursors \<Rightarrow> string \<Rightarrow> alertShadowInputCursor \<Rightarrow> alertShadowDurableCursors" where
  "applyAlertShadowCursor c kind cursor =
     (if kind = alertShadowCursorStress then c\<lparr>cu_Stress := cursor\<rparr>
      else if kind = alertShadowCursorNudges then c\<lparr>cu_Nudges := cursor\<rparr>
      else if kind = alertShadowCursorRegime then c\<lparr>cu_Regime := cursor\<rparr>
      else if kind = alertShadowCursorRulebook then c\<lparr>cu_Rulebook := cursor\<rparr>
      else if kind = alertShadowCursorProtection then c\<lparr>cu_Protection := cursor\<rparr>
      else if kind = alertShadowCursorOrderIntegrity then c\<lparr>cu_OrderIntegrity := cursor\<rparr>
      else if kind = alertShadowCursorDataHealth then c\<lparr>cu_DataHealth := cursor\<rparr>
      else c)"

subsection \<open>The evaluation\<close>

definition fresh_scope :: "string \<Rightarrow> alertEpisodeRegistryScopeDocument" where
  "fresh_scope authorityScope = \<lparr>sd_AuthorityScope = authorityScope, sd_AsOf = zero_time, sd_Coverage = zero_coverage,
     sd_SourceStates = Slice [], sd_Cursors = zero_cursors,
     sd_Metrics = \<lparr>mt_AsOf = zero_time, mt_Evaluations = 0, mt_RegistryApplyFailures = 0, mt_Equivocations = 0,
        mt_LastErrorCode = [], mt_Sources = newAlertShadowDurableSourceMeasurements\<rparr>,
     sd_Episodes = Slice []\<rparr>"

text \<open>The position of the scope an operation addresses, after adding \<open>fresh\<close> when it is missing.\<close>

definition locate_scope :: "string \<Rightarrow> alertEpisodeRegistryScopeDocument \<Rightarrow> alertEpisodeRegistryScopeDocument list \<Rightarrow> alertEpisodeRegistryScopeDocument list \<times> nat" where
  "locate_scope authorityScope fresh scopes =
     (case first_index (\<lambda>sd. sd_AuthorityScope sd = authorityScope) scopes of
        Some i \<Rightarrow> (scopes, i)
      | None \<Rightarrow> (scopes @ [fresh], length scopes))"

definition reset_emit :: "alertEpisodeRegistryRecord \<Rightarrow> alertEpisodeRegistryRecord" where
  "reset_emit r = (if rec_State r = AlertEpisodeRecovered then r\<lparr>rec_EmitRecovered := False\<rparr> else r)"

definition evaluate_scope :: "golib \<Rightarrow> 64 word \<Rightarrow> alertEpisodeRegistryScopeDocument \<Rightarrow> alertEpisodeEvaluation \<Rightarrow> nat \<Rightarrow> (64 word \<times> alertEpisodeRegistryScopeDocument \<times> alertEpisodeDecision list) result" where
  "evaluate_scope L seq sd ev inactiveLimit =
     bind_result (observe_all L ev
         \<lparr>as_seq = seq, as_episodes = map reset_emit (elems (sd_Episodes sd)), as_seen = [], as_decisions = []\<rparr>
         (sort_key obs_EpisodeKey (elems (ev_Observations ev)))) (\<lambda>st1.
       let st2 = omission_pass ev st1;
           episodes = sort_key rec_EpisodeKey (trimInactiveAlertEpisodes (as_episodes st2) inactiveLimit);
           decisions = sort_key (\<lambda>d. (dec_EpisodeKey d, dec_Action d)) (as_decisions st2)
       in Inr (as_seq st2,
            sd\<lparr>sd_AsOf := ev_AsOf ev, sd_Coverage := cloneAlertCoverage (ev_Coverage ev),
               sd_SourceStates := mergeAlertEpisodeSourceStates (sd_SourceStates sd) (elems (ev_SourceStates ev)),
               sd_Episodes := Slice episodes,
               sd_Metrics := applyAlertShadowEvaluationMetrics (sd_Metrics sd) (elems (sd_Episodes sd)) ev decisions,
               sd_Cursors := applyAlertShadowCursor (sd_Cursors sd) (ev_CursorKind ev) (ev_Cursor ev)\<rparr>,
            decisions))"

definition applyAlertEpisodeEvaluation :: "golib \<Rightarrow> alertEpisodeRegistryDocument \<Rightarrow> alertEpisodeEvaluation \<Rightarrow> nat \<Rightarrow> (alertEpisodeRegistryDocument \<times> alertEpisodeDecision list) result" where
  "applyAlertEpisodeEvaluation L base ev inactiveLimit =
     (let next = cloneAlertEpisodeRegistryDocument base;
          updatedAt = (if IsZero (doc_UpdatedAt next) \<or> ev_AsOf ev > doc_UpdatedAt next then ev_AsOf ev else doc_UpdatedAt next);
          (scopes, i) = locate_scope (ev_AuthorityScope ev) (fresh_scope (ev_AuthorityScope ev)) (elems (doc_Scopes next));
          sd = scopes ! i
      in
      if \<not> IsZero (sd_AsOf sd) \<and> ev_AsOf ev < sd_AsOf sd
      then Inl (New ''alert episode evaluation moves scoped as_of backwards'')
      else bind_result (evaluate_scope L (doc_NextOccurrenceSequence next) sd ev inactiveLimit) (\<lambda>(seq', sd', decisions).
        let next' = next\<lparr>doc_Version := alertEpisodeRegistryDocumentVersion, doc_UpdatedAt := updatedAt,
                       doc_NextOccurrenceSequence := seq',
                       doc_Scopes := Slice (sort_key sd_AuthorityScope (scopes[i := sd']))\<rparr>
        in case validateAlertEpisodeRegistryDocument L next' inactiveLimit of
             Some e \<Rightarrow> Inl (Wrap ''build alert episode registry'' e)
           | None \<Rightarrow> Inr (next', decisions)))"


subsection \<open>One observation, per episode key\<close>

lemma apply_observation_simps [simp, field_simps_canary]:
  "rec_EpisodeKey (applyAlertObservationToRecord r ob fp) = rec_EpisodeKey r"
  "rec_AuthorityScope (applyAlertObservationToRecord r ob fp) = rec_AuthorityScope r"
  "rec_OccurrenceKey (applyAlertObservationToRecord r ob fp) = rec_OccurrenceKey r"
  "rec_Source (applyAlertObservationToRecord r ob fp) = rec_Source r"
  "rec_Kind (applyAlertObservationToRecord r ob fp) = rec_Kind r"
  "rec_State (applyAlertObservationToRecord r ob fp) = rec_State r"
  "rec_StateChangedAt (applyAlertObservationToRecord r ob fp) = rec_StateChangedAt r"
  "rec_EvidenceHealth (applyAlertObservationToRecord r ob fp) = obs_EvidenceHealth ob"
  "rec_LastSourceObservedAt (applyAlertObservationToRecord r ob fp) = obs_ObservedAt ob"
  "rec_LastObservationFingerprint (applyAlertObservationToRecord r ob fp) = fp"
  "rec_LastEscalationFingerprint (applyAlertObservationToRecord r ob fp) = rec_LastEscalationFingerprint r"
  "rec_EmitRecovered (applyAlertObservationToRecord r ob fp) = rec_EmitRecovered r"
  by (simp_all add: applyAlertObservationToRecord_def)

lemma allocate_Inr:
  "allocateAlertOccurrence L seq ek = Inr (k, seq') \<longleftrightarrow>
     seq' = seq + 1 \<and> BuildAlertOccurrenceKey L ek [''sequence:'' @ digits10 (unat (seq + 1))] = Inr k"
  by (auto simp: allocateAlertOccurrence_def Let_def split: sum.splits)

lemmas observe_defs = observe_episode_def active_without_episode_def active_with_episode_def rotate_occurrence_def
  negative_with_episode_def negative_on_recovered_def negative_on_active_def recordFromAlertObservation_def opened_state_def

definition minting :: "string \<Rightarrow> bool" where
  "minting action \<longleftrightarrow> action = alertDecisionOpened \<or> action = alertDecisionReopened \<or> action = alertDecisionEscalated"

lemma observe_existing:
  assumes "observe_episode L scope cov seq (Some r) ob fp = Inr (seq', new, d)"
  obtains r' where "new = Some r'" "rec_EpisodeKey r' = rec_EpisodeKey r" "rec_Source r' = rec_Source r"
    "rec_Kind r' = rec_Kind r" "rec_AuthorityScope r' = rec_AuthorityScope r"
    "rec_Source r = obs_Source ob" "rec_Kind r = obs_Kind ob" "rec_LastSourceObservedAt r \<le> obs_ObservedAt ob"
    "rec_LastSourceObservedAt r' = obs_ObservedAt ob" "rec_LastObservationFingerprint r' = fp"
proof -
  from assms have c: "observation_conflict r ob fp = None"
    by (auto simp: observe_episode_def split: option.splits)
  then have i: "rec_Source r = obs_Source ob" "rec_Kind r = obs_Kind ob" "rec_LastSourceObservedAt r \<le> obs_ObservedAt ob"
    by (auto simp: observation_conflict_def)
  show thesis
  proof (rule that)
    from assms c show "new = Some (the new)"
      by (auto simp: observe_defs bind_result_Inr Let_def split: if_splits)
    from assms c show "rec_EpisodeKey (the new) = rec_EpisodeKey r" "rec_Source (the new) = rec_Source r"
      "rec_Kind (the new) = rec_Kind r" "rec_AuthorityScope (the new) = rec_AuthorityScope r"
      "rec_LastSourceObservedAt (the new) = obs_ObservedAt ob" "rec_LastObservationFingerprint (the new) = fp"
      by (auto simp: observe_defs bind_result_Inr Let_def split: if_splits)
  qed (use i in auto)
qed

lemma observe_missing:
  assumes "observe_episode L scope cov seq None ob fp = Inr (seq', new, d)"
  shows "if obs_Active ob then \<exists>r'. new = Some r' \<and> rec_EpisodeKey r' = obs_EpisodeKey ob \<and> rec_AuthorityScope r' = scope \<and>
      rec_State r' = opened_state ob \<and> rec_LastSourceObservedAt r' = obs_ObservedAt ob \<and> rec_LastObservationFingerprint r' = fp \<and>
      rec_LastEscalationFingerprint r' = obs_EscalationFingerprint ob
    else new = None \<and> seq' = seq"
  using assms by (auto simp: observe_defs bind_result_Inr Let_def split: if_splits)

lemma opened_state_not_recovered [simp]: "opened_state ob \<noteq> AlertEpisodeRecovered"
  by (simp add: opened_state_def)

lemma observe_recovers_only:
  assumes "observe_episode L scope cov seq (Some r) ob fp = Inr (seq', Some r', d)"
    and "rec_State r \<noteq> AlertEpisodeRecovered" and "rec_State r' = AlertEpisodeRecovered"
  shows "\<not> obs_Active ob \<and> alertObservationCanRecover cov ob"
  using assms
  by (auto simp: observe_defs bind_result_Inr Let_def split: if_splits option.splits)

lemma observe_active:
  assumes "observe_episode L scope cov seq (Some r) ob fp = Inr (seq', Some r', d)" and "obs_Active ob"
  shows "rec_State r' \<noteq> AlertEpisodeRecovered \<and>
    (obs_EscalationFingerprint ob = [] \<or> rec_LastEscalationFingerprint r' = obs_EscalationFingerprint ob)"
  using assms
  by (auto simp: observe_defs bind_result_Inr Let_def split: if_splits option.splits)

text \<open>A new occurrence is minted exactly on opening, reopening and a qualifying escalation.\<close>

definition rotates :: "alertEpisodeRegistryRecord option \<Rightarrow> alertEpisodeObservation \<Rightarrow> bool" where
  "rotates old ob \<longleftrightarrow> obs_Active ob \<and>
     (case old of None \<Rightarrow> True
      | Some r \<Rightarrow> rec_State r = AlertEpisodeRecovered \<or>
          (obs_EscalationFingerprint ob \<noteq> [] \<and> obs_EscalationFingerprint ob \<noteq> rec_LastEscalationFingerprint r))"

lemma observe_occurrence:
  assumes "observe_episode L scope cov seq old ob fp = Inr (seq', new, d)"
  shows "if rotates old ob
    then seq' = seq + 1 \<and> minting (dec_Action d) \<and>
      (\<exists>r'. new = Some r' \<and> BuildAlertOccurrenceKey L (obs_EpisodeKey ob) [''sequence:'' @ digits10 (unat (seq + 1))] = Inr (rec_OccurrenceKey r'))
    else seq' = seq \<and> \<not> minting (dec_Action d) \<and> (\<forall>r. old = Some r \<longrightarrow> (\<exists>r'. new = Some r' \<and> rec_OccurrenceKey r' = rec_OccurrenceKey r))"
  using assms
  by (auto simp: observe_defs bind_result_Inr Let_def rotates_def allocate_Inr minting_def alertHoldDecision_def split: if_splits option.splits)


subsection \<open>The observation loop\<close>

abbreviation episode_of :: "alertEpisodeRegistryRecord list \<Rightarrow> string \<Rightarrow> alertEpisodeRegistryRecord option" where
  "episode_of es k \<equiv> lookup_by rec_EpisodeKey es k"

definition minted :: "alertEpisodeDecision list \<Rightarrow> nat" where
  "minted ds = length (filter (minting \<circ> dec_Action) ds)"

lemma minted_simps [simp]:
  "minted [] = 0" "minted (ds @ es) = minted ds + minted es" "minted [d] = (if minting (dec_Action d) then 1 else 0)"
  by (simp_all add: minted_def)

lemma minted_sort [simp]: "minted (sort_key f ds) = minted ds"
  unfolding minted_def by (metis mset_filter mset_sort size_mset)

text \<open>What one observation did to the record of its key: the record beforeState, the record after and
  the decision, after \<open>m\<close> allocations; \<open>n\<close> bounds the allocations of the whole loop.\<close>

definition observed_as :: "golib \<Rightarrow> alertEpisodeEvaluation \<Rightarrow> 64 word \<Rightarrow> nat \<Rightarrow> alertEpisodeObservation \<Rightarrow> alertEpisodeRegistryRecord option \<Rightarrow> alertEpisodeRegistryRecord option \<Rightarrow> alertEpisodeDecision \<Rightarrow> bool" where
  "observed_as L ev seq n ob old new d \<longleftrightarrow>
     (\<exists>fp m seq'. alertEpisodeObservationFingerprint L ob = Inr fp \<and> m + (if minting (dec_Action d) then 1 else 0) \<le> n \<and>
        observe_episode L (ev_AuthorityScope ev) (ev_Coverage ev) (seq + of_nat m) old ob fp = Inr (seq', new, d))"

lemma observe_new_key:
  assumes "observe_episode L scope cov seq old ob fp = Inr (seq', Some r', d)"
    and "\<forall>r. old = Some r \<longrightarrow> rec_EpisodeKey r = obs_EpisodeKey ob"
  shows "rec_EpisodeKey r' = obs_EpisodeKey ob"
proof (cases old)
  case None
  from observe_missing [OF assms(1) [unfolded None]] show ?thesis by (auto split: if_splits)
next
  case (Some r)
  from observe_existing [OF assms(1) [unfolded Some]] obtain r'' where "Some r' = Some r''" "rec_EpisodeKey r'' = rec_EpisodeKey r"
    by blast
  with assms(2) Some show ?thesis by simp
qed

lemma observe_decision_key:
  assumes "observe_episode L scope cov seq old ob fp = Inr (seq', new, d)"
    and "\<forall>r. old = Some r \<longrightarrow> rec_EpisodeKey r = obs_EpisodeKey ob"
  shows "dec_EpisodeKey d = obs_EpisodeKey ob"
  using assms
  by (auto simp: observe_defs bind_result_Inr Let_def split: if_splits option.splits)

lemma observation_step_effect:
  assumes step: "observation_step L ev st ob = Inr st'" and dk: "distinct_by rec_EpisodeKey (as_episodes st)"
  obtains d fp where "alertEpisodeObservationFingerprint L ob = Inr fp"
    "observe_episode L (ev_AuthorityScope ev) (ev_Coverage ev) (as_seq st) (episode_of (as_episodes st) (obs_EpisodeKey ob)) ob fp =
       Inr (as_seq st', episode_of (as_episodes st') (obs_EpisodeKey ob), d)"
    "as_decisions st' = as_decisions st @ [d]" "as_seen st' = obs_EpisodeKey ob # as_seen st"
    "obs_EpisodeKey ob \<notin> set (as_seen st)" "distinct_by rec_EpisodeKey (as_episodes st')"
    "\<And>k. k \<noteq> obs_EpisodeKey ob \<Longrightarrow> episode_of (as_episodes st') k = episode_of (as_episodes st) k"
proof -
  let ?k = "obs_EpisodeKey ob" and ?es = "as_episodes st"
  let ?idx = "last_index (\<lambda>r. rec_EpisodeKey r = ?k) ?es"
  have old: "map_option ((!) ?es) ?idx = episode_of ?es ?k"
    using last_index_lookup_by [OF dk] .
  from step old obtain fp seq' new d where fresh: "?k \<notin> set (as_seen st)"
    and fp: "alertEpisodeObservationFingerprint L ob = Inr fp"
    and obs: "observe_episode L (ev_AuthorityScope ev) (ev_Coverage ev) (as_seq st) (episode_of ?es ?k) ob fp = Inr (seq', new, d)"
    and st': "st' = \<lparr>as_seq = seq', as_episodes = (case (?idx, new) of (Some i, Some r) \<Rightarrow> ?es[i := r]
                   | (None, Some r) \<Rightarrow> ?es @ [r] | (_, None) \<Rightarrow> ?es), as_seen = ?k # as_seen st, as_decisions = as_decisions st @ [d]\<rparr>"
    by (auto simp: observation_step_def bind_result_Inr Let_def split: if_splits)
  have oldkey: "\<forall>r. episode_of ?es ?k = Some r \<longrightarrow> rec_EpisodeKey r = ?k"
    using lookup_by_SomeD by fastforce
  have main: "distinct_by rec_EpisodeKey (as_episodes st') \<and>
      (\<forall>k. episode_of (as_episodes st') k = (if k = ?k then new else episode_of ?es k))"
  proof (cases ?idx)
    case None
    then have miss: "episode_of ?es ?k = None" using old by simp
    then have notin: "?k \<notin> rec_EpisodeKey ` set ?es" by (simp add: lookup_by_None)
    show ?thesis
    proof (cases new)
      case None
      with \<open>?idx = None\<close> st' dk miss show ?thesis by simp
    next
      case (Some r)
      with observe_new_key [OF obs [unfolded Some] oldkey] have "rec_EpisodeKey r = ?k" by simp
      with Some \<open>?idx = None\<close> st' dk notin miss show ?thesis
        by (auto simp: distinct_by_snoc lookup_by_append split: option.splits)
    qed
  next
    case (Some i)
    note i = last_index_Some [OF Some]
    from Some old have "episode_of ?es ?k = Some (?es ! i)" by simp
    from observe_existing [OF obs [unfolded this]] obtain r where new: "new = Some r" by blast
    with observe_new_key [OF obs [unfolded new] oldkey] have "rec_EpisodeKey r = ?k" by simp
    with i have key: "rec_EpisodeKey r = rec_EpisodeKey (?es ! i)" by simp
    have "as_episodes st' = ?es[i := r]" using Some new st' by simp
    with lookup_by_update [OF dk _ key] distinct_by_list_update [OF dk _ key] i \<open>rec_EpisodeKey r = ?k\<close> new
    show ?thesis by auto
  qed
  show thesis
    by (rule that [of fp d]) (use fp obs st' fresh main in auto)
qed

lemma observe_all_ConsE:
  assumes "observe_all L ev st (o1 # obs) = Inr st'" and "distinct_by rec_EpisodeKey (as_episodes st)"
  obtains st1 fp d where "observe_all L ev st1 obs = Inr st'" "distinct_by rec_EpisodeKey (as_episodes st1)"
    "alertEpisodeObservationFingerprint L o1 = Inr fp"
    "observe_episode L (ev_AuthorityScope ev) (ev_Coverage ev) (as_seq st) (episode_of (as_episodes st) (obs_EpisodeKey o1)) o1 fp =
       Inr (as_seq st1, episode_of (as_episodes st1) (obs_EpisodeKey o1), d)"
    "as_decisions st1 = as_decisions st @ [d]" "as_seen st1 = obs_EpisodeKey o1 # as_seen st"
    "obs_EpisodeKey o1 \<notin> set (as_seen st)"
    "\<And>k. k \<noteq> obs_EpisodeKey o1 \<Longrightarrow> episode_of (as_episodes st1) k = episode_of (as_episodes st) k"
proof -
  from assms(1) obtain st1 where s: "observation_step L ev st o1 = Inr st1" "observe_all L ev st1 obs = Inr st'"
    by (auto simp: bind_result_Inr)
  from observation_step_effect [OF s(1) assms(2)] s(2) that show thesis by metis
qed

lemma observe_all_distinct:
  "observe_all L ev st obs = Inr st' \<Longrightarrow> distinct_by rec_EpisodeKey (as_episodes st) \<Longrightarrow>
     distinct_by rec_EpisodeKey (as_episodes st')"
proof (induction obs arbitrary: st)
  case (Cons o1 obs)
  from Cons.prems show ?case by (rule observe_all_ConsE) (use Cons.IH in blast)
qed simp

lemma observe_all_keys:
  "observe_all L ev st obs = Inr st' \<Longrightarrow> distinct_by rec_EpisodeKey (as_episodes st) \<Longrightarrow>
     distinct (map obs_EpisodeKey obs) \<and> obs_EpisodeKey ` set obs \<inter> set (as_seen st) = {} \<and>
     set (as_seen st') = set (as_seen st) \<union> obs_EpisodeKey ` set obs \<and> set (as_decisions st) \<subseteq> set (as_decisions st')"
proof (induction obs arbitrary: st)
  case (Cons o1 obs)
  from Cons.prems obtain st1 d where s: "observe_all L ev st1 obs = Inr st'" "distinct_by rec_EpisodeKey (as_episodes st1)"
    "as_decisions st1 = as_decisions st @ [d]" "as_seen st1 = obs_EpisodeKey o1 # as_seen st" "obs_EpisodeKey o1 \<notin> set (as_seen st)"
    by (rule observe_all_ConsE) blast
  from Cons.IH [OF s(1,2)] s(3,4,5) show ?case by auto
qed simp

lemma observe_all_unobserved:
  "observe_all L ev st obs = Inr st' \<Longrightarrow> distinct_by rec_EpisodeKey (as_episodes st) \<Longrightarrow>
     k \<notin> obs_EpisodeKey ` set obs \<Longrightarrow> episode_of (as_episodes st') k = episode_of (as_episodes st) k"
proof (induction obs arbitrary: st)
  case (Cons o1 obs)
  from Cons.prems(1,2) obtain st1 where s: "observe_all L ev st1 obs = Inr st'" "distinct_by rec_EpisodeKey (as_episodes st1)"
    "\<And>k. k \<noteq> obs_EpisodeKey o1 \<Longrightarrow> episode_of (as_episodes st1) k = episode_of (as_episodes st) k"
    by (rule observe_all_ConsE) blast
  from Cons.IH [OF s(1,2)] s(3) Cons.prems(3) show ?case by simp
qed simp

lemma observe_all_sequence:
  "observe_all L ev st obs = Inr st' \<Longrightarrow> distinct_by rec_EpisodeKey (as_episodes st) \<Longrightarrow>
     minted (as_decisions st) \<le> minted (as_decisions st') \<and>
     as_seq st' = as_seq st + of_nat (minted (as_decisions st') - minted (as_decisions st))"
proof (induction obs arbitrary: st)
  case (Cons o1 obs)
  from Cons.prems obtain st1 fp d where s: "observe_all L ev st1 obs = Inr st'" "distinct_by rec_EpisodeKey (as_episodes st1)"
    and e: "observe_episode L (ev_AuthorityScope ev) (ev_Coverage ev) (as_seq st) (episode_of (as_episodes st) (obs_EpisodeKey o1)) o1 fp =
       Inr (as_seq st1, episode_of (as_episodes st1) (obs_EpisodeKey o1), d)"
    and dec: "as_decisions st1 = as_decisions st @ [d]"
    by (rule observe_all_ConsE) blast
  have "as_seq st1 = as_seq st + of_nat (if minting (dec_Action d) then 1 else 0)"
    using observe_occurrence [OF e] by (auto split: if_splits)
  moreover have "minted (as_decisions st1) = minted (as_decisions st) + (if minting (dec_Action d) then 1 else 0)"
    using dec by simp
  moreover note Cons.IH [OF s]
  moreover from calculation have "minted (as_decisions st') - minted (as_decisions st) =
      (if minting (dec_Action d) then 1 else 0) + (minted (as_decisions st') - minted (as_decisions st1))"
    by linarith
  ultimately show ?case
    by (metis (no_types, lifting) add.assoc le_add1 le_trans of_nat_add)
qed simp

lemma observe_all_observed:
  "observe_all L ev st obs = Inr st' \<Longrightarrow> distinct_by rec_EpisodeKey (as_episodes st) \<Longrightarrow> ob \<in> set obs \<Longrightarrow>
     \<exists>d\<in>set (as_decisions st'). observed_as L ev (as_seq st) (minted (as_decisions st') - minted (as_decisions st)) ob
       (episode_of (as_episodes st) (obs_EpisodeKey ob)) (episode_of (as_episodes st') (obs_EpisodeKey ob)) d"
proof (induction obs arbitrary: st)
  case (Cons o1 obs)
  from Cons.prems(1,2) obtain st1 fp d where s: "observe_all L ev st1 obs = Inr st'" "distinct_by rec_EpisodeKey (as_episodes st1)"
    and fp: "alertEpisodeObservationFingerprint L o1 = Inr fp"
    and e: "observe_episode L (ev_AuthorityScope ev) (ev_Coverage ev) (as_seq st) (episode_of (as_episodes st) (obs_EpisodeKey o1)) o1 fp =
       Inr (as_seq st1, episode_of (as_episodes st1) (obs_EpisodeKey o1), d)"
    and dec: "as_decisions st1 = as_decisions st @ [d]" and seen: "as_seen st1 = obs_EpisodeKey o1 # as_seen st"
    and other: "\<And>k. k \<noteq> obs_EpisodeKey o1 \<Longrightarrow> episode_of (as_episodes st1) k = episode_of (as_episodes st) k"
    by (rule observe_all_ConsE) blast
  note keys = observe_all_keys [OF s] and seq = observe_all_sequence [OF s]
  let ?one = "if minting (dec_Action d) then 1 else 0 :: nat"
  have m1: "minted (as_decisions st1) = minted (as_decisions st) + ?one" using dec by simp
  have s1: "as_seq st1 = as_seq st + of_nat ?one" using observe_occurrence [OF e] by (auto split: if_splits)
  have later: "obs_EpisodeKey o1 \<notin> obs_EpisodeKey ` set obs" using keys seen by auto
  show ?case
  proof (cases "ob = o1")
    case True
    have "0 + ?one \<le> minted (as_decisions st') - minted (as_decisions st)" using m1 seq by linarith
    moreover have "d \<in> set (as_decisions st')" using keys dec by auto
    ultimately show ?thesis
      unfolding True observed_as_def
      by (intro bexI [of _ d] exI [of _ fp] exI [of _ 0] exI [of _ "as_seq st1"])
         (simp_all add: fp e observe_all_unobserved [OF s later])
  next
    case False
    with Cons.prems(3) have ob: "ob \<in> set obs" by simp
    with later have ne: "obs_EpisodeKey ob \<noteq> obs_EpisodeKey o1" by (metis imageI)
    from Cons.IH [OF s ob] obtain d' fp' m seq' where d': "d' \<in> set (as_decisions st')" "alertEpisodeObservationFingerprint L ob = Inr fp'"
      and le: "m + (if minting (dec_Action d') then 1 else 0) \<le> minted (as_decisions st') - minted (as_decisions st1)"
      and e': "observe_episode L (ev_AuthorityScope ev) (ev_Coverage ev) (as_seq st1 + of_nat m) (episode_of (as_episodes st) (obs_EpisodeKey ob)) ob fp' =
         Inr (seq', episode_of (as_episodes st') (obs_EpisodeKey ob), d')"
      unfolding observed_as_def other [OF ne] by blast
    have sum: "as_seq st1 + of_nat m = as_seq st + of_nat (?one + m)" using s1 by simp
    have "?one + m + (if minting (dec_Action d') then 1 else 0) \<le> minted (as_decisions st') - minted (as_decisions st)"
      using le m1 seq by linarith
    with d' e' [unfolded sum] show ?thesis unfolding observed_as_def by blast
  qed
qed simp

lemma observe_all_quiet:
  "observe_all L ev st obs = Inr st' \<Longrightarrow> distinct_by rec_EpisodeKey (as_episodes st) \<Longrightarrow>
     \<forall>ob\<in>set obs. \<not> rotates (episode_of (as_episodes st) (obs_EpisodeKey ob)) ob \<Longrightarrow>
     minted (as_decisions st') = minted (as_decisions st)"
proof (induction obs arbitrary: st)
  case (Cons o1 obs)
  from Cons.prems(1,2) obtain st1 fp d where s: "observe_all L ev st1 obs = Inr st'" "distinct_by rec_EpisodeKey (as_episodes st1)"
    and e: "observe_episode L (ev_AuthorityScope ev) (ev_Coverage ev) (as_seq st) (episode_of (as_episodes st) (obs_EpisodeKey o1)) o1 fp =
       Inr (as_seq st1, episode_of (as_episodes st1) (obs_EpisodeKey o1), d)"
    and seen: "as_seen st1 = obs_EpisodeKey o1 # as_seen st" and dec: "as_decisions st1 = as_decisions st @ [d]"
    and other: "\<And>k. k \<noteq> obs_EpisodeKey o1 \<Longrightarrow> episode_of (as_episodes st1) k = episode_of (as_episodes st) k"
    by (rule observe_all_ConsE) blast
  have "\<forall>ob\<in>set obs. obs_EpisodeKey ob \<noteq> obs_EpisodeKey o1"
    using observe_all_keys [OF s] seen by (metis disjoint_iff imageI list.set_intros(1))
  with Cons.prems(3) other have "\<forall>ob\<in>set obs. \<not> rotates (episode_of (as_episodes st1) (obs_EpisodeKey ob)) ob" by simp
  from Cons.IH [OF s this] observe_occurrence [OF e] Cons.prems(3) dec show ?case by auto
qed simp

subsection \<open>Omissions, trimming and sorting\<close>

lemma omission_record_simps [simp, field_simps_canary]:
  "rec_EpisodeKey (omission_record ev seen r) = rec_EpisodeKey r"
  "rec_OccurrenceKey (omission_record ev seen r) = rec_OccurrenceKey r"
  "rec_Source (omission_record ev seen r) = rec_Source r"
  "rec_LastEscalationFingerprint (omission_record ev seen r) = rec_LastEscalationFingerprint r"
  by (simp_all add: omission_record_def)

lemma omission_recovers_only:
  assumes "rec_State (omission_record ev seen r) = AlertEpisodeRecovered" and "rec_State r \<noteq> AlertEpisodeRecovered"
  shows "omitted ev seen r \<and> alertLegacyPresentationCanRetire ev r"
  using assms by (auto simp: omission_record_def split: if_splits)

lemma omission_keeps_recovered: "rec_State r = AlertEpisodeRecovered \<Longrightarrow> omission_record ev seen r = r"
  by (simp add: omission_record_def omitted_def)

lemma reset_emit_simps [simp, field_simps_canary]:
  "rec_EpisodeKey (reset_emit r) = rec_EpisodeKey r"
  "rec_OccurrenceKey (reset_emit r) = rec_OccurrenceKey r"
  "rec_State (reset_emit r) = rec_State r"
  "rec_LastEscalationFingerprint (reset_emit r) = rec_LastEscalationFingerprint r"
  "rec_Source (reset_emit r) = rec_Source r"
  by (simp_all add: reset_emit_def)

lemma trim_filter:
  "\<exists>keep. trimInactiveAlertEpisodes es lim = map snd (filter (\<lambda>(i, r). keep i) (enumerate 0 es)) \<and>
     (\<forall>i<length es. \<not> is_recovered (es ! i) \<longrightarrow> keep i)"
proof (cases "length (filter (\<lambda>(i, r). is_recovered r) (enumerate 0 es)) \<le> lim")
  case True
  then show ?thesis
    by (intro exI [of _ "\<lambda>_. True"]) (simp add: trimInactiveAlertEpisodes_def Let_def)
next
  case False
  let ?rec = "filter (\<lambda>(i, r). is_recovered r) (enumerate 0 es)"
  let ?drop = "map fst (take (length ?rec - lim) (sort_key (\<lambda>(i, r). (rec_ObservedAt r, rec_EpisodeKey r)) ?rec))"
  have "is_recovered (es ! i)" if "i \<in> set ?drop" "i < length es" for i
  proof -
    from that(1) obtain r where "(i, r) \<in> set (sort_key (\<lambda>(i, r). (rec_ObservedAt r, rec_EpisodeKey r)) ?rec)"
      by (auto dest!: in_set_takeD)
    then have "(i, r) \<in> set (enumerate 0 es)" "is_recovered r" by auto
    then show ?thesis by (auto simp: in_set_enumerate_eq)
  qed
  with False show ?thesis
    by (intro exI [of _ "\<lambda>i. i \<notin> set ?drop"]) (auto simp: trimInactiveAlertEpisodes_def Let_def)
qed

lemma trim_subset: "set (trimInactiveAlertEpisodes es lim) \<subseteq> set es"
proof -
  obtain keep where "trimInactiveAlertEpisodes es lim = map snd (filter (\<lambda>(i, r). keep i) (enumerate 0 es))"
    using trim_filter by blast
  then show ?thesis by (auto simp: in_set_enumerate_eq)
qed

lemma trim_keeps_active:
  assumes "r \<in> set es" and "\<not> is_recovered r"
  shows "r \<in> set (trimInactiveAlertEpisodes es lim)"
proof -
  obtain keep where k: "trimInactiveAlertEpisodes es lim = map snd (filter (\<lambda>(i, r). keep i) (enumerate 0 es))"
    "\<And>i. i < length es \<Longrightarrow> \<not> is_recovered (es ! i) \<Longrightarrow> keep i"
    using trim_filter by metis
  from assms(1) obtain i where i: "i < length es" "es ! i = r" by (auto simp: in_set_conv_nth)
  with k(2) assms(2) have "(i, r) \<in> set (filter (\<lambda>(i, r). keep i) (enumerate 0 es))"
    by (auto simp: in_set_enumerate_eq)
  then show ?thesis unfolding k(1) by force
qed

lemma trim_distinct: "distinct_by k es \<Longrightarrow> distinct_by k (trimInactiveAlertEpisodes es lim)"
proof -
  assume d: "distinct_by k es"
  obtain keep where t: "trimInactiveAlertEpisodes es lim = map snd (filter (\<lambda>(i, r). keep i) (enumerate 0 es))"
    using trim_filter by blast
  have "distinct_by (k \<circ> snd) (enumerate 0 es)"
    using d by (simp add: distinct_by_def map_map [symmetric] del: map_map)
  then have "distinct_by (k \<circ> snd) (filter (\<lambda>(i, r). keep i) (enumerate 0 es))"
    by (rule distinct_by_filter)
  then show ?thesis by (simp add: t distinct_by_def)
qed

text \<open>The indices that the trim removes are a prefix of the recovered records in storage order of
  (observed at, key); the others stay.\<close>

lemma filter_notin_take:
  assumes "distinct (map fst xs)"
  shows "filter (\<lambda>(i, r). i \<notin> set (map fst (take n xs))) xs = drop n xs"
proof -
  have "filter (\<lambda>(i, r). i \<notin> set (map fst (take n xs))) (take n xs @ drop n xs) = drop n xs"
  proof -
    have "set (map fst (take n xs)) \<inter> set (map fst (drop n xs)) = {}"
      using assms by (metis append_take_drop_id distinct_append map_append)
    then have "filter (\<lambda>(i, r). i \<notin> set (map fst (take n xs))) (drop n xs) = drop n xs"
      by (intro filter_True) (force simp: disjoint_iff)
    moreover have "filter (\<lambda>(i, r). i \<notin> set (map fst (take n xs))) (take n xs) = []"
      by (force intro: filter_False)
    ultimately show ?thesis by (simp only: filter_append append_Nil)
  qed
  then show ?thesis by (simp only: append_take_drop_id)
qed

lemma filter_map_snd: "filter P (map snd xs) = map snd (filter (P \<circ> snd) xs)"
  by (simp add: filter_map)

lemma filter_enumerate_snd: "map snd (filter (\<lambda>(i, r). P r) (enumerate n es)) = filter P es"
  by (induction es arbitrary: n) auto

lemma trim_recovered:
  assumes "lim < length (filter is_recovered es)"
  obtains ordered where "mset ordered = mset (filter is_recovered es)"
    "sorted (map (\<lambda>r. (rec_ObservedAt r, rec_EpisodeKey r)) ordered)"
    "mset (filter is_recovered (trimInactiveAlertEpisodes es lim)) = mset (drop (length ordered - lim) ordered)"
proof -
  let ?rec = "filter (\<lambda>(i, r). is_recovered r) (enumerate 0 es)"
  let ?key = "\<lambda>(i, r). (rec_ObservedAt r, rec_EpisodeKey r)"
  define ord where "ord = sort_key ?key ?rec"
  let ?n = "length ?rec - lim"
  let ?P = "\<lambda>(i, r). i \<notin> set (map fst (take ?n ord))"
  have rec_es: "map snd ?rec = filter is_recovered es"
    by (rule filter_enumerate_snd)
  have len: "length ?rec = length (filter is_recovered es)" using rec_es by (metis length_map)
  have dist: "distinct (map fst ord)"
  proof -
    have "mset (map fst ord) = mset (map fst ?rec)" by (simp add: ord_def)
    moreover have "distinct (map fst ?rec)" by (simp add: distinct_map_filter)
    ultimately show ?thesis by (metis mset_eq_imp_distinct_iff)
  qed
  have mord: "mset (map snd ord) = mset (filter is_recovered es)"
    unfolding rec_es [symmetric] mset_map ord_def mset_sort ..
  have trim: "trimInactiveAlertEpisodes es lim = map snd (filter ?P (enumerate 0 es))"
    using assms len by (simp add: trimInactiveAlertEpisodes_def Let_def ord_def)
  have "filter is_recovered (trimInactiveAlertEpisodes es lim) = map snd (filter ?P ?rec)"
    unfolding trim filter_map_snd filter_filter by (intro arg_cong [of _ _ "map snd"] filter_cong refl) auto
  moreover have "mset (filter ?P ?rec) = mset (filter ?P ord)"
    unfolding mset_filter ord_def mset_sort ..
  ultimately have kept: "mset (filter is_recovered (trimInactiveAlertEpisodes es lim)) = mset (map snd (drop ?n ord))"
    by (simp only: mset_map filter_notin_take [OF dist])
  have "sorted (map ?key ord)" unfolding ord_def by simp
  then have "sorted (map (\<lambda>r. (rec_ObservedAt r, rec_EpisodeKey r)) (map snd ord))"
    by (simp add: case_prod_unfold comp_def)
  with mord kept show thesis
    by (intro that [of "map snd ord"]) (simp_all add: drop_map ord_def)
qed

subsection \<open>The evaluation, per episode key\<close>

lemma first_index_lookup_by: "map_option ((!) xs) (first_index (\<lambda>x. f x = k) xs) = lookup_by f xs k"
  by (induction xs) (auto simp: lookup_by_def option.map_comp comp_def)

lemma findAlertEpisodeScope_lookup: "findAlertEpisodeScope scopes k = lookup_by sd_AuthorityScope scopes k"
  by (simp add: findAlertEpisodeScope_def lookup_by_def)

abbreviation scope_episodes :: "alertEpisodeRegistryScopeDocument \<Rightarrow> alertEpisodeRegistryRecord list" where
  "scope_episodes sd \<equiv> elems (sd_Episodes sd)"

lemma omission_decisions_not_minting: "d \<in> set (omission_decisions ev seen r) \<Longrightarrow> \<not> minting (dec_Action d)"
  by (auto simp: omission_decisions_def minting_def split: if_splits)

lemma evaluate_scope_effect:
  assumes "evaluate_scope L seq sd ev lim = Inr (seq', sd', decs)"
    and d: "distinct_by rec_EpisodeKey (scope_episodes sd)"
  obtains st where "observe_all L ev
         \<lparr>as_seq = seq, as_episodes = map reset_emit (scope_episodes sd), as_seen = [], as_decisions = []\<rparr>
         (sort_key obs_EpisodeKey (elems (ev_Observations ev))) = Inr st"
    "distinct_by rec_EpisodeKey (as_episodes st)" "distinct_by rec_EpisodeKey (scope_episodes sd')"
    "set (scope_episodes sd') = set (trimInactiveAlertEpisodes (map (omission_record ev (as_seen st)) (as_episodes st)) lim)"
    "set (as_seen st) = obs_EpisodeKey ` set (elems (ev_Observations ev))"
    "seq' = seq + of_nat (minted decs)"
    "sd_AsOf sd' = ev_AsOf ev" "sd_Coverage sd' = cloneAlertCoverage (ev_Coverage ev)"
    "sd_AuthorityScope sd' = sd_AuthorityScope sd" "minted (as_decisions st) = minted decs"
proof -
  let ?st0 = "\<lparr>as_seq = seq, as_episodes = map reset_emit (scope_episodes sd), as_seen = [], as_decisions = []\<rparr>"
  from assms(1) obtain st where o: "observe_all L ev ?st0 (sort_key obs_EpisodeKey (elems (ev_Observations ev))) = Inr st"
    and seq': "seq' = as_seq st"
    and decs: "decs = sort_key (\<lambda>d. (dec_EpisodeKey d, dec_Action d)) (as_decisions (omission_pass ev st))"
    and eps: "scope_episodes sd' = sort_key rec_EpisodeKey (trimInactiveAlertEpisodes (as_episodes (omission_pass ev st)) lim)"
    and hdr: "sd_AsOf sd' = ev_AsOf ev" "sd_Coverage sd' = cloneAlertCoverage (ev_Coverage ev)" "sd_AuthorityScope sd' = sd_AuthorityScope sd"
    by (auto simp: evaluate_scope_def bind_result_Inr Let_def omission_pass_def)
  have d0: "distinct_by rec_EpisodeKey (as_episodes ?st0)"
    using d by (simp add: distinct_by_def comp_def)
  note d1 = observe_all_distinct [OF o d0]
  have d2: "distinct_by rec_EpisodeKey (map (omission_record ev (as_seen st)) (as_episodes st))"
    using d1 by (simp add: distinct_by_def comp_def)
  have "minted (concat (map (omission_decisions ev (as_seen st)) (as_episodes st))) = 0"
    using omission_decisions_not_minting by (auto simp: minted_def filter_empty_conv)
  then have mint: "minted (as_decisions st) = minted decs"
    by (simp add: decs omission_pass_def)
  then have sq: "seq' = seq + of_nat (minted decs)"
    using observe_all_sequence [OF o d0] seq' by simp
  show thesis
    by (rule that [OF o d1 _ _ _ sq hdr mint])
       (use eps d2 trim_distinct observe_all_keys [OF o d0] in \<open>simp_all add: omission_pass_def\<close>)
qed

lemma locate_scope_effect:
  assumes "locate_scope k fresh scopes = (scopes', i)" and "distinct_by sd_AuthorityScope scopes" and "sd_AuthorityScope fresh = k"
  shows "i < length scopes'" and "scopes' ! i = (case lookup_by sd_AuthorityScope scopes k of Some sd \<Rightarrow> sd | None \<Rightarrow> fresh)"
    and "distinct_by sd_AuthorityScope scopes'" and "sd_AuthorityScope (scopes' ! i) = k"
    and "k' \<noteq> k \<Longrightarrow> lookup_by sd_AuthorityScope scopes' k' = lookup_by sd_AuthorityScope scopes k'"
proof -
  note fi = first_index_lookup_by [of scopes sd_AuthorityScope k, symmetric]
  have "i < length scopes' \<and> scopes' ! i = (case lookup_by sd_AuthorityScope scopes k of Some sd \<Rightarrow> sd | None \<Rightarrow> fresh) \<and>
    distinct_by sd_AuthorityScope scopes' \<and> sd_AuthorityScope (scopes' ! i) = k \<and>
    (k' \<noteq> k \<longrightarrow> lookup_by sd_AuthorityScope scopes' k' = lookup_by sd_AuthorityScope scopes k')"
  proof (cases "first_index (\<lambda>sd. sd_AuthorityScope sd = k) scopes")
    case None
    then have "k \<notin> sd_AuthorityScope ` set scopes" by (auto simp: first_index_None)
    with None assms fi show ?thesis
      by (auto simp: locate_scope_def distinct_by_snoc lookup_by_append split: option.splits)
  next
    case (Some j)
    from first_index_Some [OF Some] Some assms fi show ?thesis
      by (auto simp: locate_scope_def)
  qed
  then show "i < length scopes'" "scopes' ! i = (case lookup_by sd_AuthorityScope scopes k of Some sd \<Rightarrow> sd | None \<Rightarrow> fresh)"
    "distinct_by sd_AuthorityScope scopes'" "sd_AuthorityScope (scopes' ! i) = k"
    "k' \<noteq> k \<Longrightarrow> lookup_by sd_AuthorityScope scopes' k' = lookup_by sd_AuthorityScope scopes k'"
    by blast+
qed

definition scope_before :: "alertEpisodeRegistryDocument \<Rightarrow> string \<Rightarrow> alertEpisodeRegistryScopeDocument" where
  "scope_before base k = (case findAlertEpisodeScope (elems (doc_Scopes base)) k of
     Some sd \<Rightarrow> cloneAlertEpisodeScopeDocument sd | None \<Rightarrow> fresh_scope k)"

lemma apply_effect:
  assumes "applyAlertEpisodeEvaluation L base ev lim = Inr (next, decs)"
    and d: "distinct_by sd_AuthorityScope (elems (doc_Scopes base))"
  obtains sd' where "evaluate_scope L (doc_NextOccurrenceSequence base) (scope_before base (ev_AuthorityScope ev)) ev lim =
      Inr (doc_NextOccurrenceSequence next, sd', decs)"
    "findAlertEpisodeScope (elems (doc_Scopes next)) (ev_AuthorityScope ev) = Some sd'"
    "\<And>k. k \<noteq> ev_AuthorityScope ev \<Longrightarrow> findAlertEpisodeScope (elems (doc_Scopes next)) k =
       map_option cloneAlertEpisodeScopeDocument (findAlertEpisodeScope (elems (doc_Scopes base)) k)"
    "validateAlertEpisodeRegistryDocument L next lim = None"
    "IsZero (sd_AsOf (scope_before base (ev_AuthorityScope ev))) \<or> sd_AsOf (scope_before base (ev_AuthorityScope ev)) \<le> ev_AsOf ev"
    "doc_UpdatedAt next = (if IsZero (doc_UpdatedAt base) \<or> ev_AsOf ev > doc_UpdatedAt base then ev_AsOf ev else doc_UpdatedAt base)"
proof -
  let ?k = "ev_AuthorityScope ev" and ?cl = "map cloneAlertEpisodeScopeDocument (elems (doc_Scopes base))"
  obtain scopes i where loc: "locate_scope ?k (fresh_scope ?k) ?cl = (scopes, i)" by fastforce
  have dcl: "distinct_by sd_AuthorityScope ?cl"
    using d by (simp add: distinct_by_def comp_def)
  note L = locate_scope_effect [OF loc dcl]
  have fresh: "sd_AuthorityScope (fresh_scope ?k) = ?k" by (simp add: fresh_scope_def)
  have sb: "scopes ! i = scope_before base ?k"
    using L(2) [OF fresh] by (auto simp: scope_before_def findAlertEpisodeScope_lookup split: option.splits)
  from assms(1) loc obtain seq' sd' where 
    bk: "IsZero (sd_AsOf (scopes ! i)) \<or> \<not> ev_AsOf ev < sd_AsOf (scopes ! i)"
    and evs: "evaluate_scope L (doc_NextOccurrenceSequence base) (scopes ! i) ev lim = Inr (seq', sd', decs)"
    and val: "validateAlertEpisodeRegistryDocument L next lim = None"
    and nx: "doc_NextOccurrenceSequence next = seq'" "elems (doc_Scopes next) = sort_key sd_AuthorityScope (scopes[i := sd'])"
      "doc_UpdatedAt next = (if IsZero (doc_UpdatedAt base) \<or> ev_AsOf ev > doc_UpdatedAt base then ev_AsOf ev else doc_UpdatedAt base)"
    by (auto simp: applyAlertEpisodeEvaluation_def bind_result_Inr Let_def split: if_splits option.splits)
  have sd'k: "sd_AuthorityScope sd' = sd_AuthorityScope (scopes ! i)"
    using evs by (auto simp: evaluate_scope_def bind_result_Inr Let_def)
  note up = lookup_by_update [OF L(3) [OF fresh] L(1) [OF fresh] sd'k] distinct_by_list_update [OF L(3) [OF fresh] L(1) [OF fresh] sd'k]
  have find: "findAlertEpisodeScope (elems (doc_Scopes next)) k = (if k = ?k then Some sd' else lookup_by sd_AuthorityScope ?cl k)" for k
  proof -
    have "findAlertEpisodeScope (elems (doc_Scopes next)) k = lookup_by sd_AuthorityScope (scopes[i := sd']) k"
      unfolding findAlertEpisodeScope_lookup nx(2) by (rule lookup_by_cong_set) (use up(2) in simp_all)
    with up(1) sd'k L(4) [OF fresh] L(5) [OF fresh, of k] show ?thesis by auto
  qed
  show thesis
    by (rule that [of sd']) (use evs nx sb bk val find in \<open>auto simp: findAlertEpisodeScope_lookup not_less\<close>)
qed


subsection \<open>What happens to one episode\<close>

lemma evaluate_before_episode:
  assumes "distinct_by rec_EpisodeKey (scope_episodes sd)" and "r \<in> set (scope_episodes sd)"
  shows "episode_of (map reset_emit (scope_episodes sd)) (rec_EpisodeKey r) = Some (reset_emit r)"
  using assms by (simp add: lookup_by_Some_iff [THEN iffD2])

lemma evaluate_result_episode:
  assumes "set es' = set (trimInactiveAlertEpisodes (map (omission_record ev seen) es) lim)"
    and "distinct_by rec_EpisodeKey es" and "r' \<in> set es'"
  obtains m where "episode_of es (rec_EpisodeKey r') = Some m" "r' = omission_record ev seen m"
proof -
  from assms trim_subset obtain m where m: "m \<in> set es" "r' = omission_record ev seen m" by fastforce
  with assms(2) show thesis by (intro that [of m]) (simp_all add: lookup_by_Some_iff)
qed

lemma evaluate_keeps_unrecovered:
  assumes "set es' = set (trimInactiveAlertEpisodes (map (omission_record ev seen) es) lim)"
    and "m \<in> set es" and "rec_State (omission_record ev seen m) \<noteq> AlertEpisodeRecovered"
  shows "omission_record ev seen m \<in> set es'"
  using assms trim_keeps_active [of "omission_record ev seen m"] by (auto simp: is_recovered_def)

lemma observed_not_omitted:
  "rec_EpisodeKey m \<in> set seen \<Longrightarrow> omission_record ev seen m = m"
  by (simp add: omission_record_def omitted_def)

lemma scope_before_found [simp]:
  "findAlertEpisodeScope (elems (doc_Scopes base)) k = Some sd \<Longrightarrow> scope_episodes (scope_before base k) = scope_episodes sd \<and>
     sd_AsOf (scope_before base k) = sd_AsOf sd"
  by (simp add: scope_before_def)

lemma scope_before_distinct:
  assumes "\<forall>sd\<in>set (elems (doc_Scopes base)). distinct_by rec_EpisodeKey (scope_episodes sd)"
  shows "distinct_by rec_EpisodeKey (scope_episodes (scope_before base k))"
proof (cases "findAlertEpisodeScope (elems (doc_Scopes base)) k")
  case None
  then show ?thesis by (simp add: scope_before_def fresh_scope_def distinct_by_def)
next
  case (Some sd)
  then have "sd \<in> set (elems (doc_Scopes base))"
    unfolding findAlertEpisodeScope_lookup by (blast dest: lookup_by_SomeD)
  with assms Some show ?thesis by (simp add: scope_before_def)
qed

text \<open>The well-formedness the lifecycle relies on: scopes and, per scope, episode keys are unique.
  Every validated document has it, and so has the empty document a registry starts from.\<close>

definition registry_wf :: "alertEpisodeRegistryDocument \<Rightarrow> bool" where
  "registry_wf d \<longleftrightarrow> distinct_by sd_AuthorityScope (elems (doc_Scopes d)) \<and>
     (\<forall>sd\<in>set (elems (doc_Scopes d)). distinct_by rec_EpisodeKey (scope_episodes sd))"

lemma registry_wf_validated: "validateAlertEpisodeRegistryDocument L d lim = None \<Longrightarrow> registry_wf d"
  using registry_document_facts(1,2) by (auto simp: registry_wf_def)

text \<open>One evaluation in terms of the record of each key: beforeState, after the observations, after.\<close>

lemma apply_episodes:
  assumes ap: "applyAlertEpisodeEvaluation L base ev lim = Inr (next, decs)" and wf: "registry_wf base"
  obtains sd' mid seen where "findAlertEpisodeScope (elems (doc_Scopes next)) (ev_AuthorityScope ev) = Some sd'"
    "sd_AsOf sd' = ev_AsOf ev" "sd_Coverage sd' = cloneAlertCoverage (ev_Coverage ev)"
    "distinct_by rec_EpisodeKey (scope_episodes sd')" "distinct_by rec_EpisodeKey mid"
    "set (scope_episodes sd') = set (trimInactiveAlertEpisodes (map (omission_record ev seen) mid) lim)"
    "set seen = obs_EpisodeKey ` set (elems (ev_Observations ev))"
    "\<And>k. k \<notin> set seen \<Longrightarrow> episode_of mid k =
       map_option reset_emit (episode_of (scope_episodes (scope_before base (ev_AuthorityScope ev))) k)"
    "\<And>ob. ob \<in> set (elems (ev_Observations ev)) \<Longrightarrow> \<exists>d. observed_as L ev (doc_NextOccurrenceSequence base) (minted decs) ob
       (map_option reset_emit (episode_of (scope_episodes (scope_before base (ev_AuthorityScope ev))) (obs_EpisodeKey ob)))
       (episode_of mid (obs_EpisodeKey ob)) d"
    "doc_NextOccurrenceSequence next = doc_NextOccurrenceSequence base + of_nat (minted decs)"
proof -
  let ?sd = "scope_before base (ev_AuthorityScope ev)"
  from wf have d: "distinct_by sd_AuthorityScope (elems (doc_Scopes base))" "distinct_by rec_EpisodeKey (scope_episodes ?sd)"
    by (auto simp: registry_wf_def intro: scope_before_distinct)
  from apply_effect [OF ap d(1)] obtain sd' where e: "evaluate_scope L (doc_NextOccurrenceSequence base) ?sd ev lim =
      Inr (doc_NextOccurrenceSequence next, sd', decs)"
    and f: "findAlertEpisodeScope (elems (doc_Scopes next)) (ev_AuthorityScope ev) = Some sd'" by metis
  let ?st0 = "\<lparr>as_seq = doc_NextOccurrenceSequence base, as_episodes = map reset_emit (scope_episodes ?sd), as_seen = [], as_decisions = []\<rparr>"
  from evaluate_scope_effect [OF e d(2)] obtain st where
    o: "observe_all L ev ?st0 (sort_key obs_EpisodeKey (elems (ev_Observations ev))) = Inr st"
    and st: "distinct_by rec_EpisodeKey (as_episodes st)" "distinct_by rec_EpisodeKey (scope_episodes sd')"
      "set (scope_episodes sd') = set (trimInactiveAlertEpisodes (map (omission_record ev (as_seen st)) (as_episodes st)) lim)"
      "set (as_seen st) = obs_EpisodeKey ` set (elems (ev_Observations ev))"
      "doc_NextOccurrenceSequence next = doc_NextOccurrenceSequence base + of_nat (minted decs)"
      "sd_AsOf sd' = ev_AsOf ev" "sd_Coverage sd' = cloneAlertCoverage (ev_Coverage ev)"
    and mint: "minted (as_decisions st) = minted decs" by metis
  have d0: "distinct_by rec_EpisodeKey (as_episodes ?st0)"
    using d(2) by (simp add: distinct_by_def comp_def)
  show thesis
  proof (rule that [OF f st(6,7,2,1,3,4) _ _ st(5)])
    fix k assume "k \<notin> set (as_seen st)"
    then have "k \<notin> obs_EpisodeKey ` set (sort_key obs_EpisodeKey (elems (ev_Observations ev)))" using st(4) by simp
    from observe_all_unobserved [OF o d0 this] show "episode_of (as_episodes st) k = map_option reset_emit (episode_of (scope_episodes ?sd) k)"
      by simp
  next
    fix ob assume "ob \<in> set (elems (ev_Observations ev))"
    then have "ob \<in> set (sort_key obs_EpisodeKey (elems (ev_Observations ev)))" by simp
    from observe_all_observed [OF o d0 this] mint
    show "\<exists>d. observed_as L ev (doc_NextOccurrenceSequence base) (minted decs) ob
        (map_option reset_emit (episode_of (scope_episodes ?sd) (obs_EpisodeKey ob))) (episode_of (as_episodes st) (obs_EpisodeKey ob)) d"
      by auto
  qed
qed

lemma rotates_reset_emit [simp]: "rotates (map_option reset_emit old) ob = rotates old ob"
  by (cases old) (simp_all add: rotates_def)

lemma observed_as_existing:
  assumes "observed_as L ev seq n ob (Some r) new d"
  obtains m where "new = Some m" "rec_EpisodeKey m = rec_EpisodeKey r" "rec_LastSourceObservedAt m = obs_ObservedAt ob"
proof -
  from assms obtain fp j seq' where "observe_episode L (ev_AuthorityScope ev) (ev_Coverage ev) (seq + of_nat j) (Some r) ob fp = Inr (seq', new, d)"
    by (auto simp: observed_as_def)
  from observe_existing [OF this] that show thesis by metis
qed

lemma observed_as_recovers_only:
  assumes "observed_as L ev seq n ob (Some r) (Some m) d" "rec_State r \<noteq> AlertEpisodeRecovered" "rec_State m = AlertEpisodeRecovered"
  shows "\<not> obs_Active ob \<and> alertObservationCanRecover (ev_Coverage ev) ob"
  using assms observe_recovers_only by (auto simp: observed_as_def)

lemma observed_as_active:
  assumes "observed_as L ev seq n ob old new d" and "obs_Active ob" and "\<forall>r. old = Some r \<longrightarrow> rec_EpisodeKey r = obs_EpisodeKey ob"
  obtains m where "new = Some m" "rec_EpisodeKey m = obs_EpisodeKey ob" "rec_State m \<noteq> AlertEpisodeRecovered"
    "rec_LastSourceObservedAt m = obs_ObservedAt ob"
    "obs_EscalationFingerprint ob = [] \<or> rec_LastEscalationFingerprint m = obs_EscalationFingerprint ob"
proof -
  from assms(1) obtain fp j seq' where e: "observe_episode L (ev_AuthorityScope ev) (ev_Coverage ev) (seq + of_nat j) old ob fp = Inr (seq', new, d)"
    by (auto simp: observed_as_def)
  show thesis
  proof (cases old)
    case None
    from observe_missing [OF e [unfolded None]] assms(2) that show thesis by auto
  next
    case (Some r)
    from observe_existing [OF e [unfolded Some]] obtain m where m: "new = Some m" "rec_EpisodeKey m = rec_EpisodeKey r"
      "rec_LastSourceObservedAt m = obs_ObservedAt ob" by metis
    from observe_active [OF e [unfolded Some m(1)] assms(2)] m assms(3) Some that show thesis by auto
  qed
qed

lemma observed_as_occurrence:
  assumes "observed_as L ev seq n ob old (Some m) d"
  shows "if rotates old ob
    then \<exists>j<n. BuildAlertOccurrenceKey L (obs_EpisodeKey ob) [''sequence:'' @ digits10 (unat (seq + of_nat j + 1))] = Inr (rec_OccurrenceKey m)
    else \<forall>r. old = Some r \<longrightarrow> rec_OccurrenceKey m = rec_OccurrenceKey r"
proof -
  from assms obtain fp j seq' where e: "observe_episode L (ev_AuthorityScope ev) (ev_Coverage ev) (seq + of_nat j) old ob fp = Inr (seq', Some m, d)"
    and j: "j + (if minting (dec_Action d) then 1 else 0) \<le> n"
    by (auto simp: observed_as_def)
  from observe_occurrence [OF e] j show ?thesis
    by (auto split: if_splits simp del: append.simps intro: exI [of _ j])
qed

lemma observations_functional:
  assumes ap: "applyAlertEpisodeEvaluation L base ev lim = Inr (next, decs)" and wf: "registry_wf base"
  shows "distinct_by obs_EpisodeKey (elems (ev_Observations ev))"
proof -
  from wf have d: "distinct_by sd_AuthorityScope (elems (doc_Scopes base))"
    "distinct_by rec_EpisodeKey (scope_episodes (scope_before base (ev_AuthorityScope ev)))"
    by (auto simp: registry_wf_def intro: scope_before_distinct)
  from apply_effect [OF ap d(1)] obtain sd' where e: "evaluate_scope L (doc_NextOccurrenceSequence base)
      (scope_before base (ev_AuthorityScope ev)) ev lim = Inr (doc_NextOccurrenceSequence next, sd', decs)" by metis
  from evaluate_scope_effect [OF e d(2)] obtain st where
    "observe_all L ev \<lparr>as_seq = doc_NextOccurrenceSequence base, as_episodes = map reset_emit (scope_episodes (scope_before base (ev_AuthorityScope ev))),
       as_seen = [], as_decisions = []\<rparr> (sort_key obs_EpisodeKey (elems (ev_Observations ev))) = Inr st" by metis
  from observe_all_keys [OF this] d(2) have "distinct_by obs_EpisodeKey (sort_key obs_EpisodeKey (elems (ev_Observations ev)))"
    by (simp add: distinct_by_def comp_def)
  then show ?thesis by simp
qed

lemma retained_active_observation:
  assumes ap: "applyAlertEpisodeEvaluation L base ev lim = Inr (next, decs)" and wf: "registry_wf base"
    and ob: "ob \<in> set (elems (ev_Observations ev))" and act: "obs_Active ob"
  shows "\<exists>sd' r'. findAlertEpisodeScope (elems (doc_Scopes next)) (ev_AuthorityScope ev) = Some sd' \<and>
    r' \<in> set (scope_episodes sd') \<and> rec_EpisodeKey r' = obs_EpisodeKey ob \<and> rec_State r' \<noteq> AlertEpisodeRecovered \<and>
    rec_LastSourceObservedAt r' = obs_ObservedAt ob \<and>
    (obs_EscalationFingerprint ob = [] \<or> rec_LastEscalationFingerprint r' = obs_EscalationFingerprint ob)"
proof -
  let ?b = "scope_episodes (scope_before base (ev_AuthorityScope ev))"
  from apply_episodes [OF ap wf] ob obtain sd' mid seen d where
    f: "findAlertEpisodeScope (elems (doc_Scopes next)) (ev_AuthorityScope ev) = Some sd'"
    and es: "set (scope_episodes sd') = set (trimInactiveAlertEpisodes (map (omission_record ev seen) mid) lim)"
    and seen: "set seen = obs_EpisodeKey ` set (elems (ev_Observations ev))"
    and oa: "observed_as L ev (doc_NextOccurrenceSequence base) (minted decs) ob
       (map_option reset_emit (episode_of ?b (obs_EpisodeKey ob))) (episode_of mid (obs_EpisodeKey ob)) d" by metis
  have "\<forall>r. map_option reset_emit (episode_of ?b (obs_EpisodeKey ob)) = Some r \<longrightarrow> rec_EpisodeKey r = obs_EpisodeKey ob"
    by (auto dest: lookup_by_SomeD)
  from observed_as_active [OF oa act this] obtain m where m: "episode_of mid (obs_EpisodeKey ob) = Some m"
    "rec_EpisodeKey m = obs_EpisodeKey ob" "rec_State m \<noteq> AlertEpisodeRecovered" "rec_LastSourceObservedAt m = obs_ObservedAt ob"
    "obs_EscalationFingerprint ob = [] \<or> rec_LastEscalationFingerprint m = obs_EscalationFingerprint ob" by metis
  have "omission_record ev seen m = m" using m(2) ob seen by (simp add: observed_not_omitted)
  moreover have "m \<in> set mid" using m(1) by (blast dest: lookup_by_SomeD)
  ultimately have "m \<in> set (scope_episodes sd')" using evaluate_keeps_unrecovered [OF es] m(3) by metis
  with f m show ?thesis by blast
qed

lemma trim_active_order:
  "filter (\<lambda>r. \<not> is_recovered r) (trimInactiveAlertEpisodes es lim) = filter (\<lambda>r. \<not> is_recovered r) es"
proof -
  obtain keep where k: "trimInactiveAlertEpisodes es lim = map snd (filter (\<lambda>(i, r). keep i) (enumerate 0 es))"
    "\<And>i. i < length es \<Longrightarrow> \<not> is_recovered (es ! i) \<Longrightarrow> keep i"
    using trim_filter by metis
  have "filter (\<lambda>r. \<not> is_recovered r) (trimInactiveAlertEpisodes es lim) =
      map snd (filter (\<lambda>(i, r). \<not> is_recovered r) (enumerate 0 es))"
    unfolding k(1) filter_map_snd filter_filter
    by (intro arg_cong [of _ _ "map snd"] filter_cong refl) (use k(2) in \<open>auto simp: in_set_enumerate_eq\<close>)
  then show ?thesis by (simp only: filter_enumerate_snd)
qed

lemma sorted_take_drop:
  "sorted (map f xs) \<Longrightarrow> \<forall>x\<in>set (take n xs). \<forall>y\<in>set (drop n xs). f x \<le> f y"
proof -
  assume "sorted (map f xs)"
  then have "sorted (map f (take n xs) @ map f (drop n xs))" by (metis append_take_drop_id map_append)
  then show ?thesis by (auto simp: sorted_append)
qed

lemma replay_quiet:
  assumes a1: "applyAlertEpisodeEvaluation L base ev lim = Inr (next, decs)" and wf: "registry_wf base"
    and a2: "applyAlertEpisodeEvaluation L next ev lim = Inr (next2, decs2)"
  shows "doc_NextOccurrenceSequence next2 = doc_NextOccurrenceSequence next \<and> minted decs2 = 0"
proof -
  from wf have "distinct_by sd_AuthorityScope (elems (doc_Scopes base))" by (simp add: registry_wf_def)
  from apply_effect [OF a1 this] have wf1: "registry_wf next" by (metis registry_wf_validated)
  let ?sd = "scope_before next (ev_AuthorityScope ev)"
  from wf1 have d: "distinct_by sd_AuthorityScope (elems (doc_Scopes next))" "distinct_by rec_EpisodeKey (scope_episodes ?sd)"
    by (auto simp: registry_wf_def intro: scope_before_distinct)
  from apply_effect [OF a2 d(1)] obtain sd2 where e: "evaluate_scope L (doc_NextOccurrenceSequence next) ?sd ev lim =
      Inr (doc_NextOccurrenceSequence next2, sd2, decs2)" by metis
  let ?st0 = "\<lparr>as_seq = doc_NextOccurrenceSequence next, as_episodes = map reset_emit (scope_episodes ?sd), as_seen = [], as_decisions = []\<rparr>"
  from evaluate_scope_effect [OF e d(2)] obtain st where
    o: "observe_all L ev ?st0 (sort_key obs_EpisodeKey (elems (ev_Observations ev))) = Inr st"
    and seq: "doc_NextOccurrenceSequence next2 = doc_NextOccurrenceSequence next + of_nat (minted decs2)"
    and mint: "minted (as_decisions st) = minted decs2" by metis
  have d0: "distinct_by rec_EpisodeKey (as_episodes ?st0)" using d(2) by (simp add: distinct_by_def comp_def)
  have "\<not> rotates (episode_of (as_episodes ?st0) (obs_EpisodeKey ob)) ob"
    if "ob \<in> set (sort_key obs_EpisodeKey (elems (ev_Observations ev)))" for ob
  proof (cases "obs_Active ob")
    case True
    from that have "ob \<in> set (elems (ev_Observations ev))" by simp
    from retained_active_observation [OF a1 wf this True] obtain sd' r' where
      f: "findAlertEpisodeScope (elems (doc_Scopes next)) (ev_AuthorityScope ev) = Some sd'" "r' \<in> set (scope_episodes sd')"
      and r': "rec_EpisodeKey r' = obs_EpisodeKey ob" "rec_State r' \<noteq> AlertEpisodeRecovered"
        "obs_EscalationFingerprint ob = [] \<or> rec_LastEscalationFingerprint r' = obs_EscalationFingerprint ob" by blast
    from f r'(1) d(2) have "episode_of (scope_episodes ?sd) (obs_EpisodeKey ob) = Some r'" by (simp add: lookup_by_Some_iff)
    with r' show ?thesis by (auto simp: rotates_def)
  qed (simp add: rotates_def)
  then have quiet: "minted (as_decisions st) = 0" using observe_all_quiet [OF o d0] by simp
  with mint seq show ?thesis by simp
qed

subsection \<open>A concrete run\<close>

text \<open>One source, one episode: an evaluation opens it in an empty registry, a later one recovers it.\<close>

definition demo_fp :: string where
  "demo_fp = ''sha256:'' @ replicate 64 CHR ''0''"

definition demo_coverage :: "gotime \<Rightarrow> AlertCoverage" where
  "demo_coverage t = \<lparr>cov_State = AlertCoverageComplete, cov_Freshness = AlertCoverageCurrent, cov_AsOf = t,
     cov_ExpectedSources = Slice [AlertSourceRegime], cov_CoveredSources = Slice [AlertSourceRegime]\<rparr>"

definition demo_observation :: "bool \<Rightarrow> gotime \<Rightarrow> alertEpisodeObservation" where
  "demo_observation active t = \<lparr>obs_EpisodeKey = demo_episode_key, obs_Source = AlertSourceRegime, obs_Kind = AlertKindMarketState,
     obs_PresentationCode = AlertPresentationRegimeMarketStress, obs_Active = active, obs_EscalationFingerprint = [],
     obs_Severity = AlertSeverityWatch, obs_EvidenceFingerprint = demo_fp, obs_EvidenceHealth = AlertEvidenceCurrent,
     obs_Destination = AlertDestinationAlerts, obs_EvidenceAsOf = t, obs_ObservedAt = t, obs_PolicyFingerprint = demo_fp,
     obs_ProducerDecisionReason = ''regime_active''\<rparr>"

definition demo_evaluation :: "gotime \<Rightarrow> alertEpisodeObservation list \<Rightarrow> alertEpisodeEvaluation" where
  "demo_evaluation t obs = \<lparr>ev_AuthorityScope = demo_scope, ev_AsOf = t, ev_Coverage = demo_coverage t,
     ev_Observations = Slice obs, ev_OpportunitySources = NilSlice, ev_SourceStates = Slice [], ev_CursorKind = [],
     ev_Cursor = zero_cursor, ev_PendingApplyFailures = 0\<rparr>"

definition demo_open_ev :: alertEpisodeEvaluation where
  "demo_open_ev = demo_evaluation (Instant 100) [demo_observation True (Instant 90)]"

definition demo_close_ev :: alertEpisodeEvaluation where
  "demo_close_ev = demo_evaluation (Instant 200) [demo_observation False (Instant 190)]"

lemma not_isl_projr: "\<not> isl x \<Longrightarrow> x = Inr (fst (projr x), snd (projr x))"
  by (cases x) simp_all

definition demo_record :: "bool \<Rightarrow> gotime \<Rightarrow> alertEpisodeRegistryRecord" where
  "demo_record active t = \<lparr>rec_AuthorityScope = demo_scope, rec_EpisodeKey = demo_episode_key,
     rec_OccurrenceKey = ''alert-occurrence-v1:1ecee000000000000000000000000000000000000000000000000000aeede1ee'',
     rec_Source = AlertSourceRegime, rec_Kind = AlertKindMarketState,
     rec_PresentationCode = AlertPresentationRegimeMarketStress,
     rec_State = (if active then AlertEpisodeOpen else AlertEpisodeRecovered),
     rec_Severity = AlertSeverityWatch, rec_EvidenceFingerprint = demo_fp, rec_EvidenceHealth = AlertEvidenceCurrent,
     rec_Destination = AlertDestinationAlerts, rec_EvidenceAsOf = t, rec_StateChangedAt = t, rec_ObservedAt = t,
     rec_PolicyFingerprint = demo_fp, rec_ProducerDecisionReason = ''regime_active'',
     rec_RegistryDecisionReason = (if active then alertDecisionReasonPositive else alertDecisionReasonAuthoritativeNegative),
     rec_LastSourceObservedAt = t,
     rec_LastObservationFingerprint = projr (alertEpisodeObservationFingerprint demo_lib (demo_observation active t)),
     rec_LastEscalationFingerprint = [], rec_EmitRecovered = (\<not> active)\<rparr>"

definition demo_metrics :: "gotime \<Rightarrow> 64 word \<Rightarrow> alertShadowDurableMetrics" where
  "demo_metrics t n = \<lparr>mt_AsOf = t, mt_Evaluations = n, mt_RegistryApplyFailures = 0, mt_Equivocations = 0, mt_LastErrorCode = [],
     mt_Sources = Slice (map (\<lambda>src. \<lparr>row_Source = src, row_Measurements =
       (if src = AlertSourceRegime
        then zero_source_metrics\<lparr>sm_Evaluations := n, sm_CoveredEvaluations := n, sm_ActiveEvaluations := 1,
               sm_ActiveObservations := 1, sm_EpisodesOpened := 1, sm_EpisodesRecovered := n - 1\<rparr>
        else zero_source_metrics)\<rparr>) alertShadowExpectedSources)\<rparr>"

definition demo_sd :: "bool \<Rightarrow> alertEpisodeRegistryScopeDocument" where
  "demo_sd active = (let t = Instant (if active then 100 else 200) in
     \<lparr>sd_AuthorityScope = demo_scope, sd_AsOf = t, sd_Coverage = demo_coverage t, sd_SourceStates = Slice [],
      sd_Cursors = zero_cursors, sd_Metrics = demo_metrics t (if active then 1 else 2),
      sd_Episodes = Slice [demo_record active (Instant (if active then 90 else 190))]\<rparr>)"

definition demo_doc :: "bool \<Rightarrow> alertEpisodeRegistryDocument" where
  "demo_doc active = \<lparr>doc_Version = alertEpisodeRegistryDocumentVersion,
     doc_UpdatedAt = Instant (if active then 100 else 200), doc_NextOccurrenceSequence = 1,
     doc_Scopes = Slice [demo_sd active], doc_LegacyUnscoped = None\<rparr>"

definition demo_decisions :: "bool \<Rightarrow> alertEpisodeDecision list" where
  "demo_decisions active =
     (if active then [decisionFromAlertRecord (demo_record True (Instant 90)) no_state alertDecisionOpened]
      else [decisionFromAlertRecord (demo_record False (Instant 190)) AlertEpisodeOpen alertDecisionRecovered])"

lemma demo_open_applies: "applyAlertEpisodeEvaluation demo_lib empty_registry demo_open_ev 256 = Inr (demo_doc True, demo_decisions True)"
  by code_simp

lemma demo_close_applies: "applyAlertEpisodeEvaluation demo_lib (demo_doc True) demo_close_ev 256 = Inr (demo_doc False, demo_decisions False)"
  by code_simp

lemma demo_empty_wf: "registry_wf empty_registry"
  by (simp add: registry_wf_def empty_registry_def distinct_by_def)

lemma demo_doc_wf: "registry_wf (demo_doc b)"
  by (simp add: registry_wf_def demo_doc_def demo_sd_def distinct_by_def Let_def)

lemma demo_scope_simps [simp]:
  "ev_AuthorityScope demo_open_ev = demo_scope" "ev_AuthorityScope demo_close_ev = demo_scope"
  "ev_AsOf demo_close_ev = Instant 200" "elems (ev_Observations demo_open_ev) = [demo_observation True (Instant 90)]"
  "elems (ev_Observations demo_close_ev) = [demo_observation False (Instant 190)]"
  "findAlertEpisodeScope (elems (doc_Scopes (demo_doc b))) demo_scope = Some (demo_sd b)"
  "scope_episodes (demo_sd b) = [demo_record b (Instant (if b then 90 else 190))]"
  by (simp_all add: demo_open_ev_def demo_close_ev_def demo_evaluation_def demo_doc_def demo_sd_def findAlertEpisodeScope_def Let_def)

subsection \<open>Properties\<close>







text \<open>C25. The occurrence sequence is an exact count: it advances by the number of opened, reopened
  and escalated decisions of the evaluation (modulo the 64-bit counter), so no two occurrences
  are built from the same number.\<close>

theorem sequence_counts_new_occurrences:
  assumes ap: "applyAlertEpisodeEvaluation L base ev lim = Inr (next, decs)" and wf: "registry_wf base"
  shows "doc_NextOccurrenceSequence next = doc_NextOccurrenceSequence base + of_nat (minted decs)"
  by (rule apply_episodes [OF ap wf])

theorem sequence_counts_new_occurrences_witness:
  "doc_NextOccurrenceSequence (demo_doc True) = doc_NextOccurrenceSequence empty_registry + 1"
proof -
  have "minted (demo_decisions True) = 1" by (simp add: demo_decisions_def minting_def)
  with sequence_counts_new_occurrences [OF demo_open_applies demo_empty_wf] show ?thesis by simp
qed

text \<open>An evaluation is confined to its authority scope: the stored document of every other
  scope is a copy of what it was, whether present or absent.\<close>

theorem other_scopes_untouched:
  assumes ap: "applyAlertEpisodeEvaluation L base ev lim = Inr (next, decs)" and wf: "registry_wf base"
    and k: "k \<noteq> ev_AuthorityScope ev"
  shows "findAlertEpisodeScope (elems (doc_Scopes next)) k =
    map_option cloneAlertEpisodeScopeDocument (findAlertEpisodeScope (elems (doc_Scopes base)) k)"
proof -
  from wf have "distinct_by sd_AuthorityScope (elems (doc_Scopes base))" by (simp add: registry_wf_def)
  from apply_effect [OF ap this] k show ?thesis by metis
qed

theorem other_scopes_untouched_witness:
  "findAlertEpisodeScope (elems (doc_Scopes (demo_doc True))) ''other'' =
    map_option cloneAlertEpisodeScopeDocument (findAlertEpisodeScope (elems (doc_Scopes empty_registry)) ''other'')"
proof -
  have "''other'' \<noteq> ev_AuthorityScope demo_open_ev" by (simp add: demo_scope_def alertAuthorityScopePrefix_def)
  from other_scopes_untouched [OF demo_open_applies demo_empty_wf this] show ?thesis .
qed

text \<open>Time never runs backwards: a scope's boundary after a successful evaluation is the
  evaluation's and is not before the one it had, the document's update time never decreases,
  and an evaluation older than the scope is refused.\<close>

theorem evaluation_time_monotone:
  assumes wf: "registry_wf base"
    and sd: "findAlertEpisodeScope (elems (doc_Scopes base)) (ev_AuthorityScope ev) = Some sd" and nz: "\<not> IsZero (sd_AsOf sd)"
  shows "case applyAlertEpisodeEvaluation L base ev lim of
      Inl e \<Rightarrow> ev_AsOf ev < sd_AsOf sd \<longrightarrow> e = New ''alert episode evaluation moves scoped as_of backwards''
    | Inr (next, decs) \<Rightarrow> sd_AsOf sd \<le> ev_AsOf ev \<and>
        map_option sd_AsOf (findAlertEpisodeScope (elems (doc_Scopes next)) (ev_AuthorityScope ev)) = Some (ev_AsOf ev) \<and>
        (IsZero (doc_UpdatedAt base) \<or> doc_UpdatedAt base \<le> doc_UpdatedAt next)"
proof (cases "applyAlertEpisodeEvaluation L base ev lim")
  case (Inl e)
  let ?k = "ev_AuthorityScope ev" and ?cl = "map cloneAlertEpisodeScopeDocument (elems (doc_Scopes base))"
  have "e = New ''alert episode evaluation moves scoped as_of backwards''" if "ev_AsOf ev < sd_AsOf sd"
  proof -
    obtain scopes i where loc: "locate_scope ?k (fresh_scope ?k) ?cl = (scopes, i)" by fastforce
    have "distinct_by sd_AuthorityScope ?cl" using wf by (simp add: registry_wf_def distinct_by_def comp_def)
    from locate_scope_effect(2) [OF loc this] sd have "scopes ! i = cloneAlertEpisodeScopeDocument sd"
      by (simp add: findAlertEpisodeScope_lookup fresh_scope_def)
    with Inl loc nz that show ?thesis by (simp add: applyAlertEpisodeEvaluation_def Let_def)
  qed
  with Inl show ?thesis by simp
next
  case (Inr p)
  obtain nx decs where p: "p = (nx, decs)" by fastforce
  with Inr have ap: "applyAlertEpisodeEvaluation L base ev lim = Inr (nx, decs)" by simp
  from wf have d: "distinct_by sd_AuthorityScope (elems (doc_Scopes base))" by (simp add: registry_wf_def)
  have "sd_AsOf sd \<le> ev_AsOf ev \<and> (IsZero (doc_UpdatedAt base) \<or> doc_UpdatedAt base \<le> doc_UpdatedAt nx)"
    by (rule apply_effect [OF ap d]) (use sd nz in \<open>auto simp: not_less\<close>)
  moreover have "map_option sd_AsOf (findAlertEpisodeScope (elems (doc_Scopes nx)) (ev_AuthorityScope ev)) = Some (ev_AsOf ev)"
    by (rule apply_episodes [OF ap wf]) simp
  ultimately show ?thesis using Inr p by simp
qed

theorem evaluation_time_monotone_witness:
  "sd_AsOf (demo_sd True) \<le> Instant 200 \<and>
   map_option sd_AsOf (findAlertEpisodeScope (elems (doc_Scopes (demo_doc False))) demo_scope) = Some (Instant 200)"
proof -
  have "findAlertEpisodeScope (elems (doc_Scopes (demo_doc True))) (ev_AuthorityScope demo_close_ev) = Some (demo_sd True)"
    and "\<not> IsZero (sd_AsOf (demo_sd True))" by (simp_all add: demo_sd_def Let_def IsZero_def zero_time_def)
  from evaluation_time_monotone [OF demo_doc_wf this, of demo_lib 256, unfolded demo_close_applies] show ?thesis
    by (simp only: sum.case prod.case demo_scope_simps)
qed

text \<open>The storage bound only touches recovered history: trimming keeps every active episode and
  invents none, leaves at most the limit of recovered ones (all of them when they fit), and every
  recovered episode it drops is at least as old, by observation time and then key, as every one
  it keeps.\<close>

theorem trim_drops_oldest_recovered:
  "set (trimInactiveAlertEpisodes es lim) \<subseteq> set es \<and>
   filter (\<lambda>r. \<not> is_recovered r) (trimInactiveAlertEpisodes es lim) = filter (\<lambda>r. \<not> is_recovered r) es \<and>
   length (filter is_recovered (trimInactiveAlertEpisodes es lim)) = min lim (length (filter is_recovered es)) \<and>
   (\<forall>r\<in>set es. \<forall>q\<in>set (trimInactiveAlertEpisodes es lim). r \<notin> set (trimInactiveAlertEpisodes es lim) \<longrightarrow>
      is_recovered r \<and> (is_recovered q \<longrightarrow> (rec_ObservedAt r, rec_EpisodeKey r) \<le> (rec_ObservedAt q, rec_EpisodeKey q)))"
proof (cases "lim < length (filter is_recovered es)")
  case False
  have "length (filter (\<lambda>(i, r). is_recovered r) (enumerate 0 es)) = length (filter is_recovered es)"
    by (metis filter_enumerate_snd length_map)
  with False have "trimInactiveAlertEpisodes es lim = es"
    unfolding trimInactiveAlertEpisodes_def Let_def by simp
  with False show ?thesis by simp
next
  case True
  let ?t = "trimInactiveAlertEpisodes es lim"
  from trim_recovered [OF True] obtain ord where o: "mset ord = mset (filter is_recovered es)"
    "sorted (map (\<lambda>r. (rec_ObservedAt r, rec_EpisodeKey r)) ord)"
    "mset (filter is_recovered ?t) = mset (drop (length ord - lim) ord)" by metis
  have len: "length ord = length (filter is_recovered es)" using o(1) by (metis size_mset)
  have "length (filter is_recovered ?t) = lim"
    using o(3) len True by (metis size_mset length_drop diff_diff_cancel less_imp_le_nat)
  moreover have "is_recovered r \<and> (is_recovered q \<longrightarrow> (rec_ObservedAt r, rec_EpisodeKey r) \<le> (rec_ObservedAt q, rec_EpisodeKey q))"
    if "r \<in> set es" "q \<in> set ?t" "r \<notin> set ?t" for r q
  proof -
    from that trim_keeps_active have rec: "is_recovered r" by blast
    have so: "set ord = set (filter is_recovered es)" "set (drop (length ord - lim) ord) = set (filter is_recovered ?t)"
      using o(1,3) by (metis set_mset_mset)+
    with that(1) rec have "r \<in> set ord" by simp
    moreover have "r \<notin> set (drop (length ord - lim) ord)" using that(3) so(2) by simp
    ultimately have "r \<in> set (take (length ord - lim) ord)" by (metis Un_iff append_take_drop_id set_append)
    moreover have "is_recovered q \<Longrightarrow> q \<in> set (drop (length ord - lim) ord)"
      using that(2) so(2) by simp
    moreover have "\<forall>x\<in>set (take (length ord - lim) ord). \<forall>y\<in>set (drop (length ord - lim) ord).
        (rec_ObservedAt x, rec_EpisodeKey x) \<le> (rec_ObservedAt y, rec_EpisodeKey y)"
      using sorted_take_drop [OF o(2)] by blast
    ultimately show ?thesis using rec by blast
  qed
  ultimately show ?thesis
    using True trim_subset trim_active_order by (auto simp: min_def)
qed

theorem trim_drops_oldest_recovered_witness:
  "length (filter is_recovered (trimInactiveAlertEpisodes (scope_episodes (demo_sd False)) 0)) = 0"
proof -
  have "min 0 (length (filter is_recovered (scope_episodes (demo_sd False)))) = 0" by simp
  with trim_drops_oldest_recovered [of "scope_episodes (demo_sd False)" 0] show ?thesis by metis
qed

text \<open>Replaying an evaluation mints nothing: applying the same evaluation again to the document
  it produced leaves the occurrence sequence where it was.\<close>

theorem replay_mints_nothing:
  assumes a1: "applyAlertEpisodeEvaluation L base ev lim = Inr (next, decs)" and wf: "registry_wf base"
    and a2: "applyAlertEpisodeEvaluation L next ev lim = Inr (next2, decs2)"
  shows "doc_NextOccurrenceSequence next2 = doc_NextOccurrenceSequence next \<and> minted decs2 = 0"
  by (rule replay_quiet [OF assms])

theorem replay_mints_nothing_witness:
  "doc_NextOccurrenceSequence (fst (projr (applyAlertEpisodeEvaluation demo_lib (demo_doc True) demo_open_ev 256))) =
     doc_NextOccurrenceSequence (demo_doc True)"
proof -
  have "\<not> isl (applyAlertEpisodeEvaluation demo_lib (demo_doc True) demo_open_ev 256)" by code_simp
  from replay_mints_nothing [OF demo_open_applies demo_empty_wf not_isl_projr [OF this]] show ?thesis by blast
qed

end
