(* ===== verification/Alert_Registry_Snapshot.thy ===== *)
theory Alert_Registry_Snapshot
  imports Alert_Registry
begin

text \<open>
  The wire view of one scope of the producer registry: \<^verbatim>\<open>alertEpisodeSnapshot\<close> of
  \<^verbatim>\<open>src/internal/daemon/alert_episode_registry.go\<close> with the two projections it computes at read time,
  per-source freshness (\<^verbatim>\<open>projectAlertEpisodeCoverage\<close>, \<^verbatim>\<open>projectAlertSourceCoverage\<close>) and the unavailable
  view of a scope whose boundary lies in the future. Sets of stale sources are lists.
  The lemmas show that no active episode is hidden, that a scope from the future never reads as
  clear, what a clear read-out implies about every expected source, and that a coherent scope
  always has a valid snapshot.
\<close>

subsection \<open>Projections\<close>

definition source_state_of :: "alertEpisodeRegistrySourceState list \<Rightarrow> AlertSource \<Rightarrow> alertEpisodeRegistrySourceState option" where
  "source_state_of states source = map_of (rev (map (\<lambda>st. (ss_Source st, st)) states)) source"

definition covered_now :: "alertEpisodeRegistrySourceState list \<Rightarrow> AlertSource \<Rightarrow> bool" where
  "covered_now states source = (case source_state_of states source of None \<Rightarrow> False | Some st \<Rightarrow> ss_Covered st)"

definition expired_now :: "alertEpisodeRegistrySourceState list \<Rightarrow> gotime \<Rightarrow> AlertSource \<Rightarrow> bool" where
  "expired_now states now source = (case source_state_of states source of None \<Rightarrow> False
     | Some st \<Rightarrow> \<not> IsZero (ss_FreshUntil st) \<and> now > ss_FreshUntil st)"

definition projectAlertEpisodeCoverage :: "alertEpisodeRegistryScopeDocument \<Rightarrow> gotime \<Rightarrow> AlertCoverage \<times> AlertSource list" where
  "projectAlertEpisodeCoverage sd now =
     (let states = elems (sd_SourceStates sd); expected = expected_sources (sd_Coverage sd) in
      if states = [] then ((cloneAlertCoverage (sd_Coverage sd))\<lparr>cov_AsOf := now\<rparr>, [])
      else
        let covered = filter (covered_now states) expected;
            stale = filter (expired_now states now) covered
        in (\<lparr>cov_State = (if covered = [] then AlertCoverageUnavailable
               else if length covered = length expected then AlertCoverageComplete else AlertCoveragePartial),
             cov_Freshness = (if covered = [] then AlertCoverageUnknown
               else if stale \<noteq> [] then AlertCoverageStale else AlertCoverageCurrent),
             cov_AsOf = now, cov_ExpectedSources = Slice expected, cov_CoveredSources = Slice covered\<rparr>, stale))"

definition project_source_row :: "alertEpisodeRegistryScopeDocument \<Rightarrow> AlertCoverage \<Rightarrow> AlertSource list \<Rightarrow> gotime \<Rightarrow> AlertSource \<Rightarrow> AlertSourceCoverage" where
  "project_source_row sd coverage stale now source =
     (case source_state_of (elems (sd_SourceStates sd)) source of
        None \<Rightarrow>
          if alertCoverageContains (covered_sources coverage) source then
            \<lparr>asc_Source = source, asc_Status = alertShadowStatusCurrent, asc_Reason = alertShadowReasonCurrent,
             asc_EvidenceHealth = AlertEvidenceCurrent, asc_InputAsOf = sd_AsOf sd, asc_ObservedAt = sd_AsOf sd,
             asc_EvidenceAsOf = sd_AsOf sd, asc_FreshUntil = now, asc_Covered = True\<rparr>
          else
            \<lparr>asc_Source = source, asc_Status = alertShadowStatusNotObserved, asc_Reason = alertShadowReasonNotObserved,
             asc_EvidenceHealth = AlertEvidenceUnavailable, asc_InputAsOf = zero_time, asc_ObservedAt = zero_time,
             asc_EvidenceAsOf = zero_time, asc_FreshUntil = zero_time, asc_Covered = False\<rparr>
      | Some st \<Rightarrow>
          let row = \<lparr>asc_Source = ss_Source st, asc_Status = ss_Status st, asc_Reason = ss_Reason st,
                asc_EvidenceHealth = ss_EvidenceHealth st, asc_InputAsOf = ss_InputAsOf st, asc_ObservedAt = ss_ObservedAt st,
                asc_EvidenceAsOf = ss_EvidenceAsOf st, asc_FreshUntil = ss_FreshUntil st, asc_Covered = ss_Covered st\<rparr>
          in if source \<in> set stale then
               row\<lparr>asc_Status := alertShadowStatusStale, asc_Reason := alertShadowReasonProducerSilent,
                   asc_EvidenceHealth := (if asc_EvidenceHealth row \<noteq> AlertEvidenceError then AlertEvidenceStale else asc_EvidenceHealth row)\<rparr>
             else row)"

definition projectAlertSourceCoverage :: "alertEpisodeRegistryScopeDocument \<Rightarrow> AlertCoverage \<Rightarrow> AlertSource list \<Rightarrow> gotime \<Rightarrow> AlertSourceCoverage list" where
  "projectAlertSourceCoverage sd coverage stale now =
     sort_key (\<lambda>row. AlertSource_wire (asc_Source row)) (map (project_source_row sd coverage stale now) (expected_sources coverage))"

definition unavailableAlertSourceCoverage :: "AlertSource list \<Rightarrow> AlertSourceCoverage list" where
  "unavailableAlertSourceCoverage expected = sort_key (\<lambda>row. AlertSource_wire (asc_Source row))
     (map (\<lambda>source. \<lparr>asc_Source = source, asc_Status = alertShadowStatusUnavailable, asc_Reason = alertShadowReasonSourceTimeInvalid,
        asc_EvidenceHealth = AlertEvidenceUnavailable, asc_InputAsOf = zero_time, asc_ObservedAt = zero_time,
        asc_EvidenceAsOf = zero_time, asc_FreshUntil = zero_time, asc_Covered = False\<rparr>) expected)"

subsection \<open>The snapshot\<close>

text \<open>The candidate a record contributes, if any.\<close>

definition record_candidate :: "AlertSource list \<Rightarrow> alertEpisodeRegistryRecord \<Rightarrow> AlertCandidate option" where
  "record_candidate stale r =
     (if rec_State r = AlertEpisodeRecovered \<and> \<not> rec_EmitRecovered r then None
      else
        let c = alertCandidateFromRecord r in
        if ac_Source c \<in> set stale then
          if ac_State c = AlertEpisodeRecovered then None
          else Some (if ac_EvidenceHealth c \<noteq> AlertEvidenceError then c\<lparr>ac_EvidenceHealth := AlertEvidenceStale\<rparr> else c)
        else Some c)"

definition snapshot_view :: "alertEpisodeRegistryScopeDocument \<Rightarrow> gotime \<Rightarrow> AlertCoverage \<times> AlertSource list \<times> AlertSourceCoverage list" where
  "snapshot_view sd now =
     (let (coverage, stale) = projectAlertEpisodeCoverage sd now in (coverage, stale, projectAlertSourceCoverage sd coverage stale now))"

definition future_view :: "alertEpisodeRegistryScopeDocument \<Rightarrow> gotime \<Rightarrow> AlertCoverage \<times> AlertSource list \<times> AlertSourceCoverage list" where
  "future_view sd now =
     (let expected = expected_sources (sd_Coverage sd) in
      (\<lparr>cov_State = AlertCoverageUnavailable, cov_Freshness = AlertCoverageUnknown, cov_AsOf = now,
        cov_ExpectedSources = (if expected = [] then NilSlice else Slice expected), cov_CoveredSources = Slice []\<rparr>,
       expected, unavailableAlertSourceCoverage expected))"

definition build_snapshot :: "alertEpisodeRegistryScopeDocument \<Rightarrow> gotime \<Rightarrow> AlertCoverage \<times> AlertSource list \<times> AlertSourceCoverage list \<Rightarrow> AlertCandidateSnapshot" where
  "build_snapshot sd now view =
     (case view of (coverage, stale, sources) \<Rightarrow>
        let candidates = sort_key (\<lambda>c. (AlertSource_wire (ac_Source c), AlertKind_wire (ac_Kind c), ac_EpisodeKey c))
              (List.map_filter (record_candidate stale) (elems (sd_Episodes sd)));
            active = (\<exists>c\<in>set candidates. ac_State c = AlertEpisodeOpen \<or> ac_State c = AlertEpisodeEscalated);
            state = (if active then AlertSnapshotActive
                     else if cov_State coverage = AlertCoverageComplete \<and> cov_Freshness coverage = AlertCoverageCurrent then AlertSnapshotClear
                     else AlertSnapshotUnknown)
        in \<lparr>snap_SchemaVersion = AlertCandidateSnapshotVersion, snap_AuthorityScope = sd_AuthorityScope sd, snap_AsOf = now,
            snap_CurrentState = state, snap_Coverage = coverage, snap_Sources = Slice sources, snap_Candidates = Slice candidates\<rparr>)"

definition alertEpisodeSnapshot :: "alertEpisodeRegistryScopeDocument \<Rightarrow> gotime \<Rightarrow> AlertCandidateSnapshot result" where
  "alertEpisodeSnapshot sd now0 =
     (let clockInvalid = now0 < sd_AsOf sd;
          now = (if clockInvalid then sd_AsOf sd else now0);
          snapshot = build_snapshot sd now (if clockInvalid then future_view sd now else snapshot_view sd now)
      in case AlertCandidateSnapshot_Validate snapshot of
           Some e \<Rightarrow> Inl (Wrap ''validate alert episode snapshot'' e)
         | None \<Rightarrow> Inr snapshot)"

subsection \<open>Lemmas\<close>

lemma snapshot_state_derived:
  "snap_CurrentState (build_snapshot sd now (cov, stale, rows)) =
     derived_snapshot_state (elems (snap_Candidates (build_snapshot sd now (cov, stale, rows)))) cov"
  by (simp add: build_snapshot_def Let_def derived_snapshot_state_def candidate_active_def)

lemma candidate_from_record_simps [simp, field_simps_canary]:
  "ac_EpisodeKey (alertCandidateFromRecord r) = rec_EpisodeKey r"
  "ac_OccurrenceKey (alertCandidateFromRecord r) = rec_OccurrenceKey r"
  "ac_State (alertCandidateFromRecord r) = rec_State r"
  "ac_Source (alertCandidateFromRecord r) = rec_Source r"
  "ac_EvidenceHealth (alertCandidateFromRecord r) = rec_EvidenceHealth r"
  "ac_ObservedAt (alertCandidateFromRecord r) = rec_ObservedAt r"
  by (simp_all add: alertCandidateFromRecord_def)

lemma snapshot_candidates_set:
  "set (elems (snap_Candidates (build_snapshot sd now (cov, stale, rows)))) =
     {c. \<exists>r\<in>set (elems (sd_Episodes sd)). record_candidate stale r = Some c}"
  by (force simp: build_snapshot_def Let_def List.map_filter_def)

lemma record_candidate_Some:
  "record_candidate stale r = Some c \<Longrightarrow> ac_EpisodeKey c = rec_EpisodeKey r \<and> ac_OccurrenceKey c = rec_OccurrenceKey r \<and>
     ac_State c = rec_State r \<and> ac_Source c = rec_Source r \<and> ac_ObservedAt c = rec_ObservedAt r \<and>
     (ac_Source c \<in> set stale \<longrightarrow> ac_State c \<noteq> AlertEpisodeRecovered \<and> ac_EvidenceHealth c \<in> {AlertEvidenceStale, AlertEvidenceError}) \<and>
     (ac_Source c \<notin> set stale \<longrightarrow> c = alertCandidateFromRecord r)"
  by (auto simp: record_candidate_def Let_def split: if_splits)

lemma record_candidate_active:
  "rec_State r \<noteq> AlertEpisodeRecovered \<Longrightarrow> \<exists>c. record_candidate stale r = Some c"
  by (auto simp: record_candidate_def Let_def)

lemma snapshot_Inr:
  assumes "alertEpisodeSnapshot sd now = Inr s"
  obtains cov stale rows where "s = build_snapshot sd (max now (sd_AsOf sd)) (cov, stale, rows)" "AlertCandidateSnapshot_Validate s = None"
    "(cov, stale, rows) = (if now < sd_AsOf sd then future_view sd (sd_AsOf sd) else snapshot_view sd now)"
proof -
  obtain cov stale rows where v: "(if now < sd_AsOf sd then future_view sd (sd_AsOf sd) else snapshot_view sd now) = (cov, stale, rows)"
    by (metis prod_cases3)
  let ?n = "if now < sd_AsOf sd then sd_AsOf sd else now"
  have n: "?n = max now (sd_AsOf sd)" by (metis max.absorb1 max.absorb2 less_imp_le not_less)
  have view: "(if now < sd_AsOf sd then future_view sd ?n else snapshot_view sd ?n) = (cov, stale, rows)"
    using v by (simp split: if_splits)
  from assms have "s = build_snapshot sd ?n (cov, stale, rows) \<and> AlertCandidateSnapshot_Validate s = None"
    unfolding alertEpisodeSnapshot_def Let_def view by (auto split: option.splits)
  then have "s = build_snapshot sd (max now (sd_AsOf sd)) (cov, stale, rows)" "AlertCandidateSnapshot_Validate s = None"
    unfolding n by blast+
  then show thesis by (rule that) (rule v [symmetric])
qed

lemma build_snapshot_simps [simp]:
  "snap_Coverage (build_snapshot sd now (cov, stale, rows)) = cov"
  "snap_AsOf (build_snapshot sd now v) = now"
  "elems (snap_Sources (build_snapshot sd now (cov, stale, rows))) = rows"
  by (simp_all add: build_snapshot_def Let_def split: prod.splits)


lemma stale_empty_view: "snapshot_view sd now = (cov, stale, rows) \<Longrightarrow> cov_Freshness cov = AlertCoverageCurrent \<Longrightarrow>
   elems (sd_SourceStates sd) \<noteq> [] \<Longrightarrow> stale = [] \<and> covered_sources cov = filter (covered_now (elems (sd_SourceStates sd))) (expected_sources (sd_Coverage sd)) \<and>
   expected_sources cov = expected_sources (sd_Coverage sd) \<and>
   stale = filter (expired_now (elems (sd_SourceStates sd)) now) (covered_sources cov)"
  by (auto simp: snapshot_view_def projectAlertEpisodeCoverage_def Let_def split: if_splits)

lemma clear_covered:
  assumes "IsClear s"
  shows "cov_State (snap_Coverage s) = AlertCoverageComplete \<and> cov_Freshness (snap_Coverage s) = AlertCoverageCurrent \<and>
    AlertCoverage_Validate (snap_Coverage s) = None"
  using assms AlertCandidateSnapshot_Validate_None(1,5) [of s]
  by (auto simp: IsClear_def derived_snapshot_state_def split: if_splits)

lemma snapshot_active:
  assumes s: "alertEpisodeSnapshot sd now = Inr s" and r: "r \<in> set (scope_episodes sd)" "rec_State r \<noteq> AlertEpisodeRecovered"
  shows "snap_CurrentState s = AlertSnapshotActive \<and>
    (\<exists>c\<in>set (elems (snap_Candidates s)). ac_EpisodeKey c = rec_EpisodeKey r \<and> ac_OccurrenceKey c = rec_OccurrenceKey r \<and> ac_State c = rec_State r)"
proof -
  from snapshot_Inr [OF s] obtain cov stale rows where b: "s = build_snapshot sd (max now (sd_AsOf sd)) (cov, stale, rows)"
    and v: "AlertCandidateSnapshot_Validate s = None" by metis
  from record_candidate_active [OF r(2)] obtain c where c: "record_candidate stale r = Some c" by blast
  note f = record_candidate_Some [OF c]
  have cin: "c \<in> set (elems (snap_Candidates s))" unfolding b snapshot_candidates_set using c r(1) by blast
  have "AlertCandidate_Validate c = None"
    using AlertCandidateSnapshot_Validate_None(3) [OF v] cin by (simp add: snapshot_candidates_None)
  then have "candidate_active c"
    using f r(2) by (auto simp: AlertCandidate_Validate_def validAlertEpisodeState_def candidate_active_def)
  with cin have "snap_CurrentState s = AlertSnapshotActive"
    using AlertCandidateSnapshot_Validate_None(5) [OF v] by (auto simp: derived_snapshot_state_def)
  with cin f show ?thesis by blast
qed

lemma future_scope_not_clear:
  assumes "alertEpisodeSnapshot sd now = Inr s" and "\<not> sd_AsOf sd \<le> now"
  shows "snap_CurrentState s \<noteq> AlertSnapshotClear"
proof -
  from snapshot_Inr [OF assms(1)] assms(2) obtain cov stale rows where b: "s = build_snapshot sd (max now (sd_AsOf sd)) (cov, stale, rows)"
    and view: "(cov, stale, rows) = future_view sd (sd_AsOf sd)" by (metis not_le)
  then show ?thesis by (auto simp: snapshot_state_derived derived_snapshot_state_def future_view_def Let_def)
qed



subsection \<open>A coherent scope always has a snapshot\<close>

lemma AlertSource_wire_inject:
  "validAlertSource a \<Longrightarrow> validAlertSource b \<Longrightarrow> AlertSource_wire a = AlertSource_wire b \<Longrightarrow> a = b"
  by (cases a; cases b) simp_all

lemma AlertSource_wire_nonempty: "validAlertSource a \<Longrightarrow> AlertSource_wire a \<noteq> []"
  by (cases a) simp_all

lemma source_row_wire:
  "AlertSourceCoverage_Validate row asOf = None \<Longrightarrow> AlertSource_wire (asc_Source row) \<noteq> []"
  by (rule AlertSource_wire_nonempty) (simp add: AlertSourceCoverage_Validate_def Let_def)

lemma snapshot_source_rows_accepts:
  "\<forall>row\<in>set rows. AlertSourceCoverage_Validate row asOf = None \<and> asc_Source row \<in> set expected \<and>
      (asc_Covered row \<longleftrightarrow> asc_Source row \<in> set covered) \<and> asc_Source row \<notin> set seen \<Longrightarrow>
   sorted_wrt (<) (map (\<lambda>row. AlertSource_wire (asc_Source row)) rows) \<Longrightarrow>
   previous \<noteq> [] \<Longrightarrow> \<forall>row\<in>set rows. previous < AlertSource_wire (asc_Source row) \<Longrightarrow>
   snapshot_source_rows asOf expected covered previous seen rows = None"
proof (induction rows arbitrary: previous seen)
  case (Cons row rows)
  have ne: "AlertSource_wire (asc_Source row) \<noteq> []"
    using Cons.prems(1) source_row_wire [of row asOf] by simp
  have "snapshot_source_rows asOf expected covered (AlertSource_wire (asc_Source row)) (asc_Source row # seen) rows = None"
  proof (rule Cons.IH)
    show "\<forall>r\<in>set rows. AlertSourceCoverage_Validate r asOf = None \<and> asc_Source r \<in> set expected \<and>
      (asc_Covered r \<longleftrightarrow> asc_Source r \<in> set covered) \<and> asc_Source r \<notin> set (asc_Source row # seen)"
      using Cons.prems(1,2) by fastforce
  qed (use Cons.prems(2) ne in auto)
  with Cons.prems show ?case by (auto simp: not_le)
qed simp

lemma snapshot_source_rows_start:
  assumes "\<forall>row\<in>set rows. AlertSourceCoverage_Validate row asOf = None \<and> asc_Source row \<in> set expected \<and>
      (asc_Covered row \<longleftrightarrow> asc_Source row \<in> set covered)"
    and "sorted_wrt (<) (map (\<lambda>row. AlertSource_wire (asc_Source row)) rows)"
  shows "snapshot_source_rows asOf expected covered [] [] rows = None"
proof (cases rows)
  case (Cons row rest)
  have "AlertSource_wire (asc_Source row) \<noteq> []"
    using assms(1) Cons source_row_wire [of row asOf] by simp
  then have "snapshot_source_rows asOf expected covered (AlertSource_wire (asc_Source row)) [asc_Source row] rest = None"
    using assms Cons by (intro snapshot_source_rows_accepts) fastforce+
  with assms Cons show ?thesis by simp
qed simp

lemma strictly_sorted_rows:
  assumes "distinct (map f xs)"
  shows "sorted_wrt (<) (map f (sort_key f xs))"
proof -
  have "distinct (map f (sort_key f xs))"
    using assms by (metis distinct_by_def distinct_by_sort_key)
  then show ?thesis by (simp add: strict_sorted_iff)
qed

definition covered_view :: "alertEpisodeRegistryScopeDocument \<Rightarrow> AlertSource \<Rightarrow> bool" where
  "covered_view sd src = (if elems (sd_SourceStates sd) = [] then src \<in> set (covered_sources (sd_Coverage sd))
     else covered_now (elems (sd_SourceStates sd)) src)"

text \<open>The conditions a validated document imposes on a scope, and the one it does not: the episodes
  belong to expected sources, and those with current evidence to sources that are covered.\<close>

definition scope_coherent :: "alertEpisodeRegistryScopeDocument \<Rightarrow> bool" where
  "scope_coherent sd \<longleftrightarrow> ValidateAlertAuthorityScope (sd_AuthorityScope sd) = None \<and> \<not> IsZero (sd_AsOf sd) \<and>
     AlertCoverage_Validate (sd_Coverage sd) = None \<and>
     (\<forall>st\<in>set (elems (sd_SourceStates sd)). validateAlertEpisodeSourceState st (expected_sources (sd_Coverage sd)) (sd_AsOf sd) = None) \<and>
     (\<forall>r\<in>set (scope_episodes sd). AlertCandidate_Validate (alertCandidateFromRecord r) = None \<and> rec_ObservedAt r \<le> sd_AsOf sd \<and>
        rec_Source r \<in> set (expected_sources (sd_Coverage sd)) \<and> (rec_EvidenceHealth r = AlertEvidenceCurrent \<longrightarrow> covered_view sd (rec_Source r))) \<and>
     distinct_by rec_EpisodeKey (scope_episodes sd) \<and> distinct_by rec_OccurrenceKey (scope_episodes sd)"

lemma distinct_map_filter_key:
  assumes "distinct_by f xs" and "\<And>x y. g x = Some y \<Longrightarrow> h y = f x"
  shows "distinct_by h (List.map_filter g xs)"
  using assms
proof (induction xs)
  case (Cons x xs)
  have "f x \<notin> h ` set (List.map_filter g xs)"
    using Cons.prems by (auto simp: List.map_filter_def distinct_by_def)
  with Cons show ?case
    by (auto simp: distinct_by_def map_filter_simps split: option.splits)
qed (simp add: distinct_by_def map_filter_simps)

lemma record_candidate_valid:
  assumes "record_candidate stale r = Some c" and "AlertCandidate_Validate (alertCandidateFromRecord r) = None"
  shows "AlertCandidate_Validate c = None"
  using assms
  by (auto simp: record_candidate_def Let_def AlertCandidate_Validate_def validAlertEvidenceHealth_def split: if_splits)

lemma coherent_snapshot_valid:
  assumes coh: "scope_coherent sd" and n: "sd_AsOf sd \<le> n" "\<not> IsZero n"
    and cov: "AlertCoverage_Validate cov = None" "cov_AsOf cov = n" "expected_sources cov = expected_sources (sd_Coverage sd)"
    and rows: "length rows = length (expected_sources cov)"
      "snapshot_source_rows n (expected_sources cov) (covered_sources cov) [] [] rows = None"
    and cand: "\<And>src. covered_view sd src \<Longrightarrow> src \<in> set (expected_sources cov) \<Longrightarrow> src \<notin> set stale \<Longrightarrow> src \<in> set (covered_sources cov)"
  shows "AlertCandidateSnapshot_Validate (build_snapshot sd n (cov, stale, rows)) = None"
proof -
  let ?s = "build_snapshot sd n (cov, stale, rows)"
  have recs: "\<forall>r\<in>set (scope_episodes sd). AlertCandidate_Validate (alertCandidateFromRecord r) = None \<and> rec_ObservedAt r \<le> n \<and>
      rec_Source r \<in> set (expected_sources cov) \<and> (rec_EvidenceHealth r = AlertEvidenceCurrent \<longrightarrow> covered_view sd (rec_Source r))"
    using coh n(1) cov(3) by (auto simp: scope_coherent_def intro: order_trans)
  have one: "AlertCandidate_Validate c = None \<and> ac_ObservedAt c \<le> n \<and> ac_Source c \<in> set (expected_sources cov) \<and>
      (ac_EvidenceHealth c = AlertEvidenceCurrent \<longrightarrow> ac_Source c \<in> set (covered_sources cov))"
    if "c \<in> set (elems (snap_Candidates ?s))" for c
  proof -
    from that obtain r where r: "r \<in> set (scope_episodes sd)" "record_candidate stale r = Some c"
      unfolding snapshot_candidates_set by blast
    with recs record_candidate_valid [OF r(2)] record_candidate_Some [OF r(2)] cand show ?thesis by force
  qed
  have "distinct_by ac_EpisodeKey (List.map_filter (record_candidate stale) (scope_episodes sd))"
    by (rule distinct_map_filter_key [of rec_EpisodeKey]) (use coh record_candidate_Some in \<open>auto simp: scope_coherent_def\<close>)
  moreover have "distinct_by ac_OccurrenceKey (List.map_filter (record_candidate stale) (scope_episodes sd))"
    by (rule distinct_map_filter_key [of rec_OccurrenceKey]) (use coh record_candidate_Some in \<open>auto simp: scope_coherent_def\<close>)
  ultimately have dk: "distinct_by ac_EpisodeKey (elems (snap_Candidates ?s))" "distinct_by ac_OccurrenceKey (elems (snap_Candidates ?s))"
    by (simp_all add: build_snapshot_def Let_def)
  have "snapshot_candidates n (expected_sources cov) (covered_sources cov) [] [] (elems (snap_Candidates ?s)) = None"
    using one dk by (simp add: snapshot_candidates_None distinct_by_def)
  moreover have "ValidateAlertAuthorityScope (sd_AuthorityScope sd) = None" using coh by (simp add: scope_coherent_def)
  ultimately show ?thesis
    using n cov rows snapshot_state_derived [of sd n cov stale rows]
    by (simp add: AlertCandidateSnapshot_Validate_def Let_def) (simp add: build_snapshot_def Let_def)
qed


lemma source_state_of_Some:
  "source_state_of states src = Some st \<Longrightarrow> st \<in> set states \<and> ss_Source st = src"
  by (auto simp: source_state_of_def dest!: map_of_SomeD)

lemma codes_agree: "validAlertDecisionCode v = validAlertCode v"
  by (simp add: validAlertDecisionCode_def validAlertCode_def)

lemma status_codes_valid:
  "validAlertCode alertShadowStatusCurrent" "validAlertCode alertShadowStatusNotObserved" "validAlertCode alertShadowStatusStale"
  "validAlertCode alertShadowStatusUnavailable" "validAlertCode alertShadowReasonSourceTimeInvalid" "validAlertCode alertShadowReasonProducerSilent"
  by code_simp+

lemma project_row_source [simp]: "asc_Source (project_source_row sd cov stale now src) = src"
  using source_state_of_Some by (fastforce simp: project_source_row_def Let_def split: option.splits)

lemma project_row_valid:
  assumes coh: "scope_coherent sd" and n: "sd_AsOf sd \<le> n" "\<not> IsZero n" and src: "src \<in> set (expected_sources (sd_Coverage sd))"
    and cov: "elems (sd_SourceStates sd) \<noteq> [] \<Longrightarrow> src \<in> set (covered_sources cov) \<longleftrightarrow> covered_now (elems (sd_SourceStates sd)) src"
    and stale: "set stale \<subseteq> set (covered_sources cov)"
  shows "AlertSourceCoverage_Validate (project_source_row sd cov stale n src) n = None \<and>
    (asc_Covered (project_source_row sd cov stale n src) \<longleftrightarrow> src \<in> set (covered_sources cov))"
proof -
  have vs: "validAlertSource src" and nz: "\<not> IsZero (sd_AsOf sd)"
    using coh src by (auto simp: scope_coherent_def AlertCoverage_Validate_None coverage_sets_ok_def)
  show ?thesis
  proof (cases "source_state_of (elems (sd_SourceStates sd)) src")
    case None
    have "elems (sd_SourceStates sd) \<noteq> [] \<longrightarrow> src \<notin> set (covered_sources cov)"
      using cov None by (auto simp: covered_now_def)
    with None n vs nz status_codes_valid show ?thesis
      by (auto simp: project_source_row_def AlertSourceCoverage_Validate_def Let_def alertCoverageContains_def validAlertEvidenceHealth_def)
  next
    case (Some st)
    note st = source_state_of_Some [OF Some]
    then have ne: "elems (sd_SourceStates sd) \<noteq> []" by auto
    have v: "validateAlertEpisodeSourceState st (expected_sources (sd_Coverage sd)) (sd_AsOf sd) = None"
      using coh st by (auto simp: scope_coherent_def)
    have c: "src \<in> set (covered_sources cov) \<longleftrightarrow> ss_Covered st" using cov [OF ne] Some by (simp add: covered_now_def)
    with stale have "src \<in> set stale \<longrightarrow> ss_Covered st" by blast
    moreover have "ss_ObservedAt st \<le> n" "ss_EvidenceAsOf st \<le> n"
      using v n(1) by (auto simp: validateAlertEpisodeSourceState_def not_less)
    ultimately show ?thesis
      using v c Some st vs n(2) status_codes_valid
      by (auto simp: project_source_row_def AlertSourceCoverage_Validate_def validateAlertEpisodeSourceState_def Let_def
          codes_agree validAlertEvidenceHealth_def not_less)
  qed
qed

lemma distinct_wires:
  assumes "AlertCoverage_Validate c = None" shows "distinct (map AlertSource_wire (expected_sources c))"
  using assms AlertSource_wire_inject
  by (auto simp: AlertCoverage_Validate_None coverage_sets_ok_def distinct_map inj_on_def)

lemma snapshot_view_facts:
  assumes coh: "scope_coherent sd" and nz: "\<not> IsZero n" and view: "snapshot_view sd n = (cov, stale, rows)"
  shows "AlertCoverage_Validate cov = None" "cov_AsOf cov = n" "expected_sources cov = expected_sources (sd_Coverage sd)"
    "set stale \<subseteq> set (covered_sources cov)"
    "elems (sd_SourceStates sd) \<noteq> [] \<Longrightarrow> src \<in> set (expected_sources cov) \<Longrightarrow> src \<in> set (covered_sources cov) \<longleftrightarrow> covered_now (elems (sd_SourceStates sd)) src"
    "elems (sd_SourceStates sd) = [] \<Longrightarrow> covered_sources cov = covered_sources (sd_Coverage sd)"
    "rows = projectAlertSourceCoverage sd cov stale n"
proof -
  have v: "AlertCoverage_Validate (sd_Coverage sd) = None" using coh by (simp add: scope_coherent_def)
  let ?E = "expected_sources (sd_Coverage sd)" and ?S = "elems (sd_SourceStates sd)"
  have E: "distinct ?E" "?E \<noteq> []" "\<forall>s\<in>set ?E. validAlertSource s"
    using v by (auto simp: AlertCoverage_Validate_None coverage_sets_ok_def)
  show "cov_AsOf cov = n" "expected_sources cov = ?E" "set stale \<subseteq> set (covered_sources cov)"
    "?S \<noteq> [] \<Longrightarrow> src \<in> set (expected_sources cov) \<Longrightarrow> src \<in> set (covered_sources cov) \<longleftrightarrow> covered_now ?S src"
    "?S = [] \<Longrightarrow> covered_sources cov = covered_sources (sd_Coverage sd)"
    "rows = projectAlertSourceCoverage sd cov stale n"
    using view by (auto simp: snapshot_view_def projectAlertEpisodeCoverage_def Let_def filter_empty_conv split: if_splits)
  show "AlertCoverage_Validate cov = None"
  proof (cases "?S = []")
    case True
    with view v nz show ?thesis
      by (auto simp: snapshot_view_def projectAlertEpisodeCoverage_def Let_def AlertCoverage_Validate_None coverage_sets_ok_def coverage_state_coherent_def
          cloneAlertCoverage_def split: AlertCoverageState.splits)
  next
    case False
    with view E nz show ?thesis
      by (auto simp: snapshot_view_def projectAlertEpisodeCoverage_def Let_def AlertCoverage_Validate_None coverage_sets_ok_def coverage_state_coherent_def
          validAlertCoverageState_def validAlertCoverageFreshness_def split: if_splits)
  qed
qed

lemma coherent_view_snapshot:
  assumes coh: "scope_coherent sd" and n: "sd_AsOf sd \<le> n" "\<not> IsZero n"
  shows "AlertCandidateSnapshot_Validate (build_snapshot sd n (snapshot_view sd n)) = None"
proof -
  obtain cov stale rows where view: "snapshot_view sd n = (cov, stale, rows)" by (metis prod_cases3)
  note f = snapshot_view_facts [OF coh n(2) view]
  have rows: "rows = projectAlertSourceCoverage sd cov stale n" by (rule f(7))
  have v: "\<forall>row\<in>set rows. AlertSourceCoverage_Validate row n = None \<and> asc_Source row \<in> set (expected_sources cov) \<and>
      (asc_Covered row \<longleftrightarrow> asc_Source row \<in> set (covered_sources cov))"
    using project_row_valid [OF coh n _ _ f(4)] f(3,5) by (auto simp: rows projectAlertSourceCoverage_def)
  have "distinct (map (\<lambda>row. AlertSource_wire (asc_Source row)) (map (project_source_row sd cov stale n) (expected_sources cov)))"
    using distinct_wires [OF f(1)] by (simp add: comp_def)
  from strictly_sorted_rows [OF this] have s: "sorted_wrt (<) (map (\<lambda>row. AlertSource_wire (asc_Source row)) rows)"
    by (simp add: rows projectAlertSourceCoverage_def)
  show ?thesis
    unfolding view
  proof (rule coherent_snapshot_valid [OF coh n f(1,2,3) _ snapshot_source_rows_start [OF v s]])
    show "length rows = length (expected_sources cov)" by (simp add: rows projectAlertSourceCoverage_def)
    show "src \<in> set (covered_sources cov)" if "covered_view sd src" "src \<in> set (expected_sources cov)" "src \<notin> set stale" for src
      using that f(5,6) by (auto simp: covered_view_def split: if_splits)
  qed
qed

lemma coherent_future_snapshot:
  assumes coh: "scope_coherent sd"
  shows "AlertCandidateSnapshot_Validate (build_snapshot sd (sd_AsOf sd) (future_view sd (sd_AsOf sd))) = None"
proof -
  let ?E = "expected_sources (sd_Coverage sd)" and ?n = "sd_AsOf sd"
  obtain cov stale rows where view: "future_view sd ?n = (cov, stale, rows)" by (metis prod_cases3)
  have v0: "AlertCoverage_Validate (sd_Coverage sd) = None" and nz: "\<not> IsZero ?n" using coh by (auto simp: scope_coherent_def)
  have E: "distinct ?E" "?E \<noteq> []" "\<forall>s\<in>set ?E. validAlertSource s"
    using v0 by (auto simp: AlertCoverage_Validate_None coverage_sets_ok_def)
  have f: "stale = ?E" "rows = unavailableAlertSourceCoverage ?E" "expected_sources cov = ?E" "covered_sources cov = []" "cov_AsOf cov = ?n"
    using view by (auto simp: future_view_def Let_def)
  have cv: "AlertCoverage_Validate cov = None"
    using view E nz by (auto simp: future_view_def Let_def AlertCoverage_Validate_None coverage_sets_ok_def coverage_state_coherent_def
        validAlertCoverageState_def validAlertCoverageFreshness_def)
  have v: "\<forall>row\<in>set rows. AlertSourceCoverage_Validate row ?n = None \<and> asc_Source row \<in> set (expected_sources cov) \<and>
      (asc_Covered row \<longleftrightarrow> asc_Source row \<in> set (covered_sources cov))"
    using E nz status_codes_valid
    by (auto simp: f unavailableAlertSourceCoverage_def AlertSourceCoverage_Validate_def Let_def validAlertEvidenceHealth_def)
  let ?mk = "\<lambda>source. \<lparr>asc_Source = source, asc_Status = alertShadowStatusUnavailable, asc_Reason = alertShadowReasonSourceTimeInvalid,
        asc_EvidenceHealth = AlertEvidenceUnavailable, asc_InputAsOf = zero_time, asc_ObservedAt = zero_time,
        asc_EvidenceAsOf = zero_time, asc_FreshUntil = zero_time, asc_Covered = False\<rparr>"
  have "distinct (map (\<lambda>row. AlertSource_wire (asc_Source row)) (map ?mk ?E))"
    using distinct_wires [OF v0] by (simp add: comp_def)
  from strictly_sorted_rows [OF this] have s: "sorted_wrt (<) (map (\<lambda>row. AlertSource_wire (asc_Source row)) rows)"
    by (simp add: f(2) unavailableAlertSourceCoverage_def)
  show ?thesis
    unfolding view
    by (rule coherent_snapshot_valid [OF coh order.refl nz cv f(5,3) _ snapshot_source_rows_start [OF v s]])
       (use f in \<open>auto simp: unavailableAlertSourceCoverage_def\<close>)
qed


lemma demo_sd_coherent: "scope_coherent (demo_sd b)"
proof -
  have "scope_coherent (demo_sd True)" "scope_coherent (demo_sd False)" by code_simp+
  then show ?thesis by (cases b) simp_all
qed

lemma coherent_snapshot:
  assumes "scope_coherent sd" and "\<not> IsZero now"
  shows "\<exists>s. alertEpisodeSnapshot sd now = Inr s"
proof (cases "now < sd_AsOf sd")
  case True
  with coherent_future_snapshot [OF assms(1)] show ?thesis by (simp add: alertEpisodeSnapshot_def Let_def)
next
  case False
  then have "sd_AsOf sd \<le> now" by simp
  from coherent_view_snapshot [OF assms(1) this assms(2)] False show ?thesis by (simp add: alertEpisodeSnapshot_def Let_def)
qed

subsection \<open>Properties\<close>

text \<open>No active episode is hidden from the wire view: whatever the clock and the freshness of the
  sources, every episode of the scope that has not recovered is a candidate of the snapshot under
  its own episode and occurrence keys, and then the snapshot reports active.\<close>

theorem snapshot_shows_active_episodes:
  assumes s: "alertEpisodeSnapshot sd now = Inr s" and r: "r \<in> set (scope_episodes sd)" "rec_State r \<noteq> AlertEpisodeRecovered"
  shows "snap_CurrentState s = AlertSnapshotActive \<and>
    (\<exists>c\<in>set (elems (snap_Candidates s)). ac_EpisodeKey c = rec_EpisodeKey r \<and> ac_OccurrenceKey c = rec_OccurrenceKey r \<and> ac_State c = rec_State r)"
  by (rule snapshot_active [OF assms])

theorem snapshot_shows_active_episodes_witness:
  "\<exists>s. alertEpisodeSnapshot (demo_sd True) (Instant 150) = Inr s \<and> snap_CurrentState s = AlertSnapshotActive"
proof -
  obtain s where s: "alertEpisodeSnapshot (demo_sd True) (Instant 150) = Inr s"
    using coherent_snapshot [OF demo_sd_coherent] by (force simp: IsZero_def zero_time_def)
  have "demo_record True (Instant 90) \<in> set (scope_episodes (demo_sd True))"
    and "rec_State (demo_record True (Instant 90)) \<noteq> AlertEpisodeRecovered" by (simp_all add: demo_record_def)
  from snapshot_shows_active_episodes [OF s this] s show ?thesis by blast
qed

text \<open>A scope whose boundary lies after the reader's clock never yields trust: the snapshot keeps
  the durable boundary, is not clear, covers no source, shows no recovery, and every candidate's
  evidence is stale or in error.\<close>

theorem future_scope_never_trusted:
  assumes s: "alertEpisodeSnapshot sd now = Inr s" and t: "now < sd_AsOf sd"
  shows "snap_AsOf s = sd_AsOf sd \<and> snap_CurrentState s \<noteq> AlertSnapshotClear \<and> covered_sources (snap_Coverage s) = [] \<and>
    (\<forall>c\<in>set (elems (snap_Candidates s)). ac_State c \<noteq> AlertEpisodeRecovered \<and> ac_EvidenceHealth c \<in> {AlertEvidenceStale, AlertEvidenceError})"
proof -
  from snapshot_Inr [OF s] t obtain cov stale rows where b: "s = build_snapshot sd (sd_AsOf sd) (cov, stale, rows)"
    and v: "AlertCandidateSnapshot_Validate s = None" and view: "(cov, stale, rows) = future_view sd (sd_AsOf sd)"
    by (metis less_imp_le max.absorb2)
  from view have cov: "cov_State cov = AlertCoverageUnavailable" "covered_sources cov = []"
    and stale: "stale = expected_sources (sd_Coverage sd)" "expected_sources cov = expected_sources (sd_Coverage sd)"
    by (auto simp: future_view_def Let_def)
  have "ac_State c \<noteq> AlertEpisodeRecovered \<and> ac_EvidenceHealth c \<in> {AlertEvidenceStale, AlertEvidenceError}"
    if c: "c \<in> set (elems (snap_Candidates s))" for c
  proof -
    have "ac_Source c \<in> set (expected_sources cov)"
      using AlertCandidateSnapshot_Validate_None(3) [OF v] c b by (simp add: snapshot_candidates_None)
    moreover obtain r where "record_candidate stale r = Some c"
      using c unfolding b snapshot_candidates_set by blast
    ultimately show ?thesis using record_candidate_Some stale by metis
  qed
  moreover have "snap_CurrentState s \<noteq> AlertSnapshotClear"
    using cov by (simp add: b snapshot_state_derived derived_snapshot_state_def)
  ultimately show ?thesis using b cov by simp
qed

theorem future_scope_never_trusted_witness:
  "\<exists>s. alertEpisodeSnapshot (demo_sd True) (Instant 50) = Inr s \<and> snap_CurrentState s \<noteq> AlertSnapshotClear"
proof -
  obtain s where s: "alertEpisodeSnapshot (demo_sd True) (Instant 50) = Inr s"
    using coherent_snapshot [OF demo_sd_coherent] by (force simp: IsZero_def zero_time_def)
  have "Instant 50 < sd_AsOf (demo_sd True)" by (simp add: demo_sd_def Let_def less_gotime_def)
  from future_scope_never_trusted [OF s this] s show ?thesis by blast
qed



text \<open>The wire view is always available for a coherent scope: when the stored scope satisfies the
  document's rules, its episodes belong to expected sources and current evidence belongs to
  covered sources, the snapshot at any non-zero time validates and is returned.\<close>

theorem coherent_scope_has_snapshot:
  assumes "scope_coherent sd" and "\<not> IsZero now"
  shows "\<exists>s. alertEpisodeSnapshot sd now = Inr s \<and> AlertCandidateSnapshot_Validate s = None"
  using coherent_snapshot [OF assms] snapshot_Inr by metis

theorem coherent_scope_has_snapshot_witness:
  "\<exists>s. alertEpisodeSnapshot (demo_sd True) (Instant 150) = Inr s \<and> IsClear s = False"
proof -
  have "\<not> IsZero (Instant 150)" by (simp add: IsZero_def zero_time_def)
  from coherent_scope_has_snapshot [OF demo_sd_coherent this] obtain s where
    s: "alertEpisodeSnapshot (demo_sd True) (Instant 150) = Inr s" by blast
  have "IsClear (projr (alertEpisodeSnapshot (demo_sd True) (Instant 150))) = False" by code_simp
  with s show ?thesis by simp
qed

end
