(* ===== verification/Corestore.thy ===== *)
theory Corestore
  imports Canary_Prelude
begin

text \<open>
  The versioned state documents of the daemon's SQLite authority:
  \<^verbatim>\<open>src/internal/daemon/corestore/state.go\<close> and the mutation health of
  \<^verbatim>\<open>src/internal/daemon/corestore/store.go\<close>. The database is a value (\<open>authority_db\<close>: the documents
  by scope and kind, and the authority head); a transaction computes a new value, which becomes
  current when the commit succeeds. What SQLite, the clock and the commit observer do in one call
  is an argument, \<open>sql_env\<close>: which of the steps fail and how, including a commit that reports an
  error although it is durable.
  The lemmas show that a compare-and-swap succeeds only on the expected revision, what exactly it
  changes, that a blocked store changes nothing, and that a latch is only lifted by the recovery
  proof. \<open>cas_documents\<close> is the interface the registries rely on; it is interpreted on the store.
\<close>

subsection \<open>Data\<close>

record AuthorityHead =
  ah_AuthorityEpoch :: string
  ah_HeadGeneration :: int
  ah_LastEventSeq :: int
  ah_SignerGeneration :: int

definition zero_head :: AuthorityHead where
  "zero_head = \<lparr>ah_AuthorityEpoch = [], ah_HeadGeneration = 0, ah_LastEventSeq = 0, ah_SignerGeneration = 0\<rparr>"

record Health =
  h_Ready :: bool
  h_Code :: string
  h_BlockedAt :: gotime
  h_RecoveryEligible :: bool

definition ready_health :: Health where
  "ready_health = \<lparr>h_Ready = True, h_Code = [], h_BlockedAt = zero_time, h_RecoveryEligible = False\<rparr>"

record StateDocument =
  sdoc_ScopeKey :: string
  sdoc_Kind :: string
  sdoc_Revision :: int
  sdoc_JSON :: string
  sdoc_UpdatedAt :: gotime

record StateDocumentCAS =
  cas_ExpectedHead :: "AuthorityHead option"
  cas_ScopeKey :: string
  cas_Kind :: string
  cas_ExpectedRevision :: int
  cas_JSON :: string
  cas_UpdatedAtNotBefore :: gotime

text \<open>One row of the table \<^verbatim>\<open>state_documents\<close>.\<close>

record state_row =
  row_revision :: int
  row_document :: string
  row_sha256 :: string
  row_updated_at :: gotime

record authority_db =
  db_documents :: "((string \<times> string) \<times> state_row) list"
  db_head :: AuthorityHead

record Store =
  st_db :: authority_db
  st_health :: Health
  st_recoveryMinimumHead :: AuthorityHead
  st_lastObservedHead :: AuthorityHead
  st_observed :: bool

text \<open>What the environment does in one call. \<open>env_commit\<close> pairs the error with whether the
  transaction became durable all the same.\<close>

record sql_env =
  env_now :: gotime
  env_query :: "goerror option"
  env_begin :: "goerror option"
  env_head_read :: "goerror option"
  env_expected_head :: "goerror option"
  env_write :: "goerror option"
  env_rows :: "goerror option"
  env_reread :: "goerror option"
  env_advance :: "goerror option"
  env_commit :: "(goerror \<times> bool) option"
  env_committed_head :: "goerror option"
  env_observer :: "goerror option"

definition env_fine :: "gotime \<Rightarrow> sql_env" where
  "env_fine t = \<lparr>env_now = t, env_query = None, env_begin = None, env_head_read = None, env_expected_head = None, env_write = None,
     env_rows = None, env_reread = None, env_advance = None, env_commit = None, env_committed_head = None, env_observer = None\<rparr>"

abbreviation ErrHeadWentBack :: goerror where
  "ErrHeadWentBack \<equiv> New ''corestore: the commit counter went back''"

abbreviation ErrAuthorityMismatch :: goerror where
  "ErrAuthorityMismatch \<equiv> New ''corestore: authority mismatch''"

abbreviation ErrRollback :: goerror where
  "ErrRollback \<equiv> New ''corestore: authority rollback detected''"

abbreviation ErrBlocked :: goerror where
  "ErrBlocked \<equiv> New ''corestore: health is blocked''"

abbreviation ErrRecoveryNotEligible :: goerror where
  "ErrRecoveryNotEligible \<equiv> New ''corestore: transient recovery is not eligible''"

abbreviation DeadlineExceeded :: goerror where
  "DeadlineExceeded \<equiv> New ''context deadline exceeded''"

abbreviation Canceled :: goerror where
  "Canceled \<equiv> New ''context canceled''"

subsection \<open>Keys\<close>

text \<open>\<^verbatim>\<open>utf8.ValidString\<close>, on bytes.\<close>

definition cont_byte :: "nat \<Rightarrow> bool" where
  "cont_byte b \<longleftrightarrow> 128 \<le> b \<and> b \<le> 191"

fun utf8_bytes :: "nat list \<Rightarrow> bool" where
  "utf8_bytes [] = True"
| "utf8_bytes (b # bs) =
     (if b < 128 then utf8_bytes bs
      else if 194 \<le> b \<and> b \<le> 223 then
        (case bs of c # cs \<Rightarrow> cont_byte c \<and> utf8_bytes cs | _ \<Rightarrow> False)
      else if 224 \<le> b \<and> b \<le> 239 then
        (case bs of c # d # cs \<Rightarrow> cont_byte c \<and> (b = 224 \<longrightarrow> 160 \<le> c) \<and> (b = 237 \<longrightarrow> c \<le> 159) \<and> cont_byte d \<and> utf8_bytes cs
         | _ \<Rightarrow> False)
      else if 240 \<le> b \<and> b \<le> 244 then
        (case bs of c # d # e # cs \<Rightarrow> cont_byte c \<and> (b = 240 \<longrightarrow> 144 \<le> c) \<and> (b = 244 \<longrightarrow> c \<le> 143) \<and> cont_byte d \<and> cont_byte e \<and> utf8_bytes cs
         | _ \<Rightarrow> False)
      else False)"

definition utf8_ValidString :: "string \<Rightarrow> bool" where
  "utf8_ValidString s \<longleftrightarrow> utf8_bytes (map of_char s)"

definition validateKey :: "string \<Rightarrow> string \<Rightarrow> nat \<Rightarrow> goerror option" where
  "validateKey label value limit = first_refusal [
     reject_if (value = [] \<or> TrimSpace value = []) (New (''corestore: '' @ label @ '' is required'')),
     reject_if (length value > limit \<or> \<not> utf8_ValidString value) (New (''corestore: '' @ label @ '' is invalid'')),
     reject_if (\<exists>c\<in>set value. (of_char c :: nat) < 32 \<or> (of_char c :: nat) = 127) (New (''corestore: '' @ label @ '' is invalid''))]"

definition validateStateCASCoordinates :: "StateDocumentCAS \<Rightarrow> goerror option" where
  "validateStateCASCoordinates u = first_refusal [
     validateKey ''scope key'' (cas_ScopeKey u) 512,
     validateKey ''state kind'' (cas_Kind u) 128,
     reject_if (cas_ExpectedRevision u < 0) (New ''corestore: expected revision must not be negative'')]"

definition validateStateCAS :: "golib \<Rightarrow> StateDocumentCAS \<Rightarrow> goerror option" where
  "validateStateCAS L u = first_refusal [
     validateStateCASCoordinates u,
     reject_if (\<not> json_Valid L (cas_JSON u)) (New ''corestore: state document must be valid JSON'')]"

subsection \<open>Mutation health\<close>

definition criticalSQLiteCode :: "goerror \<Rightarrow> string option" where
  "criticalSQLiteCode e =
     (case error_cause e of
        SQLiteError code \<Rightarrow>
         (let c = code mod 256 in
          if c = 5 then Some ''busy'' else if c = 8 then Some ''readonly'' else if c = 10 then Some ''ioerr''
          else if c = 11 \<or> c = 26 then Some ''corrupt'' else if c = 13 then Some ''full'' else None)
      | _ \<Rightarrow> None)"

definition latchHealth :: "gotime \<Rightarrow> string \<Rightarrow> Store \<Rightarrow> Store" where
  "latchHealth now code s =
     (if \<not> h_Ready (st_health s) then s
      else s\<lparr>st_health := \<lparr>h_Ready = False, h_Code = code, h_BlockedAt = now, h_RecoveryEligible = False\<rparr>,
             st_recoveryMinimumHead := zero_head\<rparr>)"

definition latchCritical :: "gotime \<Rightarrow> goerror \<Rightarrow> Store \<Rightarrow> Store" where
  "latchCritical now e s = (case criticalSQLiteCode e of None \<Rightarrow> s | Some code \<Rightarrow> latchHealth now code s)"

definition LatchDamaged :: "gotime \<Rightarrow> string \<Rightarrow> Store \<Rightarrow> Store" where
  "LatchDamaged now code s = latchHealth now code s"

definition latchCorruptRead :: "gotime \<Rightarrow> goerror \<Rightarrow> Store \<Rightarrow> Store" where
  "latchCorruptRead now e s = (if criticalSQLiteCode e = Some ''corrupt'' then latchHealth now ''corrupt'' s else s)"

definition latchRecoverableHeadWatermark :: "gotime \<Rightarrow> AuthorityHead \<Rightarrow> Store \<Rightarrow> Store" where
  "latchRecoverableHeadWatermark now minimum s =
     (if \<not> h_Ready (st_health s) then s
      else s\<lparr>st_recoveryMinimumHead := minimum,
             st_health := \<lparr>h_Ready = False, h_Code = ''head_watermark'', h_BlockedAt = now, h_RecoveryEligible = True\<rparr>\<rparr>)"

definition latchRecoverableHeadWatermarkTimeout :: "gotime \<Rightarrow> Store \<Rightarrow> Store" where
  "latchRecoverableHeadWatermarkTimeout now s = latchRecoverableHeadWatermark now (st_lastObservedHead s) s"

definition latchRecoverableObserverFailure :: "gotime \<Rightarrow> AuthorityHead \<Rightarrow> Store \<Rightarrow> Store" where
  "latchRecoverableObserverFailure now committed s = latchRecoverableHeadWatermark now committed s"

definition LostWrite :: "goerror \<Rightarrow> bool" where
  "LostWrite e = (case error_cause e of RevisionConflictError expected actual exists \<Rightarrow> exists \<and> actual < expected | _ \<Rightarrow> False)"

definition headNotBackTx :: "sql_env \<Rightarrow> Store \<Rightarrow> goerror option" where
  "headNotBackTx env s =
     (case env_head_read env of Some e \<Rightarrow> Some e
      | None \<Rightarrow>
         let cur = db_head (st_db s); seen = st_lastObservedHead s in
         reject_if (ah_AuthorityEpoch cur = ah_AuthorityEpoch seen \<and> ah_HeadGeneration cur < ah_HeadGeneration seen)
           (Wrap ''the last commit seen is newer than the database'' ErrHeadWentBack))"

text \<open>The transaction up to its commit: the database it would install, or the error it is rolled
  back with.\<close>

definition run_transaction :: "sql_env \<Rightarrow> (authority_db \<Rightarrow> (authority_db \<times> 'a) result) \<Rightarrow> Store \<Rightarrow> (authority_db \<times> 'a) result" where
  "run_transaction env fn s =
     (case env_begin env of Some e \<Rightarrow> Inl e
      | None \<Rightarrow> (case (if st_observed s then headNotBackTx env s else None) of Some e \<Rightarrow> Inl e
      | None \<Rightarrow> fn (st_db s)))"

text \<open>After a successful commit the committed head is read and handed to the observer.\<close>

definition observe_commit :: "sql_env \<Rightarrow> Store \<Rightarrow> Store \<times> goerror option" where
  "observe_commit env s =
     (if \<not> st_observed s then (s, None)
      else case env_committed_head env of
        Some headErr \<Rightarrow>
          ((if errors_Is headErr DeadlineExceeded then latchRecoverableHeadWatermarkTimeout (env_now env) s
            else latchHealth (env_now env) ''head_watermark'' (latchCritical (env_now env) headErr s)),
           Some (Wrap ''read committed authority head'' headErr))
      | None \<Rightarrow>
         (case env_observer env of
            Some observerErr \<Rightarrow> (latchRecoverableObserverFailure (env_now env) (db_head (st_db s)) s,
              Some (Wrap ''persist committed authority head'' observerErr))
          | None \<Rightarrow> (s\<lparr>st_lastObservedHead := db_head (st_db s)\<rparr>, None)))"

definition latch_failure :: "sql_env \<Rightarrow> goerror \<Rightarrow> Store \<Rightarrow> Store" where
  "latch_failure env e s =
     (let s1 = latchCritical (env_now env) e s;
          s2 = (if LostWrite e then latchHealth (env_now env) ''lost_write'' s1 else s1)
      in if errors_Is e ErrHeadWentBack then latchHealth (env_now env) ''lost_write'' s2 else s2)"

definition criticalMutation :: "sql_env \<Rightarrow> (authority_db \<Rightarrow> (authority_db \<times> 'a) result) \<Rightarrow> Store \<Rightarrow> Store \<times> 'a result" where
  "criticalMutation env fn s =
     (if \<not> h_Ready (st_health s) then (s, Inl ErrBlocked)
      else case run_transaction env fn s of
        Inl e \<Rightarrow> (latch_failure env e s, Inl e)
      | Inr (db', x) \<Rightarrow>
         (case env_commit env of
            Some (e, durable) \<Rightarrow> (latch_failure env e (if durable then s\<lparr>st_db := db'\<rparr> else s), Inl e)
          | None \<Rightarrow>
             (case observe_commit env (s\<lparr>st_db := db'\<rparr>) of
                (s', None) \<Rightarrow> (s', Inr x)
              | (s', Some e) \<Rightarrow> (latch_failure env e s', Inl e))))"

subsection \<open>State documents\<close>

definition GetStateDocument :: "golib \<Rightarrow> sql_env \<Rightarrow> string \<Rightarrow> string \<Rightarrow> Store \<Rightarrow> Store \<times> StateDocument option result" where
  "GetStateDocument L env scopeKey kind s =
     (case first_refusal [validateKey ''scope key'' scopeKey 512, validateKey ''state kind'' kind 128] of
        Some e \<Rightarrow> (s, Inl e)
      | None \<Rightarrow>
         (case env_query env of
            Some e \<Rightarrow> (latchCorruptRead (env_now env) e s, Inl (Wrap ''get state document'' e))
          | None \<Rightarrow>
             (case map_of (db_documents (st_db s)) (scopeKey, kind) of
                None \<Rightarrow> (s, Inr None)
              | Some row \<Rightarrow>
                  if row_sha256 row \<noteq> sha256_hex L (row_document row)
                  then (s, Inl (New ''corestore: stored state document digest does not match content''))
                  else (s, Inr (Some \<lparr>sdoc_ScopeKey = scopeKey, sdoc_Kind = kind, sdoc_Revision = row_revision row,
                         sdoc_JSON = row_document row, sdoc_UpdatedAt = row_updated_at row\<rparr>)))))"

text \<open>The insert of a first revision does nothing when a row exists; the update of a later one
  does nothing unless the row has the expected revision. \<open>None\<close>: no row changed.\<close>

definition write_state_row :: "golib \<Rightarrow> StateDocumentCAS \<Rightarrow> gotime \<Rightarrow> authority_db \<Rightarrow> authority_db option" where
  "write_state_row L u now db =
     (let k = (cas_ScopeKey u, cas_Kind u);
          row = \<lparr>row_revision = (if cas_ExpectedRevision u = 0 then 1 else wrap_int64 (cas_ExpectedRevision u + 1)),
                 row_document = cas_JSON u, row_sha256 = sha256_hex L (cas_JSON u), row_updated_at = now\<rparr>;
          hit = (case map_of (db_documents db) k of
                   None \<Rightarrow> cas_ExpectedRevision u = 0
                 | Some old \<Rightarrow> cas_ExpectedRevision u \<noteq> 0 \<and> row_revision old = cas_ExpectedRevision u)
      in if hit then Some (db\<lparr>db_documents := AList.update k row (db_documents db)\<rparr>) else None)"

definition compareAndSwapStateTx :: "golib \<Rightarrow> sql_env \<Rightarrow> StateDocumentCAS \<Rightarrow> authority_db \<Rightarrow> (authority_db \<times> StateDocument) result" where
  "compareAndSwapStateTx L env u db =
     (case (case cas_ExpectedHead u of None \<Rightarrow> None
            | Some expected \<Rightarrow> (case env_expected_head env of Some e \<Rightarrow> Some e
                | None \<Rightarrow> reject_if (db_head db \<noteq> expected) ErrAuthorityMismatch)) of
        Some e \<Rightarrow> Inl e
      | None \<Rightarrow>
        if \<not> IsZero (cas_UpdatedAtNotBefore u) \<and> env_now env < cas_UpdatedAtNotBefore u
        then Inl (Wrap ''state document commit clock precedes required floor'' ErrRollback)
        else case env_write env of Some e \<Rightarrow> Inl (Wrap ''write state document'' e)
        | None \<Rightarrow> (case env_rows env of Some e \<Rightarrow> Inl e
        | None \<Rightarrow>
           (case write_state_row L u (env_now env) db of
              None \<Rightarrow>
               (case map_of (db_documents db) (cas_ScopeKey u, cas_Kind u) of
                  None \<Rightarrow> Inl (RevisionConflictError (cas_ExpectedRevision u) 0 False)
                | Some old \<Rightarrow>
                   (case env_reread env of Some e \<Rightarrow> Inl e
                    | None \<Rightarrow> Inl (RevisionConflictError (cas_ExpectedRevision u) (row_revision old) True)))
            | Some db' \<Rightarrow> Inr (db', \<lparr>sdoc_ScopeKey = cas_ScopeKey u, sdoc_Kind = cas_Kind u,
                 sdoc_Revision = wrap_int64 (cas_ExpectedRevision u + 1), sdoc_JSON = cas_JSON u, sdoc_UpdatedAt = env_now env\<rparr>))))"

definition advanceHeadTx :: "sql_env \<Rightarrow> int \<Rightarrow> authority_db \<Rightarrow> (authority_db \<times> AuthorityHead) result" where
  "advanceHeadTx env lastEventSeq db =
     (case env_advance env of Some e \<Rightarrow> Inl e
      | None \<Rightarrow>
         let h = (db_head db)\<lparr>ah_HeadGeneration := ah_HeadGeneration (db_head db) + 1,
                  ah_LastEventSeq := (if ah_LastEventSeq (db_head db) < lastEventSeq then lastEventSeq else ah_LastEventSeq (db_head db))\<rparr>
         in Inr (db\<lparr>db_head := h\<rparr>, h))"

definition CompareAndSwapStateDocument :: "golib \<Rightarrow> sql_env \<Rightarrow> StateDocumentCAS \<Rightarrow> Store \<Rightarrow> Store \<times> StateDocument result" where
  "CompareAndSwapStateDocument L env u s =
     (case validateStateCAS L u of
        Some e \<Rightarrow> (s, Inl e)
      | None \<Rightarrow> criticalMutation env (\<lambda>db.
          bind_result (compareAndSwapStateTx L env u db) (\<lambda>(db1, saved).
            case advanceHeadTx env 0 db1 of
              Inl e \<Rightarrow> Inl (Wrap ''advance authority head'' e)
            | Inr (db2, h) \<Rightarrow> Inr (db2, saved))) s)"

subsection \<open>Recovery of the head watermark\<close>

definition requireMinimumHead :: "AuthorityHead \<Rightarrow> AuthorityHead \<Rightarrow> goerror option" where
  "requireMinimumHead got minimum = first_refusal [
     reject_if (ah_AuthorityEpoch minimum \<noteq> [] \<and> ah_AuthorityEpoch got \<noteq> ah_AuthorityEpoch minimum)
       (Wrap ''authority epoch differs'' ErrRollback),
     reject_if (ah_HeadGeneration got < ah_HeadGeneration minimum \<or> ah_LastEventSeq got < ah_LastEventSeq minimum \<or>
         ah_SignerGeneration got < ah_SignerGeneration minimum)
       (Wrap ''write head is older than required'' ErrRollback)]"

definition disableTransientRecovery :: "string \<Rightarrow> Store \<Rightarrow> Store" where
  "disableTransientRecovery code s =
     (if h_Ready (st_health s) then s
      else s\<lparr>st_health := (st_health s)\<lparr>h_Code := (if TrimSpace code \<noteq> [] then code else h_Code (st_health s)), h_RecoveryEligible := False\<rparr>,
             st_recoveryMinimumHead := zero_head\<rparr>)"

definition disableTransientRecoveryForCritical :: "goerror \<Rightarrow> Store \<Rightarrow> Store" where
  "disableTransientRecoveryForCritical e s =
     (case criticalSQLiteCode e of None \<Rightarrow> s | Some code \<Rightarrow> disableTransientRecovery code s)"

text \<open>The integrity check either fails to run or reports whether the content is intact.\<close>

definition recoverTransientHeadWatermark :: "sql_env \<Rightarrow> bool result \<Rightarrow> Store \<Rightarrow> Store \<times> bool result" where
  "recoverTransientHeadWatermark env integrity s =
     (if h_Ready (st_health s) then (s, Inr False)
      else if h_Code (st_health s) \<noteq> ''head_watermark'' \<or> \<not> h_RecoveryEligible (st_health s) \<or> \<not> st_observed s
      then (s, Inl ErrRecoveryNotEligible)
      else case integrity of
        Inl e \<Rightarrow>
          ((if errors_Is e DeadlineExceeded \<or> errors_Is e Canceled then s
            else if criticalSQLiteCode e \<noteq> None then disableTransientRecoveryForCritical e s
            else disableTransientRecovery ''integrity'' s),
           Inl (Wrap ''verify authority integrity for recovery'' e))
      | Inr False \<Rightarrow> (disableTransientRecovery ''corrupt'' s, Inl (New ''corestore: integrity failure''))
      | Inr True \<Rightarrow>
         (case env_committed_head env of
            Some e \<Rightarrow> (disableTransientRecoveryForCritical e s, Inl (Wrap ''read authority head for recovery'' e))
          | None \<Rightarrow>
             let cur = db_head (st_db s) in
             (case requireMinimumHead cur (st_recoveryMinimumHead s) of
                Some e \<Rightarrow> (disableTransientRecovery ''rollback'' s, Inl e)
              | None \<Rightarrow>
                 (case env_observer env of
                    Some e \<Rightarrow> (s, Inl (Wrap ''persist recovered authority head'' e))
                  | None \<Rightarrow> (s\<lparr>st_health := ready_health, st_recoveryMinimumHead := zero_head, st_lastObservedHead := cur\<rparr>, Inr True)))))"

subsection \<open>Reading and retrying\<close>

text \<open>What an authority client does with one document: load it, and update it under its revision.
  One attempt of an update runs against an environment: what others do to the store before the
  write reaches it, and what happens to the write and to the reload after a conflict.\<close>

record ('s, 'e) attempt =
  att_interfere :: "'s \<Rightarrow> 's"
  att_swap :: 'e
  att_load :: 'e

text \<open>The retry loop the authority clients share: compute the next document from the cached one,
  write it under the cached revision, and after a revision conflict reload and start again.
  The result is the store, the cache, and the document written or the error.\<close>

fun cas_update_loop ::
  "('e \<Rightarrow> 's \<Rightarrow> 's \<times> (int \<times> 'd) result) \<Rightarrow> ('e \<Rightarrow> int \<Rightarrow> string \<Rightarrow> 's \<Rightarrow> 's \<times> int result) \<Rightarrow> ('d \<Rightarrow> ('d \<times> string) result) \<Rightarrow>
   string \<Rightarrow> string \<Rightarrow> ('s, 'e) attempt list \<Rightarrow> int \<times> 'd \<Rightarrow> 's \<Rightarrow> 's \<times> (int \<times> 'd) \<times> 'd result" where
  "cas_update_loop reload swap compute persistMsg exhaustedMsg [] cache s = (s, cache, Inl (New exhaustedMsg))"
| "cas_update_loop reload swap compute persistMsg exhaustedMsg (att # atts) (rv, d) s =
     (case compute d of
        Inl e \<Rightarrow> (s, (rv, d), Inl e)
      | Inr (d', raw) \<Rightarrow>
         (case swap (att_swap att) rv raw (att_interfere att s) of
            (s1, Inr rv') \<Rightarrow> (s1, (rv', d'), Inr d')
          | (s1, Inl e) \<Rightarrow>
              if errors_Is e ErrRevisionConflict then
                (case reload (att_load att) s1 of
                   (s2, Inl e') \<Rightarrow> (s2, (rv, d), Inl e')
                 | (s2, Inr cache') \<Rightarrow> cas_update_loop reload swap compute persistMsg exhaustedMsg atts cache' s2)
              else (s1, (rv, d), Inl (Wrap persistMsg e))))"

subsection \<open>The interface of a versioned document\<close>

text \<open>\<open>current s\<close> is the stored document, if any, with its revision; \<open>sane e\<close> says that the
  environment's own failures are not revision conflicts.\<close>

locale cas_documents =
  fixes load :: "'e \<Rightarrow> 's \<Rightarrow> 's \<times> (int \<times> string) option result"
    and swap :: "'e \<Rightarrow> int \<Rightarrow> string \<Rightarrow> 's \<Rightarrow> 's \<times> int result"
    and current :: "'s \<Rightarrow> (int \<times> string) option"
    and sane :: "'e \<Rightarrow> bool"
  assumes load_current: "load e s = (s', r) \<Longrightarrow> current s' = current s \<and> (\<forall>x. r = Inr x \<longrightarrow> x = current s)"
    and swap_ok: "swap e rv js s = (s', Inr rv') \<Longrightarrow>
      (case current s of None \<Rightarrow> rv = 0 | Some (r, _) \<Rightarrow> r = rv) \<and> current s' = Some (rv', js)"
    and swap_conflict: "sane e \<Longrightarrow> swap e rv js s = (s', Inl x) \<Longrightarrow> errors_Is x ErrRevisionConflict \<Longrightarrow> current s' = current s"
begin

definition content :: "(string \<Rightarrow> 'd option) \<Rightarrow> 'd \<Rightarrow> 's \<Rightarrow> 'd option" where
  "content decode initial s = (case current s of None \<Rightarrow> Some initial | Some (r, js) \<Rightarrow> decode js)"

text \<open>The cache is never ahead of the store, and when it is not behind it holds what is stored.\<close>

definition cache_ok :: "(string \<Rightarrow> 'd option) \<Rightarrow> 'd \<Rightarrow> int \<times> 'd \<Rightarrow> 's \<Rightarrow> bool" where
  "cache_ok decode initial cache s \<longleftrightarrow>
     (case current s of None \<Rightarrow> fst cache = 0 \<and> snd cache = initial
      | Some (r, js) \<Rightarrow> fst cache \<le> r \<and> (fst cache = r \<longrightarrow> decode js = Some (snd cache)))"

text \<open>What others may do to the document between two operations: nothing, or write a later revision.\<close>

definition follows :: "'s \<Rightarrow> 's \<Rightarrow> bool" where
  "follows s s' \<longleftrightarrow> current s' = current s \<or>
     (\<exists>r' js'. current s' = Some (r', js') \<and> (case current s of None \<Rightarrow> 0 < r' | Some (r, js) \<Rightarrow> r < r'))"

lemma cache_ok_follows: "cache_ok decode initial c s \<Longrightarrow> follows s s' \<Longrightarrow> cache_ok decode initial c s'"
  by (auto simp: cache_ok_def follows_def split: option.splits prod.splits)

lemma swap_on_content:
  assumes "cache_ok decode initial (rv, d) s" and "swap e rv js s = (s', Inr rv')"
  shows "content decode initial s = Some d" and "current s' = Some (rv', js)"
  using assms(1) swap_ok [OF assms(2)]
  by (auto simp: cache_ok_def content_def split: option.splits)

text \<open>A successful update is an atomic read-modify-write: the document it wrote was computed from
  the document stored at the moment of the write, whatever others did before it.\<close>

lemma update_is_atomic:
  assumes reload: "\<And>e s s' c. reload e s = (s', Inr c) \<Longrightarrow> current s' = current s \<and> cache_ok decode initial c s'"
    and interfere: "\<And>att s. att \<in> set atts \<Longrightarrow> follows s (att_interfere att s)"
    and sane: "\<And>att. att \<in> set atts \<Longrightarrow> sane (att_swap att)"
    and cache: "cache_ok decode initial cache s"
    and run: "cas_update_loop reload swap compute m1 m2 atts cache s = (s', cache', Inr d')"
  shows "\<exists>s0 e rv d raw. content decode initial s0 = Some d \<and> compute d = Inr (d', raw) \<and>
     swap e rv raw s0 = (s', Inr (fst cache')) \<and> current s' = Some (fst cache', raw) \<and> snd cache' = d'"
  using run cache interfere sane
proof (induction atts arbitrary: cache s)
  case (Cons att atts)
  obtain rv d where c: "cache = (rv, d)" by fastforce
  let ?s0 = "att_interfere att s"
  have ok: "cache_ok decode initial (rv, d) ?s0" using cache_ok_follows [OF Cons.prems(2) Cons.prems(3)] c by simp
  from Cons.prems(1) c obtain dn raw where comp: "compute d = Inr (dn, raw)"
    by (auto split: sum.splits)
  obtain s1 r where sw: "swap (att_swap att) rv raw ?s0 = (s1, r)" by fastforce
  show ?case
  proof (cases r)
    case (Inr rv')
    with Cons.prems(1) c comp sw have "s' = s1" "cache' = (rv', dn)" "d' = dn" by auto
    with swap_on_content [OF ok sw [unfolded Inr]] comp sw [unfolded Inr] show ?thesis by (metis fst_conv snd_conv)
  next
    case (Inl e)
    with Cons.prems(1) c comp sw obtain s2 cache2 where conflict: "errors_Is e ErrRevisionConflict"
      and re: "reload (att_load att) s1 = (s2, Inr cache2)"
      and rest: "cas_update_loop reload swap compute m1 m2 atts cache2 s2 = (s', cache', Inr d')"
      by (auto split: if_splits prod.splits sum.splits)
    from Cons.IH [OF rest] reload [OF re] Cons.prems(3,4) show ?thesis by auto
  qed
qed simp

end


subsection \<open>Frames and latches\<close>

lemma latch_db [simp, field_simps_canary]:
  "st_db (latchHealth t c s) = st_db s"
  "st_db (latchCritical t e s) = st_db s"
  "st_db (latchCorruptRead t e s) = st_db s"
  "st_db (latchRecoverableHeadWatermark t h s) = st_db s"
  "st_db (latchRecoverableHeadWatermarkTimeout t s) = st_db s"
  "st_db (latchRecoverableObserverFailure t h s) = st_db s"
  "st_db (latch_failure env e s) = st_db s"
  "st_db (fst (observe_commit env s)) = st_db s"
  by (auto simp: latchHealth_def latchCritical_def latchCorruptRead_def latchRecoverableHeadWatermark_def
      latchRecoverableHeadWatermarkTimeout_def latchRecoverableObserverFailure_def latch_failure_def observe_commit_def Let_def
      split: option.splits)

lemma latch_blocks [simp]:
  "\<not> h_Ready (st_health (latchHealth t c s))"
  "\<not> h_Ready (st_health (latchRecoverableHeadWatermark t h s))"
  by (auto simp: latchHealth_def latchRecoverableHeadWatermark_def)

lemma latch_id_blocked:
  assumes "\<not> h_Ready (st_health s)"
  shows "latchHealth t c s = s" "latchRecoverableHeadWatermark t h s = s" "latchCritical t e s = s"
    "latchCorruptRead t e s = s" "latch_failure env e s = s"
  using assms by (auto simp: latchHealth_def latchRecoverableHeadWatermark_def latchCritical_def latchCorruptRead_def
      latch_failure_def Let_def split: option.splits)

lemma observe_commit_failed:
  "observe_commit env s = (s', Some e) \<Longrightarrow> \<not> h_Ready (st_health s') \<and> st_db s' = st_db s \<and>
     (\<exists>m x. e = Wrap m x \<and> (env_committed_head env = Some x \<or> env_observer env = Some x))"
  by (auto simp: observe_commit_def latchRecoverableHeadWatermarkTimeout_def latchRecoverableObserverFailure_def
      split: if_splits option.splits)

lemma observe_commit_fine:
  "observe_commit env s = (s', None) \<Longrightarrow> st_db s' = st_db s \<and> st_health s' = st_health s"
  by (auto simp: observe_commit_def split: if_splits option.splits)

text \<open>The outcomes of a mutation.\<close>

lemma criticalMutation_Inr:
  assumes "criticalMutation env fn s = (s', Inr x)"
  shows "h_Ready (st_health s) \<and> h_Ready (st_health s') \<and> fn (st_db s) = Inr (st_db s', x)"
  using assms observe_commit_fine
  by (fastforce simp: criticalMutation_def run_transaction_def split: if_splits option.splits sum.splits prod.splits)

lemma criticalMutation_Inl:
  assumes "criticalMutation env fn s = (s', Inl e)"
  obtains (same) "st_db s' = st_db s"
    | (durable) x where "fn (st_db s) = Inr (st_db s', x)" "h_Ready (st_health s)" "env_commit env = Some (e, True)"
    | (unobserved) x m y where "fn (st_db s) = Inr (st_db s', x)" "h_Ready (st_health s)" "env_commit env = None" "\<not> h_Ready (st_health s')"
        "e = Wrap m y" "env_committed_head env = Some y \<or> env_observer env = Some y"
proof (cases "\<not> h_Ready (st_health s)")
  case True
  with assms same show thesis by (simp add: criticalMutation_def)
next
  case ready: False
  show thesis
  proof (cases "run_transaction env fn s")
    case (Inl e')
    with assms ready same show thesis by (simp add: criticalMutation_def) (metis latch_db(7))
  next
    case (Inr p)
    obtain db' x where p: "p = (db', x)" by fastforce
    have fn: "fn (st_db s) = Inr (db', x)"
      using Inr p by (auto simp: run_transaction_def split: option.splits if_splits)
    show thesis
    proof (cases "env_commit env")
      case (Some q)
      obtain e' dur where q: "q = (e', dur)" by fastforce
      with assms ready Inr p Some have "s' = latch_failure env e (if dur then s\<lparr>st_db := db'\<rparr> else s)" "e = e'"
        by (auto simp: criticalMutation_def)
      with fn Some q ready same durable show thesis by (cases dur) auto
    next
      case None
      with assms ready Inr p obtain s1 where o: "observe_commit env (s\<lparr>st_db := db'\<rparr>) = (s1, Some e)" and s': "s' = latch_failure env e s1"
        by (auto simp: criticalMutation_def split: prod.splits option.splits)
      from observe_commit_failed [OF o] obtain m y where f: "\<not> h_Ready (st_health s1)" "st_db s1 = db'" "e = Wrap m y"
        "env_committed_head env = Some y \<or> env_observer env = Some y" by auto
      have "s' = s1" using s' latch_id_blocked(5) [OF f(1)] by simp
      with f fn None ready show thesis by (intro unobserved [of x m y]) simp_all
    qed
  qed
qed


subsection \<open>The store implements the interface\<close>

definition stored_document :: "string \<Rightarrow> string \<Rightarrow> Store \<Rightarrow> (int \<times> string) option" where
  "stored_document scopeKey kind s =
     map_option (\<lambda>row. (row_revision row, row_document row)) (map_of (db_documents (st_db s)) (scopeKey, kind))"

definition load_document :: "golib \<Rightarrow> string \<Rightarrow> string \<Rightarrow> sql_env \<Rightarrow> Store \<Rightarrow> Store \<times> (int \<times> string) option result" where
  "load_document L scopeKey kind env s =
     (case GetStateDocument L env scopeKey kind s of
        (s', Inl e) \<Rightarrow> (s', Inl e)
      | (s', Inr d) \<Rightarrow> (s', Inr (map_option (\<lambda>x. (sdoc_Revision x, sdoc_JSON x)) d)))"

definition document_cas :: "string \<Rightarrow> string \<Rightarrow> int \<Rightarrow> string \<Rightarrow> StateDocumentCAS" where
  "document_cas scopeKey kind rv js = \<lparr>cas_ExpectedHead = None, cas_ScopeKey = scopeKey, cas_Kind = kind,
     cas_ExpectedRevision = rv, cas_JSON = js, cas_UpdatedAtNotBefore = zero_time\<rparr>"

definition swap_document :: "golib \<Rightarrow> string \<Rightarrow> string \<Rightarrow> sql_env \<Rightarrow> int \<Rightarrow> string \<Rightarrow> Store \<Rightarrow> Store \<times> int result" where
  "swap_document L scopeKey kind env rv js s =
     (case CompareAndSwapStateDocument L env (document_cas scopeKey kind rv js) s of
        (s', Inl e) \<Rightarrow> (s', Inl e)
      | (s', Inr d) \<Rightarrow> (s', Inr (sdoc_Revision d)))"

text \<open>The environment's own failures are SQLite, context or observer errors, never the store's
  conflict type.\<close>

definition foreign :: "goerror option \<Rightarrow> bool" where
  "foreign e \<longleftrightarrow> (case e of None \<Rightarrow> True | Some x \<Rightarrow> \<not> errors_Is x ErrRevisionConflict)"

definition env_sane :: "sql_env \<Rightarrow> bool" where
  "env_sane env \<longleftrightarrow> list_all foreign [env_query env, env_begin env, env_head_read env, env_expected_head env, env_write env,
     env_rows env, env_reread env, env_advance env, map_option fst (env_commit env), env_committed_head env, env_observer env]"

lemma wrap_int64_small: "- (2 ^ 63) \<le> x \<Longrightarrow> x < 2 ^ 63 \<Longrightarrow> wrap_int64 x = x"
  by (simp add: wrap_int64_def)

lemma write_state_row_Some:
  assumes "write_state_row L u now db = Some db'"
  shows "(case map_of (db_documents db) (cas_ScopeKey u, cas_Kind u) of None \<Rightarrow> cas_ExpectedRevision u = 0
      | Some old \<Rightarrow> cas_ExpectedRevision u \<noteq> 0 \<and> row_revision old = cas_ExpectedRevision u)"
    and "db_head db' = db_head db"
    and "map_of (db_documents db') = (map_of (db_documents db))((cas_ScopeKey u, cas_Kind u) \<mapsto>
      \<lparr>row_revision = wrap_int64 (cas_ExpectedRevision u + 1), row_document = cas_JSON u,
       row_sha256 = sha256_hex L (cas_JSON u), row_updated_at = now\<rparr>)"
  using assms wrap_int64_small [of 1]
  by (auto simp: write_state_row_def Let_def update_conv split: if_splits option.splits)

text \<open>The transaction of a compare-and-swap, as the mutation runs it.\<close>

definition cas_transaction :: "golib \<Rightarrow> sql_env \<Rightarrow> StateDocumentCAS \<Rightarrow> authority_db \<Rightarrow> (authority_db \<times> StateDocument) result" where
  "cas_transaction L env u db = bind_result (compareAndSwapStateTx L env u db) (\<lambda>(db1, saved).
     case advanceHeadTx env 0 db1 of Inl e \<Rightarrow> Inl (Wrap ''advance authority head'' e) | Inr (db2, h) \<Rightarrow> Inr (db2, saved))"

lemma cas_as_mutation:
  "CompareAndSwapStateDocument L env u s = (case validateStateCAS L u of Some e \<Rightarrow> (s, Inl e)
     | None \<Rightarrow> criticalMutation env (cas_transaction L env u) s)"
  unfolding CompareAndSwapStateDocument_def cas_transaction_def by (rule refl)

lemma cas_transaction_Inr:
  assumes "cas_transaction L env u db = Inr (db', saved)"
  obtains db1 where "write_state_row L u (env_now env) db = Some db1" "db_documents db' = db_documents db1"
    "ah_HeadGeneration (db_head db') = ah_HeadGeneration (db_head db) + 1" "sdoc_Revision saved = wrap_int64 (cas_ExpectedRevision u + 1)"
    "sdoc_JSON saved = cas_JSON u"
  using assms write_state_row_Some(2)
  by (fastforce simp: cas_transaction_def compareAndSwapStateTx_def advanceHeadTx_def bind_result_Inr Let_def
      split: option.splits if_splits)

lemma stored_document_cong: "st_db s' = st_db s \<Longrightarrow> stored_document a b s' = stored_document a b s"
  by (simp add: stored_document_def)

lemma cas_transaction_stored:
  assumes "cas_transaction L env u (st_db s) = Inr (st_db s', saved)"
  shows "(case stored_document (cas_ScopeKey u) (cas_Kind u) s of None \<Rightarrow> cas_ExpectedRevision u = 0
      | Some (r, _) \<Rightarrow> r = cas_ExpectedRevision u)"
    and "stored_document (cas_ScopeKey u) (cas_Kind u) s' = Some (wrap_int64 (cas_ExpectedRevision u + 1), cas_JSON u)"
    and "(a, b) \<noteq> (cas_ScopeKey u, cas_Kind u) \<Longrightarrow> stored_document a b s' = stored_document a b s"
proof -
  from cas_transaction_Inr [OF assms] obtain db1 where w: "write_state_row L u (env_now env) (st_db s) = Some db1"
    and d: "db_documents (st_db s') = db_documents db1" by metis
  note f = write_state_row_Some [OF w]
  show "(case stored_document (cas_ScopeKey u) (cas_Kind u) s of None \<Rightarrow> cas_ExpectedRevision u = 0
      | Some (r, _) \<Rightarrow> r = cas_ExpectedRevision u)"
    using f(1) by (auto simp: stored_document_def split: option.splits)
  show "stored_document (cas_ScopeKey u) (cas_Kind u) s' = Some (wrap_int64 (cas_ExpectedRevision u + 1), cas_JSON u)"
    using f(3) by (simp add: stored_document_def d)
  show "(a, b) \<noteq> (cas_ScopeKey u, cas_Kind u) \<Longrightarrow> stored_document a b s' = stored_document a b s"
    using f(3) by (auto simp: stored_document_def d)
qed

lemma cas_conflict_frame:
  assumes "env_sane env" and "CompareAndSwapStateDocument L env u s = (s', Inl e)" and "errors_Is e ErrRevisionConflict"
  shows "st_db s' = st_db s"
proof (cases "validateStateCAS L u")
  case (Some x)
  with assms(2) show ?thesis by (simp add: cas_as_mutation)
next
  case None
  with assms(2) have "criticalMutation env (cas_transaction L env u) s = (s', Inl e)" by (simp add: cas_as_mutation)
  then show ?thesis
    by (rule criticalMutation_Inl) (use assms(1,3) in \<open>auto simp: env_sane_def foreign_def\<close>)
qed

interpretation state_documents: cas_documents "load_document L scopeKey kind" "swap_document L scopeKey kind"
  "stored_document scopeKey kind" env_sane for L scopeKey kind
proof unfold_locales
  fix e :: sql_env and s s' r
  assume "load_document L scopeKey kind e s = (s', r)"
  then show "stored_document scopeKey kind s' = stored_document scopeKey kind s \<and> (\<forall>x. r = Inr x \<longrightarrow> x = stored_document scopeKey kind s)"
    by (auto simp: load_document_def GetStateDocument_def stored_document_def split: option.splits if_splits)
next
  fix e rv js s s' rv'
  assume "swap_document L scopeKey kind e rv js s = (s', Inr rv')"
  then obtain d where c: "CompareAndSwapStateDocument L e (document_cas scopeKey kind rv js) s = (s', Inr d)" and rv': "rv' = sdoc_Revision d"
    by (auto simp: swap_document_def split: prod.splits sum.splits)
  then have "criticalMutation e (cas_transaction L e (document_cas scopeKey kind rv js)) s = (s', Inr d)"
    by (auto simp: cas_as_mutation split: option.splits)
  from criticalMutation_Inr [OF this] have t: "cas_transaction L e (document_cas scopeKey kind rv js) (st_db s) = Inr (st_db s', d)" by simp
  have "sdoc_Revision d = wrap_int64 (rv + 1)"
    by (rule cas_transaction_Inr [OF t]) (simp add: document_cas_def)
  with cas_transaction_stored(1,2) [OF t] rv'
  show "(case stored_document scopeKey kind s of None \<Rightarrow> rv = 0 | Some (r, _) \<Rightarrow> r = rv) \<and> stored_document scopeKey kind s' = Some (rv', js)"
    by (auto simp: document_cas_def split: option.splits)
next
  fix e rv js s s' x
  assume "env_sane e" "swap_document L scopeKey kind e rv js s = (s', Inl x)" "errors_Is x ErrRevisionConflict"
  then show "stored_document scopeKey kind s' = stored_document scopeKey kind s"
    by (auto simp: swap_document_def split: prod.splits sum.splits intro: stored_document_cong cas_conflict_frame)
qed


subsection \<open>The life of a store\<close>

inductive store_step :: "golib \<Rightarrow> Store \<Rightarrow> Store \<Rightarrow> bool" for L where
  swap: "CompareAndSwapStateDocument L env u s = (s', r) \<Longrightarrow> store_step L s s'"
| get: "GetStateDocument L env a b s = (s', r) \<Longrightarrow> store_step L s s'"
| damaged: "store_step L s (LatchDamaged t code s)"
| recover: "recoverTransientHeadWatermark env integrity s = (s', r) \<Longrightarrow> store_step L s s'"

inductive_cases store_stepE: "store_step L s s'"

lemma recover_db: "recoverTransientHeadWatermark env integrity s = (s', r) \<Longrightarrow> st_db s' = st_db s"
  by (auto simp: recoverTransientHeadWatermark_def disableTransientRecovery_def disableTransientRecoveryForCritical_def Let_def
      split: if_splits sum.splits bool.splits option.splits)

lemma recover_ready:
  assumes "recoverTransientHeadWatermark env integrity s = (s', r)" and "\<not> h_Ready (st_health s)" and "h_Ready (st_health s')"
  shows "h_Code (st_health s) = ''head_watermark'' \<and> h_RecoveryEligible (st_health s) \<and> integrity = Inr True \<and> r = Inr True \<and>
    requireMinimumHead (db_head (st_db s)) (st_recoveryMinimumHead s) = None \<and> st_lastObservedHead s' = db_head (st_db s)"
  using assms
  by (auto simp: recoverTransientHeadWatermark_def disableTransientRecovery_def disableTransientRecoveryForCritical_def Let_def
      split: if_splits sum.splits bool.splits option.splits)

lemma get_db: "GetStateDocument L env a b s = (s', r) \<Longrightarrow> st_db s' = st_db s \<and> (\<not> h_Ready (st_health s) \<longrightarrow> s' = s)"
  by (auto simp: GetStateDocument_def latch_id_blocked split: option.splits if_splits)

definition current_revision :: "Store \<Rightarrow> string \<times> string \<Rightarrow> int" where
  "current_revision s k = (case stored_document (fst k) (snd k) s of None \<Rightarrow> 0 | Some (r, _) \<Rightarrow> r)"

text \<open>A mutation that changes the documents is one compare-and-swap.\<close>

lemma cas_changes:
  assumes "CompareAndSwapStateDocument L env u s = (s', r)" and "st_db s' \<noteq> st_db s"
  shows "\<exists>saved. cas_transaction L env u (st_db s) = Inr (st_db s', saved)"
proof -
  from assms have m: "criticalMutation env (cas_transaction L env u) s = (s', r)"
    by (auto simp: cas_as_mutation split: option.splits)
  show ?thesis
  proof (cases r)
    case (Inl e)
    from m [unfolded Inl] show ?thesis by (rule criticalMutation_Inl) (use assms(2) in auto)
  next
    case (Inr x)
    from criticalMutation_Inr [OF m [unfolded Inr]] show ?thesis by blast
  qed
qed

lemma store_step_revision:
  assumes "store_step L s s'" and "\<forall>k. 0 \<le> current_revision s k \<and> current_revision s k < 2 ^ 63 - 1"
  shows "current_revision s' k = current_revision s k \<and> stored_document (fst k) (snd k) s' = stored_document (fst k) (snd k) s \<or>
    current_revision s' k = current_revision s k + 1"
  using assms(1)
proof cases
  case (swap env u r)
  show ?thesis
  proof (cases "st_db s' = st_db s")
    case True
    then show ?thesis by (simp add: current_revision_def stored_document_def)
  next
    case False
    from cas_changes [OF swap False] obtain saved where "cas_transaction L env u (st_db s) = Inr (st_db s', saved)" by blast
    note t = cas_transaction_stored [OF this]
    show ?thesis
    proof (cases "k = (cas_ScopeKey u, cas_Kind u)")
      case True
      have exp: "cas_ExpectedRevision u = current_revision s k"
        by (cases "stored_document (cas_ScopeKey u) (cas_Kind u) s") (use t(1) True in \<open>auto simp: current_revision_def\<close>)
      have "0 \<le> current_revision s k" "current_revision s k < 2 ^ 63 - 1" using assms(2) by blast+
      then have "wrap_int64 (cas_ExpectedRevision u + 1) = current_revision s k + 1"
        using wrap_int64_small [of "current_revision s k + 1"] exp by simp
      with t(2) True show ?thesis by (simp add: current_revision_def)
    next
      case False
      with t(3) [of "fst k" "snd k"] show ?thesis by (simp add: current_revision_def)
    qed
  qed
next
  case (get env a b r)
  with get_db show ?thesis by (auto simp: current_revision_def stored_document_def)
next
  case (damaged t code)
  then show ?thesis by (simp add: LatchDamaged_def current_revision_def stored_document_def)
next
  case (recover env integrity r)
  with recover_db show ?thesis by (auto simp: current_revision_def stored_document_def)
qed

lemma store_steps_revision:
  assumes "(store_step L ^^ n) s s'" and "\<forall>k. 0 \<le> current_revision s k \<and> current_revision s k + int n < 2 ^ 63"
  shows "current_revision s k \<le> current_revision s' k \<and> current_revision s' k \<le> current_revision s k + int n"
  using assms
proof (induction n arbitrary: s' k)
  case (Suc n)
  then obtain sm where m: "(store_step L ^^ n) s sm" "store_step L sm s'" by auto
  have bound: "\<forall>k. 0 \<le> current_revision s k \<and> current_revision s k + int n < 2 ^ 63"
    using Suc.prems(2) by (metis add_strict_left_mono lessI less_trans of_nat_less_iff)
  note IH = Suc.IH [OF m(1) bound]
  have "\<forall>k. 0 \<le> current_revision sm k \<and> current_revision sm k < 2 ^ 63 - 1"
  proof
    fix k
    have "current_revision s k + int (Suc n) < 2 ^ 63" "0 \<le> current_revision s k" using Suc.prems(2) by blast+
    with IH [of k] show "0 \<le> current_revision sm k \<and> current_revision sm k < 2 ^ 63 - 1" by simp
  qed
  from store_step_revision [OF m(2) this, of k] IH [of k] show ?case by auto
qed simp


lemma swap_success_exact:
  assumes "CompareAndSwapStateDocument L env u s = (s', Inr saved)" and "cas_ExpectedRevision u < 2 ^ 63 - 1"
  shows "current_revision s (cas_ScopeKey u, cas_Kind u) = cas_ExpectedRevision u \<and>
    map_of (db_documents (st_db s')) = (map_of (db_documents (st_db s)))((cas_ScopeKey u, cas_Kind u) \<mapsto>
      \<lparr>row_revision = cas_ExpectedRevision u + 1, row_document = cas_JSON u, row_sha256 = sha256_hex L (cas_JSON u), row_updated_at = env_now env\<rparr>) \<and>
    sdoc_Revision saved = cas_ExpectedRevision u + 1 \<and> sdoc_JSON saved = cas_JSON u \<and>
    ah_HeadGeneration (db_head (st_db s')) = ah_HeadGeneration (db_head (st_db s)) + 1 \<and> h_Ready (st_health s')"
proof -
  from assms(1) have v: "validateStateCAS L u = None" and m: "criticalMutation env (cas_transaction L env u) s = (s', Inr saved)"
    by (auto simp: cas_as_mutation split: option.splits)
  from v have "0 \<le> cas_ExpectedRevision u" by (simp add: validateStateCAS_def validateStateCASCoordinates_def)
  then have wrap: "wrap_int64 (cas_ExpectedRevision u + 1) = cas_ExpectedRevision u + 1"
    using assms(2) by (intro wrap_int64_small) simp_all
  from criticalMutation_Inr [OF m] have rdy: "h_Ready (st_health s')" and t: "cas_transaction L env u (st_db s) = Inr (st_db s', saved)" by auto
  from cas_transaction_Inr [OF t] obtain db1 where w: "write_state_row L u (env_now env) (st_db s) = Some db1"
    and d: "db_documents (st_db s') = db_documents db1" "ah_HeadGeneration (db_head (st_db s')) = ah_HeadGeneration (db_head (st_db s)) + 1"
      "sdoc_Revision saved = wrap_int64 (cas_ExpectedRevision u + 1)" "sdoc_JSON saved = cas_JSON u" by metis
  have "current_revision s (cas_ScopeKey u, cas_Kind u) = cas_ExpectedRevision u"
    using write_state_row_Some(1) [OF w] by (auto simp: current_revision_def stored_document_def split: option.splits)
  with write_state_row_Some(3) [OF w] d wrap rdy show ?thesis by simp
qed

subsection \<open>A concrete store\<close>

definition demo_digest :: golib where
  "demo_digest = \<lparr>json_Marshal = \<lambda>_. Some [], json_Valid = \<lambda>_. True, sha256_hex = \<lambda>s. replicate 64 CHR ''0''\<rparr>"

definition demo_store :: Store where
  "demo_store = \<lparr>st_db = \<lparr>db_documents = [((''daemon'', ''registry''), \<lparr>row_revision = 7, row_document = ''x'',
        row_sha256 = replicate 64 CHR ''0'', row_updated_at = Instant 10\<rparr>)],
      db_head = \<lparr>ah_AuthorityEpoch = ''e'', ah_HeadGeneration = 40, ah_LastEventSeq = 3, ah_SignerGeneration = 1\<rparr>\<rparr>,
    st_health = ready_health, st_recoveryMinimumHead = zero_head, st_lastObservedHead = zero_head, st_observed = True\<rparr>"

definition demo_update :: "int \<Rightarrow> StateDocumentCAS" where
  "demo_update rv = document_cas ''daemon'' ''registry'' rv ''y''"

definition demo_env_observer_fails :: sql_env where
  "demo_env_observer_fails = (env_fine (Instant 20))\<lparr>env_observer := Some (New ''disk full'')\<rparr>"

subsection \<open>Properties\<close>

text \<open>C5. A compare-and-swap that reports success replaced exactly the revision it expected (or
  created a missing document when it expected none): the document now holds the new content, its
  digest and the next revision, which is also the revision reported; every other document is
  untouched, and the authority head advanced by one generation.\<close>

theorem swap_success_is_exact:
  assumes "CompareAndSwapStateDocument L env u s = (s', Inr saved)" and "cas_ExpectedRevision u < 2 ^ 63 - 1"
  shows "current_revision s (cas_ScopeKey u, cas_Kind u) = cas_ExpectedRevision u \<and>
    map_of (db_documents (st_db s')) = (map_of (db_documents (st_db s)))((cas_ScopeKey u, cas_Kind u) \<mapsto>
      \<lparr>row_revision = cas_ExpectedRevision u + 1, row_document = cas_JSON u, row_sha256 = sha256_hex L (cas_JSON u), row_updated_at = env_now env\<rparr>) \<and>
    sdoc_Revision saved = cas_ExpectedRevision u + 1 \<and> sdoc_JSON saved = cas_JSON u \<and>
    ah_HeadGeneration (db_head (st_db s')) = ah_HeadGeneration (db_head (st_db s)) + 1 \<and> h_Ready (st_health s')"
  by (rule swap_success_exact [OF assms])

theorem swap_success_is_exact_witness:
  "current_revision demo_store (''daemon'', ''registry'') = 7"
proof -
  have "CompareAndSwapStateDocument demo_digest (env_fine (Instant 20)) (demo_update 7) demo_store =
      (fst (CompareAndSwapStateDocument demo_digest (env_fine (Instant 20)) (demo_update 7) demo_store),
       Inr \<lparr>sdoc_ScopeKey = ''daemon'', sdoc_Kind = ''registry'', sdoc_Revision = 8, sdoc_JSON = ''y'', sdoc_UpdatedAt = Instant 20\<rparr>)"
    by code_simp
  moreover have "cas_ExpectedRevision (demo_update 7) < 2 ^ 63 - 1" by (simp add: demo_update_def document_cas_def)
  ultimately have "current_revision demo_store (cas_ScopeKey (demo_update 7), cas_Kind (demo_update 7)) = cas_ExpectedRevision (demo_update 7)"
    using swap_success_is_exact by blast
  then show ?thesis by (simp add: demo_update_def document_cas_def)
qed

text \<open>C27. A compare-and-swap that reports an error has not silently changed the authority: either
  the database is as before, or the write is the one requested, against the revision expected, and
  then the commit itself reported the error or the store has blocked further mutations.\<close>

theorem swap_error_is_accounted:
  assumes "CompareAndSwapStateDocument L env u s = (s', Inl e)"
  shows "st_db s' = st_db s \<or>
    (\<exists>saved. cas_transaction L env u (st_db s) = Inr (st_db s', saved)) \<and>
    ((\<exists>x. env_commit env = Some (x, True)) \<or> \<not> h_Ready (st_health s'))"
proof (cases "validateStateCAS L u")
  case (Some x)
  with assms show ?thesis by (simp add: cas_as_mutation)
next
  case None
  with assms have "criticalMutation env (cas_transaction L env u) s = (s', Inl e)" by (simp add: cas_as_mutation)
  then show ?thesis by (rule criticalMutation_Inl) auto
qed

theorem swap_error_is_accounted_witness:
  "\<not> h_Ready (st_health (fst (CompareAndSwapStateDocument demo_digest demo_env_observer_fails (demo_update 7) demo_store)))"
proof -
  have run: "CompareAndSwapStateDocument demo_digest demo_env_observer_fails (demo_update 7) demo_store =
      (fst (CompareAndSwapStateDocument demo_digest demo_env_observer_fails (demo_update 7) demo_store),
       Inl (Wrap ''persist committed authority head'' (New ''disk full'')))"
    by code_simp
  have "ah_HeadGeneration (db_head (st_db (fst (CompareAndSwapStateDocument demo_digest demo_env_observer_fails (demo_update 7) demo_store)))) = 41"
    by code_simp
  moreover have "ah_HeadGeneration (db_head (st_db demo_store)) = 40" "env_commit demo_env_observer_fails = None"
    by (simp_all add: demo_store_def demo_env_observer_fails_def env_fine_def)
  ultimately show ?thesis using swap_error_is_accounted [OF run] by fastforce
qed

text \<open>C28. A blocked store stays blocked and unchanged. Whatever operation runs, a store that is not
  ready keeps its documents and head, and it becomes ready again only by the head-watermark recovery
  proof: the latch was the recoverable one, the content was intact, and the current head, which is
  not older than the recovery floor, has been handed to the observer.\<close>

theorem blocked_until_recovered:
  assumes "store_step L s s'" and "\<not> h_Ready (st_health s)"
  shows "st_db s' = st_db s \<and>
    (h_Ready (st_health s') \<longrightarrow> h_Code (st_health s) = ''head_watermark'' \<and> h_RecoveryEligible (st_health s) \<and>
       requireMinimumHead (db_head (st_db s)) (st_recoveryMinimumHead s) = None \<and> st_lastObservedHead s' = db_head (st_db s))"
  using assms(1)
proof cases
  case (swap env u r)
  with assms(2) have "s' = s" by (auto simp: cas_as_mutation criticalMutation_def split: option.splits)
  with assms(2) show ?thesis by simp
next
  case (get env a b r)
  with assms(2) get_db show ?thesis by metis
next
  case (damaged t code)
  with assms(2) show ?thesis by (simp add: LatchDamaged_def latch_id_blocked)
next
  case (recover env integrity r)
  with recover_db recover_ready [OF recover assms(2)] show ?thesis by blast
qed

theorem blocked_until_recovered_witness:
  "st_db (fst (recoverTransientHeadWatermark (env_fine (Instant 30)) (Inr True)
      (latchRecoverableHeadWatermark (Instant 20) zero_head demo_store))) = st_db demo_store"
proof -
  let ?s = "latchRecoverableHeadWatermark (Instant 20) zero_head demo_store"
  obtain s' r where "recoverTransientHeadWatermark (env_fine (Instant 30)) (Inr True) ?s = (s', r)" by fastforce
  then show ?thesis using blocked_until_recovered [OF store_step.recover [of _ _ ?s s']] by simp
qed



text \<open>Evidence of a lost write blocks the store: when the stored revision is older than the one
  a ready store's caller expects, the compare-and-swap changes no document, reports the conflict,
  and latches the store so that it is not ready and not recoverable in process.\<close>

theorem lost_write_latches:
  assumes "validateStateCAS L u = None" and "h_Ready (st_health s)" and "env = env_fine t" and "st_observed s \<longrightarrow> headNotBackTx env s = None"
    and "cas_ExpectedHead u = None" and "IsZero (cas_UpdatedAtNotBefore u)"
    and "stored_document (cas_ScopeKey u) (cas_Kind u) s = Some (r, js)" and "r < cas_ExpectedRevision u"
  shows "CompareAndSwapStateDocument L env u s =
    (s\<lparr>st_health := \<lparr>h_Ready = False, h_Code = ''lost_write'', h_BlockedAt = t, h_RecoveryEligible = False\<rparr>, st_recoveryMinimumHead := zero_head\<rparr>,
     Inl (RevisionConflictError (cas_ExpectedRevision u) r True))"
proof -
  from assms(7) obtain row where row: "map_of (db_documents (st_db s)) (cas_ScopeKey u, cas_Kind u) = Some row" "row_revision row = r"
    by (auto simp: stored_document_def)
  then have "write_state_row L u t (st_db s) = None"
    using assms(8) by (simp add: write_state_row_def)
  then have "cas_transaction L env u (st_db s) = Inl (RevisionConflictError (cas_ExpectedRevision u) r True)"
    using assms(3,5,6) row by (simp add: cas_transaction_def compareAndSwapStateTx_def env_fine_def)
  with assms show ?thesis
    by (simp add: cas_as_mutation criticalMutation_def run_transaction_def env_fine_def latch_failure_def LostWrite_def
        latchCritical_def criticalSQLiteCode_def latchHealth_def)
qed

theorem lost_write_latches_witness:
  "snd (CompareAndSwapStateDocument demo_digest (env_fine (Instant 20)) (demo_update 9) demo_store) =
     Inl (RevisionConflictError 9 7 True)"
proof -
  have "validateStateCAS demo_digest (demo_update 9) = None" by code_simp
  moreover have "stored_document (cas_ScopeKey (demo_update 9)) (cas_Kind (demo_update 9)) demo_store = Some (7, ''x'')"
    by (simp add: stored_document_def demo_store_def demo_update_def document_cas_def)
  ultimately show ?thesis
    using lost_write_latches [of demo_digest "demo_update 9" demo_store "env_fine (Instant 20)" "Instant 20" 7 "''x''"]
    by (simp add: demo_store_def demo_update_def document_cas_def ready_health_def headNotBackTx_def env_fine_def zero_head_def)
qed

end
