(* ===== verification/Alert_Registry_Store.thy ===== *)
theory Alert_Registry_Store
  imports Alert_Registry_Snapshot Corestore
begin

text \<open>
  The registry of \<^verbatim>\<open>src/internal/daemon/alert_episode_registry.go\<close> as a client of the authority
  store: the cached revision and document, \<^verbatim>\<open>reload\<close>, and the operations \<^verbatim>\<open>Apply\<close>,
  \<^verbatim>\<open>RecordInputDisposition\<close>, \<^verbatim>\<open>RecordApplyFailure\<close>, \<^verbatim>\<open>Snapshot\<close> and \<^verbatim>\<open>scopeState\<close>. The three that
  write run \<open>cas_update_loop\<close> over the store's versioned document with at most
  \<^verbatim>\<open>alertEpisodeRegistryCASAttempts\<close> attempts; the list of attempts says what the environment does to
  each of them. The JSON codec is a parameter. A registry that is nil (or has no store) is \<open>None\<close>.
  The properties say that a successful write is an atomic read-modify-write of the stored
  document, that accounting never touches the lifecycle, and that a quiet store accepts an
  evaluation.
\<close>

subsection \<open>The registry and its codec\<close>

abbreviation daemonStateScope :: string where "daemonStateScope \<equiv> ''daemon''"

abbreviation alertEpisodeRegistryStateKind :: string where "alertEpisodeRegistryStateKind \<equiv> ''alert_episode_registry''"

record alertEpisodeRegistry =
  reg_inactiveLimit :: nat
  reg_revision :: int
  reg_document :: alertEpisodeRegistryDocument

text \<open>\<open>rc_Decode\<close> decodes the first JSON value of its input and returns the rest; \<open>rc_Next\<close> decodes
  the next value of that rest into an empty structure: \<open>None\<close> is the end of the input, otherwise
  there is a value (\<open>Some None\<close>) or an error.\<close>

record registry_codec =
  rc_Marshal :: "alertEpisodeRegistryDocument \<Rightarrow> string option"
  rc_Decode :: "string \<Rightarrow> (alertEpisodeRegistryDocument \<times> string) result"
  rc_Next :: "string \<Rightarrow> goerror option option"

definition decodeAlertEpisodeRegistryDocument :: "registry_codec \<Rightarrow> string \<Rightarrow> alertEpisodeRegistryDocument result" where
  "decodeAlertEpisodeRegistryDocument C raw =
     bind_result (rc_Decode C raw) (\<lambda>(document, rest).
       case rc_Next C rest of
         None \<Rightarrow> Inr document
       | Some None \<Rightarrow> Inl (New ''alert episode registry contains trailing JSON'')
       | Some (Some e) \<Rightarrow> Inl e)"

definition reload :: "golib \<Rightarrow> registry_codec \<Rightarrow> nat \<Rightarrow> sql_env \<Rightarrow> Store \<Rightarrow> Store \<times> (int \<times> alertEpisodeRegistryDocument) result" where
  "reload L C inactiveLimit env s =
     (case load_document L daemonStateScope alertEpisodeRegistryStateKind env s of
        (s', Inl e) \<Rightarrow> (s', Inl (Wrap ''load alert episode registry'' e))
      | (s', Inr None) \<Rightarrow> (s', Inr (0, empty_registry))
      | (s', Inr (Some (revision, js))) \<Rightarrow>
          (s', case decodeAlertEpisodeRegistryDocument C js of
             Inl e \<Rightarrow> Inl (Wrap ''load alert episode registry revision'' e)
           | Inr document \<Rightarrow>
               (case validateAlertEpisodeRegistryDocument L document inactiveLimit of
                  Some e \<Rightarrow> Inl (Wrap ''load alert episode registry revision'' e)
                | None \<Rightarrow> Inr (revision, document))))"

definition newAlertEpisodeRegistryWithInactiveLimit ::
  "golib \<Rightarrow> registry_codec \<Rightarrow> sql_env \<Rightarrow> Store option \<Rightarrow> int \<Rightarrow> Store option \<times> alertEpisodeRegistry result" where
  "newAlertEpisodeRegistryWithInactiveLimit L C env core inactiveLimit =
     (case core of
        None \<Rightarrow> (None, Inl (New ''alert episode registry requires SQLite authority''))
      | Some s \<Rightarrow>
          if inactiveLimit < 0 then (Some s, Inl (New ''alert episode registry inactive limit must not be negative''))
          else (case reload L C (nat inactiveLimit) env s of
             (s', Inl e) \<Rightarrow> (Some s', Inl e)
           | (s', Inr (revision, document)) \<Rightarrow>
               (Some s', Inr \<lparr>reg_inactiveLimit = nat inactiveLimit, reg_revision = revision, reg_document = document\<rparr>)))"

definition newAlertEpisodeRegistry :: "golib \<Rightarrow> registry_codec \<Rightarrow> sql_env \<Rightarrow> Store option \<Rightarrow> Store option \<times> alertEpisodeRegistry result" where
  "newAlertEpisodeRegistry L C env core =
     newAlertEpisodeRegistryWithInactiveLimit L C env core alertEpisodeRegistryInactiveLimit"

subsection \<open>Writing\<close>

text \<open>The loop of the three writing operations. At most \<open>alertEpisodeRegistryCASAttempts\<close> attempts run.\<close>

definition registry_update ::
  "golib \<Rightarrow> registry_codec \<Rightarrow> (alertEpisodeRegistryDocument \<Rightarrow> alertEpisodeRegistryDocument result) \<Rightarrow> string \<Rightarrow> string \<Rightarrow> string \<Rightarrow>
   (Store, sql_env) attempt list \<Rightarrow> alertEpisodeRegistry \<Rightarrow> Store \<Rightarrow> Store \<times> alertEpisodeRegistry \<times> alertEpisodeRegistryDocument result" where
  "registry_update L C step encodeMsg persistMsg exhaustedMsg atts r s =
     (case cas_update_loop (reload L C (reg_inactiveLimit r))
         (swap_document L daemonStateScope alertEpisodeRegistryStateKind)
         (\<lambda>d. bind_result (step d) (\<lambda>d'. case rc_Marshal C d' of None \<Rightarrow> Inl (New encodeMsg) | Some raw \<Rightarrow> Inr (d', raw)))
         persistMsg exhaustedMsg (take alertEpisodeRegistryCASAttempts atts) (reg_revision r, reg_document r) s of
        (s', (revision, document), res) \<Rightarrow> (s', r\<lparr>reg_revision := revision, reg_document := document\<rparr>, res))"

definition Apply ::
  "golib \<Rightarrow> registry_codec \<Rightarrow> (Store, sql_env) attempt list \<Rightarrow> alertEpisodeRegistry option \<Rightarrow> alertEpisodeEvaluation \<Rightarrow> Store \<Rightarrow>
   Store \<times> alertEpisodeRegistry option \<times> AlertCandidateSnapshot result" where
  "Apply L C atts reg ev s =
     (case reg of
        None \<Rightarrow> (s, None, Inl (New ''alert episode registry is unavailable''))
      | Some r \<Rightarrow>
          (case validateAlertEpisodeEvaluation L ev of
             Some e \<Rightarrow> (s, reg, Inl e)
           | None \<Rightarrow>
              (case registry_update L C
                  (\<lambda>d. bind_result (applyAlertEpisodeEvaluation L d ev (reg_inactiveLimit r)) (\<lambda>(d', _). Inr d'))
                  ''encode alert episode registry'' ''persist alert episode registry''
                  ''persist alert episode registry: repeated revision conflict'' atts r s of
                 (s', r', Inl e) \<Rightarrow> (s', Some r', Inl e)
               | (s', r', Inr d') \<Rightarrow>
                   (s', Some r', case findAlertEpisodeScope (elems (doc_Scopes d')) (ev_AuthorityScope ev) of
                      None \<Rightarrow> Inl (New ''persisted alert episode scope is missing'')
                    | Some sd \<Rightarrow> alertEpisodeSnapshot sd (ev_AsOf ev)))))"

text \<open>A scope that only accounting has touched.\<close>

definition unavailable_scope :: "string \<Rightarrow> gotime \<Rightarrow> alertEpisodeRegistryScopeDocument" where
  "unavailable_scope authorityScope at = \<lparr>sd_AuthorityScope = authorityScope, sd_AsOf = at,
     sd_Coverage = \<lparr>cov_State = AlertCoverageUnavailable, cov_Freshness = AlertCoverageUnknown, cov_AsOf = at,
        cov_ExpectedSources = alertShadowExpectedSourceSlice, cov_CoveredSources = Slice []\<rparr>,
     sd_SourceStates = Slice [], sd_Cursors = zero_cursors,
     sd_Metrics = \<lparr>mt_AsOf = at, mt_Evaluations = 0, mt_RegistryApplyFailures = 0, mt_Equivocations = 0,
        mt_LastErrorCode = [], mt_Sources = newAlertShadowDurableSourceMeasurements\<rparr>,
     sd_Episodes = Slice []\<rparr>"

text \<open>The body both accounting operations share: find or add the scope, advance the two
  timestamps, change the metrics, sort and validate.\<close>

definition account_in_scope ::
  "golib \<Rightarrow> nat \<Rightarrow> string \<Rightarrow> gotime \<Rightarrow> (alertShadowDurableMetrics \<Rightarrow> alertShadowDurableMetrics result) \<Rightarrow>
   alertEpisodeRegistryDocument \<Rightarrow> alertEpisodeRegistryDocument result" where
  "account_in_scope L inactiveLimit authorityScope at tally base =
     (let next = cloneAlertEpisodeRegistryDocument base;
          (scopes, i) = locate_scope authorityScope (unavailable_scope authorityScope at) (elems (doc_Scopes next));
          updatedAt = (if IsZero (doc_UpdatedAt next) \<or> at > doc_UpdatedAt next then at else doc_UpdatedAt next);
          metrics = sd_Metrics (scopes ! i);
          metrics1 = (if IsZero (mt_AsOf metrics) \<or> at > mt_AsOf metrics then metrics\<lparr>mt_AsOf := at\<rparr> else metrics)
      in bind_result (tally metrics1) (\<lambda>metrics2.
           let next' = next\<lparr>doc_UpdatedAt := updatedAt,
                 doc_Scopes := Slice (sort_key sd_AuthorityScope (scopes[i := (scopes ! i)\<lparr>sd_Metrics := metrics2\<rparr>]))\<rparr>
           in case validateAlertEpisodeRegistryDocument L next' inactiveLimit of
                Some e \<Rightarrow> Inl e
              | None \<Rightarrow> Inr next'))"

definition count_source :: "string \<Rightarrow> alertShadowSourceMetrics \<Rightarrow> alertShadowSourceMetrics" where
  "count_source disposition m =
     (if disposition = alertShadowDispositionDuplicate then m\<lparr>sm_DuplicateInputs := sm_DuplicateInputs m + 1\<rparr>
      else if disposition = alertShadowDispositionStale then m\<lparr>sm_StaleSuppressions := sm_StaleSuppressions m + 1\<rparr>
      else if disposition = alertShadowDispositionEquivocation then m\<lparr>sm_Equivocations := sm_Equivocations m + 1\<rparr>
      else m)"

fun count_sources :: "string \<Rightarrow> AlertSource list \<Rightarrow> alertShadowDurableSourceMeasurements list \<Rightarrow> alertShadowDurableSourceMeasurements list result" where
  "count_sources disposition [] rows = Inr rows"
| "count_sources disposition (source # sources) rows =
     (case alertShadowDurableSourceMetric rows source of
        None \<Rightarrow> Inl (New ''alert registry disposition source metric is missing'')
      | Some _ \<Rightarrow> count_sources disposition sources (with_source_metric source (count_source disposition) rows))"

definition count_disposition :: "AlertSource list \<Rightarrow> string \<Rightarrow> alertShadowDurableMetrics \<Rightarrow> alertShadowDurableMetrics result" where
  "count_disposition sources disposition m =
     (let m1 = (if disposition = alertShadowDispositionEquivocation then m\<lparr>mt_Equivocations := mt_Equivocations m + 1\<rparr> else m)
      in bind_result (count_sources disposition sources (elems (mt_Sources m1))) (\<lambda>rows. Inr (m1\<lparr>mt_Sources := Slice rows\<rparr>)))"

fun disposition_sources :: "AlertSource list \<Rightarrow> AlertSource list \<Rightarrow> goerror option" where
  "disposition_sources seen [] = None"
| "disposition_sources seen (source # sources) =
     (if source \<in> set seen then Some (New ''duplicate alert registry disposition source'')
      else if \<not> alertCoverageContains (elems alertShadowExpectedSourceSlice) source
      then Some (New ''invalid alert registry disposition source'')
      else disposition_sources (source # seen) sources)"

definition RecordInputDisposition ::
  "golib \<Rightarrow> registry_codec \<Rightarrow> (Store, sql_env) attempt list \<Rightarrow> alertEpisodeRegistry option \<Rightarrow> string \<Rightarrow> gotime \<Rightarrow> AlertSource list \<Rightarrow> string \<Rightarrow>
   Store \<Rightarrow> Store \<times> alertEpisodeRegistry option \<times> goerror option" where
  "RecordInputDisposition L C atts reg authorityScope at sources disposition s =
     (case reg of
        None \<Rightarrow> (s, None, Some (New ''alert episode registry is unavailable''))
      | Some r \<Rightarrow>
          (case first_refusal [
              ValidateAlertAuthorityScope authorityScope,
              reject_if (IsZero at) (New ''alert registry input disposition requires as_of''),
              reject_if (disposition \<notin> {alertShadowDispositionDuplicate, alertShadowDispositionStale, alertShadowDispositionEquivocation})
                (New ''invalid alert registry input disposition''),
              disposition_sources [] sources] of
             Some e \<Rightarrow> (s, reg, Some e)
           | None \<Rightarrow>
              (case registry_update L C
                  (account_in_scope L (reg_inactiveLimit r) authorityScope at (count_disposition sources disposition))
                  ''encode alert episode registry disposition'' ''persist alert registry input disposition''
                  ''persist alert registry input disposition: repeated revision conflict'' atts r s of
                 (s', r', Inl e) \<Rightarrow> (s', Some r', Some e)
               | (s', r', Inr d') \<Rightarrow> (s', Some r', None))))"

definition count_apply_failure :: "alertShadowDurableMetrics \<Rightarrow> alertShadowDurableMetrics result" where
  "count_apply_failure m = Inr (m\<lparr>mt_RegistryApplyFailures := mt_RegistryApplyFailures m + 1,
     mt_LastErrorCode := alertShadowReasonRegistryApplyFailed\<rparr>)"

definition RecordApplyFailure ::
  "golib \<Rightarrow> registry_codec \<Rightarrow> (Store, sql_env) attempt list \<Rightarrow> alertEpisodeRegistry option \<Rightarrow> string \<Rightarrow> gotime \<Rightarrow>
   Store \<Rightarrow> Store \<times> alertEpisodeRegistry option \<times> goerror option" where
  "RecordApplyFailure L C atts reg authorityScope at s =
     (case reg of
        None \<Rightarrow> (s, None, Some (New ''alert episode registry is unavailable''))
      | Some r \<Rightarrow>
          (case first_refusal [
              ValidateAlertAuthorityScope authorityScope,
              reject_if (IsZero at) (New ''alert registry apply failure requires as_of'')] of
             Some e \<Rightarrow> (s, reg, Some e)
           | None \<Rightarrow>
              (case registry_update L C
                  (account_in_scope L (reg_inactiveLimit r) authorityScope at count_apply_failure)
                  ''encode alert registry apply failure'' ''persist alert registry apply failure''
                  ''persist alert registry apply failure: repeated revision conflict'' atts r s of
                 (s', r', Inl e) \<Rightarrow> (s', Some r', Some e)
               | (s', r', Inr d') \<Rightarrow> (s', Some r', None))))"

subsection \<open>Reading\<close>

definition Snapshot :: "alertEpisodeRegistry option \<Rightarrow> string \<Rightarrow> gotime \<Rightarrow> AlertCandidateSnapshot option result" where
  "Snapshot reg authorityScope now =
     (case reg of
        None \<Rightarrow> Inl (New ''alert episode registry is unavailable'')
      | Some r \<Rightarrow>
          (case first_refusal [
              ValidateAlertAuthorityScope authorityScope,
              reject_if (IsZero now) (New ''alert episode registry snapshot requires now'')] of
             Some e \<Rightarrow> Inl e
           | None \<Rightarrow>
              if reg_revision r = 0 then Inr None
              else (case findAlertEpisodeScope (elems (doc_Scopes (reg_document r))) authorityScope of
                      None \<Rightarrow> Inr None
                    | Some sd \<Rightarrow> bind_result (alertEpisodeSnapshot sd now) (\<lambda>snap. Inr (Some snap)))))"

definition scopeState :: "alertEpisodeRegistry option \<Rightarrow> string \<Rightarrow> alertEpisodeRegistryScopeDocument option result" where
  "scopeState reg authorityScope =
     (case reg of
        None \<Rightarrow> Inl (New ''alert episode registry is unavailable'')
      | Some r \<Rightarrow>
          (case ValidateAlertAuthorityScope authorityScope of
             Some e \<Rightarrow> Inl e
           | None \<Rightarrow> Inr (map_option cloneAlertEpisodeScopeDocument
                (findAlertEpisodeScope (elems (doc_Scopes (reg_document r))) authorityScope))))"


subsection \<open>The stored document\<close>

definition registry_decode :: "golib \<Rightarrow> registry_codec \<Rightarrow> nat \<Rightarrow> string \<Rightarrow> alertEpisodeRegistryDocument option" where
  "registry_decode L C inactiveLimit js =
     (case decodeAlertEpisodeRegistryDocument C js of
        Inl e \<Rightarrow> None
      | Inr d \<Rightarrow> if validateAlertEpisodeRegistryDocument L d inactiveLimit = None then Some d else None)"

definition registry_stored :: "Store \<Rightarrow> (int \<times> string) option" where
  "registry_stored s = stored_document daemonStateScope alertEpisodeRegistryStateKind s"

definition registry_content :: "golib \<Rightarrow> registry_codec \<Rightarrow> nat \<Rightarrow> Store \<Rightarrow> alertEpisodeRegistryDocument option" where
  "registry_content L C inactiveLimit s =
     (case registry_stored s of None \<Rightarrow> Some empty_registry | Some (rv, js) \<Rightarrow> registry_decode L C inactiveLimit js)"

text \<open>The cache of a registry is not ahead of the store, and holds the stored document when it is not
  behind it either.\<close>

definition registry_in_sync :: "golib \<Rightarrow> registry_codec \<Rightarrow> alertEpisodeRegistry \<Rightarrow> Store \<Rightarrow> bool" where
  "registry_in_sync L C r s \<longleftrightarrow>
     (case registry_stored s of
        None \<Rightarrow> reg_revision r = 0 \<and> reg_document r = empty_registry
      | Some (rv, js) \<Rightarrow> reg_revision r \<le> rv \<and>
          (reg_revision r = rv \<longrightarrow> registry_decode L C (reg_inactiveLimit r) js = Some (reg_document r)))"

definition registry_follows :: "Store \<Rightarrow> Store \<Rightarrow> bool" where
  "registry_follows s s' \<longleftrightarrow> registry_stored s' = registry_stored s \<or>
     (\<exists>rv' js'. registry_stored s' = Some (rv', js') \<and>
        (case registry_stored s of None \<Rightarrow> 0 < rv' | Some (rv, js) \<Rightarrow> rv < rv'))"

text \<open>What the registry relies on in the environment of its attempts: others follow the revision
  protocol, and failures of the database are not revision conflicts.\<close>

definition orderly :: "(Store, sql_env) attempt list \<Rightarrow> bool" where
  "orderly atts \<longleftrightarrow> (\<forall>att\<in>set atts. env_sane (att_swap att) \<and> (\<forall>s. registry_follows s (att_interfere att s)))"

text \<open>What the registry relies on in the codec. The count of duplicate candidates is not part of
  the encoding, and a raw legacy document may be reformatted by it.\<close>

definition no_delta :: "alertEpisodeRegistryDocument \<Rightarrow> bool" where
  "no_delta d \<longleftrightarrow> (\<forall>sd\<in>set (elems (doc_Scopes d)). \<forall>st\<in>set (elems (sd_SourceStates sd)). ss_DuplicateCandidates st = 0)"

definition registry_codec_ok :: "golib \<Rightarrow> registry_codec \<Rightarrow> bool" where
  "registry_codec_ok L C \<longleftrightarrow>
     (\<forall>d raw lim. validateAlertEpisodeRegistryDocument L d lim = None \<and> no_delta d \<and> doc_LegacyUnscoped d = None \<and>
        rc_Marshal C d = Some raw \<longrightarrow> (\<exists>rest. rc_Decode C raw = Inr (d, rest) \<and> rc_Next C rest = None)) \<and>
     (\<forall>raw d rest. rc_Decode C raw = Inr (d, rest) \<longrightarrow> no_delta d)"

lemma registry_locale_views:
  "registry_content L C lim s = cas_documents.content (stored_document daemonStateScope alertEpisodeRegistryStateKind) (registry_decode L C lim) empty_registry s"
  "registry_in_sync L C r s = cas_documents.cache_ok (stored_document daemonStateScope alertEpisodeRegistryStateKind)
     (registry_decode L C (reg_inactiveLimit r)) empty_registry (reg_revision r, reg_document r) s"
  "registry_follows s s' = cas_documents.follows (stored_document daemonStateScope alertEpisodeRegistryStateKind) s s'"
  by (simp_all add: registry_content_def registry_stored_def state_documents.content_def registry_in_sync_def
      state_documents.cache_ok_def registry_follows_def state_documents.follows_def split: option.split prod.split)

lemma reload_in_sync:
  assumes "reload L C lim e s = (s', Inr c)"
  shows "registry_stored s' = registry_stored s \<and>
    registry_in_sync L C \<lparr>reg_inactiveLimit = lim, reg_revision = fst c, reg_document = snd c\<rparr> s'"
proof -
  obtain sx res where ld: "load_document L daemonStateScope alertEpisodeRegistryStateKind e s = (sx, res)" by fastforce
  from state_documents.load_current [OF ld] have c: "registry_stored sx = registry_stored s"
    and r: "\<And>x. res = Inr x \<Longrightarrow> x = registry_stored s" by (auto simp: registry_stored_def)
  show ?thesis
    using assms ld c r
    by (fastforce simp: reload_def registry_in_sync_def registry_decode_def split: sum.splits option.splits prod.splits)
qed

text \<open>A successful update of the registry, from the interface of the versioned document.\<close>

lemma registry_update_atomic:
  assumes run: "registry_update L C step m0 m1 m2 atts r s = (s', r', Inr d')"
    and sync: "registry_in_sync L C r s" and env: "orderly atts"
  shows "\<exists>s0 e rv d raw. registry_content L C (reg_inactiveLimit r) s0 = Some d \<and> step d = Inr d' \<and>
     rc_Marshal C d' = Some raw \<and>
     swap_document L daemonStateScope alertEpisodeRegistryStateKind e rv raw s0 = (s', Inr (reg_revision r')) \<and>
     registry_stored s' = Some (reg_revision r', raw) \<and> reg_document r' = d' \<and> reg_inactiveLimit r' = reg_inactiveLimit r"
proof -
  let ?compute = "\<lambda>d. bind_result (step d) (\<lambda>d'. case rc_Marshal C d' of None \<Rightarrow> Inl (New m0) | Some raw \<Rightarrow> Inr (d', raw))"
  from run obtain c where loop: "cas_update_loop (reload L C (reg_inactiveLimit r)) (swap_document L daemonStateScope alertEpisodeRegistryStateKind)
      ?compute m1 m2 (take alertEpisodeRegistryCASAttempts atts) (reg_revision r, reg_document r) s = (s', c, Inr d')"
    and r': "r' = r\<lparr>reg_revision := fst c, reg_document := snd c\<rparr>"
    by (auto simp: registry_update_def split: prod.splits)
  have part: "set (take alertEpisodeRegistryCASAttempts atts) \<subseteq> set atts" by (rule set_take_subset)
  have "\<exists>s0 e rv d raw. registry_content L C (reg_inactiveLimit r) s0 = Some d \<and> ?compute d = Inr (d', raw) \<and>
      swap_document L daemonStateScope alertEpisodeRegistryStateKind e rv raw s0 = (s', Inr (fst c)) \<and>
      stored_document daemonStateScope alertEpisodeRegistryStateKind s' = Some (fst c, raw) \<and> snd c = d'"
    unfolding registry_locale_views(1)
  proof (rule state_documents.update_is_atomic [OF _ _ _ _ loop])
    show "reload L C (reg_inactiveLimit r) e sa = (sb, Inr cc) \<Longrightarrow>
        stored_document daemonStateScope alertEpisodeRegistryStateKind sb = stored_document daemonStateScope alertEpisodeRegistryStateKind sa \<and>
        cas_documents.cache_ok (stored_document daemonStateScope alertEpisodeRegistryStateKind)
          (registry_decode L C (reg_inactiveLimit r)) empty_registry cc sb" for e sa sb cc
      using reload_in_sync [of L C "reg_inactiveLimit r" e sa sb cc] by (simp add: registry_locale_views registry_stored_def)
  next
    show "att \<in> set (take alertEpisodeRegistryCASAttempts atts) \<Longrightarrow>
        cas_documents.follows (stored_document daemonStateScope alertEpisodeRegistryStateKind) sa (att_interfere att sa)" for att sa
      using env part by (auto simp: orderly_def registry_locale_views(3))
  next
    show "att \<in> set (take alertEpisodeRegistryCASAttempts atts) \<Longrightarrow> env_sane (att_swap att)" for att
      using env part by (auto simp: orderly_def)
  next
    show "cas_documents.cache_ok (stored_document daemonStateScope alertEpisodeRegistryStateKind)
        (registry_decode L C (reg_inactiveLimit r)) empty_registry (reg_revision r, reg_document r) s"
      using sync by (simp add: registry_locale_views(2))
  qed
  then obtain s0 e rv d raw where w: "registry_content L C (reg_inactiveLimit r) s0 = Some d" "?compute d = Inr (d', raw)"
      "swap_document L daemonStateScope alertEpisodeRegistryStateKind e rv raw s0 = (s', Inr (fst c))"
      "stored_document daemonStateScope alertEpisodeRegistryStateKind s' = Some (fst c, raw)" "snd c = d'"
    by (elim exE conjE) (rule that)
  from w(2) have "step d = Inr d'" "rc_Marshal C d' = Some raw"
    by (auto simp: bind_result_Inr split: option.splits)
  with w(1,3,4,5) r' show ?thesis unfolding registry_stored_def by fastforce
qed


subsection \<open>What the steps keep\<close>

lemma merge_no_delta:
  assumes "\<forall>st\<in>set (elems states). ss_DuplicateCandidates st = 0"
  shows "\<forall>st\<in>set (elems (mergeAlertEpisodeSourceStates states updates)). ss_DuplicateCandidates st = 0"
proof -
  let ?put = "\<lambda>st m. AList.update (ss_Source st) (st\<lparr>ss_DuplicateCandidates := 0\<rparr>) m"
  have put: "\<forall>x\<in>set m. ss_DuplicateCandidates (snd x) = 0 \<Longrightarrow> \<forall>x\<in>set (fold ?put xs m). ss_DuplicateCandidates (snd x) = 0"
    for xs m
  proof (induction xs arbitrary: m)
    case (Cons st xs)
    have "\<forall>x\<in>set (?put st m). ss_DuplicateCandidates (snd x) = 0"
      using Cons.prems by (induction m) auto
    then show ?case using Cons.IH by simp
  qed simp
  show ?thesis
    using assms put [of "fold ?put (elems states) []" updates] put [of "[]" "elems states"]
    by (auto simp: mergeAlertEpisodeSourceStates_def Let_def)
qed

lemma apply_legacy: "applyAlertEpisodeEvaluation L base ev lim = Inr (next, decs) \<Longrightarrow> doc_LegacyUnscoped next = doc_LegacyUnscoped base"
  by (auto simp: applyAlertEpisodeEvaluation_def bind_result_Inr Let_def split: if_splits option.splits prod.splits)

lemma apply_no_delta:
  assumes ap: "applyAlertEpisodeEvaluation L base ev lim = Inr (next, decs)" and wf: "registry_wf base" and nd: "no_delta base"
  shows "no_delta next"
  unfolding no_delta_def
proof (intro ballI)
  fix sd st assume sd: "sd \<in> set (elems (doc_Scopes next))" and st: "st \<in> set (elems (sd_SourceStates sd))"
  let ?k = "ev_AuthorityScope ev"
  from wf have d: "distinct_by sd_AuthorityScope (elems (doc_Scopes base))" by (simp add: registry_wf_def)
  from apply_effect [OF ap d] obtain sd' where e: "evaluate_scope L (doc_NextOccurrenceSequence base) (scope_before base ?k) ev lim =
      Inr (doc_NextOccurrenceSequence next, sd', decs)" and f: "findAlertEpisodeScope (elems (doc_Scopes next)) ?k = Some sd'"
    and o: "\<And>k. k \<noteq> ?k \<Longrightarrow> findAlertEpisodeScope (elems (doc_Scopes next)) k =
       map_option cloneAlertEpisodeScopeDocument (findAlertEpisodeScope (elems (doc_Scopes base)) k)"
    and v: "validateAlertEpisodeRegistryDocument L next lim = None" by metis
  have found: "findAlertEpisodeScope (elems (doc_Scopes next)) (sd_AuthorityScope sd) = Some sd"
    using sd registry_document_facts(1) [OF v] by (simp add: findAlertEpisodeScope_lookup lookup_by_Some_iff)
  have base_nd: "x \<in> set (elems (doc_Scopes base)) \<Longrightarrow> \<forall>st\<in>set (elems (sd_SourceStates x)). ss_DuplicateCandidates st = 0" for x
    using nd by (simp add: no_delta_def)
  have mem: "findAlertEpisodeScope (elems (doc_Scopes base)) k = Some x \<Longrightarrow> x \<in> set (elems (doc_Scopes base))" for k x
    unfolding findAlertEpisodeScope_lookup by (blast dest: lookup_by_SomeD)
  show "ss_DuplicateCandidates st = 0"
  proof (cases "sd_AuthorityScope sd = ?k")
    case True
    with found f have "sd = sd'" by simp
    with e have "sd_SourceStates sd = mergeAlertEpisodeSourceStates (sd_SourceStates (scope_before base ?k)) (elems (ev_SourceStates ev))"
      by (auto simp: evaluate_scope_def bind_result_Inr Let_def)
    moreover have "\<forall>st\<in>set (elems (sd_SourceStates (scope_before base ?k))). ss_DuplicateCandidates st = 0"
      using base_nd mem by (auto simp: scope_before_def fresh_scope_def split: option.splits)
    ultimately show ?thesis using merge_no_delta st by metis
  next
    case False
    with found o obtain x where "findAlertEpisodeScope (elems (doc_Scopes base)) (sd_AuthorityScope sd) = Some x"
      "sd = cloneAlertEpisodeScopeDocument x" by fastforce
    with base_nd [OF mem] st show ?thesis by fastforce
  qed
qed

text \<open>The accounting step: the scope it addresses gets new metrics, and nothing else changes.\<close>

definition scope_or_unavailable :: "alertEpisodeRegistryDocument \<Rightarrow> string \<Rightarrow> gotime \<Rightarrow> alertEpisodeRegistryScopeDocument" where
  "scope_or_unavailable base k at = (case findAlertEpisodeScope (elems (doc_Scopes base)) k of
     Some sd \<Rightarrow> cloneAlertEpisodeScopeDocument sd | None \<Rightarrow> unavailable_scope k at)"

lemma account_effect:
  assumes "account_in_scope L lim k at tally base = Inr next" and d: "distinct_by sd_AuthorityScope (elems (doc_Scopes base))"
  shows "\<exists>m m'. tally m = Inr m' \<and> m\<lparr>mt_AsOf := t\<rparr> = (sd_Metrics (scope_or_unavailable base k at))\<lparr>mt_AsOf := t\<rparr> \<and>
      findAlertEpisodeScope (elems (doc_Scopes next)) k = Some ((scope_or_unavailable base k at)\<lparr>sd_Metrics := m'\<rparr>)"
    and "k' \<noteq> k \<Longrightarrow> findAlertEpisodeScope (elems (doc_Scopes next)) k' =
       map_option cloneAlertEpisodeScopeDocument (findAlertEpisodeScope (elems (doc_Scopes base)) k')"
    and "validateAlertEpisodeRegistryDocument L next lim = None"
    and "doc_NextOccurrenceSequence next = doc_NextOccurrenceSequence base"
    and "doc_LegacyUnscoped next = doc_LegacyUnscoped base"
proof -
  let ?cl = "map cloneAlertEpisodeScopeDocument (elems (doc_Scopes base))"
  obtain scopes i where loc: "locate_scope k (unavailable_scope k at) ?cl = (scopes, i)" by fastforce
  have dcl: "distinct_by sd_AuthorityScope ?cl"
    using d by (simp add: distinct_by_def comp_def)
  have fresh: "sd_AuthorityScope (unavailable_scope k at) = k" by (simp add: unavailable_scope_def)
  note L = locate_scope_effect [OF loc dcl fresh]
  have sb: "scopes ! i = scope_or_unavailable base k at"
    using L(2) by (auto simp: scope_or_unavailable_def findAlertEpisodeScope_lookup split: option.splits)
  let ?m1 = "if IsZero (mt_AsOf (sd_Metrics (scopes ! i))) \<or> at > mt_AsOf (sd_Metrics (scopes ! i))
      then (sd_Metrics (scopes ! i))\<lparr>mt_AsOf := at\<rparr> else sd_Metrics (scopes ! i)"
  from assms(1) loc obtain m' where tally: "tally ?m1 = Inr m'"
    and val: "validateAlertEpisodeRegistryDocument L next lim = None"
    and nx: "elems (doc_Scopes next) = sort_key sd_AuthorityScope (scopes[i := (scopes ! i)\<lparr>sd_Metrics := m'\<rparr>])"
      "doc_NextOccurrenceSequence next = doc_NextOccurrenceSequence base" "doc_LegacyUnscoped next = doc_LegacyUnscoped base"
    by (auto simp: account_in_scope_def bind_result_Inr Let_def split: option.splits)
  let ?sd' = "(scopes ! i)\<lparr>sd_Metrics := m'\<rparr>"
  have sd'k: "sd_AuthorityScope ?sd' = sd_AuthorityScope (scopes ! i)" by simp
  note up = lookup_by_update [OF L(3) L(1) sd'k] distinct_by_list_update [OF L(3) L(1) sd'k]
  have find: "findAlertEpisodeScope (elems (doc_Scopes next)) x = (if x = k then Some ?sd' else lookup_by sd_AuthorityScope ?cl x)" for x
  proof -
    have "findAlertEpisodeScope (elems (doc_Scopes next)) x = lookup_by sd_AuthorityScope (scopes[i := ?sd']) x"
      unfolding findAlertEpisodeScope_lookup nx(1) by (rule lookup_by_cong_set) (use up(2) in simp_all)
    with up(1) L(4) L(5) [of x] show ?thesis by auto
  qed
  show "\<exists>m m'. tally m = Inr m' \<and> m\<lparr>mt_AsOf := t\<rparr> = (sd_Metrics (scope_or_unavailable base k at))\<lparr>mt_AsOf := t\<rparr> \<and>
      findAlertEpisodeScope (elems (doc_Scopes next)) k = Some ((scope_or_unavailable base k at)\<lparr>sd_Metrics := m'\<rparr>)"
    using tally find [of k] sb by (intro exI [of _ ?m1] exI [of _ m']) auto
  show "k' \<noteq> k \<Longrightarrow> findAlertEpisodeScope (elems (doc_Scopes next)) k' =
       map_option cloneAlertEpisodeScopeDocument (findAlertEpisodeScope (elems (doc_Scopes base)) k')"
    using find [of k'] by (simp add: findAlertEpisodeScope_lookup)
  show "validateAlertEpisodeRegistryDocument L next lim = None" "doc_NextOccurrenceSequence next = doc_NextOccurrenceSequence base"
    "doc_LegacyUnscoped next = doc_LegacyUnscoped base" by (fact val nx)+
qed


lemma content_wf: "registry_content L C lim s = Some d \<Longrightarrow> registry_wf d"
  by (auto simp: registry_content_def registry_decode_def demo_empty_wf registry_wf_validated split: option.splits sum.splits if_splits)

lemma decode_value:
  assumes "decodeAlertEpisodeRegistryDocument C raw = Inr d"
  shows "\<exists>rest. rc_Decode C raw = Inr (d, rest) \<and> rc_Next C rest = None"
proof -
  from assms obtain d1 rest where dec: "rc_Decode C raw = Inr (d1, rest)"
    by (auto simp: decodeAlertEpisodeRegistryDocument_def bind_result_Inr)
  show ?thesis
  proof (cases "rc_Next C rest")
    case None
    with assms dec show ?thesis by (simp add: decodeAlertEpisodeRegistryDocument_def)
  next
    case (Some e)
    with assms dec show ?thesis by (cases e) (simp_all add: decodeAlertEpisodeRegistryDocument_def)
  qed
qed

lemma content_no_delta:
  assumes "registry_content L C lim s = Some d" and "registry_codec_ok L C"
  shows "no_delta d"
proof (cases "registry_stored s")
  case None
  with assms(1) show ?thesis by (auto simp: registry_content_def no_delta_def empty_registry_def)
next
  case (Some p)
  with assms(1) obtain js where "decodeAlertEpisodeRegistryDocument C js = Inr d"
    by (auto simp: registry_content_def registry_decode_def split: sum.splits if_splits prod.splits)
  from decode_value [OF this] assms(2) show ?thesis unfolding registry_codec_ok_def by blast
qed

lemma written_in_sync:
  assumes "registry_codec_ok L C" and "validateAlertEpisodeRegistryDocument L (reg_document r) (reg_inactiveLimit r) = None"
    and "no_delta (reg_document r)" and "doc_LegacyUnscoped (reg_document r) = None" and "rc_Marshal C (reg_document r) = Some raw"
    and "registry_stored s = Some (reg_revision r, raw)"
  shows "registry_in_sync L C r s"
proof -
  from assms(1-5) obtain rest where "rc_Decode C raw = Inr (reg_document r, rest)" "rc_Next C rest = None"
    unfolding registry_codec_ok_def by blast
  with assms(2,6) show ?thesis
    by (simp add: registry_in_sync_def registry_decode_def decodeAlertEpisodeRegistryDocument_def)
qed

text \<open>Counting over a set of sources does not depend on the order in which they are visited.\<close>

lemma with_source_metric_map:
  assumes "distinct_by row_Source rows"
  shows "with_source_metric src f rows =
    map (\<lambda>row. if row_Source row = src then row\<lparr>row_Measurements := f (row_Measurements row)\<rparr> else row) rows"
  using assms
proof (induction rows)
  case (Cons row rows)
  have "map (\<lambda>row. if row_Source row = row_Source x then row\<lparr>row_Measurements := f (row_Measurements row)\<rparr> else row) rows = rows"
    if "row_Source x \<notin> row_Source ` set rows" for x :: alertShadowDurableSourceMeasurements
    using that by (intro map_idI) (metis image_eqI)
  with Cons show ?case by (auto simp: with_source_metric_def distinct_by_def)
qed (simp add: with_source_metric_def)

lemma count_sources_exact:
  assumes "count_sources disposition srcs rows = Inr rows'" and "distinct srcs" and "distinct_by row_Source rows"
  shows "rows' = map (\<lambda>row. if row_Source row \<in> set srcs
      then row\<lparr>row_Measurements := count_source disposition (row_Measurements row)\<rparr> else row) rows"
  using assms
proof (induction srcs arbitrary: rows)
  case (Cons src srcs)
  let ?rows1 = "with_source_metric src (count_source disposition) rows"
  note w = with_source_metric_map [OF Cons.prems(3), of src "count_source disposition"]
  have d1: "distinct_by row_Source ?rows1"
    using Cons.prems(3) unfolding w distinct_by_def by (simp add: comp_def if_distrib cong: if_cong)
  from Cons.prems(1,2) have "rows' = map (\<lambda>row. if row_Source row \<in> set srcs
      then row\<lparr>row_Measurements := count_source disposition (row_Measurements row)\<rparr> else row) ?rows1"
    by (intro Cons.IH d1) (auto split: option.splits)
  with Cons.prems(2) show ?case unfolding w by auto
qed simp


text \<open>The store's answers when nothing fails.\<close>

definition quiet_store :: "gotime \<Rightarrow> Store \<Rightarrow> bool" where
  "quiet_store t s \<longleftrightarrow> h_Ready (st_health s) \<and> (st_observed s \<longrightarrow> headNotBackTx (env_fine t) s = None)"

lemma registry_key_valid:
  "validateKey ''scope key'' daemonStateScope 512 = None" "validateKey ''state kind'' alertEpisodeRegistryStateKind 128 = None"
  by code_simp+

lemma registry_cas_valid:
  "0 \<le> rv \<Longrightarrow> json_Valid L raw \<Longrightarrow> validateStateCAS L (document_cas daemonStateScope alertEpisodeRegistryStateKind rv raw) = None"
  using registry_key_valid by (simp add: validateStateCAS_def validateStateCASCoordinates_def document_cas_def)

lemma quiet_swap:
  assumes "quiet_store t s" and "0 \<le> rv" and "json_Valid L raw" and "current_revision s (daemonStateScope, alertEpisodeRegistryStateKind) = rv"
    and "registry_stored s \<noteq> None \<longrightarrow> 0 < rv"
  shows "\<exists>s'. swap_document L daemonStateScope alertEpisodeRegistryStateKind (env_fine t) rv raw s = (s', Inr (wrap_int64 (rv + 1)))"
proof -
  let ?u = "document_cas daemonStateScope alertEpisodeRegistryStateKind rv raw"
  have "write_state_row L ?u t (st_db s) \<noteq> None"
    using assms(4,5) by (auto simp: write_state_row_def document_cas_def current_revision_def stored_document_def registry_stored_def
        split: option.splits)
  then obtain db where w: "write_state_row L ?u t (st_db s) = Some db" by blast
  then have "\<exists>db2. cas_transaction L (env_fine t) ?u (st_db s) = Inr (db2, \<lparr>sdoc_ScopeKey = daemonStateScope, sdoc_Kind = alertEpisodeRegistryStateKind,
      sdoc_Revision = wrap_int64 (rv + 1), sdoc_JSON = raw, sdoc_UpdatedAt = t\<rparr>)"
    by (simp add: cas_transaction_def compareAndSwapStateTx_def advanceHeadTx_def env_fine_def document_cas_def IsZero_def Let_def)
  with assms(1) registry_cas_valid [OF assms(2,3)] show ?thesis
    by (auto simp: swap_document_def cas_as_mutation criticalMutation_def run_transaction_def quiet_store_def env_fine_def observe_commit_def)
qed

lemma stale_swap:
  assumes "quiet_store t s" and "0 \<le> rv" and "json_Valid L raw" and "registry_stored s = Some (r, js)" and "rv < r"
  shows "swap_document L daemonStateScope alertEpisodeRegistryStateKind (env_fine t) rv raw s = (s, Inl (RevisionConflictError rv r True))"
proof -
  let ?u = "document_cas daemonStateScope alertEpisodeRegistryStateKind rv raw"
  from assms(4) obtain row where row: "map_of (db_documents (st_db s)) (daemonStateScope, alertEpisodeRegistryStateKind) = Some row" "row_revision row = r"
    by (auto simp: registry_stored_def stored_document_def)
  then have "write_state_row L ?u t (st_db s) = None"
    using assms(5) by (simp add: write_state_row_def document_cas_def)
  then have "cas_transaction L (env_fine t) ?u (st_db s) = Inl (RevisionConflictError rv r True)"
    using row by (simp add: cas_transaction_def compareAndSwapStateTx_def env_fine_def document_cas_def IsZero_def)
  with assms(1,5) registry_cas_valid [OF assms(2,3)] show ?thesis
    by (auto simp: swap_document_def cas_as_mutation criticalMutation_def run_transaction_def quiet_store_def env_fine_def latch_failure_def
        LostWrite_def latchCritical_def criticalSQLiteCode_def)
qed


definition quiet_attempt :: "gotime \<Rightarrow> (Store, sql_env) attempt" where
  "quiet_attempt t = \<lparr>att_interfere = id, att_swap = env_fine t, att_load = env_fine t\<rparr>"

lemma quiet_update:
  assumes q: "quiet_store t s" and st: "load_document L daemonStateScope alertEpisodeRegistryStateKind (env_fine t) s = (s, Inr (Some (rv, js)))"
    and dec: "registry_decode L C (reg_inactiveLimit r) js = Some d" and rv: "0 < rv"
    and sync: "registry_in_sync L C r s" "0 \<le> reg_revision r"
    and step: "step d = Inr d'" "rc_Marshal C d' = Some raw" "json_Valid L raw"
    and old: "reg_revision r < rv \<Longrightarrow> \<exists>dx rawx. step (reg_document r) = Inr dx \<and> rc_Marshal C dx = Some rawx \<and> json_Valid L rawx"
  shows "\<exists>s'. registry_update L C step m0 m1 m2 (quiet_attempt t # quiet_attempt t # atts) r s =
    (s', r\<lparr>reg_revision := wrap_int64 (rv + 1), reg_document := d'\<rparr>, Inr d')"
proof -
  have stored: "registry_stored s = Some (rv, js)"
    using state_documents.load_current [OF st] by (simp add: registry_stored_def)
  then have cur: "current_revision s (daemonStateScope, alertEpisodeRegistryStateKind) = rv"
    by (simp add: current_revision_def registry_stored_def)
  from quiet_swap [OF q _ step(3) cur] rv obtain s' where sw:
    "swap_document L daemonStateScope alertEpisodeRegistryStateKind (env_fine t) rv raw s = (s', Inr (wrap_int64 (rv + 1)))" by auto
  have two: "take alertEpisodeRegistryCASAttempts (quiet_attempt t # quiet_attempt t # atts) =
      quiet_attempt t # quiet_attempt t # take 6 atts" by (simp add: alertEpisodeRegistryCASAttempts_def)
  have re: "reload L C (reg_inactiveLimit r) (env_fine t) s = (s, Inr (rv, d))"
    using st dec by (auto simp: reload_def registry_decode_def split: sum.splits if_splits)
  show ?thesis
  proof (cases "reg_revision r < rv")
    case True
    from old [OF True] obtain dx rawx where o: "step (reg_document r) = Inr dx" "rc_Marshal C dx = Some rawx" "json_Valid L rawx" by blast
    note st = stale_swap [OF q sync(2) o(3) stored True]
    show ?thesis unfolding registry_update_def two
      using o sw step re st by (auto simp: quiet_attempt_def)
  next
    case False
    with sync(1) stored dec have "reg_revision r = rv" "reg_document r = d"
      by (auto simp: registry_in_sync_def)
    with sw step show ?thesis unfolding registry_update_def two by (auto simp: quiet_attempt_def)
  qed
qed

lemma applied_scope_found:
  assumes "applyAlertEpisodeEvaluation L d ev lim = Inr (next, decs)" and "registry_wf d"
  shows "\<exists>sd. findAlertEpisodeScope (elems (doc_Scopes next)) (ev_AuthorityScope ev) = Some sd"
  using apply_effect [OF assms(1)] assms(2) unfolding registry_wf_def by blast

subsection \<open>A concrete registry\<close>

definition demo_codec :: registry_codec where
  "demo_codec = \<lparr>rc_Marshal = (\<lambda>d. if d = demo_doc True then Some ''open'' else if d = demo_doc False then Some ''closed'' else None),
     rc_Decode = (\<lambda>raw. if raw = ''open'' then Inr (demo_doc True, []) else if raw = ''closed'' then Inr (demo_doc False, [])
        else Inl (New ''unexpected EOF'')),
     rc_Next = (\<lambda>rest. None)\<rparr>"

definition demo_registry :: alertEpisodeRegistry where
  "demo_registry = \<lparr>reg_inactiveLimit = 256, reg_revision = 1, reg_document = demo_doc True\<rparr>"

definition demo_registry_store :: Store where
  "demo_registry_store = \<lparr>st_db = \<lparr>db_documents = [((daemonStateScope, alertEpisodeRegistryStateKind),
        \<lparr>row_revision = 1, row_document = ''open'', row_sha256 = sha256_hex demo_lib ''open'', row_updated_at = Instant 10\<rparr>)],
      db_head = \<lparr>ah_AuthorityEpoch = ''e'', ah_HeadGeneration = 40, ah_LastEventSeq = 3, ah_SignerGeneration = 1\<rparr>\<rparr>,
    st_health = ready_health, st_recoveryMinimumHead = zero_head, st_lastObservedHead = zero_head, st_observed = True\<rparr>"

lemma demo_docs_differ: "demo_doc True \<noteq> demo_doc False" "demo_doc False \<noteq> demo_doc True"
  by (simp_all add: demo_doc_def)

lemma demo_doc_valid: "validateAlertEpisodeRegistryDocument demo_lib (demo_doc b) 256 = None"
  by (cases b) (simp_all only:, code_simp+)

lemma demo_codec_ok: "registry_codec_ok demo_lib demo_codec"
  by (auto simp: registry_codec_ok_def demo_codec_def no_delta_def demo_doc_def demo_sd_def Let_def split: if_splits)

lemma demo_attempts_orderly: "orderly [quiet_attempt t, quiet_attempt t]"
  by (simp add: orderly_def quiet_attempt_def registry_follows_def env_sane_def env_fine_def foreign_def)

lemma demo_quiet: "quiet_store t demo_registry_store"
  by (simp add: quiet_store_def demo_registry_store_def ready_health_def headNotBackTx_def env_fine_def zero_head_def)

lemma demo_close_valid: "validateAlertEpisodeEvaluation demo_lib demo_close_ev = None"
  by code_simp

lemma demo_load: "load_document demo_lib daemonStateScope alertEpisodeRegistryStateKind (env_fine t) demo_registry_store =
    (demo_registry_store, Inr (Some (1, ''open'')))"
  using registry_key_valid by (simp add: load_document_def GetStateDocument_def env_fine_def demo_registry_store_def)

lemma demo_decode: "registry_decode demo_lib demo_codec 256 ''open'' = Some (demo_doc True)"
  using demo_doc_valid [of True] by (simp add: registry_decode_def decodeAlertEpisodeRegistryDocument_def demo_codec_def)

lemma demo_codec_sync: "registry_in_sync demo_lib demo_codec demo_registry demo_registry_store"
  using demo_decode by (simp add: registry_in_sync_def registry_stored_def stored_document_def demo_registry_store_def demo_registry_def)


lemma validated_metric_sources:
  assumes "validateAlertEpisodeRegistryDocument L d lim = None" and "sd \<in> set (elems (doc_Scopes d))"
  shows "map row_Source (elems (mt_Sources (sd_Metrics sd))) = alertShadowExpectedSources"
proof -
  have rows: "validate_metric_rows srcs rows = None \<Longrightarrow> length rows = length srcs \<Longrightarrow> map row_Source rows = srcs" for srcs rows
    by (induction srcs rows rule: validate_metric_rows.induct) (auto simp: Let_def)
  from assms(1) obtain n where t: "validate_scopes (doc_UpdatedAt d) lim [] [] 0 (elems (doc_Scopes d)) = Inr n"
    by (auto simp: validateAlertEpisodeRegistryDocument_def split: option.splits sum.splits)
  from validate_scopes_Inr [OF t] assms(2) obtain p where "validate_scope_header (doc_UpdatedAt d) p sd = None" by auto
  then have "validateAlertShadowDurableMetrics (sd_Metrics sd) (doc_UpdatedAt d) = None"
    by (simp add: validate_scope_header_def Let_def)
  with rows show ?thesis by (simp add: validateAlertShadowDurableMetrics_def)
qed

lemma accounted_metric_sources:
  assumes "registry_content L C lim s = Some d"
  shows "distinct_by row_Source (elems (mt_Sources (sd_Metrics (scope_or_unavailable d k at))))"
proof -
  have "distinct alertShadowExpectedSources" by code_simp
  moreover have "map row_Source (elems (mt_Sources (sd_Metrics (scope_or_unavailable d k at)))) = alertShadowExpectedSources"
  proof (cases "findAlertEpisodeScope (elems (doc_Scopes d)) k")
    case None
    then show ?thesis
      by (simp add: scope_or_unavailable_def unavailable_scope_def newAlertShadowDurableSourceMeasurements_def comp_def)
  next
    case (Some sd)
    then have mem: "sd \<in> set (elems (doc_Scopes d))" unfolding findAlertEpisodeScope_lookup by (blast dest: lookup_by_SomeD)
    with assms have "validateAlertEpisodeRegistryDocument L d lim = None"
      by (auto simp: registry_content_def registry_decode_def empty_registry_def split: option.splits sum.splits if_splits)
    from validated_metric_sources [OF this mem] Some show ?thesis
      by (simp add: scope_or_unavailable_def cloneAlertEpisodeScopeDocument_def)
  qed
  ultimately show ?thesis by (simp add: distinct_by_def)
qed

definition demo_count_codec :: registry_codec where
  "demo_count_codec = demo_codec\<lparr>rc_Marshal := \<lambda>d. Some ''counted''\<rparr>"

lemma demo_count_sync: "registry_in_sync demo_lib demo_count_codec demo_registry demo_registry_store"
proof -
  have "registry_decode demo_lib demo_count_codec 256 ''open'' = Some (demo_doc True)"
    using demo_decode by (simp add: registry_decode_def decodeAlertEpisodeRegistryDocument_def demo_count_codec_def)
  then show ?thesis
    by (simp add: registry_in_sync_def registry_stored_def stored_document_def demo_registry_store_def demo_registry_def)
qed

lemma disposition_sources_distinct: "disposition_sources seen srcs = None \<Longrightarrow> distinct srcs \<and> set srcs \<inter> set seen = {}"
  by (induction seen srcs rule: disposition_sources.induct) (auto split: if_splits)

subsection \<open>Properties\<close>




lemma demo_apply_run:
  "\<exists>s' r' x. Apply demo_lib demo_codec [quiet_attempt (Instant 50), quiet_attempt (Instant 50)] (Some demo_registry) demo_close_ev demo_registry_store =
     (s', Some r', Inr x)"
proof -
  let ?step = "\<lambda>d. bind_result (applyAlertEpisodeEvaluation demo_lib d demo_close_ev (reg_inactiveLimit demo_registry)) (\<lambda>(d', _). Inr d')"
  have step: "?step (demo_doc True) = Inr (demo_doc False)" using demo_close_applies by (simp add: demo_registry_def)
  have json: "json_Valid demo_lib x" for x by (simp add: demo_lib_def)
  have "\<exists>s'. registry_update demo_lib demo_codec ?step ''encode alert episode registry'' ''persist alert episode registry''
      ''persist alert episode registry: repeated revision conflict'' [quiet_attempt (Instant 50), quiet_attempt (Instant 50)] demo_registry demo_registry_store =
      (s', demo_registry\<lparr>reg_revision := wrap_int64 (1 + 1), reg_document := demo_doc False\<rparr>, Inr (demo_doc False))"
    by (rule quiet_update [OF demo_quiet demo_load])
       (use demo_decode demo_codec_sync step json demo_docs_differ in
         \<open>simp_all add: demo_registry_def demo_codec_def\<close>)
  moreover have "findAlertEpisodeScope (elems (doc_Scopes (demo_doc False))) (ev_AuthorityScope demo_close_ev) = Some (demo_sd False)" by code_simp
  moreover have "\<exists>x. alertEpisodeSnapshot (demo_sd False) (ev_AsOf demo_close_ev) = Inr x"
    using coherent_snapshot [OF demo_sd_coherent] by (force simp: demo_close_ev_def demo_evaluation_def IsZero_def zero_time_def)
  ultimately show ?thesis using demo_close_valid by (auto simp: Apply_def)
qed


text \<open>Accounting for an input that did not enter the lifecycle changes no lifecycle state: the
  document written is the stored one with, in the addressed scope only, each named source's counter
  of the disposition one higher and every other source's counters as they were (in whatever order
  the sources are visited); the occurrence sequence and every other scope stay, and a missing scope
  is added as unavailable, without episodes.\<close>

theorem disposition_counts_only:
  assumes run: "RecordInputDisposition L C atts (Some r) k at srcs disposition s = (s', Some r', None)"
    and sync: "registry_in_sync L C r s" and env: "orderly atts"
  shows "\<exists>s0 d m. registry_content L C (reg_inactiveLimit r) s0 = Some d \<and>
     doc_NextOccurrenceSequence (reg_document r') = doc_NextOccurrenceSequence d \<and>
     (\<forall>k'. k' \<noteq> k \<longrightarrow> findAlertEpisodeScope (elems (doc_Scopes (reg_document r'))) k' =
        map_option cloneAlertEpisodeScopeDocument (findAlertEpisodeScope (elems (doc_Scopes d)) k')) \<and>
     findAlertEpisodeScope (elems (doc_Scopes (reg_document r'))) k = Some ((scope_or_unavailable d k at)\<lparr>sd_Metrics := m\<rparr>) \<and>
     elems (mt_Sources m) = map (\<lambda>row. if row_Source row \<in> set srcs
        then row\<lparr>row_Measurements := count_source disposition (row_Measurements row)\<rparr> else row)
          (elems (mt_Sources (sd_Metrics (scope_or_unavailable d k at))))"
proof -
  from run have up: "\<exists>d'. registry_update L C (account_in_scope L (reg_inactiveLimit r) k at (count_disposition srcs disposition))
      ''encode alert episode registry disposition'' ''persist alert registry input disposition''
      ''persist alert registry input disposition: repeated revision conflict'' atts r s = (s', r', Inr d')"
    and dst: "disposition_sources [] srcs = None"
    by (auto simp: RecordInputDisposition_def split: option.splits prod.splits sum.splits)
  from up obtain d' where u: "registry_update L C (account_in_scope L (reg_inactiveLimit r) k at (count_disposition srcs disposition))
      ''encode alert episode registry disposition'' ''persist alert registry input disposition''
      ''persist alert registry input disposition: repeated revision conflict'' atts r s = (s', r', Inr d')" by blast
  from registry_update_atomic [OF u sync env] obtain s0 d where a: "registry_content L C (reg_inactiveLimit r) s0 = Some d"
      "account_in_scope L (reg_inactiveLimit r) k at (count_disposition srcs disposition) d = Inr (reg_document r')" by blast
  from content_wf [OF a(1)] have "distinct_by sd_AuthorityScope (elems (doc_Scopes d))" by (simp add: registry_wf_def)
  note acc = account_effect [OF a(2) this]
  from acc(1) [of zero_time] obtain m m' where m: "count_disposition srcs disposition m = Inr m'"
      "m\<lparr>mt_AsOf := zero_time\<rparr> = (sd_Metrics (scope_or_unavailable d k at))\<lparr>mt_AsOf := zero_time\<rparr>"
      "findAlertEpisodeScope (elems (doc_Scopes (reg_document r'))) k = Some ((scope_or_unavailable d k at)\<lparr>sd_Metrics := m'\<rparr>)" by blast
  have rows: "mt_Sources m = mt_Sources (sd_Metrics (scope_or_unavailable d k at))"
    using arg_cong [OF m(2), of mt_Sources] by simp
  obtain rows' where "count_sources disposition srcs (elems (mt_Sources m)) = Inr rows'" "mt_Sources m' = Slice rows'"
    using m(1) by (auto simp: count_disposition_def bind_result_Inr Let_def split: if_splits)
  with count_sources_exact [OF _ _ accounted_metric_sources [OF a(1)]] disposition_sources_distinct [OF dst] rows
  have "elems (mt_Sources m') = map (\<lambda>row. if row_Source row \<in> set srcs
      then row\<lparr>row_Measurements := count_source disposition (row_Measurements row)\<rparr> else row)
        (elems (mt_Sources (sd_Metrics (scope_or_unavailable d k at))))" by simp
  with a(1) acc(2,4) m(3) show ?thesis
    by (intro exI [of _ s0] exI [of _ d] exI [of _ m']) simp
qed

theorem disposition_counts_only_witness:
  "\<exists>s0 d m. registry_content demo_lib demo_count_codec 256 s0 = Some d \<and>
     findAlertEpisodeScope (elems (doc_Scopes (reg_document (the (fst (snd (RecordInputDisposition demo_lib demo_count_codec
       [quiet_attempt (Instant 50), quiet_attempt (Instant 50)] (Some demo_registry) demo_scope (Instant 120) [AlertSourceRegime]
       alertShadowDispositionStale demo_registry_store))))))) demo_scope = Some ((scope_or_unavailable d demo_scope (Instant 120))\<lparr>sd_Metrics := m\<rparr>)"
proof -
  let ?run = "RecordInputDisposition demo_lib demo_count_codec [quiet_attempt (Instant 50), quiet_attempt (Instant 50)] (Some demo_registry)
     demo_scope (Instant 120) [AlertSourceRegime] alertShadowDispositionStale demo_registry_store"
  have "fst (snd ?run) \<noteq> None \<and> snd (snd ?run) = None" by code_simp
  then obtain s' r' where run: "?run = (s', Some r', None)" by (metis prod.collapse option.collapse)
  from disposition_counts_only [OF run demo_count_sync demo_attempts_orderly] show ?thesis
    unfolding run by (auto simp: demo_registry_def)
qed

end
