(* ===== verification/Delivery_Types.thy ===== *)
theory Delivery_Types
  imports Alert_Contract
begin

text \<open>
  The data of the app's alert-delivery ledger, from
  \<^verbatim>\<open>src/internal/app/state/alert_delivery.go\<close> and \<^verbatim>\<open>alert_source_baseline.go\<close>: the vocabulary, the
  structures, the identities derived by hashing, the lookups and the copies. The enumerated strings
  are datatypes with a constructor for every other string; the empty string of an optional one is a
  constructor of its own. Go maps are association lists; where nil is told apart from an empty map
  the field is an \<open>option\<close>. \<open>AlertLedger\<close> is the part of the app's \<^verbatim>\<open>Store\<close> that the ledger uses; what is
  on disk is a field of it, and the outcome of writing it is an argument of every operation.
\<close>

subsection \<open>Vocabulary\<close>

datatype AlertDeliveryAttemptClass =
    AlertDeliveryAttemptReserved
  | AlertDeliveryAttemptConfirmed
  | AlertDeliveryAttemptAccepted
  | AlertDeliveryAttemptRetry
  | AlertDeliveryAttemptRejected
  | AlertDeliveryAttemptInterrupted
  | AlertDeliveryAttemptRetired
  | AlertDeliveryAttemptInactive
  | AlertDeliveryAttemptExhausted
  | AlertDeliveryAttemptModeSuppressed
  | OtherAttemptClass string

datatype AlertDeliveryHealthState =
    AlertDeliveryHealthHealthy
  | AlertDeliveryHealthDegraded
  | AlertDeliveryHealthUnavailable
  | AlertDeliveryHealthOverflow
  | OtherHealthState string

text \<open>The class of a health report; \<^verbatim>\<open>retry_exhausted\<close> is the attempt class of that name.\<close>

datatype AlertDeliveryHealthClass =
    NoHealthClass
  | AlertDeliveryHealthClassRetry
  | AlertDeliveryHealthClassRejected
  | AlertDeliveryHealthClassObservation
  | AlertDeliveryHealthClassInterrupted
  | AlertDeliveryHealthClassStateWrite
  | AlertDeliveryHealthClassOverflow
  | AlertDeliveryHealthClassNoSubscription
  | AlertDeliveryHealthClassSigningKeys
  | AlertDeliveryHealthClassSender
  | AlertDeliveryHealthClassFuse
  | HealthClassRetryExhausted
  | OtherHealthClass string

datatype AlertDeliveryEndReason =
    NoEndReason
  | AlertDeliveryEndRecovered
  | AlertDeliveryEndOmitted
  | AlertDeliveryEndSuperseded
  | AlertDeliveryEndUnobservedRecovery
  | AlertDeliveryEndAuthorityScopeChanged
  | OtherEndReason string

datatype AlertDeliveryCompletion =
    AlertDeliveryCompletionAccepted
  | AlertDeliveryCompletionRetryable
  | AlertDeliveryCompletionRejected
  | OtherCompletion string

datatype AlertDeliveryCompletionDisposition =
    NoCompletionDisposition
  | AlertDeliveryCompletionApplied
  | AlertDeliveryCompletionAlreadyComplete
  | AlertDeliveryCompletionInactive
  | AlertDeliveryCompletionRetired
  | OtherCompletionDisposition string

datatype AlertDisposition =
    AlertDispositionEligible
  | AlertDispositionModeSuppressed
  | AlertDispositionObserveOnly
  | AlertDispositionCutoverExisting
  | OtherDisposition string

datatype AlertMode =
    AlertModeNone
  | AlertModeActOnly
  | AlertModeWatchAndAct
  | OtherAlertMode string

definition AlertDeliveryVersion :: string where
  "AlertDeliveryVersion = ''alert-delivery-v4''"

definition defaultAlertDeliveryMaxItems :: int where
  "defaultAlertDeliveryMaxItems = 4096"

definition alertDeliveryRetention :: duration where
  "alertDeliveryRetention = 90 * 24 * hour"

abbreviation ErrAlertDeliveryOverflow :: goerror where
  "ErrAlertDeliveryOverflow \<equiv> New ''alert delivery evidence overflow''"

abbreviation ErrAlertDeliveryOldSnapshot :: goerror where
  "ErrAlertDeliveryOldSnapshot \<equiv> New ''alert delivery snapshot is older than source authority''"

abbreviation ErrAlertDeliveryUnknownOccurrence :: goerror where
  "ErrAlertDeliveryUnknownOccurrence \<equiv> New ''alert delivery occurrence not found''"

abbreviation ErrAlertDeliveryInvalidTransition :: goerror where
  "ErrAlertDeliveryInvalidTransition \<equiv> New ''invalid alert delivery lifecycle transition''"

abbreviation ErrAlertDeliveryAttentionRead :: goerror where
  "ErrAlertDeliveryAttentionRead \<equiv> New ''alert delivery attention read cursor is invalid''"

abbreviation ErrAlertDeliveryUnavailable :: goerror where
  "ErrAlertDeliveryUnavailable \<equiv> New ''alert delivery state is unavailable''"

abbreviation ErrAttentionSequenceExhausted :: goerror where
  "ErrAttentionSequenceExhausted \<equiv> New ''attention sequence exhausted''"

abbreviation ErrInvalidPersistedState :: goerror where
  "ErrInvalidPersistedState \<equiv> New ''invalid persisted app state''"

subsection \<open>Structures\<close>

record alertDeliveryBaseline =
  bl_EstablishedAt :: gotime
  bl_SnapshotAsOf :: gotime

record alertDeliveryEpisode =
  ep_AuthorityScope :: string
  ep_EpisodeKey :: string
  ep_Source :: AlertSource
  ep_Kind :: AlertKind
  ep_CurrentOccurrenceKey :: string
  ep_State :: AlertEpisodeState
  ep_FirstSeenAt :: gotime
  ep_LastSeenAt :: gotime

record alertDeliveryOccurrence =
  occ_AuthorityScope :: string
  occ_OccurrenceKey :: string
  occ_EpisodeKey :: string
  occ_EvidenceFingerprint :: string
  occ_DisplayID :: string
  occ_Source :: AlertSource
  occ_Kind :: AlertKind
  occ_PresentationCode :: AlertPresentationCode
  occ_State :: AlertEpisodeState
  occ_Severity :: AlertSeverity
  occ_EvidenceHealth :: AlertEvidenceHealth
  occ_Destination :: AlertDestination
  occ_EvidenceAsOf :: gotime
  occ_StateChangedAt :: gotime
  occ_ObservedAt :: gotime
  occ_FirstSeenAt :: gotime
  occ_LastSeenAt :: gotime
  occ_EndedAt :: gotime
  occ_EndReason :: AlertDeliveryEndReason
  occ_AttentionSeq :: "64 word"
  occ_Disposition :: AlertDisposition

record alertDeliveryPreviousContext =
  pc_AuthorityScope :: string
  pc_ArchiveSeq :: "64 word"
  pc_DisplayID :: string
  pc_PriorDisplayID :: string
  pc_Source :: AlertSource
  pc_Kind :: AlertKind
  pc_PresentationCode :: AlertPresentationCode
  pc_State :: AlertEpisodeState
  pc_Severity :: AlertSeverity
  pc_EvidenceHealth :: AlertEvidenceHealth
  pc_Destination :: AlertDestination
  pc_EvidenceAsOf :: gotime
  pc_StateChangedAt :: gotime
  pc_FirstSeenAt :: gotime
  pc_LastSeenAt :: gotime
  pc_EndedAt :: gotime
  pc_EndReason :: AlertDeliveryEndReason
  pc_OriginalAttention :: "64 word"
  pc_Disposition :: AlertDisposition

record alertDeliveryAttempt =
  dat_AuthorityScope :: string
  dat_ID :: string
  dat_OccurrenceKey :: string
  dat_TargetRef :: string
  dat_ReceiptKey :: string
  dat_AttemptNumber :: int
  dat_ReservedAt :: gotime
  dat_CompletedAt :: gotime
  dat_Class :: AlertDeliveryAttemptClass
  dat_Disposition :: AlertDeliveryCompletionDisposition
  dat_RetryAt :: gotime
  dat_RetiredAt :: gotime

record alertDeliveryReceipt =
  rcp_AuthorityScope :: string
  rcp_OccurrenceKey :: string
  rcp_TargetRef :: string
  rcp_ReceiptKey :: string
  rcp_AcceptedAt :: gotime
  rcp_RetiredAt :: gotime

record AlertDeliveryHealth =
  dh_State :: AlertDeliveryHealthState
  dh_Class :: AlertDeliveryHealthClass
  dh_UpdatedAt :: gotime
  dh_LastAcceptedAt :: gotime

type_synonym watermarks = "(AlertSource \<times> gotime) list"

record alertDeliveryData =
  ad_SourceBaselines :: "(string \<times> (AlertSource \<times> alertDeliveryBaseline) list) list option"
  ad_Version :: string
  ad_Generation :: "64 word"
  ad_Snapshot :: AlertCandidateSnapshot
  ad_SourceWatermarks :: watermarks
  ad_SourceWatermarksByScope :: "(string \<times> watermarks) list option"
  ad_Episodes :: "alertDeliveryEpisode list"
  ad_Occurrences :: "alertDeliveryOccurrence list"
  ad_PreviousContexts :: "alertDeliveryPreviousContext list"
  ad_PreviousContextHighWater :: "64 word"
  ad_Attempts :: "alertDeliveryAttempt list"
  ad_Receipts :: "alertDeliveryReceipt list"
  ad_RetiredTargets :: "(string \<times> gotime) list"
  ad_Baselines :: "(string \<times> alertDeliveryBaseline) list option"
  ad_Health :: AlertDeliveryHealth
  ad_ObservationRejectedAt :: gotime
  ad_AttentionHighWaterSeq :: "64 word"
  ad_AttentionReadThroughSeq :: "64 word"

record AlertDeliveryReservation =
  rv_AttemptID :: string
  rv_DisplayID :: string
  rv_AttemptNumber :: int
  rv_ReservedAt :: gotime
  rv_RetryAt :: gotime
  rv_Candidate :: "AlertCandidate option"

record AlertDeliveryCompletionOutcome =
  out_Disposition :: AlertDeliveryCompletionDisposition
  out_Class :: AlertDeliveryAttemptClass
  out_RetryAt :: gotime

record AlertDeliveryDueWork =
  due_OccurrenceKey :: string
  due_Candidate :: AlertCandidate
  due_DisplayID :: string

text \<open>The devices and push subscriptions that make a target active.\<close>

record Device =
  dev_ID :: string
  dev_RevokedAt :: gotime

record PushSubscription =
  sub_ID :: string
  sub_DeviceID :: string

record AlertLedger =
  al_data :: "alertDeliveryData option"
  al_saved :: "alertDeliveryData option"
  al_mode :: AlertMode
  al_maxItems :: int
  al_inFlight :: "string list"
  al_volatile :: "AlertDeliveryHealth option"
  al_volatileGeneration :: "64 word"
  al_quarantined :: bool
  al_devices :: "Device list"
  al_subscriptions :: "PushSubscription list"

text \<open>The library functions the identities use: the digests, and \<^verbatim>\<open>Format(time.RFC3339Nano)\<close>.\<close>

record delivery_lib =
  dl_golib :: golib
  dl_RFC3339Nano :: "gotime \<Rightarrow> string"

definition zero_health :: AlertDeliveryHealth where
  "zero_health = \<lparr>dh_State = OtherHealthState [], dh_Class = NoHealthClass, dh_UpdatedAt = zero_time, dh_LastAcceptedAt = zero_time\<rparr>"

definition zero_snapshot :: AlertCandidateSnapshot where
  "zero_snapshot = \<lparr>snap_SchemaVersion = [], snap_AuthorityScope = [], snap_AsOf = zero_time, snap_CurrentState = OtherSnapshotState [],
     snap_Coverage = \<lparr>cov_State = OtherCoverage [], cov_Freshness = OtherFreshness [], cov_AsOf = zero_time,
        cov_ExpectedSources = NilSlice, cov_CoveredSources = NilSlice\<rparr>,
     snap_Sources = NilSlice, snap_Candidates = NilSlice\<rparr>"

definition zero_reservation :: AlertDeliveryReservation where
  "zero_reservation = \<lparr>rv_AttemptID = [], rv_DisplayID = [], rv_AttemptNumber = 0, rv_ReservedAt = zero_time, rv_RetryAt = zero_time, rv_Candidate = None\<rparr>"

definition newAlertDeliveryData :: alertDeliveryData where
  "newAlertDeliveryData = \<lparr>ad_SourceBaselines = None, ad_Version = AlertDeliveryVersion, ad_Generation = 0, ad_Snapshot = zero_snapshot,
     ad_SourceWatermarks = [], ad_SourceWatermarksByScope = Some [], ad_Episodes = [], ad_Occurrences = [], ad_PreviousContexts = [],
     ad_PreviousContextHighWater = 0, ad_Attempts = [], ad_Receipts = [], ad_RetiredTargets = [], ad_Baselines = Some [],
     ad_Health = zero_health, ad_ObservationRejectedAt = zero_time, ad_AttentionHighWaterSeq = 0, ad_AttentionReadThroughSeq = 0\<rparr>"

subsection \<open>Identities\<close>

definition alertDeliveryHash :: "golib \<Rightarrow> string list \<Rightarrow> string" where
  "alertDeliveryHash L parts = ''sha256:'' @ sha256_hex L (concat (map (\<lambda>p. CHR 0x00 # p) parts))"

definition alertDeliveryDisplayID :: "golib \<Rightarrow> string \<Rightarrow> string \<Rightarrow> string" where
  "alertDeliveryDisplayID L authorityScope occurrenceKey =
     ''alert-'' @ take 16 (sha256_hex L (''alert-display-v2'' @ CHR 0x00 # authorityScope @ CHR 0x00 # occurrenceKey))"

definition alertPreviousContextDisplayID :: "delivery_lib \<Rightarrow> string \<Rightarrow> string \<Rightarrow> gotime \<Rightarrow> 64 word \<Rightarrow> string" where
  "alertPreviousContextDisplayID D authorityScope priorDisplayID endedAt archiveSeq =
     ''alert-previous-'' @ take 16 (sha256_hex (dl_golib D) (''alert-previous-context-v1'' @ CHR 0x00 # authorityScope @
       CHR 0x00 # priorDisplayID @ CHR 0x00 # dl_RFC3339Nano D endedAt @ CHR 0x00 # digits10 (unat archiveSeq)))"

definition alertDeliveryScopedKey :: "string \<Rightarrow> string \<Rightarrow> string" where
  "alertDeliveryScopedKey authorityScope privateKey = authorityScope @ CHR 0x00 # privateKey"

definition decimal :: "int \<Rightarrow> string" where
  "decimal n = (if n < 0 then CHR ''-'' # digits10 (nat (- n)) else digits10 (nat n))"

definition alertDeliveryAttemptID :: "delivery_lib \<Rightarrow> string \<Rightarrow> int \<Rightarrow> gotime \<Rightarrow> string" where
  "alertDeliveryAttemptID D receiptKey number at =
     ''alert-attempt-'' @ take 16 (sha256_hex (dl_golib D) (''alert-attempt-v1'' @ CHR 0x00 # receiptKey @
       CHR 0x00 # decimal number @ CHR 0x00 # dl_RFC3339Nano D at))"

definition alertDeliveryReceiptKey :: "golib \<Rightarrow> string \<Rightarrow> string \<Rightarrow> string \<Rightarrow> string" where
  "alertDeliveryReceiptKey L authorityScope occurrenceKey targetRef =
     alertDeliveryHash L [''receipt-v2'', authorityScope, occurrenceKey, targetRef]"

definition AlertDeliveryTargetRef :: "golib \<Rightarrow> string \<Rightarrow> string \<Rightarrow> string" where
  "AlertDeliveryTargetRef L deviceID subscriptionID = alertDeliveryHash L [''target'', TrimSpace deviceID, TrimSpace subscriptionID]"

definition validAlertPrivateKey :: "string \<Rightarrow> string \<Rightarrow> bool" where
  "validAlertPrivateKey value pre \<longleftrightarrow> HasPrefix value pre \<and> length value = length pre + 64 \<and>
     hex_decodes (drop (length pre) value) \<and> value = ToLower value"

definition validAlertHash :: "string \<Rightarrow> bool" where
  "validAlertHash value \<longleftrightarrow> validAlertPrivateKey value ''sha256:''"

definition validAlertAttemptID :: "string \<Rightarrow> bool" where
  "validAlertAttemptID value \<longleftrightarrow> HasPrefix value ''alert-attempt-'' \<and> length value = length ''alert-attempt-'' + 16 \<and>
     hex_decodes (TrimPrefix value ''alert-attempt-'')"

subsection \<open>Lookups\<close>

text \<open>Reading a Go map of times: the zero time when the key is missing.\<close>

definition time_at :: "('k \<times> gotime) list \<Rightarrow> 'k \<Rightarrow> gotime" where
  "time_at m k = (case map_of m k of None \<Rightarrow> zero_time | Some t \<Rightarrow> t)"

definition findAlertDeliveryOccurrence :: "alertDeliveryData \<Rightarrow> string \<Rightarrow> string \<Rightarrow> (alertDeliveryOccurrence \<times> alertDeliveryEpisode) option" where
  "findAlertDeliveryOccurrence data authorityScope occurrenceKey =
     (case find_first (\<lambda>occ. occ_AuthorityScope occ = authorityScope \<and> occ_OccurrenceKey occ = occurrenceKey) (ad_Occurrences data) of
        None \<Rightarrow> None
      | Some occ \<Rightarrow>
         (case find_first (\<lambda>e. ep_AuthorityScope e = authorityScope \<and> ep_EpisodeKey e = occ_EpisodeKey occ) (ad_Episodes data) of
            None \<Rightarrow> None
          | Some e \<Rightarrow> Some (occ, e)))"

definition alertDeliveryOccurrenceActive :: "alertDeliveryOccurrence \<Rightarrow> alertDeliveryEpisode \<Rightarrow> bool" where
  "alertDeliveryOccurrenceActive occ e \<longleftrightarrow> occ_AuthorityScope occ = ep_AuthorityScope e \<and>
     occ_OccurrenceKey occ = ep_CurrentOccurrenceKey e \<and> ep_State e \<noteq> AlertEpisodeRecovered \<and> IsZero (occ_EndedAt occ)"

definition alertDeliveryOccurrenceCurrent :: "alertDeliveryData \<Rightarrow> alertDeliveryOccurrence \<Rightarrow> alertDeliveryEpisode \<Rightarrow> bool" where
  "alertDeliveryOccurrenceCurrent data occ e \<longleftrightarrow> occ_AuthorityScope occ = snap_AuthorityScope (ad_Snapshot data) \<and>
     ep_AuthorityScope e = snap_AuthorityScope (ad_Snapshot data) \<and> alertDeliveryOccurrenceActive occ e"

text \<open>The occurrence an attempt belongs to is found and current.\<close>

definition occurrence_current :: "alertDeliveryData \<Rightarrow> string \<Rightarrow> string \<Rightarrow> bool" where
  "occurrence_current data authorityScope occurrenceKey =
     (case findAlertDeliveryOccurrence data authorityScope occurrenceKey of
        None \<Rightarrow> False | Some (occ, e) \<Rightarrow> alertDeliveryOccurrenceCurrent data occ e)"

definition alertDeliveryHasReceipt :: "alertDeliveryData \<Rightarrow> string \<Rightarrow> bool" where
  "alertDeliveryHasReceipt data receiptKey \<longleftrightarrow> (\<exists>r\<in>set (ad_Receipts data). rcp_ReceiptKey r = receiptKey \<and> IsZero (rcp_RetiredAt r))"

definition alertDeliveryHasAnyReceipt :: "alertDeliveryData \<Rightarrow> string \<Rightarrow> bool" where
  "alertDeliveryHasAnyReceipt data receiptKey \<longleftrightarrow> (\<exists>r\<in>set (ad_Receipts data). rcp_ReceiptKey r = receiptKey)"

definition latestAlertDeliveryAttempt :: "alertDeliveryData \<Rightarrow> string \<Rightarrow> alertDeliveryAttempt option" where
  "latestAlertDeliveryAttempt data receiptKey = find_first (\<lambda>a. dat_ReceiptKey a = receiptKey) (rev (ad_Attempts data))"

definition alertCandidateFromOccurrence :: "alertDeliveryOccurrence \<Rightarrow> AlertCandidate" where
  "alertCandidateFromOccurrence occ = \<lparr>
     ac_EpisodeKey = occ_EpisodeKey occ, ac_OccurrenceKey = occ_OccurrenceKey occ,
     ac_EvidenceFingerprint = occ_EvidenceFingerprint occ, ac_Source = occ_Source occ, ac_Kind = occ_Kind occ,
     ac_PresentationCode = occ_PresentationCode occ, ac_State = occ_State occ, ac_Severity = occ_Severity occ,
     ac_EvidenceHealth = occ_EvidenceHealth occ, ac_Destination = occ_Destination occ,
     ac_EvidenceAsOf = occ_EvidenceAsOf occ, ac_StateChangedAt = occ_StateChangedAt occ, ac_ObservedAt = occ_ObservedAt occ\<rparr>"

definition alertSourceCurrent :: "AlertSourceCoverage \<Rightarrow> gotime \<Rightarrow> bool" where
  "alertSourceCurrent row now \<longleftrightarrow> asc_Covered row \<and> asc_EvidenceHealth row = AlertEvidenceCurrent \<and>
     \<not> IsZero (asc_FreshUntil row) \<and> \<not> now > asc_FreshUntil row"

definition alertCandidateSourceCurrent :: "AlertCandidateSnapshot \<Rightarrow> AlertCandidate \<Rightarrow> gotime \<Rightarrow> bool" where
  "alertCandidateSourceCurrent snap c now =
     (if ac_EvidenceHealth c \<noteq> AlertEvidenceCurrent then False
      else case find_first (\<lambda>row. asc_Source row = ac_Source c) (elems (snap_Sources snap)) of
        None \<Rightarrow> False | Some row \<Rightarrow> alertSourceCurrent row now)"

definition alertModeAllowsSeverity :: "AlertMode \<Rightarrow> AlertSeverity \<Rightarrow> bool" where
  "alertModeAllowsSeverity mode sev =
     (case mode of
        AlertModeActOnly \<Rightarrow> sev = AlertSeverityAct \<or> sev = AlertSeverityUrgent
      | AlertModeWatchAndAct \<Rightarrow> sev = AlertSeverityWatch \<or> sev = AlertSeverityAct \<or> sev = AlertSeverityUrgent
      | _ \<Rightarrow> False)"

definition alertDeliveryOccurrenceDispatchable ::
  "alertDeliveryData \<Rightarrow> alertDeliveryOccurrence \<Rightarrow> AlertCandidate \<Rightarrow> AlertMode \<Rightarrow> gotime \<Rightarrow> bool" where
  "alertDeliveryOccurrenceDispatchable data occ c mode now =
     (if occ_Disposition occ \<noteq> AlertDispositionEligible \<or> (ac_State c \<noteq> AlertEpisodeOpen \<and> ac_State c \<noteq> AlertEpisodeEscalated) \<or>
         \<not> alertModeAllowsSeverity mode (ac_Severity c) \<or> \<not> alertCandidateSourceCurrent (ad_Snapshot data) c now then False
      else \<exists>x\<in>set (elems (snap_Candidates (ad_Snapshot data))). ac_OccurrenceKey x = ac_OccurrenceKey c \<and>
        ac_EpisodeKey x = ac_EpisodeKey c \<and> ac_EvidenceFingerprint x = ac_EvidenceFingerprint c \<and> ac_State x = ac_State c)"

subsection \<open>Baselines\<close>

definition alertDeliveryBaselineEstablished :: "alertDeliveryData \<Rightarrow> string \<Rightarrow> bool" where
  "alertDeliveryBaselineEstablished data authorityScope =
     (case ad_Baselines data of None \<Rightarrow> False
      | Some m \<Rightarrow> (case map_of m authorityScope of None \<Rightarrow> False
          | Some b \<Rightarrow> \<not> IsZero (bl_EstablishedAt b) \<and> \<not> IsZero (bl_SnapshotAsOf b)))"

definition alertSnapshotCanEstablishBaseline :: "AlertCandidateSnapshot \<Rightarrow> bool" where
  "alertSnapshotCanEstablishBaseline snap \<longleftrightarrow> cov_State (snap_Coverage snap) = AlertCoverageComplete \<and>
     cov_Freshness (snap_Coverage snap) = AlertCoverageCurrent"

definition source_baselines :: "alertDeliveryData \<Rightarrow> (string \<times> (AlertSource \<times> alertDeliveryBaseline) list) list" where
  "source_baselines data = (case ad_SourceBaselines data of None \<Rightarrow> [] | Some m \<Rightarrow> m)"

definition scope_baselines :: "alertDeliveryData \<Rightarrow> string \<Rightarrow> (AlertSource \<times> alertDeliveryBaseline) list" where
  "scope_baselines data scope = (case map_of (source_baselines data) scope of None \<Rightarrow> [] | Some m \<Rightarrow> m)"

definition alertSourceBaselineEstablished :: "alertDeliveryData \<Rightarrow> string \<Rightarrow> AlertSource \<Rightarrow> bool" where
  "alertSourceBaselineEstablished data scope source =
     (case map_of (scope_baselines data scope) source of None \<Rightarrow> False
      | Some b \<Rightarrow> \<not> IsZero (bl_EstablishedAt b) \<and> \<not> IsZero (bl_SnapshotAsOf b))"

definition alertSourceBaselineCount :: "alertDeliveryData \<Rightarrow> int" where
  "alertSourceBaselineCount data = sum_list (map (\<lambda>(scope, rows). int (length rows)) (source_baselines data))"

subsection \<open>Copies\<close>

text \<open>Copying shares nothing and, for maps, turns nil into an empty map.\<close>

definition non_nil :: "'a list option \<Rightarrow> 'a list option" where
  "non_nil m = Some (case m of None \<Rightarrow> [] | Some xs \<Rightarrow> xs)"

definition cloneAlertDeliveryData :: "alertDeliveryData \<Rightarrow> alertDeliveryData" where
  "cloneAlertDeliveryData d = d\<lparr>ad_SourceWatermarksByScope := non_nil (ad_SourceWatermarksByScope d), ad_Baselines := non_nil (ad_Baselines d)\<rparr>"

end
