(* ===== verification/Delivery_Ledger.thy ===== *)
theory Delivery_Ledger
  imports Delivery_Types
begin

text \<open>
  The transport side of the delivery ledger in \<^verbatim>\<open>src/internal/app/state/alert_delivery.go\<close>: the
  generation counter, the write-or-roll-back step every operation ends with, the derived health, and
  the attempt operations \<^verbatim>\<open>BeginAlertDelivery\<close>, \<^verbatim>\<open>ConfirmAlertTransport\<close>, \<^verbatim>\<open>CompleteAlertDelivery\<close>,
  \<^verbatim>\<open>RetireAlertDeliveryTarget\<close>, \<^verbatim>\<open>RecoverAlertDeliveries\<close> and \<^verbatim>\<open>SetAlertDeliveryPrerequisiteHealth\<close>.
  Every operation takes the outcome of the file write as an argument (\<open>None\<close>: written) and returns
  the ledger and its result; a successful write makes the new data the saved data.
\<close>

subsection \<open>Generations and writes\<close>

definition initAlertDeliveryRuntime :: "AlertLedger \<Rightarrow> AlertLedger" where
  "initAlertDeliveryRuntime s = (if al_maxItems s \<le> 0 then s\<lparr>al_maxItems := defaultAlertDeliveryMaxItems\<rparr> else s)"

definition bumpAlertDeliveryGeneration :: "alertDeliveryData \<Rightarrow> alertDeliveryData result" where
  "bumpAlertDeliveryGeneration d =
     (if ad_Generation d = - 1 then Inl ErrAttentionSequenceExhausted else Inr (d\<lparr>ad_Generation := ad_Generation d + 1\<rparr>))"

definition bumpAlertDeliveryGenerationLocked :: "AlertLedger \<Rightarrow> alertDeliveryData \<Rightarrow> alertDeliveryData result" where
  "bumpAlertDeliveryGenerationLocked s d =
     bind_result (bumpAlertDeliveryGeneration d) (\<lambda>d1. if al_volatile s \<noteq> None then bumpAlertDeliveryGeneration d1 else Inr d1)"

definition noteAlertDeliverySaveFailureLocked :: "gotime \<Rightarrow> AlertLedger \<Rightarrow> AlertLedger" where
  "noteAlertDeliverySaveFailureLocked at s =
     (if al_volatile s \<noteq> None then s
      else
        let lastAccepted = (case al_data s of None \<Rightarrow> zero_time | Some d \<Rightarrow> dh_LastAcceptedAt (ad_Health d));
            s1 = s\<lparr>al_volatile := Some \<lparr>dh_State = AlertDeliveryHealthUnavailable, dh_Class = AlertDeliveryHealthClassStateWrite,
                     dh_UpdatedAt = at, dh_LastAcceptedAt = lastAccepted\<rparr>\<rparr>
        in case al_data s of
             None \<Rightarrow> s1\<lparr>al_volatileGeneration := 1\<rparr>
           | Some d \<Rightarrow> if ad_Generation d < - 1 then s1\<lparr>al_volatileGeneration := ad_Generation d + 1\<rparr> else s1)"

definition clearAlertDeliveryVolatileLocked :: "AlertLedger \<Rightarrow> AlertLedger" where
  "clearAlertDeliveryVolatileLocked s =
     (if al_quarantined s then s else s\<lparr>al_volatile := None, al_volatileGeneration := 0\<rparr>)"

text \<open>Installing the next data: it stays when it could be written, otherwise the prior data comes
  back and the failure becomes the volatile health.\<close>

definition save_or_roll_back :: "goerror option \<Rightarrow> gotime \<Rightarrow> alertDeliveryData option \<Rightarrow> alertDeliveryData \<Rightarrow> AlertLedger \<Rightarrow> AlertLedger \<times> goerror option" where
  "save_or_roll_back saveErr at prior next s =
     (case saveErr of
        Some e \<Rightarrow> (noteAlertDeliverySaveFailureLocked at (s\<lparr>al_data := prior\<rparr>), Some e)
      | None \<Rightarrow> (clearAlertDeliveryVolatileLocked (s\<lparr>al_data := Some next, al_saved := Some next\<rparr>), None))"

definition setAlertDeliveryOverflowLocked :: "goerror option \<Rightarrow> alertDeliveryData option \<Rightarrow> gotime \<Rightarrow> AlertLedger \<Rightarrow> AlertLedger \<times> goerror" where
  "setAlertDeliveryOverflowLocked saveErr prior at s =
     (let d0 = (case prior of None \<Rightarrow> newAlertDeliveryData | Some p \<Rightarrow> cloneAlertDeliveryData p);
          byScope = (case ad_SourceWatermarksByScope d0 of None \<Rightarrow> [] | Some m \<Rightarrow> m);
          scope = snap_AuthorityScope (ad_Snapshot d0);
          d1 = d0\<lparr>ad_SourceWatermarksByScope := Some (if scope \<noteq> [] then AList.update scope (ad_SourceWatermarks d0) byScope else byScope),
                  ad_Version := AlertDeliveryVersion,
                  ad_Health := \<lparr>dh_State = AlertDeliveryHealthOverflow, dh_Class = AlertDeliveryHealthClassOverflow, dh_UpdatedAt = at,
                                dh_LastAcceptedAt = dh_LastAcceptedAt (ad_Health d0)\<rparr>\<rparr>
      in case bumpAlertDeliveryGenerationLocked s d1 of
           Inl e \<Rightarrow> (s, ErrAlertDeliveryOverflow)
         | Inr next \<Rightarrow>
            (case save_or_roll_back saveErr at (al_data s) next s of
               (s', Some e) \<Rightarrow> (s', Wrap ''persist overflow health'' ErrAlertDeliveryOverflow)
             | (s', None) \<Rightarrow> (s', ErrAlertDeliveryOverflow)))"

subsection \<open>Health\<close>

definition health_attempt :: "alertDeliveryData \<Rightarrow> alertDeliveryAttempt \<Rightarrow> bool" where
  "health_attempt d a \<longleftrightarrow> dat_Class a \<noteq> AlertDeliveryAttemptInterrupted \<and> dat_AuthorityScope a = snap_AuthorityScope (ad_Snapshot d) \<and>
     IsZero (dat_RetiredAt a) \<and> IsZero (time_at (ad_RetiredTargets d) (dat_TargetRef a)) \<and>
     occurrence_current d (dat_AuthorityScope a) (dat_OccurrenceKey a)"

definition latest_attempts :: "(alertDeliveryAttempt \<Rightarrow> bool) \<Rightarrow> alertDeliveryAttempt list \<Rightarrow> (string \<times> alertDeliveryAttempt) list" where
  "latest_attempts P atts = fold (\<lambda>a m. if P a then AList.update (dat_ReceiptKey a) a m else m) atts []"

definition health_class_step :: "alertDeliveryAttempt \<Rightarrow> AlertDeliveryHealthClass \<Rightarrow> AlertDeliveryHealthClass" where
  "health_class_step a c =
     (case dat_Class a of
        AlertDeliveryAttemptExhausted \<Rightarrow> HealthClassRetryExhausted
      | AlertDeliveryAttemptRejected \<Rightarrow>
          if c = NoHealthClass \<or> c = AlertDeliveryHealthClassRetry then AlertDeliveryHealthClassRejected else c
      | AlertDeliveryAttemptRetry \<Rightarrow> if c = NoHealthClass then AlertDeliveryHealthClassRetry else c
      | _ \<Rightarrow> c)"

definition last_accepted :: "alertDeliveryData \<Rightarrow> gotime" where
  "last_accepted d = fold (\<lambda>r t. if rcp_AuthorityScope r = snap_AuthorityScope (ad_Snapshot d) \<and> rcp_AcceptedAt r > t then rcp_AcceptedAt r else t)
     (ad_Receipts d) (dh_LastAcceptedAt (ad_Health d))"

text \<open>\<open>order\<close> is the order in which the map of latest attempts is visited.\<close>

definition health_class :: "(alertDeliveryAttempt list \<Rightarrow> alertDeliveryAttempt list) \<Rightarrow> alertDeliveryData \<Rightarrow> AlertDeliveryHealthClass" where
  "health_class order d =
     (let c = (if \<exists>a\<in>set (ad_Attempts d). dat_Class a = AlertDeliveryAttemptInterrupted then AlertDeliveryHealthClassInterrupted
               else fold health_class_step (order (map snd (latest_attempts (health_attempt d) (ad_Attempts d)))) NoHealthClass)
      in if c = NoHealthClass \<and> \<not> IsZero (ad_ObservationRejectedAt d) then AlertDeliveryHealthClassObservation else c)"

definition recompute_health :: "(alertDeliveryAttempt list \<Rightarrow> alertDeliveryAttempt list) \<Rightarrow> gotime \<Rightarrow> alertDeliveryData \<Rightarrow> alertDeliveryData" where
  "recompute_health order now d =
     (let lastAccepted = last_accepted d in
      if dh_State (ad_Health d) = AlertDeliveryHealthOverflow \<or> dh_State (ad_Health d) = AlertDeliveryHealthUnavailable
      then d\<lparr>ad_Health := (ad_Health d)\<lparr>dh_LastAcceptedAt := lastAccepted\<rparr>\<rparr>
      else let c = health_class order d in
        if c \<noteq> NoHealthClass
        then d\<lparr>ad_Health := \<lparr>dh_State = AlertDeliveryHealthDegraded, dh_Class = c, dh_UpdatedAt = now, dh_LastAcceptedAt = lastAccepted\<rparr>\<rparr>
        else d\<lparr>ad_Health := \<lparr>dh_State = AlertDeliveryHealthHealthy, dh_Class = NoHealthClass, dh_UpdatedAt = now, dh_LastAcceptedAt = lastAccepted\<rparr>\<rparr>)"

definition recomputeAlertDeliveryHealthLocked :: "gotime \<Rightarrow> alertDeliveryData \<Rightarrow> alertDeliveryData" where
  "recomputeAlertDeliveryHealthLocked now d = recompute_health id now d"

text \<open>Deriving the health, counting the generation and writing, as the operations end.\<close>

definition commit_ledger :: "goerror option \<Rightarrow> gotime \<Rightarrow> alertDeliveryData \<Rightarrow> AlertLedger \<Rightarrow> AlertLedger \<times> goerror option" where
  "commit_ledger saveErr at next s =
     (case bumpAlertDeliveryGenerationLocked s next of
        Inl e \<Rightarrow> (s, Some e)
      | Inr next' \<Rightarrow> save_or_roll_back saveErr at (al_data s) next' s)"

definition noteAlertObservationRejectedLocked :: "goerror option \<Rightarrow> gotime \<Rightarrow> AlertLedger \<Rightarrow> AlertLedger" where
  "noteAlertObservationRejectedLocked saveErr at s =
     (case al_data s of
        None \<Rightarrow> s
      | Some prior \<Rightarrow>
          if \<not> IsZero (ad_ObservationRejectedAt prior) then s
          else fst (commit_ledger saveErr at
            (recomputeAlertDeliveryHealthLocked at ((cloneAlertDeliveryData prior)\<lparr>ad_ObservationRejectedAt := at\<rparr>)) s))"

definition validAlertDeliveryPrerequisiteClass :: "AlertDeliveryHealthClass \<Rightarrow> bool" where
  "validAlertDeliveryPrerequisiteClass c \<longleftrightarrow> c = AlertDeliveryHealthClassNoSubscription \<or> c = AlertDeliveryHealthClassSigningKeys \<or>
     c = AlertDeliveryHealthClassSender \<or> c = AlertDeliveryHealthClassFuse"

definition SetAlertDeliveryPrerequisiteHealth :: "goerror option \<Rightarrow> AlertDeliveryHealthClass \<Rightarrow> gotime \<Rightarrow> AlertLedger \<Rightarrow> AlertLedger \<times> goerror option" where
  "SetAlertDeliveryPrerequisiteHealth saveErr c now s =
     (if c \<noteq> NoHealthClass \<and> \<not> validAlertDeliveryPrerequisiteClass c
      then (s, Some (New ''invalid alert delivery prerequisite health class''))
      else if IsZero now then (s, Some (New ''alert delivery prerequisite health time required''))
      else if al_quarantined s then (s, Some ErrAlertDeliveryUnavailable)
      else case al_data s of
        None \<Rightarrow> (s, None)
      | Some prior \<Rightarrow>
         (let h = ad_Health prior in
          if al_volatile s \<noteq> None then (s, Some ErrAlertDeliveryUnavailable)
          else if dh_State h = AlertDeliveryHealthOverflow \<or>
              (dh_State h = AlertDeliveryHealthUnavailable \<and> dh_Class h = AlertDeliveryHealthClassStateWrite)
          then (s, Some ErrAlertDeliveryUnavailable)
          else if c = NoHealthClass \<and> \<not> validAlertDeliveryPrerequisiteClass (dh_Class h) then (s, None)
          else if c \<noteq> NoHealthClass \<and> dh_State h = AlertDeliveryHealthUnavailable \<and> dh_Class h = c then (s, None)
          else commit_ledger saveErr now
            (if c = NoHealthClass
             then recomputeAlertDeliveryHealthLocked now ((cloneAlertDeliveryData prior)\<lparr>ad_Health := zero_health\<rparr>)
             else (cloneAlertDeliveryData prior)\<lparr>ad_Health := \<lparr>dh_State = AlertDeliveryHealthUnavailable, dh_Class = c,
                     dh_UpdatedAt = now, dh_LastAcceptedAt = dh_LastAcceptedAt h\<rparr>\<rparr>) s))"

subsection \<open>Reserving an attempt\<close>

definition alertDeliveryReservationView :: "alertDeliveryAttempt \<Rightarrow> string \<Rightarrow> AlertDeliveryReservation" where
  "alertDeliveryReservationView a displayID = \<lparr>rv_AttemptID = dat_ID a, rv_DisplayID = displayID, rv_AttemptNumber = dat_AttemptNumber a,
     rv_ReservedAt = dat_ReservedAt a, rv_RetryAt = dat_RetryAt a, rv_Candidate = None\<rparr>"

text \<open>The latest attempt for the same occurrence and target forbids another one now.\<close>

definition attempt_blocks :: "alertDeliveryAttempt \<Rightarrow> gotime \<Rightarrow> bool" where
  "attempt_blocks latest now \<longleftrightarrow>
     dat_Class latest \<in> {AlertDeliveryAttemptReserved, AlertDeliveryAttemptConfirmed, AlertDeliveryAttemptAccepted, AlertDeliveryAttemptRejected,
       AlertDeliveryAttemptRetired, AlertDeliveryAttemptInactive, AlertDeliveryAttemptExhausted, AlertDeliveryAttemptModeSuppressed} \<or>
     (dat_Class latest = AlertDeliveryAttemptInterrupted \<and> IsZero (dat_RetryAt latest)) \<or>
     (\<not> IsZero (dat_RetryAt latest) \<and> now < dat_RetryAt latest)"

definition reserved_attempt :: "delivery_lib \<Rightarrow> string \<Rightarrow> string \<Rightarrow> string \<Rightarrow> int \<Rightarrow> gotime \<Rightarrow> alertDeliveryAttempt" where
  "reserved_attempt D scope occurrenceKey targetRef number now =
     (let receiptKey = alertDeliveryReceiptKey (dl_golib D) scope occurrenceKey targetRef in
      \<lparr>dat_AuthorityScope = scope, dat_ID = alertDeliveryAttemptID D receiptKey number now, dat_OccurrenceKey = occurrenceKey,
       dat_TargetRef = targetRef, dat_ReceiptKey = receiptKey, dat_AttemptNumber = number, dat_ReservedAt = now, dat_CompletedAt = zero_time,
       dat_Class = AlertDeliveryAttemptReserved, dat_Disposition = NoCompletionDisposition, dat_RetryAt = zero_time, dat_RetiredAt = zero_time\<rparr>)"

definition displayed :: "string \<Rightarrow> AlertDeliveryReservation" where
  "displayed displayID = zero_reservation\<lparr>rv_DisplayID := displayID\<rparr>"

definition BeginAlertDelivery ::
  "delivery_lib \<Rightarrow> goerror option \<Rightarrow> string \<Rightarrow> string \<Rightarrow> gotime \<Rightarrow> AlertLedger \<Rightarrow> AlertLedger \<times> (AlertDeliveryReservation \<times> bool) result" where
  "BeginAlertDelivery D saveErr occurrenceKey targetRef now s0 =
     (if \<not> validAlertPrivateKey occurrenceKey ''alert-occurrence-v1:'' then (s0, Inl (New ''invalid private alert occurrence key''))
      else if \<not> validAlertHash targetRef then (s0, Inl (New ''invalid alert delivery target ref''))
      else if IsZero now then (s0, Inl (New ''alert delivery reservation time required''))
      else let s = initAlertDeliveryRuntime s0 in
      if al_quarantined s then (s, Inl ErrAlertDeliveryUnavailable)
      else case al_data s of
        None \<Rightarrow> (s, Inl ErrAlertDeliveryUnknownOccurrence)
      | Some prior \<Rightarrow>
         if dh_State (ad_Health prior) = AlertDeliveryHealthOverflow then (s, Inl ErrAlertDeliveryOverflow)
         else if dh_State (ad_Health prior) = AlertDeliveryHealthUnavailable then (s, Inl ErrAlertDeliveryUnavailable)
         else if al_volatile s \<noteq> None then (s, Inl ErrAlertDeliveryUnavailable)
         else let scope = snap_AuthorityScope (ad_Snapshot prior) in
         case findAlertDeliveryOccurrence prior scope occurrenceKey of
           None \<Rightarrow> (s, Inl ErrAlertDeliveryUnknownOccurrence)
         | Some (occ, e) \<Rightarrow>
            if \<not> alertDeliveryOccurrenceCurrent prior occ e \<or>
               \<not> alertDeliveryOccurrenceDispatchable prior occ (alertCandidateFromOccurrence occ) (al_mode s) now
            then (s, Inr (displayed (occ_DisplayID occ), False))
            else if map_of (ad_RetiredTargets prior) targetRef \<noteq> None then (s, Inr (displayed (occ_DisplayID occ), False))
            else let receiptKey = alertDeliveryReceiptKey (dl_golib D) scope occurrenceKey targetRef in
            if alertDeliveryHasReceipt prior receiptKey then (s, Inr (displayed (occ_DisplayID occ), False))
            else if int (length (ad_Receipts prior)) \<ge> al_maxItems s
            then (case setAlertDeliveryOverflowLocked saveErr (Some prior) now s of (s', err) \<Rightarrow> (s', Inl err))
            else let latest = latestAlertDeliveryAttempt prior receiptKey in
            if (case latest of None \<Rightarrow> False | Some l \<Rightarrow> attempt_blocks l now)
            then (s, Inr (alertDeliveryReservationView (the latest) (occ_DisplayID occ), False))
            else if int (length (ad_Attempts prior)) \<ge> al_maxItems s
            then (case setAlertDeliveryOverflowLocked saveErr (Some prior) now s of (s', err) \<Rightarrow> (s', Inl err))
            else
              let number = (case latest of None \<Rightarrow> 1 | Some l \<Rightarrow> dat_AttemptNumber l + 1);
                  attempt = reserved_attempt D scope occurrenceKey targetRef number now;
                  next = recomputeAlertDeliveryHealthLocked now
                    ((cloneAlertDeliveryData prior)\<lparr>ad_Attempts := ad_Attempts prior @ [attempt]\<rparr>)
              in (case commit_ledger saveErr now next s of
                    (s', Some err) \<Rightarrow> (s', Inl err)
                  | (s', None) \<Rightarrow> (s'\<lparr>al_inFlight := List.insert (dat_ID attempt) (al_inFlight s')\<rparr>,
                      Inr (alertDeliveryReservationView attempt (occ_DisplayID occ), True))))"

subsection \<open>Confirming transport\<close>

definition alertDeliveryRetryDelay :: "int \<Rightarrow> duration option" where
  "alertDeliveryRetryDelay n = (if n = 1 then Some minute else if n = 2 then Some (5 * minute) else if n = 3 then Some (15 * minute) else None)"

definition release_attempt :: "string \<Rightarrow> AlertLedger \<Rightarrow> AlertLedger" where
  "release_attempt attemptID s = s\<lparr>al_inFlight := removeAll attemptID (al_inFlight s)\<rparr>"

text \<open>Why the attempt may not be sent now, if so: its class and the retirement it records.\<close>

definition confirm_refusal :: "alertDeliveryData \<Rightarrow> AlertMode \<Rightarrow> alertDeliveryAttempt \<Rightarrow> gotime \<Rightarrow> (AlertDeliveryAttemptClass \<times> gotime) option" where
  "confirm_refusal d mode stored now =
     (case findAlertDeliveryOccurrence d (dat_AuthorityScope stored) (dat_OccurrenceKey stored) of
        None \<Rightarrow> Some (AlertDeliveryAttemptInactive, zero_time)
      | Some (occ, e) \<Rightarrow>
         if \<not> alertDeliveryOccurrenceCurrent d occ e then Some (AlertDeliveryAttemptInactive, zero_time)
         else if \<not> IsZero (time_at (ad_RetiredTargets d) (dat_TargetRef stored))
         then Some (AlertDeliveryAttemptRetired, time_at (ad_RetiredTargets d) (dat_TargetRef stored))
         else if \<not> alertModeAllowsSeverity mode (occ_Severity occ) then Some (AlertDeliveryAttemptModeSuppressed, zero_time)
         else if \<not> alertDeliveryOccurrenceDispatchable d occ (alertCandidateFromOccurrence occ) mode now then Some (AlertDeliveryAttemptRetry, zero_time)
         else None)"

definition refused_attempt :: "AlertDeliveryAttemptClass \<Rightarrow> gotime \<Rightarrow> gotime \<Rightarrow> alertDeliveryAttempt \<Rightarrow> alertDeliveryAttempt" where
  "refused_attempt c retiredAt now a =
     (let a1 = a\<lparr>dat_Class := c, dat_CompletedAt := now, dat_RetiredAt := retiredAt\<rparr>;
          a2 = (if c = AlertDeliveryAttemptRetry
                then (case alertDeliveryRetryDelay (dat_AttemptNumber a1) of
                        Some delay \<Rightarrow> a1\<lparr>dat_RetryAt := time_Add now delay\<rparr>
                      | None \<Rightarrow> a1\<lparr>dat_Class := AlertDeliveryAttemptExhausted\<rparr>)
                else a1)
      in if c = AlertDeliveryAttemptInactive then a2\<lparr>dat_Disposition := AlertDeliveryCompletionInactive\<rparr>
         else if c = AlertDeliveryAttemptRetired then a2\<lparr>dat_Disposition := AlertDeliveryCompletionRetired\<rparr>
         else a2)"

definition suppress_occurrence :: "string \<Rightarrow> string \<Rightarrow> alertDeliveryOccurrence list \<Rightarrow> alertDeliveryOccurrence list" where
  "suppress_occurrence scope key occs =
     update_first (\<lambda>occ. occ_AuthorityScope occ = scope \<and> occ_OccurrenceKey occ = key)
       (\<lambda>occ. occ\<lparr>occ_Disposition := AlertDispositionModeSuppressed\<rparr>) occs"

definition ConfirmAlertTransport ::
  "goerror option \<Rightarrow> string \<Rightarrow> gotime \<Rightarrow> AlertLedger \<Rightarrow> AlertLedger \<times> (AlertDeliveryReservation \<times> bool) result" where
  "ConfirmAlertTransport saveErr attemptID now s0 =
     (if \<not> validAlertAttemptID attemptID then (s0, Inl (New ''invalid alert delivery attempt id''))
      else if IsZero now then (s0, Inl (New ''alert delivery confirmation time required''))
      else let s = initAlertDeliveryRuntime s0 in
      if al_quarantined s then (s, Inl ErrAlertDeliveryUnavailable)
      else case al_data s of
        None \<Rightarrow> (s, Inl (New ''alert delivery attempt not found''))
      | Some prior \<Rightarrow>
        (case first_index (\<lambda>a. dat_ID a = attemptID) (ad_Attempts prior) of
           None \<Rightarrow> (s, Inl (New ''alert delivery attempt not found''))
         | Some i \<Rightarrow>
            let stored = ad_Attempts prior ! i;
                found = findAlertDeliveryOccurrence prior (dat_AuthorityScope stored) (dat_OccurrenceKey stored);
                displayID = (case found of None \<Rightarrow> [] | Some (occ, e) \<Rightarrow> occ_DisplayID occ)
            in
            if now < dat_ReservedAt stored then (s, Inl (New ''alert delivery confirmation precedes reservation''))
            else if dat_Class stored \<noteq> AlertDeliveryAttemptReserved \<or> attemptID \<notin> set (al_inFlight s)
            then (s, Inr (alertDeliveryReservationView stored displayID, False))
            else if al_volatile s \<noteq> None then (release_attempt attemptID s, Inl ErrAlertDeliveryUnavailable)
            else case confirm_refusal prior (al_mode s) stored now of
              Some (c, retiredAt) \<Rightarrow>
                (let attempt = refused_attempt c retiredAt now stored;
                     d1 = (cloneAlertDeliveryData prior)\<lparr>ad_Attempts := (ad_Attempts prior)[i := attempt],
                            ad_Occurrences := (if c = AlertDeliveryAttemptModeSuppressed \<and> found \<noteq> None
                              then suppress_occurrence (dat_AuthorityScope stored) (dat_OccurrenceKey stored) (ad_Occurrences prior)
                              else ad_Occurrences prior)\<rparr>
                 in case commit_ledger saveErr now (recomputeAlertDeliveryHealthLocked now d1) s of
                      (s', Some err) \<Rightarrow> (release_attempt attemptID s', Inl err)
                    | (s', None) \<Rightarrow> (release_attempt attemptID s', Inr (alertDeliveryReservationView attempt displayID, False)))
            | None \<Rightarrow>
                (let attempt = stored\<lparr>dat_Class := AlertDeliveryAttemptConfirmed\<rparr>;
                     d1 = (cloneAlertDeliveryData prior)\<lparr>ad_Attempts := (ad_Attempts prior)[i := attempt]\<rparr>
                 in case commit_ledger saveErr now (recomputeAlertDeliveryHealthLocked now d1) s of
                      (s', Some err) \<Rightarrow> (release_attempt attemptID s', Inl err)
                    | (s', None) \<Rightarrow> (s', Inr ((alertDeliveryReservationView attempt displayID)\<lparr>rv_Candidate :=
                         map_option (\<lambda>(occ, e). alertCandidateFromOccurrence occ) found\<rparr>, True)))))"

subsection \<open>Completing an attempt\<close>

definition completion_disposition :: "alertDeliveryData \<Rightarrow> alertDeliveryAttempt \<Rightarrow> AlertDeliveryCompletionDisposition" where
  "completion_disposition d a =
     (if \<not> IsZero (time_at (ad_RetiredTargets d) (dat_TargetRef a)) then AlertDeliveryCompletionRetired
      else if \<not> occurrence_current d (dat_AuthorityScope a) (dat_OccurrenceKey a) then AlertDeliveryCompletionInactive
      else AlertDeliveryCompletionApplied)"

definition completed_attempt :: "alertDeliveryData \<Rightarrow> AlertDeliveryCompletion \<Rightarrow> gotime \<Rightarrow> alertDeliveryAttempt \<Rightarrow> alertDeliveryAttempt" where
  "completed_attempt d completion now a =
     (let disposition = completion_disposition d a;
          a1 = a\<lparr>dat_RetiredAt := (if disposition = AlertDeliveryCompletionRetired then time_at (ad_RetiredTargets d) (dat_TargetRef a) else dat_RetiredAt a),
                 dat_Disposition := disposition, dat_CompletedAt := now\<rparr>
      in case completion of
           AlertDeliveryCompletionAccepted \<Rightarrow> a1\<lparr>dat_Class := AlertDeliveryAttemptAccepted\<rparr>
         | AlertDeliveryCompletionRetryable \<Rightarrow>
             if disposition = AlertDeliveryCompletionApplied then
               (case alertDeliveryRetryDelay (dat_AttemptNumber a1) of
                  Some delay \<Rightarrow> a1\<lparr>dat_Class := AlertDeliveryAttemptRetry, dat_RetryAt := time_Add now delay\<rparr>
                | None \<Rightarrow> a1\<lparr>dat_Class := AlertDeliveryAttemptExhausted\<rparr>)
             else a1\<lparr>dat_Class := AlertDeliveryAttemptRetry\<rparr>
         | AlertDeliveryCompletionRejected \<Rightarrow> a1\<lparr>dat_Class := AlertDeliveryAttemptRejected\<rparr>
         | OtherCompletion _ \<Rightarrow> a1)"

definition receipt_of :: "alertDeliveryAttempt \<Rightarrow> gotime \<Rightarrow> alertDeliveryReceipt" where
  "receipt_of a now = \<lparr>rcp_AuthorityScope = dat_AuthorityScope a, rcp_OccurrenceKey = dat_OccurrenceKey a, rcp_TargetRef = dat_TargetRef a,
     rcp_ReceiptKey = dat_ReceiptKey a, rcp_AcceptedAt = now, rcp_RetiredAt = dat_RetiredAt a\<rparr>"

definition CompleteAlertDelivery ::
  "goerror option \<Rightarrow> string \<Rightarrow> AlertDeliveryCompletion \<Rightarrow> gotime \<Rightarrow> AlertLedger \<Rightarrow> AlertLedger \<times> AlertDeliveryCompletionOutcome result" where
  "CompleteAlertDelivery saveErr attemptID completion now s0 =
     (if \<not> validAlertAttemptID attemptID then (s0, Inl (New ''invalid alert delivery attempt id''))
      else if completion \<notin> {AlertDeliveryCompletionAccepted, AlertDeliveryCompletionRetryable, AlertDeliveryCompletionRejected}
      then (s0, Inl (New ''invalid alert delivery completion''))
      else if IsZero now then (s0, Inl (New ''alert delivery completion time required''))
      else let s = initAlertDeliveryRuntime s0 in
      if al_quarantined s then (s, Inl ErrAlertDeliveryUnavailable)
      else case al_data s of
        None \<Rightarrow> (s, Inl (New ''alert delivery attempt not found''))
      | Some prior \<Rightarrow>
        (case first_index (\<lambda>a. dat_ID a = attemptID) (ad_Attempts prior) of
           None \<Rightarrow> (s, Inl (New ''alert delivery attempt not found''))
         | Some i \<Rightarrow>
            let stored = ad_Attempts prior ! i in
            if now < dat_ReservedAt stored then (s, Inl (New ''alert delivery completion precedes reservation''))
            else if dat_Class stored \<noteq> AlertDeliveryAttemptConfirmed
            then (s, Inr \<lparr>out_Disposition = AlertDeliveryCompletionAlreadyComplete, out_Class = dat_Class stored, out_RetryAt = dat_RetryAt stored\<rparr>)
            else if attemptID \<notin> set (al_inFlight s) then (s, Inl (New ''alert delivery transport was not confirmed''))
            else
              let attempt = completed_attempt prior completion now stored;
                  fresh = (completion = AlertDeliveryCompletionAccepted \<and> \<not> alertDeliveryHasAnyReceipt prior (dat_ReceiptKey stored))
              in if fresh \<and> int (length (ad_Receipts prior)) \<ge> al_maxItems s
                 then (case setAlertDeliveryOverflowLocked saveErr (Some prior) now s of (s', err) \<Rightarrow> (release_attempt attemptID s', Inl err))
                 else
                   let d1 = (cloneAlertDeliveryData prior)\<lparr>ad_Attempts := (ad_Attempts prior)[i := attempt],
                              ad_Receipts := ad_Receipts prior @ (if fresh then [receipt_of attempt now] else [])\<rparr>
                   in (case commit_ledger saveErr now (recomputeAlertDeliveryHealthLocked now d1) s of
                         (s', Some err) \<Rightarrow> (release_attempt attemptID s', Inl err)
                       | (s', None) \<Rightarrow> (release_attempt attemptID s', Inr \<lparr>out_Disposition = dat_Disposition attempt,
                            out_Class = dat_Class attempt, out_RetryAt = dat_RetryAt attempt\<rparr>))))"

subsection \<open>Retiring targets\<close>

definition retire_attempt :: "gotime \<Rightarrow> alertDeliveryAttempt \<Rightarrow> alertDeliveryAttempt" where
  "retire_attempt at a =
     (let a1 = a\<lparr>dat_RetiredAt := at, dat_RetryAt := zero_time\<rparr> in
      case dat_Class a of
        AlertDeliveryAttemptConfirmed \<Rightarrow> a1\<lparr>dat_Disposition := AlertDeliveryCompletionRetired\<rparr>
      | AlertDeliveryAttemptInterrupted \<Rightarrow> a1\<lparr>dat_Disposition := AlertDeliveryCompletionRetired\<rparr>
      | AlertDeliveryAttemptReserved \<Rightarrow> a1\<lparr>dat_Class := AlertDeliveryAttemptRetired, dat_CompletedAt := at, dat_Disposition := AlertDeliveryCompletionRetired\<rparr>
      | AlertDeliveryAttemptRetry \<Rightarrow> a1\<lparr>dat_Class := AlertDeliveryAttemptRetired, dat_CompletedAt := at, dat_Disposition := AlertDeliveryCompletionRetired\<rparr>
      | _ \<Rightarrow> a1)"

definition retires :: "string list \<Rightarrow> alertDeliveryAttempt \<Rightarrow> bool" where
  "retires targets a \<longleftrightarrow> dat_TargetRef a \<in> set targets \<and> IsZero (dat_RetiredAt a)"

definition retire_data :: "string list \<Rightarrow> gotime \<Rightarrow> alertDeliveryData \<Rightarrow> alertDeliveryData" where
  "retire_data targets at d = (cloneAlertDeliveryData d)\<lparr>
     ad_RetiredTargets := fold (\<lambda>target m. if IsZero (time_at m target) then AList.update target at m else m) targets (ad_RetiredTargets d),
     ad_Attempts := map (\<lambda>a. if retires targets a then retire_attempt at a else a) (ad_Attempts d),
     ad_Receipts := map (\<lambda>r. if rcp_TargetRef r \<in> set targets \<and> IsZero (rcp_RetiredAt r) then r\<lparr>rcp_RetiredAt := at\<rparr> else r) (ad_Receipts d)\<rparr>"

definition released_by_retirement :: "string list \<Rightarrow> alertDeliveryData \<Rightarrow> string list" where
  "released_by_retirement targets d = map dat_ID (filter (\<lambda>a. retires targets a \<and>
     dat_Class a \<in> {AlertDeliveryAttemptInterrupted, AlertDeliveryAttemptReserved, AlertDeliveryAttemptRetry}) (ad_Attempts d))"

text \<open>Staging a retirement: the new data is installed but not yet written. The result says which
  attempts to release and whether anything changed. \<open>targets\<close> are distinct.\<close>

definition retireAlertDeliveryTargetsLocked :: "string list \<Rightarrow> gotime \<Rightarrow> AlertLedger \<Rightarrow> AlertLedger \<times> (string list \<times> bool) result" where
  "retireAlertDeliveryTargetsLocked targets at s0 =
     (let s = initAlertDeliveryRuntime s0 in
      if al_quarantined s then (s, Inr ([], False))
      else case al_data s of
        None \<Rightarrow> (s, Inr ([], False))
      | Some prior \<Rightarrow>
         if targets = [] then (s, Inr ([], False))
         else if dh_State (ad_Health prior) = AlertDeliveryHealthOverflow then (s, Inl ErrAlertDeliveryOverflow)
         else if \<not> list_all validAlertHash targets then (s, Inl (New ''invalid alert delivery target ref''))
         else let newTargets = length (filter (\<lambda>t. IsZero (time_at (ad_RetiredTargets prior) t)) targets) in
         if newTargets = 0 then (s, Inr ([], False))
         else if int (length (ad_RetiredTargets prior) + newTargets) > al_maxItems s then (s, Inl ErrAlertDeliveryOverflow)
         else if \<exists>a\<in>set (ad_Attempts prior). retires targets a \<and>
             dat_Class a \<in> {AlertDeliveryAttemptReserved, AlertDeliveryAttemptRetry} \<and> at < dat_ReservedAt a
         then (s, Inl (New ''alert delivery retirement precedes reservation''))
         else (case bumpAlertDeliveryGenerationLocked s (recomputeAlertDeliveryHealthLocked at (retire_data targets at prior)) of
            Inl e \<Rightarrow> (s, Inl e)
          | Inr next \<Rightarrow> (s\<lparr>al_data := Some next\<rparr>, Inr (released_by_retirement targets prior, True))))"

definition RetireAlertDeliveryTarget :: "goerror option \<Rightarrow> string \<Rightarrow> gotime \<Rightarrow> AlertLedger \<Rightarrow> AlertLedger \<times> goerror option" where
  "RetireAlertDeliveryTarget saveErr targetRef at s =
     (if \<not> validAlertHash targetRef then (s, Some (New ''invalid alert delivery target ref''))
      else if IsZero at then (s, Some (New ''alert delivery target retirement time required''))
      else if al_quarantined s then (s, Some ErrAlertDeliveryUnavailable)
      else case al_data s of
        None \<Rightarrow> (s, None)
      | Some prior \<Rightarrow>
         (case retireAlertDeliveryTargetsLocked [targetRef] at s of
            (s1, Inl e) \<Rightarrow>
              if errors_Is e ErrAlertDeliveryOverflow
              then (case setAlertDeliveryOverflowLocked saveErr (Some prior) at s1 of (s2, err) \<Rightarrow> (s2, Some err))
              else (s1, Some e)
          | (s1, Inr (release, changed)) \<Rightarrow>
              if \<not> changed then (s1, None)
              else (case saveErr of
                 Some e \<Rightarrow> (noteAlertDeliverySaveFailureLocked at (s1\<lparr>al_data := Some prior\<rparr>), Some e)
               | None \<Rightarrow>
                  let s2 = clearAlertDeliveryVolatileLocked (s1\<lparr>al_saved := al_data s1\<rparr>)
                  in (s2\<lparr>al_inFlight := filter (\<lambda>x. x \<notin> set release) (al_inFlight s2)\<rparr>, None))))"

subsection \<open>Recovering unowned attempts\<close>

definition recover_attempt :: "alertDeliveryData \<Rightarrow> gotime \<Rightarrow> alertDeliveryAttempt \<Rightarrow> alertDeliveryAttempt" where
  "recover_attempt d now a =
     (let confirmed = (dat_Class a = AlertDeliveryAttemptConfirmed);
          a1 =
            (if \<not> occurrence_current d (dat_AuthorityScope a) (dat_OccurrenceKey a) then
               a\<lparr>dat_Class := (if confirmed then AlertDeliveryAttemptInterrupted else AlertDeliveryAttemptInactive),
                 dat_Disposition := AlertDeliveryCompletionInactive\<rparr>
             else if \<not> IsZero (time_at (ad_RetiredTargets d) (dat_TargetRef a)) then
               a\<lparr>dat_Class := (if confirmed then AlertDeliveryAttemptInterrupted else AlertDeliveryAttemptRetired),
                 dat_RetiredAt := time_at (ad_RetiredTargets d) (dat_TargetRef a), dat_Disposition := AlertDeliveryCompletionRetired\<rparr>
             else
               (case alertDeliveryRetryDelay (dat_AttemptNumber a) of
                  Some delay \<Rightarrow> a\<lparr>dat_Class := (if confirmed then AlertDeliveryAttemptInterrupted else AlertDeliveryAttemptRetry),
                    dat_RetryAt := time_Add now delay\<rparr>
                | None \<Rightarrow> a\<lparr>dat_Class := (if confirmed then AlertDeliveryAttemptInterrupted else AlertDeliveryAttemptExhausted)\<rparr>))
      in a1\<lparr>dat_CompletedAt := now\<rparr>)"

definition unowned :: "string list \<Rightarrow> alertDeliveryAttempt \<Rightarrow> bool" where
  "unowned inFlight a \<longleftrightarrow> (dat_Class a = AlertDeliveryAttemptReserved \<or> dat_Class a = AlertDeliveryAttemptConfirmed) \<and>
     IsZero (dat_CompletedAt a) \<and> dat_ID a \<notin> set inFlight"

definition RecoverAlertDeliveries :: "goerror option \<Rightarrow> gotime \<Rightarrow> AlertLedger \<Rightarrow> AlertLedger \<times> goerror option" where
  "RecoverAlertDeliveries saveErr now s0 =
     (if IsZero now then (s0, Some (New ''alert delivery recovery time required''))
      else let s = initAlertDeliveryRuntime s0 in
      if al_quarantined s then (s, Some ErrAlertDeliveryUnavailable)
      else case al_data s of
        None \<Rightarrow> (s, None)
      | Some prior \<Rightarrow>
         let orphans = filter (unowned (al_inFlight s)) (ad_Attempts prior); changed = (orphans \<noteq> []) in
         if \<exists>a\<in>set orphans. now < dat_ReservedAt a then (s, Some (New ''alert delivery recovery precedes reservation''))
         else if \<not> changed \<and> al_volatile s = None then (s, None)
         else
           let d1 = (cloneAlertDeliveryData prior)\<lparr>ad_Attempts :=
                 map (\<lambda>a. if unowned (al_inFlight s) a then recover_attempt prior now a else a) (ad_Attempts prior)\<rparr>;
               d2 = (if changed then recomputeAlertDeliveryHealthLocked now d1 else d1)
           in commit_ledger saveErr now d2 s)"

end
