(* ===== verification/Delivery_Views.thy ===== *)
theory Delivery_Views
  imports Delivery_Ledger
begin

text \<open>
  The reading and housekeeping side of the delivery ledger in
  \<^verbatim>\<open>src/internal/app/state/alert_delivery.go\<close>: the redacted view with its ageing, the attention cursor,
  the due work, the attempt totals, and retention (\<^verbatim>\<open>CompactAlertDelivery\<close>).
\<close>

subsection \<open>Structures\<close>

record AlertDeliveryOccurrenceView =
  ov_DisplayID :: string
  ov_Source :: AlertSource
  ov_Kind :: AlertKind
  ov_PresentationCode :: AlertPresentationCode
  ov_State :: AlertEpisodeState
  ov_Severity :: AlertSeverity
  ov_EvidenceHealth :: AlertEvidenceHealth
  ov_Destination :: AlertDestination
  ov_EvidenceAsOf :: gotime
  ov_StateChangedAt :: gotime
  ov_FirstSeenAt :: gotime
  ov_LastSeenAt :: gotime
  ov_EndedAt :: gotime
  ov_EndReason :: AlertDeliveryEndReason
  ov_AttentionSeq :: "64 word"
  ov_Disposition :: AlertDisposition

record AlertDeliveryAttentionRef =
  ref_DisplayID :: string
  ref_Source :: AlertSource
  ref_Kind :: AlertKind

record AlertDeliveryAttention =
  an_UnreadCount :: nat
  an_HighWaterSeq :: "64 word"
  an_ReadThroughSeq :: "64 word"
  an_UnreadRefs :: "AlertDeliveryAttentionRef list"

record AlertDeliveryAttemptTotals =
  tot_Attempts :: nat
  tot_Confirmed :: nat
  tot_Accepted :: nat
  tot_RetryPending :: nat
  tot_Rejected :: nat
  tot_Interrupted :: nat
  tot_TargetRetired :: nat
  tot_Inactive :: nat
  tot_RetryExhausted :: nat
  tot_ModeSuppressed :: nat

record AlertDeliveryView =
  av_Initialized :: bool
  av_Version :: string
  av_Generation :: "64 word"
  av_AsOf :: gotime
  av_CurrentState :: AlertSnapshotState
  av_Coverage :: AlertCoverage
  av_Sources :: "AlertSourceCoverage slice"
  av_SourceWatermarks :: watermarks
  av_Occurrences :: "AlertDeliveryOccurrenceView list"
  av_Attention :: AlertDeliveryAttention
  av_AttemptTotals :: AlertDeliveryAttemptTotals
  av_DeliveryHealth :: AlertDeliveryHealth
  av_AuthorityScope :: string

definition zero_totals :: AlertDeliveryAttemptTotals where
  "zero_totals = \<lparr>tot_Attempts = 0, tot_Confirmed = 0, tot_Accepted = 0, tot_RetryPending = 0, tot_Rejected = 0, tot_Interrupted = 0,
     tot_TargetRetired = 0, tot_Inactive = 0, tot_RetryExhausted = 0, tot_ModeSuppressed = 0\<rparr>"

definition no_attention :: AlertDeliveryAttention where
  "no_attention = \<lparr>an_UnreadCount = 0, an_HighWaterSeq = 0, an_ReadThroughSeq = 0, an_UnreadRefs = []\<rparr>"

definition zero_view :: AlertDeliveryView where
  "zero_view = \<lparr>av_Initialized = False, av_Version = [], av_Generation = 0, av_AsOf = zero_time, av_CurrentState = OtherSnapshotState [],
     av_Coverage = snap_Coverage zero_snapshot, av_Sources = NilSlice, av_SourceWatermarks = [], av_Occurrences = [], av_Attention = no_attention,
     av_AttemptTotals = zero_totals, av_DeliveryHealth = zero_health, av_AuthorityScope = []\<rparr>"

subsection \<open>Attention\<close>

definition latestAlertDeliveryPreviousContext :: "alertDeliveryData \<Rightarrow> string \<Rightarrow> string \<Rightarrow> alertDeliveryPreviousContext option" where
  "latestAlertDeliveryPreviousContext d scope priorDisplayID =
     find_first (\<lambda>p. pc_AuthorityScope p = scope \<and> pc_PriorDisplayID p = priorDisplayID) (rev (ad_PreviousContexts d))"

definition unread :: "alertDeliveryData \<Rightarrow> alertDeliveryOccurrence \<Rightarrow> bool" where
  "unread d occ \<longleftrightarrow> occ_AttentionSeq occ > ad_AttentionReadThroughSeq d \<and> occ_AttentionSeq occ \<le> ad_AttentionHighWaterSeq d"

text \<open>The public identity of an unread occurrence; a dormant one shows its previous context.\<close>

definition attention_entry :: "alertDeliveryData \<Rightarrow> alertDeliveryOccurrence \<Rightarrow> (64 word \<times> AlertDeliveryAttentionRef) option" where
  "attention_entry d occ =
     (let entry = (\<lambda>displayID. Some (occ_AttentionSeq occ, \<lparr>ref_DisplayID = displayID, ref_Source = occ_Source occ, ref_Kind = occ_Kind occ\<rparr>)) in
      if occ_AuthorityScope occ \<noteq> snap_AuthorityScope (ad_Snapshot d) \<and> IsZero (occ_EndedAt occ)
      then (case latestAlertDeliveryPreviousContext d (occ_AuthorityScope occ) (occ_DisplayID occ) of
              Some p \<Rightarrow> entry (pc_DisplayID p) | None \<Rightarrow> None)
      else entry (occ_DisplayID occ))"

definition alertDeliveryAttentionLocked :: "alertDeliveryData option \<Rightarrow> AlertDeliveryAttention" where
  "alertDeliveryAttentionLocked data =
     (case data of None \<Rightarrow> no_attention
      | Some d \<Rightarrow>
         let refs = map snd (sort_key fst (List.map_filter (attention_entry d) (filter (unread d) (ad_Occurrences d))))
         in \<lparr>an_UnreadCount = length refs, an_HighWaterSeq = ad_AttentionHighWaterSeq d, an_ReadThroughSeq = ad_AttentionReadThroughSeq d,
             an_UnreadRefs = refs\<rparr>)"

fun complete_through :: "64 word \<Rightarrow> 64 word \<Rightarrow> 64 word list \<Rightarrow> alertDeliveryOccurrence list \<Rightarrow> 64 word list option" where
  "complete_through readThrough throughSeq seen [] = Some seen"
| "complete_through readThrough throughSeq seen (occ # occs) =
     (let seq = occ_AttentionSeq occ in
      if seq \<le> readThrough \<or> seq > throughSeq then complete_through readThrough throughSeq seen occs
      else if seq \<in> set seen then None
      else complete_through readThrough throughSeq (seq # seen) occs)"

definition alertDeliveryAttentionCompleteThrough :: "alertDeliveryData \<Rightarrow> 64 word \<Rightarrow> bool" where
  "alertDeliveryAttentionCompleteThrough d throughSeq =
     (case complete_through (ad_AttentionReadThroughSeq d) throughSeq [] (ad_Occurrences d) of
        None \<Rightarrow> False
      | Some seen \<Rightarrow> of_nat (length seen) = throughSeq - ad_AttentionReadThroughSeq d)"

definition MarkAlertDeliveryAttentionRead :: "goerror option \<Rightarrow> gotime \<Rightarrow> 64 word \<Rightarrow> AlertLedger \<Rightarrow> AlertLedger \<times> AlertDeliveryAttention \<times> goerror option" where
  "MarkAlertDeliveryAttentionRead saveErr clock throughSeq s =
     (if al_quarantined s then (s, no_attention, Some ErrAlertDeliveryUnavailable)
      else case al_data s of
        None \<Rightarrow> (s, no_attention, if throughSeq = 0 then None else Some ErrAlertDeliveryAttentionRead)
      | Some d \<Rightarrow>
         if throughSeq < ad_AttentionReadThroughSeq d \<or> throughSeq > ad_AttentionHighWaterSeq d \<or> \<not> alertDeliveryAttentionCompleteThrough d throughSeq
         then (s, alertDeliveryAttentionLocked (Some d), Some ErrAlertDeliveryAttentionRead)
         else if throughSeq = ad_AttentionReadThroughSeq d then (s, alertDeliveryAttentionLocked (Some d), None)
         else case commit_ledger saveErr clock ((cloneAlertDeliveryData d)\<lparr>ad_AttentionReadThroughSeq := throughSeq\<rparr>) s of
                (s', Some err) \<Rightarrow> (s', alertDeliveryAttentionLocked (Some d), Some err)
              | (s', None) \<Rightarrow> (s', alertDeliveryAttentionLocked (al_data s'), None))"

subsection \<open>Totals\<close>

definition count_attempt :: "alertDeliveryAttempt \<Rightarrow> AlertDeliveryAttemptTotals \<Rightarrow> AlertDeliveryAttemptTotals" where
  "count_attempt a t0 =
     (let t = t0\<lparr>tot_Attempts := tot_Attempts t0 + 1\<rparr> in
      case dat_Class a of
        AlertDeliveryAttemptAccepted \<Rightarrow> t\<lparr>tot_Accepted := tot_Accepted t + 1\<rparr>
      | AlertDeliveryAttemptConfirmed \<Rightarrow> t\<lparr>tot_Confirmed := tot_Confirmed t + 1\<rparr>
      | AlertDeliveryAttemptRejected \<Rightarrow> t\<lparr>tot_Rejected := tot_Rejected t + 1\<rparr>
      | AlertDeliveryAttemptInterrupted \<Rightarrow> t\<lparr>tot_Interrupted := tot_Interrupted t + 1\<rparr>
      | AlertDeliveryAttemptRetired \<Rightarrow> t\<lparr>tot_TargetRetired := tot_TargetRetired t + 1\<rparr>
      | AlertDeliveryAttemptInactive \<Rightarrow> t\<lparr>tot_Inactive := tot_Inactive t + 1\<rparr>
      | AlertDeliveryAttemptExhausted \<Rightarrow> t\<lparr>tot_RetryExhausted := tot_RetryExhausted t + 1\<rparr>
      | AlertDeliveryAttemptModeSuppressed \<Rightarrow> t\<lparr>tot_ModeSuppressed := tot_ModeSuppressed t + 1\<rparr>
      | _ \<Rightarrow> t)"

definition retry_pending :: "alertDeliveryData \<Rightarrow> string \<times> alertDeliveryAttempt \<Rightarrow> bool" where
  "retry_pending d = (\<lambda>(receiptKey, a). \<not> alertDeliveryHasReceipt d receiptKey \<and> \<not> IsZero (dat_RetryAt a) \<and>
     occurrence_current d (dat_AuthorityScope a) (dat_OccurrenceKey a))"

definition alertDeliveryAttemptTotals :: "alertDeliveryData \<Rightarrow> AlertDeliveryAttemptTotals" where
  "alertDeliveryAttemptTotals d = (fold count_attempt (ad_Attempts d) zero_totals)\<lparr>
     tot_RetryPending := length (filter (retry_pending d) (latest_attempts (\<lambda>a. True) (ad_Attempts d)))\<rparr>"

definition AcceptedAlertPushesSince :: "gotime \<Rightarrow> AlertLedger \<Rightarrow> nat" where
  "AcceptedAlertPushesSince since s =
     (case al_data s of None \<Rightarrow> 0
      | Some d \<Rightarrow> length (filter (\<lambda>r. \<not> IsZero (rcp_AcceptedAt r) \<and> \<not> rcp_AcceptedAt r < since) (ad_Receipts d)))"

subsection \<open>The view\<close>

definition view_occurrence :: "alertDeliveryOccurrence \<Rightarrow> AlertDeliveryOccurrenceView" where
  "view_occurrence occ = \<lparr>ov_DisplayID = occ_DisplayID occ, ov_Source = occ_Source occ, ov_Kind = occ_Kind occ,
     ov_PresentationCode = occ_PresentationCode occ, ov_State = occ_State occ, ov_Severity = occ_Severity occ,
     ov_EvidenceHealth = occ_EvidenceHealth occ, ov_Destination = occ_Destination occ, ov_EvidenceAsOf = occ_EvidenceAsOf occ,
     ov_StateChangedAt = occ_StateChangedAt occ, ov_FirstSeenAt = occ_FirstSeenAt occ, ov_LastSeenAt = occ_LastSeenAt occ,
     ov_EndedAt = occ_EndedAt occ, ov_EndReason = occ_EndReason occ, ov_AttentionSeq = occ_AttentionSeq occ, ov_Disposition = occ_Disposition occ\<rparr>"

definition view_previous :: "alertDeliveryPreviousContext \<Rightarrow> AlertDeliveryOccurrenceView" where
  "view_previous p = \<lparr>ov_DisplayID = pc_DisplayID p, ov_Source = pc_Source p, ov_Kind = pc_Kind p,
     ov_PresentationCode = pc_PresentationCode p, ov_State = pc_State p, ov_Severity = pc_Severity p,
     ov_EvidenceHealth = pc_EvidenceHealth p, ov_Destination = pc_Destination p, ov_EvidenceAsOf = pc_EvidenceAsOf p,
     ov_StateChangedAt = pc_StateChangedAt p, ov_FirstSeenAt = pc_FirstSeenAt p, ov_LastSeenAt = pc_LastSeenAt p,
     ov_EndedAt = pc_EndedAt p, ov_EndReason = pc_EndReason p, ov_AttentionSeq = pc_OriginalAttention p, ov_Disposition = pc_Disposition p\<rparr>"

definition row_expired :: "gotime \<Rightarrow> AlertSourceCoverage \<Rightarrow> bool" where
  "row_expired now row \<longleftrightarrow> asc_Covered row \<and> asc_EvidenceHealth row = AlertEvidenceCurrent \<and> \<not> IsZero (asc_FreshUntil row) \<and> now > asc_FreshUntil row"

definition ageAlertDeliveryEvidence :: "gotime \<Rightarrow> AlertDeliveryView \<Rightarrow> AlertDeliveryView" where
  "ageAlertDeliveryEvidence now v =
     (let rows = elems (av_Sources v);
          expired = map asc_Source (filter (row_expired now) rows)
      in if expired = [] then v
         else v\<lparr>
           av_Sources := Slice (map (\<lambda>row. if row_expired now row then row\<lparr>asc_Status := ''stale'', asc_Reason := ''freshness_expired'',
               asc_EvidenceHealth := AlertEvidenceStale\<rparr> else row) rows),
           av_Occurrences := map (\<lambda>o1. if ov_Source o1 \<in> set expired \<and> ov_EvidenceHealth o1 = AlertEvidenceCurrent
               then o1\<lparr>ov_EvidenceHealth := AlertEvidenceStale\<rparr> else o1) (av_Occurrences v),
           av_Coverage := (av_Coverage v)\<lparr>cov_Freshness := AlertCoverageStale\<rparr>,
           av_CurrentState := (if av_CurrentState v = AlertSnapshotClear then AlertSnapshotUnknown else av_CurrentState v)\<rparr>)"

definition alertDeliveryView :: "alertDeliveryData option \<Rightarrow> gotime \<Rightarrow> AlertDeliveryView" where
  "alertDeliveryView data now =
     (case data of None \<Rightarrow> zero_view
      | Some d \<Rightarrow> ageAlertDeliveryEvidence now \<lparr>
          av_Initialized = True, av_Version = ad_Version d, av_Generation = ad_Generation d, av_AsOf = snap_AsOf (ad_Snapshot d),
          av_CurrentState = snap_CurrentState (ad_Snapshot d), av_Coverage = snap_Coverage (ad_Snapshot d), av_Sources = snap_Sources (ad_Snapshot d),
          av_SourceWatermarks = ad_SourceWatermarks d,
          av_Occurrences = map view_occurrence (filter (\<lambda>occ. \<not> (occ_AuthorityScope occ \<noteq> snap_AuthorityScope (ad_Snapshot d) \<and> IsZero (occ_EndedAt occ)))
              (ad_Occurrences d)) @ map view_previous (ad_PreviousContexts d),
          av_Attention = alertDeliveryAttentionLocked (Some d), av_AttemptTotals = alertDeliveryAttemptTotals d,
          av_DeliveryHealth = ad_Health d, av_AuthorityScope = snap_AuthorityScope (ad_Snapshot d)\<rparr>)"

definition alertDeliveryViewLocked :: "AlertLedger \<Rightarrow> alertDeliveryData option \<Rightarrow> gotime \<Rightarrow> AlertDeliveryView" where
  "alertDeliveryViewLocked s data now =
     (let v = alertDeliveryView data now in
      case al_volatile s of None \<Rightarrow> v
      | Some h \<Rightarrow> v\<lparr>av_DeliveryHealth := h,
          av_Generation := (if al_volatileGeneration s > av_Generation v then al_volatileGeneration s else av_Generation v)\<rparr>)"

definition AlertDelivery :: "gotime \<Rightarrow> AlertLedger \<Rightarrow> AlertDeliveryView" where
  "AlertDelivery now s = alertDeliveryViewLocked s (al_data s) now"

definition AlertDeliveriesDue :: "gotime \<Rightarrow> AlertLedger \<Rightarrow> AlertDeliveryDueWork list" where
  "AlertDeliveriesDue now s =
     (if al_quarantined s then []
      else case al_data s of
        None \<Rightarrow> []
      | Some d \<Rightarrow>
         if al_volatile s \<noteq> None \<or> dh_State (ad_Health d) = AlertDeliveryHealthOverflow \<or>
            (dh_State (ad_Health d) = AlertDeliveryHealthUnavailable \<and> \<not> validAlertDeliveryPrerequisiteClass (dh_Class (ad_Health d))) then []
         else sort_key due_DisplayID (map (\<lambda>occ. \<lparr>due_OccurrenceKey = occ_OccurrenceKey occ, due_Candidate = alertCandidateFromOccurrence occ,
                 due_DisplayID = occ_DisplayID occ\<rparr>)
           (filter (\<lambda>occ. (case findAlertDeliveryOccurrence d (occ_AuthorityScope occ) (occ_OccurrenceKey occ) of
                None \<Rightarrow> False | Some (_, e) \<Rightarrow> alertDeliveryOccurrenceCurrent d occ e) \<and>
              AlertCandidate_Validate (alertCandidateFromOccurrence occ) = None \<and>
              alertDeliveryOccurrenceDispatchable d occ (alertCandidateFromOccurrence occ) (al_mode s) now) (ad_Occurrences d))))"

subsection \<open>Retention\<close>

definition activeAlertDeliveryTargetsLocked :: "golib \<Rightarrow> AlertLedger \<Rightarrow> string list" where
  "activeAlertDeliveryTargetsLocked L s =
     map (\<lambda>sub. AlertDeliveryTargetRef L (sub_DeviceID sub) (sub_ID sub))
       (filter (\<lambda>sub. \<exists>dev\<in>set (al_devices s). IsZero (dev_RevokedAt dev) \<and> dev_ID dev = sub_DeviceID sub) (al_subscriptions s))"

definition alertDeliveryBelowCapacity :: "alertDeliveryData \<Rightarrow> int \<Rightarrow> bool" where
  "alertDeliveryBelowCapacity d maximum \<longleftrightarrow> maximum > 0 \<and> cov_State (snap_Coverage (ad_Snapshot d)) \<noteq> AlertCoverageUnavailable \<and>
     int (length (ad_Episodes d)) < maximum \<and> int (length (ad_Occurrences d)) < maximum \<and> int (length (ad_PreviousContexts d)) < maximum \<and>
     int (length (ad_Attempts d)) < maximum \<and> int (length (ad_Receipts d)) < maximum \<and> int (length (ad_RetiredTargets d)) < maximum \<and>
     int (length (case ad_Baselines d of None \<Rightarrow> [] | Some m \<Rightarrow> m)) \<le> maximum \<and> alertSourceBaselineCount d \<le> maximum"

definition removable_occurrence :: "gotime \<Rightarrow> 64 word \<Rightarrow> alertDeliveryOccurrence \<Rightarrow> bool" where
  "removable_occurrence cutoff readThrough occ \<longleftrightarrow> (occ_AttentionSeq occ = 0 \<or> occ_AttentionSeq occ \<le> readThrough) \<and>
     \<not> IsZero (occ_EndedAt occ) \<and> occ_EndedAt occ < cutoff"

definition occurrence_key :: "alertDeliveryOccurrence \<Rightarrow> string" where
  "occurrence_key occ = alertDeliveryScopedKey (occ_AuthorityScope occ) (occ_OccurrenceKey occ)"

definition old_watermarks :: "gotime \<Rightarrow> watermarks \<Rightarrow> bool" where
  "old_watermarks cutoff wms \<longleftrightarrow> list_all (\<lambda>(src, t). t < cutoff) wms"

definition compact_evidence :: "gotime \<Rightarrow> alertDeliveryData \<Rightarrow> alertDeliveryData" where
  "compact_evidence cutoff d =
     (let rt = ad_AttentionReadThroughSeq d;
          gone = map occurrence_key (filter (removable_occurrence cutoff rt) (ad_Occurrences d))
      in d\<lparr>ad_Occurrences := filter (\<lambda>occ. \<not> removable_occurrence cutoff rt occ) (ad_Occurrences d),
           ad_Attempts := filter (\<lambda>a. alertDeliveryScopedKey (dat_AuthorityScope a) (dat_OccurrenceKey a) \<notin> set gone) (ad_Attempts d),
           ad_Receipts := filter (\<lambda>r. alertDeliveryScopedKey (rcp_AuthorityScope r) (rcp_OccurrenceKey r) \<notin> set gone) (ad_Receipts d),
           ad_PreviousContexts := filter (\<lambda>p. \<not> ((pc_OriginalAttention p = 0 \<or> pc_OriginalAttention p \<le> rt) \<and> pc_EndedAt p < cutoff)) (ad_PreviousContexts d)\<rparr>)"

definition compact_targets :: "gotime \<Rightarrow> string list \<Rightarrow> alertDeliveryData \<Rightarrow> alertDeliveryData" where
  "compact_targets cutoff active d =
     d\<lparr>ad_RetiredTargets := filter (\<lambda>(target, at). \<not> (at < cutoff \<and> target \<notin> set active \<and>
        target \<notin> dat_TargetRef ` set (ad_Attempts d) \<and> target \<notin> rcp_TargetRef ` set (ad_Receipts d))) (ad_RetiredTargets d)\<rparr>"

definition compact_episodes :: "alertDeliveryData \<Rightarrow> alertDeliveryData" where
  "compact_episodes d = d\<lparr>ad_Episodes := filter (\<lambda>e.
     alertDeliveryScopedKey (ep_AuthorityScope e) (ep_CurrentOccurrenceKey e) \<in> occurrence_key ` set (ad_Occurrences d) \<or>
     ep_State e \<noteq> AlertEpisodeRecovered) (ad_Episodes d)\<rparr>"

definition retained_scope :: "alertDeliveryData \<Rightarrow> string \<Rightarrow> bool" where
  "retained_scope d scope \<longleftrightarrow> scope = snap_AuthorityScope (ad_Snapshot d) \<or> scope \<in> ep_AuthorityScope ` set (ad_Episodes d)"

definition compact_scopes :: "gotime \<Rightarrow> alertDeliveryData \<Rightarrow> alertDeliveryData" where
  "compact_scopes cutoff d = d\<lparr>
     ad_SourceWatermarksByScope := map_option (filter (\<lambda>(scope, wms). retained_scope d scope \<or> \<not> old_watermarks cutoff wms)) (ad_SourceWatermarksByScope d),
     ad_Baselines := map_option (filter (\<lambda>(scope, b). retained_scope d scope \<or> \<not> bl_EstablishedAt b < cutoff)) (ad_Baselines d),
     ad_SourceBaselines := map_option (\<lambda>m. filter (\<lambda>(scope, rows). rows \<noteq> []) (map (\<lambda>(scope, rows).
        (scope, filter (\<lambda>(src, b). retained_scope d scope \<or> \<not> bl_EstablishedAt b < cutoff) rows)) m)) (ad_SourceBaselines d)\<rparr>"

definition compacted :: "gotime \<Rightarrow> string list \<Rightarrow> alertDeliveryData \<Rightarrow> alertDeliveryData" where
  "compacted cutoff active d = compact_scopes cutoff (compact_episodes (compact_targets cutoff active (compact_evidence cutoff d)))"

definition nothing_removed :: "alertDeliveryData \<Rightarrow> alertDeliveryData \<Rightarrow> bool" where
  "nothing_removed next prior \<longleftrightarrow> length (ad_Occurrences next) = length (ad_Occurrences prior) \<and>
     length (ad_PreviousContexts next) = length (ad_PreviousContexts prior) \<and> length (ad_Episodes next) = length (ad_Episodes prior) \<and>
     length (ad_RetiredTargets next) = length (ad_RetiredTargets prior) \<and>
     map_option length (ad_SourceWatermarksByScope next) = map_option length (non_nil (ad_SourceWatermarksByScope prior)) \<and>
     map_option length (ad_Baselines next) = map_option length (non_nil (ad_Baselines prior)) \<and>
     alertSourceBaselineCount next = alertSourceBaselineCount prior"

definition CompactAlertDelivery :: "golib \<Rightarrow> goerror option \<Rightarrow> gotime \<Rightarrow> AlertLedger \<Rightarrow> AlertLedger \<times> goerror option" where
  "CompactAlertDelivery L saveErr now s =
     (let cutoff = time_Add now (- alertDeliveryRetention) in
      if al_quarantined s then (s, Some ErrAlertDeliveryUnavailable)
      else case al_data s of
        None \<Rightarrow> (s, None)
      | Some prior \<Rightarrow>
         let next = compacted cutoff (activeAlertDeliveryTargetsLocked L s) (cloneAlertDeliveryData prior);
             recoveredCapacity = (dh_State (ad_Health prior) = AlertDeliveryHealthOverflow \<and> alertDeliveryBelowCapacity next (al_maxItems s))
         in if nothing_removed next prior \<and> \<not> recoveredCapacity then (s, None)
            else commit_ledger saveErr now (recomputeAlertDeliveryHealthLocked now
              (if recoveredCapacity then next\<lparr>ad_Health := zero_health\<rparr> else next)) s)"

end
