(* ===== verification/Delivery_Intake.thy ===== *)
theory Delivery_Intake
  imports Delivery_Views
begin

text \<open>
  The intake of producer snapshots into the delivery ledger, from \<^verbatim>\<open>ObserveAlertSnapshot\<close> of
  \<^verbatim>\<open>src/internal/app/state/alert_delivery.go\<close> and the source baselines of
  \<^verbatim>\<open>src/internal/app/state/alert_source_baseline.go\<close>. The index maps \<^verbatim>\<open>episodes\<close> and
  \<^verbatim>\<open>occurrences\<close> of \<^verbatim>\<open>applyAlertSnapshotLocked\<close>, which follow the two slices as they grow, are the last
  index with a scoped key. One candidate is \<open>intake_candidate\<close>; the loop over the candidates is
  \<open>intake_candidates\<close>; the loop over the episodes that the snapshot omits is \<open>omit_episodes\<close>.
\<close>

subsection \<open>Baselines\<close>

definition migrateAlertSourceBaselines :: "alertDeliveryData \<Rightarrow> alertDeliveryData" where
  "migrateAlertSourceBaselines d =
     (case ad_SourceBaselines d of
        Some _ \<Rightarrow> d
      | None \<Rightarrow>
         let baselines = (case ad_Baselines d of None \<Rightarrow> [] | Some m \<Rightarrow> m);
             byScope = (case ad_SourceWatermarksByScope d of None \<Rightarrow> [] | Some m \<Rightarrow> m);
             wms = (\<lambda>scope. case map_of byScope scope of None \<Rightarrow> [] | Some w \<Rightarrow> w)
         in d\<lparr>ad_SourceBaselines := Some (filter (\<lambda>(scope, rows). rows \<noteq> []) (map (\<lambda>(scope, b).
              (scope, map (\<lambda>(src, wm). (src, b)) (filter (\<lambda>(src, wm). \<not> (wm < bl_SnapshotAsOf b \<or> IsZero (bl_EstablishedAt b))) (wms scope)))) baselines))\<rparr>)"

fun establishAlertSourceBaselines :: "int \<Rightarrow> AlertCandidateSnapshot \<Rightarrow> AlertSourceCoverage list \<Rightarrow> alertDeliveryData \<Rightarrow> alertDeliveryData result" where
  "establishAlertSourceBaselines maxItems snap [] d = Inr d"
| "establishAlertSourceBaselines maxItems snap (row # rows) d =
     (if \<not> alertSourceCurrent row (snap_AsOf snap) \<or> alertSourceBaselineEstablished d (snap_AuthorityScope snap) (asc_Source row)
      then establishAlertSourceBaselines maxItems snap rows d
      else if alertSourceBaselineCount d \<ge> maxItems then Inl ErrAlertDeliveryOverflow
      else establishAlertSourceBaselines maxItems snap rows (d\<lparr>ad_SourceBaselines := Some (AList.update (snap_AuthorityScope snap)
        (AList.update (asc_Source row) \<lparr>bl_EstablishedAt = snap_AsOf snap, bl_SnapshotAsOf = snap_AsOf snap\<rparr>
          (scope_baselines d (snap_AuthorityScope snap))) (source_baselines d))\<rparr>))"

subsection \<open>Refusing old evidence\<close>

definition rejectAlertSourceWatermarks :: "alertDeliveryData \<Rightarrow> AlertCandidateSnapshot \<Rightarrow> goerror option" where
  "rejectAlertSourceWatermarks d snap =
     (if \<exists>c\<in>set (elems (snap_Candidates snap)). \<not> IsZero (time_at (ad_SourceWatermarks d) (ac_Source c)) \<and>
          ac_ObservedAt c < time_at (ad_SourceWatermarks d) (ac_Source c)
      then Some (Wrap ''source observed_at precedes watermark'' ErrAlertDeliveryOldSnapshot)
      else if \<exists>row\<in>set (elems (snap_Sources snap)). alertSourceCurrent row (snap_AsOf snap) \<and>
          \<not> IsZero (time_at (ad_SourceWatermarks d) (asc_Source row)) \<and>
          cov_AsOf (snap_Coverage snap) < time_at (ad_SourceWatermarks d) (asc_Source row)
      then Some (Wrap ''source coverage precedes watermark'' ErrAlertDeliveryOldSnapshot)
      else None)"

definition rejectOldAlertSnapshot :: "alertDeliveryData \<Rightarrow> AlertCandidateSnapshot \<Rightarrow> goerror option" where
  "rejectOldAlertSnapshot d snap =
     (if ad_Generation d > 0 \<and> snap_AsOf snap < snap_AsOf (ad_Snapshot d)
      then Some (Wrap ''snapshot precedes current view'' ErrAlertDeliveryOldSnapshot)
      else rejectAlertSourceWatermarks d snap)"

definition equalAlertCandidateSnapshot :: "AlertCandidateSnapshot \<Rightarrow> AlertCandidateSnapshot \<Rightarrow> bool" where
  "equalAlertCandidateSnapshot a b \<longleftrightarrow> snap_SchemaVersion a = snap_SchemaVersion b \<and> snap_AuthorityScope a = snap_AuthorityScope b \<and>
     snap_AsOf a = snap_AsOf b \<and> snap_CurrentState a = snap_CurrentState b \<and>
     cov_State (snap_Coverage a) = cov_State (snap_Coverage b) \<and> cov_Freshness (snap_Coverage a) = cov_Freshness (snap_Coverage b) \<and>
     cov_AsOf (snap_Coverage a) = cov_AsOf (snap_Coverage b) \<and> expected_sources (snap_Coverage a) = expected_sources (snap_Coverage b) \<and>
     covered_sources (snap_Coverage a) = covered_sources (snap_Coverage b) \<and>
     elems (snap_Sources a) = elems (snap_Sources b) \<and> elems (snap_Candidates a) = elems (snap_Candidates b)"

definition unavailableAlertSourceRows :: "AlertSource list \<Rightarrow> string \<Rightarrow> AlertSourceCoverage list" where
  "unavailableAlertSourceRows expected reason = sort_key (\<lambda>row. AlertSource_wire (asc_Source row))
     (map (\<lambda>src. \<lparr>asc_Source = src, asc_Status = ''unavailable'', asc_Reason = reason, asc_EvidenceHealth = AlertEvidenceUnavailable,
        asc_InputAsOf = zero_time, asc_ObservedAt = zero_time, asc_EvidenceAsOf = zero_time, asc_FreshUntil = zero_time, asc_Covered = False\<rparr>) expected)"

definition unavailableAlertSnapshot :: "AlertCandidateSnapshot \<Rightarrow> AlertCandidateSnapshot" where
  "unavailableAlertSnapshot snap = \<lparr>snap_SchemaVersion = AlertCandidateSnapshotVersion, snap_AuthorityScope = snap_AuthorityScope snap,
     snap_AsOf = snap_AsOf snap, snap_CurrentState = AlertSnapshotUnknown,
     snap_Coverage = \<lparr>cov_State = AlertCoverageUnavailable, cov_Freshness = AlertCoverageUnknown, cov_AsOf = snap_AsOf snap,
        cov_ExpectedSources = Slice (expected_sources (snap_Coverage snap)), cov_CoveredSources = Slice []\<rparr>,
     snap_Sources = Slice (unavailableAlertSourceRows (expected_sources (snap_Coverage snap)) ''snapshot_unavailable''),
     snap_Candidates = Slice []\<rparr>"

subsection \<open>Leaving an authority scope\<close>

definition previous_context :: "delivery_lib \<Rightarrow> string \<Rightarrow> alertDeliveryOccurrence \<Rightarrow> gotime \<Rightarrow> 64 word \<Rightarrow> alertDeliveryPreviousContext" where
  "previous_context D priorScope occ endedAt seq = \<lparr>
     pc_AuthorityScope = priorScope, pc_ArchiveSeq = seq,
     pc_DisplayID = alertPreviousContextDisplayID D priorScope (occ_DisplayID occ) endedAt seq, pc_PriorDisplayID = occ_DisplayID occ,
     pc_Source = occ_Source occ, pc_Kind = occ_Kind occ, pc_PresentationCode = occ_PresentationCode occ, pc_State = occ_State occ,
     pc_Severity = occ_Severity occ, pc_EvidenceHealth = occ_EvidenceHealth occ, pc_Destination = occ_Destination occ,
     pc_EvidenceAsOf = occ_EvidenceAsOf occ, pc_StateChangedAt = occ_StateChangedAt occ, pc_FirstSeenAt = occ_FirstSeenAt occ,
     pc_LastSeenAt = occ_LastSeenAt occ, pc_EndedAt = endedAt, pc_EndReason = AlertDeliveryEndAuthorityScopeChanged,
     pc_OriginalAttention = occ_AttentionSeq occ, pc_Disposition = occ_Disposition occ\<rparr>"

fun archive_episodes :: "delivery_lib \<Rightarrow> int \<Rightarrow> string \<Rightarrow> gotime \<Rightarrow> alertDeliveryEpisode list \<Rightarrow> alertDeliveryData \<Rightarrow> alertDeliveryData result" where
  "archive_episodes D maxItems priorScope endedAt [] d = Inr d"
| "archive_episodes D maxItems priorScope endedAt (e # es) d =
     (if ep_AuthorityScope e \<noteq> priorScope then archive_episodes D maxItems priorScope endedAt es d
      else case findAlertDeliveryOccurrence d priorScope (ep_CurrentOccurrenceKey e) of
        None \<Rightarrow> archive_episodes D maxItems priorScope endedAt es d
      | Some (occ, _) \<Rightarrow>
         if \<not> alertDeliveryOccurrenceActive occ e then archive_episodes D maxItems priorScope endedAt es d
         else if int (length (ad_PreviousContexts d)) \<ge> maxItems then Inl ErrAlertDeliveryOverflow
         else if ad_PreviousContextHighWater d = - 1 then Inl ErrAlertDeliveryOverflow
         else let seq = ad_PreviousContextHighWater d + 1 in
           archive_episodes D maxItems priorScope endedAt es (d\<lparr>ad_PreviousContextHighWater := seq,
             ad_PreviousContexts := ad_PreviousContexts d @ [previous_context D priorScope occ endedAt seq]\<rparr>))"

definition archiveAlertDeliveryAuthorityScopeLocked :: "delivery_lib \<Rightarrow> int \<Rightarrow> AlertCandidateSnapshot \<Rightarrow> alertDeliveryData \<Rightarrow> alertDeliveryData result" where
  "archiveAlertDeliveryAuthorityScopeLocked D maxItems snap d =
     (let priorScope = snap_AuthorityScope (ad_Snapshot d);
          endedAt = (if snap_AsOf (ad_Snapshot d) > snap_AsOf snap then snap_AsOf (ad_Snapshot d) else snap_AsOf snap)
      in bind_result (archive_episodes D maxItems priorScope endedAt (ad_Episodes d) d) (\<lambda>d1.
        let byScope = AList.update priorScope (ad_SourceWatermarks d1) (case ad_SourceWatermarksByScope d1 of None \<Rightarrow> [] | Some m \<Rightarrow> m);
            h = ad_Health d1;
            sticky = (dh_State h = AlertDeliveryHealthOverflow \<or> dh_State h = AlertDeliveryHealthUnavailable \<or>
                      (dh_State h = AlertDeliveryHealthDegraded \<and> dh_Class h = AlertDeliveryHealthClassInterrupted))
        in Inr (d1\<lparr>ad_SourceWatermarksByScope := Some byScope,
             ad_SourceWatermarks := (case map_of byScope (snap_AuthorityScope snap) of None \<Rightarrow> [] | Some m \<Rightarrow> m),
             ad_Health := (if sticky then h\<lparr>dh_LastAcceptedAt := zero_time\<rparr> else zero_health)\<rparr>)))"

subsection \<open>One candidate\<close>

definition newAlertDeliveryDispositionLocked :: "AlertMode \<Rightarrow> alertDeliveryData \<Rightarrow> string \<Rightarrow> AlertCandidate \<Rightarrow> AlertDisposition" where
  "newAlertDeliveryDispositionLocked mode d scope c =
     (if \<not> alertSourceBaselineEstablished d scope (ac_Source c) then AlertDispositionCutoverExisting
      else if ac_State c = AlertEpisodeRecovered \<or> ac_Severity c = AlertSeverityObserve then AlertDispositionObserveOnly
      else if alertModeAllowsSeverity mode (ac_Severity c) then AlertDispositionEligible
      else AlertDispositionModeSuppressed)"

definition newAlertDeliveryOccurrenceLocked ::
  "golib \<Rightarrow> AlertMode \<Rightarrow> int \<Rightarrow> string \<Rightarrow> AlertCandidate \<Rightarrow> alertDeliveryData \<Rightarrow> (alertDeliveryData \<times> alertDeliveryOccurrence) result" where
  "newAlertDeliveryOccurrenceLocked L mode maxItems scope c d =
     (if int (length (ad_Occurrences d)) \<ge> maxItems \<or> int (length (ad_Episodes d)) \<ge> maxItems then Inl ErrAlertDeliveryOverflow
      else if ad_AttentionHighWaterSeq d = - 1 then Inl ErrAttentionSequenceExhausted
      else let seq = ad_AttentionHighWaterSeq d + 1 in
        Inr (d\<lparr>ad_AttentionHighWaterSeq := seq\<rparr>, \<lparr>
          occ_AuthorityScope = scope, occ_OccurrenceKey = ac_OccurrenceKey c, occ_EpisodeKey = ac_EpisodeKey c,
          occ_EvidenceFingerprint = ac_EvidenceFingerprint c, occ_DisplayID = alertDeliveryDisplayID L scope (ac_OccurrenceKey c),
          occ_Source = ac_Source c, occ_Kind = ac_Kind c, occ_PresentationCode = ac_PresentationCode c, occ_State = ac_State c,
          occ_Severity = ac_Severity c, occ_EvidenceHealth = ac_EvidenceHealth c, occ_Destination = ac_Destination c,
          occ_EvidenceAsOf = ac_EvidenceAsOf c, occ_StateChangedAt = ac_StateChangedAt c, occ_ObservedAt = ac_ObservedAt c,
          occ_FirstSeenAt = ac_ObservedAt c, occ_LastSeenAt = ac_ObservedAt c, occ_EndedAt = zero_time, occ_EndReason = NoEndReason,
          occ_AttentionSeq = seq, occ_Disposition = newAlertDeliveryDispositionLocked mode d scope c\<rparr>))"

definition applyAlertCandidate :: "AlertCandidate \<Rightarrow> alertDeliveryOccurrence \<Rightarrow> alertDeliveryOccurrence" where
  "applyAlertCandidate c occ = occ\<lparr>occ_EvidenceFingerprint := ac_EvidenceFingerprint c, occ_State := ac_State c, occ_Severity := ac_Severity c,
     occ_PresentationCode := ac_PresentationCode c, occ_EvidenceHealth := ac_EvidenceHealth c, occ_Destination := ac_Destination c,
     occ_EvidenceAsOf := ac_EvidenceAsOf c, occ_StateChangedAt := ac_StateChangedAt c, occ_ObservedAt := ac_ObservedAt c,
     occ_LastSeenAt := ac_ObservedAt c\<rparr>"

definition endUnobservedAlertRecovery :: "AlertCandidate \<Rightarrow> alertDeliveryOccurrence \<Rightarrow> alertDeliveryOccurrence" where
  "endUnobservedAlertRecovery c occ = occ\<lparr>occ_State := AlertEpisodeRecovered, occ_EvidenceHealth := AlertEvidenceCurrent,
     occ_EvidenceAsOf := ac_ObservedAt c, occ_StateChangedAt := ac_StateChangedAt c, occ_ObservedAt := ac_ObservedAt c,
     occ_LastSeenAt := ac_ObservedAt c, occ_EndedAt := ac_StateChangedAt c, occ_EndReason := AlertDeliveryEndUnobservedRecovery\<rparr>"

definition validateAlertCandidateAdvance :: "alertDeliveryOccurrence \<Rightarrow> AlertCandidate \<Rightarrow> goerror option" where
  "validateAlertCandidateAdvance cur c =
     (if ac_ObservedAt c < occ_ObservedAt cur \<or> ac_StateChangedAt c < occ_StateChangedAt cur
      then Some (Wrap ''occurrence timestamps regressed'' ErrAlertDeliveryInvalidTransition)
      else if ac_EvidenceAsOf c < occ_EvidenceAsOf cur \<and> occ_Disposition cur \<noteq> AlertDispositionCutoverExisting
      then Some (Wrap ''occurrence timestamps regressed'' ErrAlertDeliveryInvalidTransition)
      else if ac_State c = occ_State cur then
        reject_if (ac_StateChangedAt c \<noteq> occ_StateChangedAt cur)
          (Wrap ''unchanged state changed its transition time'' ErrAlertDeliveryInvalidTransition)
      else if \<not> ac_StateChangedAt c > occ_StateChangedAt cur
      then Some (Wrap ''lifecycle transition did not advance state_changed_at'' ErrAlertDeliveryInvalidTransition)
      else reject_if (\<not> ((occ_State cur = AlertEpisodeOpen \<and> (ac_State c = AlertEpisodeEscalated \<or> ac_State c = AlertEpisodeRecovered)) \<or>
                        (occ_State cur = AlertEpisodeEscalated \<and> ac_State c = AlertEpisodeRecovered)))
        (Wrap ''state transition'' ErrAlertDeliveryInvalidTransition))"

definition episode_index :: "alertDeliveryData \<Rightarrow> string \<Rightarrow> nat option" where
  "episode_index d key = last_index (\<lambda>e. alertDeliveryScopedKey (ep_AuthorityScope e) (ep_EpisodeKey e) = key) (ad_Episodes d)"

definition occurrence_index :: "alertDeliveryData \<Rightarrow> string \<Rightarrow> nat option" where
  "occurrence_index d key = last_index (\<lambda>occ. occurrence_key occ = key) (ad_Occurrences d)"

definition first_sighting :: "golib \<Rightarrow> AlertMode \<Rightarrow> int \<Rightarrow> string \<Rightarrow> AlertCandidate \<Rightarrow> alertDeliveryData \<Rightarrow> alertDeliveryData result" where
  "first_sighting L mode maxItems scope c d =
     (if ac_State c = AlertEpisodeRecovered then Inr d
      else if occurrence_index d (alertDeliveryScopedKey scope (ac_OccurrenceKey c)) \<noteq> None
      then Inl (Wrap ''occurrence key reused by another episode'' ErrAlertDeliveryInvalidTransition)
      else bind_result (newAlertDeliveryOccurrenceLocked L mode maxItems scope c d) (\<lambda>(d1, occ).
        Inr (d1\<lparr>ad_Episodes := ad_Episodes d1 @ [\<lparr>ep_AuthorityScope = scope, ep_EpisodeKey = ac_EpisodeKey c, ep_Source = ac_Source c,
               ep_Kind = ac_Kind c, ep_CurrentOccurrenceKey = ac_OccurrenceKey c, ep_State = ac_State c, ep_FirstSeenAt = ac_ObservedAt c,
               ep_LastSeenAt = ac_ObservedAt c\<rparr>],
             ad_Occurrences := ad_Occurrences d1 @ [occ]\<rparr>)))"

definition same_occurrence :: "AlertCandidate \<Rightarrow> nat \<Rightarrow> nat \<Rightarrow> alertDeliveryData \<Rightarrow> alertDeliveryData result" where
  "same_occurrence c i j d =
     (let e = ad_Episodes d ! i; cur = ad_Occurrences d ! j in
      if \<not> IsZero (occ_EndedAt cur) \<and> ac_State c \<noteq> AlertEpisodeRecovered
      then Inl (Wrap ''ended occurrence was reused'' ErrAlertDeliveryInvalidTransition)
      else case validateAlertCandidateAdvance cur c of
        Some err \<Rightarrow> Inl err
      | None \<Rightarrow>
         let cur1 = applyAlertCandidate c cur;
             cur2 = (if ac_State c = AlertEpisodeRecovered
                     then cur1\<lparr>occ_EndedAt := ac_StateChangedAt c, occ_EndReason := AlertDeliveryEndRecovered\<rparr> else cur1)
         in Inr (d\<lparr>ad_Occurrences := (ad_Occurrences d)[j := cur2],
              ad_Episodes := (ad_Episodes d)[i := e\<lparr>ep_State := ac_State c, ep_LastSeenAt := ac_ObservedAt c\<rparr>]\<rparr>))"

definition next_occurrence :: "golib \<Rightarrow> AlertMode \<Rightarrow> int \<Rightarrow> string \<Rightarrow> AlertCandidate \<Rightarrow> nat \<Rightarrow> nat \<Rightarrow> alertDeliveryData \<Rightarrow> alertDeliveryData result" where
  "next_occurrence L mode maxItems scope c i j d =
     (let e = ad_Episodes d ! i; cur = ad_Occurrences d ! j;
          heldOpen = (occ_State cur \<noteq> AlertEpisodeRecovered \<and> IsZero (occ_EndedAt cur))
      in
      if occurrence_index d (alertDeliveryScopedKey scope (ac_OccurrenceKey c)) \<noteq> None
      then Inl (Wrap ''old occurrence replayed as current'' ErrAlertDeliveryInvalidTransition)
      else if ac_ObservedAt c < occ_ObservedAt cur \<or> \<not> ac_StateChangedAt c > occ_StateChangedAt cur
      then Inl (Wrap ''new occurrence regressed lifecycle time'' ErrAlertDeliveryInvalidTransition)
      else if ac_State c = AlertEpisodeRecovered then
        Inr (if heldOpen
             then d\<lparr>ad_Occurrences := (ad_Occurrences d)[j := endUnobservedAlertRecovery c cur],
                    ad_Episodes := (ad_Episodes d)[i := e\<lparr>ep_State := AlertEpisodeRecovered, ep_LastSeenAt := ac_ObservedAt c\<rparr>]\<rparr>
             else d)
      else
        let cur1 = (if \<not> heldOpen then cur
                    else if ac_State c = AlertEpisodeEscalated
                    then cur\<lparr>occ_EndedAt := ac_StateChangedAt c, occ_EndReason := AlertDeliveryEndSuperseded\<rparr>
                    else endUnobservedAlertRecovery c cur);
            d1 = d\<lparr>ad_Occurrences := (ad_Occurrences d)[j := cur1]\<rparr>
        in bind_result (newAlertDeliveryOccurrenceLocked L mode maxItems scope c d1) (\<lambda>(d2, occ).
             Inr (d2\<lparr>ad_Occurrences := ad_Occurrences d2 @ [occ],
               ad_Episodes := (ad_Episodes d2)[i := e\<lparr>ep_CurrentOccurrenceKey := ac_OccurrenceKey c, ep_State := ac_State c,
                  ep_LastSeenAt := ac_ObservedAt c\<rparr>]\<rparr>)))"

definition intake_candidate :: "golib \<Rightarrow> AlertMode \<Rightarrow> int \<Rightarrow> AlertCandidateSnapshot \<Rightarrow> AlertCandidate \<Rightarrow> alertDeliveryData \<Rightarrow> alertDeliveryData result" where
  "intake_candidate L mode maxItems snap c d =
     (let scope = snap_AuthorityScope snap in
      if ac_State c = AlertEpisodeRecovered \<and> \<not> alertCandidateSourceCurrent snap c (snap_AsOf snap)
      then Inl (Wrap ''recovery source evidence is not current'' ErrAlertDeliveryInvalidTransition)
      else case episode_index d (alertDeliveryScopedKey scope (ac_EpisodeKey c)) of
        None \<Rightarrow> first_sighting L mode maxItems scope c d
      | Some i \<Rightarrow>
         let e = ad_Episodes d ! i in
         if ep_AuthorityScope e \<noteq> scope \<or> ep_Source e \<noteq> ac_Source c \<or> ep_Kind e \<noteq> ac_Kind c
         then Inl (Wrap ''episode source or kind changed'' ErrAlertDeliveryInvalidTransition)
         else case occurrence_index d (alertDeliveryScopedKey scope (ep_CurrentOccurrenceKey e)) of
           None \<Rightarrow> Inl (Wrap ''episode current occurrence is missing'' ErrInvalidPersistedState)
         | Some j \<Rightarrow>
             if ac_OccurrenceKey c = ep_CurrentOccurrenceKey e then same_occurrence c i j d
             else next_occurrence L mode maxItems scope c i j d)"

fun intake_candidates :: "golib \<Rightarrow> AlertMode \<Rightarrow> int \<Rightarrow> AlertCandidateSnapshot \<Rightarrow> AlertCandidate list \<Rightarrow> alertDeliveryData \<Rightarrow> alertDeliveryData result" where
  "intake_candidates L mode maxItems snap [] d = Inr d"
| "intake_candidates L mode maxItems snap (c # cs) d =
     bind_result (intake_candidate L mode maxItems snap c d) (intake_candidates L mode maxItems snap cs)"

subsection \<open>Omitted episodes\<close>

definition authoritative_sources :: "AlertCandidateSnapshot \<Rightarrow> AlertSource list" where
  "authoritative_sources snap =
     (if cov_State (snap_Coverage snap) \<noteq> AlertCoverageUnavailable
      then map asc_Source (filter (\<lambda>row. alertSourceCurrent row (snap_AsOf snap)) (elems (snap_Sources snap))) else [])"

definition omits :: "AlertCandidateSnapshot \<Rightarrow> alertDeliveryEpisode \<Rightarrow> bool" where
  "omits snap e \<longleftrightarrow> ep_AuthorityScope e = snap_AuthorityScope snap \<and> ep_State e \<noteq> AlertEpisodeRecovered \<and>
     ep_Source e \<in> set (authoritative_sources snap) \<and>
     alertDeliveryScopedKey (snap_AuthorityScope snap) (ep_EpisodeKey e) \<notin>
       (\<lambda>c. alertDeliveryScopedKey (snap_AuthorityScope snap) (ac_EpisodeKey c)) ` set (elems (snap_Candidates snap))"

definition omitted_occurrence :: "AlertCandidateSnapshot \<Rightarrow> alertDeliveryOccurrence \<Rightarrow> alertDeliveryOccurrence" where
  "omitted_occurrence snap occ = occ\<lparr>occ_State := AlertEpisodeRecovered, occ_EvidenceHealth := AlertEvidenceCurrent,
     occ_EvidenceAsOf := cov_AsOf (snap_Coverage snap), occ_StateChangedAt := snap_AsOf snap, occ_ObservedAt := snap_AsOf snap,
     occ_LastSeenAt := snap_AsOf snap, occ_EndedAt := snap_AsOf snap, occ_EndReason := AlertDeliveryEndOmitted\<rparr>"

fun omit_episodes :: "AlertCandidateSnapshot \<Rightarrow> nat list \<Rightarrow> alertDeliveryData \<Rightarrow> alertDeliveryData result" where
  "omit_episodes snap [] d = Inr d"
| "omit_episodes snap (i # is) d =
     (let e = ad_Episodes d ! i in
      if \<not> omits snap e then omit_episodes snap is d
      else case occurrence_index d (alertDeliveryScopedKey (snap_AuthorityScope snap) (ep_CurrentOccurrenceKey e)) of
        None \<Rightarrow> Inl (Wrap ''omitted episode current occurrence is missing'' ErrInvalidPersistedState)
      | Some j \<Rightarrow>
         let occ = ad_Occurrences d ! j in
         if \<not> IsZero (occ_EndedAt occ) then omit_episodes snap is d
         else omit_episodes snap is (d\<lparr>ad_Occurrences := (ad_Occurrences d)[j := omitted_occurrence snap occ],
           ad_Episodes := (ad_Episodes d)[i := e\<lparr>ep_State := AlertEpisodeRecovered, ep_LastSeenAt := snap_AsOf snap\<rparr>]\<rparr>))"

definition applyAlertSnapshotLocked :: "golib \<Rightarrow> AlertMode \<Rightarrow> int \<Rightarrow> AlertCandidateSnapshot \<Rightarrow> alertDeliveryData \<Rightarrow> alertDeliveryData result" where
  "applyAlertSnapshotLocked L mode maxItems snap d =
     bind_result (intake_candidates L mode maxItems snap (elems (snap_Candidates snap)) d) (\<lambda>d1.
       let d2 = d1\<lparr>ad_SourceWatermarks := fold (\<lambda>src m. AList.update src (cov_AsOf (snap_Coverage snap)) m)
             (authoritative_sources snap) (ad_SourceWatermarks d1)\<rparr>
       in bind_result (omit_episodes snap [0..<length (ad_Episodes d2)] d2) (\<lambda>d3.
         let byScope = (case ad_SourceWatermarksByScope d3 of None \<Rightarrow> [] | Some m \<Rightarrow> m) in
         if map_of byScope (snap_AuthorityScope snap) = None \<and> int (length byScope) \<ge> maxItems then Inl ErrAlertDeliveryOverflow
         else Inr (d3\<lparr>ad_SourceWatermarksByScope := Some (AList.update (snap_AuthorityScope snap) (ad_SourceWatermarks d3) byScope)\<rparr>)))"

subsection \<open>One snapshot\<close>

text \<open>The part of the operation that computes the next data, before health, generation and write.
  Every error asks for the overflow posture.\<close>

definition establish_baselines :: "int \<Rightarrow> AlertCandidateSnapshot \<Rightarrow> alertDeliveryData \<Rightarrow> alertDeliveryData result" where
  "establish_baselines maxItems snap d =
     (let d1 = d\<lparr>ad_ObservationRejectedAt := (if cov_State (snap_Coverage snap) \<noteq> AlertCoverageUnavailable then zero_time else ad_ObservationRejectedAt d)\<rparr>;
          need = (alertSnapshotCanEstablishBaseline snap \<and> \<not> alertDeliveryBaselineEstablished d1 (snap_AuthorityScope snap));
          baselines = (case ad_Baselines d1 of None \<Rightarrow> [] | Some m \<Rightarrow> m)
      in if need \<and> int (length baselines) \<ge> maxItems then Inl ErrAlertDeliveryOverflow
         else establishAlertSourceBaselines maxItems snap (elems (snap_Sources snap))
           (if need then d1\<lparr>ad_Baselines := Some (AList.update (snap_AuthorityScope snap)
               \<lparr>bl_EstablishedAt = snap_AsOf snap, bl_SnapshotAsOf = snap_AsOf snap\<rparr> baselines)\<rparr> else d1))"

definition ObserveAlertSnapshot ::
  "delivery_lib \<Rightarrow> goerror option \<Rightarrow> gotime \<Rightarrow> AlertCandidateSnapshot \<Rightarrow> AlertLedger \<Rightarrow> AlertLedger \<times> AlertDeliveryView \<times> goerror option" where
  "ObserveAlertSnapshot D saveErr clock snap s0 =
     (case AlertCandidateSnapshot_Validate snap of
        Some err \<Rightarrow> (s0, zero_view, Some err)
      | None \<Rightarrow>
       let s = initAlertDeliveryRuntime s0; at = snap_AsOf snap;
           overflow = (\<lambda>prior. case setAlertDeliveryOverflowLocked saveErr prior at s of (s', err) \<Rightarrow> (s', zero_view, Some err))
       in if al_quarantined s then (s, alertDeliveryViewLocked s None clock, Some ErrAlertDeliveryUnavailable)
       else
        let prior = al_data s;
            live = (case prior of None \<Rightarrow> False | Some p \<Rightarrow> ad_Generation p > 0);
            scopeChanged = (live \<and> snap_AuthorityScope (ad_Snapshot (the prior)) \<noteq> snap_AuthorityScope snap);
            allowBaselineRefresh = (case prior of None \<Rightarrow> False | Some p \<Rightarrow>
               \<not> alertDeliveryBaselineEstablished p (snap_AuthorityScope snap) \<and> alertSnapshotCanEstablishBaseline snap \<and>
               cov_State (snap_Coverage (ad_Snapshot p)) = AlertCoverageUnavailable)
        in if \<not> scopeChanged \<and> live \<and> at = snap_AsOf (ad_Snapshot (the prior)) \<and> \<not> allowBaselineRefresh
        then (if \<not> equalAlertCandidateSnapshot (ad_Snapshot (the prior)) snap
              then (s, zero_view, Some (Wrap ''snapshot conflicts with the persisted authority generation'' ErrAlertDeliveryOldSnapshot))
              else (s, alertDeliveryViewLocked s prior clock, None))
        else
          let d0 = migrateAlertSourceBaselines (case prior of None \<Rightarrow> newAlertDeliveryData | Some p \<Rightarrow> cloneAlertDeliveryData p);
              staged = (if scopeChanged then archiveAlertDeliveryAuthorityScopeLocked D (al_maxItems s) snap d0 else Inr d0)
          in (case staged of
                Inl err \<Rightarrow> if errors_Is err ErrAlertDeliveryOverflow then overflow prior else (s, zero_view, Some err)
              | Inr d1 \<Rightarrow>
                 (case (if scopeChanged then rejectAlertSourceWatermarks d1 snap else rejectOldAlertSnapshot d1 snap) of
                    Some err \<Rightarrow> (s, zero_view, Some err)
                  | None \<Rightarrow>
                     (case applyAlertSnapshotLocked (dl_golib D) (al_mode s) (al_maxItems s) snap d1 of
                        Inl err \<Rightarrow>
                          if errors_Is err ErrAlertDeliveryOverflow
                          then overflow (Some (case prior of Some p \<Rightarrow> p
                                 | None \<Rightarrow> newAlertDeliveryData\<lparr>ad_Version := AlertDeliveryVersion, ad_Snapshot := unavailableAlertSnapshot snap\<rparr>))
                          else if errors_Is err ErrAlertDeliveryInvalidTransition
                          then (noteAlertObservationRejectedLocked saveErr at s, zero_view, Some err)
                          else (s, zero_view, Some err)
                      | Inr d2 \<Rightarrow>
                         (case establish_baselines (al_maxItems s) snap d2 of
                            Inl err \<Rightarrow> overflow prior
                          | Inr d3 \<Rightarrow>
                             (case bumpAlertDeliveryGenerationLocked s (recomputeAlertDeliveryHealthLocked at d3) of
                                Inl err \<Rightarrow> (s, zero_view, Some err)
                              | Inr d4 \<Rightarrow>
                                 (case save_or_roll_back saveErr at prior (d4\<lparr>ad_Snapshot := snap, ad_Version := AlertDeliveryVersion\<rparr>) s of
                                    (s', Some err) \<Rightarrow> (s', zero_view, Some err)
                                  | (s', None) \<Rightarrow> (s', alertDeliveryViewLocked s' (al_data s') clock, None))))))))"

end
