(* ===== verification/Delivery_Validate.thy ===== *)
theory Delivery_Validate
  imports Delivery_Intake
begin

text \<open>
  What a persisted delivery ledger has to satisfy to be loaded: \<^verbatim>\<open>validateAlertDeliveryState\<close> of
  \<^verbatim>\<open>src/internal/app/state/alert_delivery.go\<close> with the attempt lifecycle and the transition
  between consecutive attempts, and \<^verbatim>\<open>validateAlertSourceBaselines\<close> of \<^verbatim>\<open>alert_source_baseline.go\<close>. A ledger
  that fails is quarantined. The loops over slices carry the entries already passed, latest first.
\<close>

subsection \<open>Vocabulary\<close>

definition invalid_state :: "string \<Rightarrow> goerror" where
  "invalid_state msg = Wrap msg ErrInvalidPersistedState"

definition validAlertDeliveryAttemptClass :: "AlertDeliveryAttemptClass \<Rightarrow> bool" where
  "validAlertDeliveryAttemptClass c = (case c of OtherAttemptClass _ \<Rightarrow> False | _ \<Rightarrow> True)"

definition validAlertDeliverySource :: "AlertSource \<Rightarrow> bool" where
  "validAlertDeliverySource src = (case src of OtherSource _ \<Rightarrow> False | _ \<Rightarrow> True)"

definition validAlertDisposition :: "AlertDisposition \<Rightarrow> bool" where
  "validAlertDisposition x = (case x of OtherDisposition _ \<Rightarrow> False | _ \<Rightarrow> True)"

definition validAlertDeliveryHealth :: "AlertDeliveryHealth \<Rightarrow> bool" where
  "validAlertDeliveryHealth h =
     (if IsZero (dh_UpdatedAt h) then False
      else case dh_State h of
        AlertDeliveryHealthHealthy \<Rightarrow> dh_Class h = NoHealthClass
      | AlertDeliveryHealthDegraded \<Rightarrow> dh_Class h \<in> {AlertDeliveryHealthClassRetry, AlertDeliveryHealthClassRejected,
          AlertDeliveryHealthClassInterrupted, AlertDeliveryHealthClassObservation, HealthClassRetryExhausted}
      | AlertDeliveryHealthUnavailable \<Rightarrow> dh_Class h = AlertDeliveryHealthClassStateWrite \<or> validAlertDeliveryPrerequisiteClass (dh_Class h)
      | AlertDeliveryHealthOverflow \<Rightarrow> dh_Class h = AlertDeliveryHealthClassOverflow
      | OtherHealthState _ \<Rightarrow> False)"

subsection \<open>Attempts\<close>

definition scheduled_retry :: "alertDeliveryAttempt \<Rightarrow> bool" where
  "scheduled_retry a = (case alertDeliveryRetryDelay (dat_AttemptNumber a) of None \<Rightarrow> False
     | Some delay \<Rightarrow> \<not> IsZero (dat_RetryAt a) \<and> dat_RetryAt a = time_Add (dat_CompletedAt a) delay)"

definition validAlertDeliveryAttemptLifecycle :: "alertDeliveryAttempt \<Rightarrow> bool" where
  "validAlertDeliveryAttemptLifecycle a =
     (let completed = (\<not> IsZero (dat_CompletedAt a)); retrying = (\<not> IsZero (dat_RetryAt a)); retired = (\<not> IsZero (dat_RetiredAt a)) in
      if completed \<and> dat_CompletedAt a < dat_ReservedAt a then False
      else case dat_Class a of
        AlertDeliveryAttemptReserved \<Rightarrow> \<not> completed \<and> \<not> retrying \<and> \<not> retired \<and> dat_Disposition a = NoCompletionDisposition
      | AlertDeliveryAttemptConfirmed \<Rightarrow> \<not> completed \<and> \<not> retrying \<and>
          ((\<not> retired \<and> dat_Disposition a = NoCompletionDisposition) \<or> (retired \<and> dat_Disposition a = AlertDeliveryCompletionRetired))
      | AlertDeliveryAttemptAccepted \<Rightarrow> completed \<and> \<not> retrying \<and>
          (dat_Disposition a = AlertDeliveryCompletionApplied \<or> dat_Disposition a = AlertDeliveryCompletionInactive \<or>
           dat_Disposition a = AlertDeliveryCompletionRetired \<and> retired)
      | AlertDeliveryAttemptRejected \<Rightarrow> completed \<and> \<not> retrying \<and>
          (dat_Disposition a = AlertDeliveryCompletionApplied \<or> dat_Disposition a = AlertDeliveryCompletionInactive \<or>
           dat_Disposition a = AlertDeliveryCompletionRetired \<and> retired)
      | AlertDeliveryAttemptRetry \<Rightarrow> completed \<and>
          (case dat_Disposition a of
             NoCompletionDisposition \<Rightarrow> \<not> retired \<and> scheduled_retry a
           | AlertDeliveryCompletionApplied \<Rightarrow> \<not> retired \<and> scheduled_retry a
           | AlertDeliveryCompletionInactive \<Rightarrow> \<not> retired \<and> \<not> retrying
           | AlertDeliveryCompletionRetired \<Rightarrow> retired \<and> \<not> retrying
           | _ \<Rightarrow> False)
      | AlertDeliveryAttemptInterrupted \<Rightarrow> completed \<and>
          (case dat_Disposition a of
             NoCompletionDisposition \<Rightarrow> \<not> retired \<and> (if alertDeliveryRetryDelay (dat_AttemptNumber a) \<noteq> None then scheduled_retry a else \<not> retrying)
           | AlertDeliveryCompletionInactive \<Rightarrow> \<not> retrying
           | AlertDeliveryCompletionRetired \<Rightarrow> retired \<and> \<not> retrying
           | _ \<Rightarrow> False)
      | AlertDeliveryAttemptRetired \<Rightarrow> completed \<and> \<not> retrying \<and> retired \<and> dat_Disposition a = AlertDeliveryCompletionRetired
      | AlertDeliveryAttemptInactive \<Rightarrow> completed \<and> \<not> retrying \<and> dat_Disposition a = AlertDeliveryCompletionInactive
      | AlertDeliveryAttemptExhausted \<Rightarrow> dat_AttemptNumber a = 4 \<and> completed \<and> \<not> retrying \<and>
          (dat_Disposition a = NoCompletionDisposition \<or> dat_Disposition a = AlertDeliveryCompletionApplied)
      | AlertDeliveryAttemptModeSuppressed \<Rightarrow> completed \<and> \<not> retrying \<and> dat_Disposition a = NoCompletionDisposition
      | OtherAttemptClass _ \<Rightarrow> False)"

definition validAlertDeliveryAttemptTransition :: "alertDeliveryAttempt \<Rightarrow> alertDeliveryAttempt \<Rightarrow> (string \<times> gotime) list \<Rightarrow> bool" where
  "validAlertDeliveryAttemptTransition prev cur retiredTargets =
     (if (dat_Class prev = AlertDeliveryAttemptRetry \<or> dat_Class prev = AlertDeliveryAttemptInterrupted) \<and>
         \<not> IsZero (dat_RetryAt prev) \<and> \<not> dat_ReservedAt cur < dat_RetryAt prev then True
      else let retiredAt = time_at retiredTargets (dat_TargetRef prev) in
      if IsZero retiredAt \<or> dat_RetiredAt prev \<noteq> retiredAt \<or> dat_RetiredAt cur \<noteq> retiredAt \<or>
         dat_Disposition prev \<noteq> AlertDeliveryCompletionRetired \<or> \<not> IsZero (dat_RetryAt prev) \<or> dat_ReservedAt cur > retiredAt then False
      else dat_Class prev = AlertDeliveryAttemptRetired \<or> dat_Class prev = AlertDeliveryAttemptInterrupted)"

definition previous_attempt :: "alertDeliveryAttempt list \<Rightarrow> string \<Rightarrow> alertDeliveryAttempt option" where
  "previous_attempt passed receiptKey = find_first (\<lambda>a. dat_ReceiptKey a = receiptKey) passed"

definition validate_attempt :: "delivery_lib \<Rightarrow> alertDeliveryData \<Rightarrow> alertDeliveryAttempt list \<Rightarrow> alertDeliveryAttempt \<Rightarrow> goerror option" where
  "validate_attempt D d passed a =
     (let prev = previous_attempt passed (dat_ReceiptKey a);
          retiredAt = time_at (ad_RetiredTargets d) (dat_TargetRef a)
      in first_refusal [
       reject_if (ValidateAlertAuthorityScope (dat_AuthorityScope a) \<noteq> None) (invalid_state ''invalid alert delivery attempt scope''),
       reject_if (\<not> validAlertAttemptID (dat_ID a) \<or> \<not> validAlertHash (dat_TargetRef a) \<or>
           dat_ReceiptKey a \<noteq> alertDeliveryReceiptKey (dl_golib D) (dat_AuthorityScope a) (dat_OccurrenceKey a) (dat_TargetRef a) \<or>
           dat_AttemptNumber a < 1 \<or> dat_AttemptNumber a > 4 \<or> IsZero (dat_ReservedAt a) \<or> \<not> validAlertDeliveryAttemptClass (dat_Class a))
         (invalid_state ''invalid alert delivery attempt''),
       reject_if (dat_AttemptNumber a \<noteq> (case prev of None \<Rightarrow> 0 | Some p \<Rightarrow> dat_AttemptNumber p) + 1 \<or>
           dat_ID a \<noteq> alertDeliveryAttemptID D (dat_ReceiptKey a) (dat_AttemptNumber a) (dat_ReservedAt a))
         (invalid_state ''invalid alert delivery attempt sequence or identity''),
       reject_if (\<not> validAlertDeliveryAttemptLifecycle a) (invalid_state ''invalid alert delivery attempt lifecycle''),
       reject_if (\<not> IsZero (dat_RetiredAt a) \<and> (IsZero retiredAt \<or> dat_RetiredAt a \<noteq> retiredAt))
         (invalid_state ''alert delivery attempt retirement mismatches target tombstone''),
       reject_if (case prev of None \<Rightarrow> False | Some p \<Rightarrow> \<not> validAlertDeliveryAttemptTransition p a (ad_RetiredTargets d))
         (invalid_state ''invalid alert delivery attempt transition chain''),
       reject_if (alertDeliveryScopedKey (dat_AuthorityScope a) (dat_OccurrenceKey a) \<notin> occurrence_key ` set (ad_Occurrences d))
         (invalid_state ''alert delivery attempt occurrence missing''),
       reject_if (dat_ID a \<in> dat_ID ` set passed) (invalid_state ''duplicate alert delivery attempt id''),
       reject_if (dat_Class a = AlertDeliveryAttemptAccepted \<and> IsZero (dat_CompletedAt a))
         (invalid_state ''accepted alert delivery attempt is incomplete''),
       reject_if (dat_Class a = AlertDeliveryAttemptAccepted \<and>
           (\<exists>p\<in>set passed. dat_Class p = AlertDeliveryAttemptAccepted \<and> dat_ReceiptKey p = dat_ReceiptKey a))
         (invalid_state ''duplicate accepted alert delivery attempt'')])"

fun validate_attempts :: "delivery_lib \<Rightarrow> alertDeliveryData \<Rightarrow> alertDeliveryAttempt list \<Rightarrow> alertDeliveryAttempt list \<Rightarrow> goerror option" where
  "validate_attempts D d passed [] = None"
| "validate_attempts D d passed (a # as) =
     (case validate_attempt D d passed a of Some e \<Rightarrow> Some e | None \<Rightarrow> validate_attempts D d (a # passed) as)"

subsection \<open>Receipts\<close>

definition validate_receipt :: "delivery_lib \<Rightarrow> alertDeliveryData \<Rightarrow> alertDeliveryReceipt list \<Rightarrow> alertDeliveryReceipt \<Rightarrow> goerror option" where
  "validate_receipt D d passed r =
     (let latest = latestAlertDeliveryAttempt d (rcp_ReceiptKey r);
          retiredAt = time_at (ad_RetiredTargets d) (rcp_TargetRef r)
      in first_refusal [
       reject_if (ValidateAlertAuthorityScope (rcp_AuthorityScope r) \<noteq> None) (invalid_state ''invalid alert delivery receipt scope''),
       reject_if (\<not> validAlertHash (rcp_TargetRef r) \<or>
           rcp_ReceiptKey r \<noteq> alertDeliveryReceiptKey (dl_golib D) (rcp_AuthorityScope r) (rcp_OccurrenceKey r) (rcp_TargetRef r) \<or> IsZero (rcp_AcceptedAt r))
         (invalid_state ''invalid alert delivery receipt''),
       reject_if (alertDeliveryScopedKey (rcp_AuthorityScope r) (rcp_OccurrenceKey r) \<notin> occurrence_key ` set (ad_Occurrences d))
         (invalid_state ''alert delivery receipt occurrence missing''),
       reject_if (rcp_ReceiptKey r \<in> rcp_ReceiptKey ` set passed) (invalid_state ''duplicate alert delivery receipt''),
       (case latest of
          None \<Rightarrow> Some (invalid_state ''alert delivery receipt lacks matching latest acceptance'')
        | Some l \<Rightarrow> first_refusal [
            reject_if (dat_Class l \<noteq> AlertDeliveryAttemptAccepted \<or> dat_CompletedAt l \<noteq> rcp_AcceptedAt r)
              (invalid_state ''alert delivery receipt lacks matching latest acceptance''),
            reject_if ((\<not> IsZero (rcp_RetiredAt r) \<and> (IsZero retiredAt \<or> rcp_RetiredAt r \<noteq> retiredAt)) \<or> rcp_RetiredAt r \<noteq> dat_RetiredAt l)
              (invalid_state ''alert delivery receipt retirement mismatches latest acceptance'')])])"

fun validate_receipts :: "delivery_lib \<Rightarrow> alertDeliveryData \<Rightarrow> alertDeliveryReceipt list \<Rightarrow> alertDeliveryReceipt list \<Rightarrow> goerror option" where
  "validate_receipts D d passed [] = None"
| "validate_receipts D d passed (r # rs) =
     (case validate_receipt D d passed r of Some e \<Rightarrow> Some e | None \<Rightarrow> validate_receipts D d (r # passed) rs)"

subsection \<open>Episodes, occurrences and previous contexts\<close>

definition episode_key :: "alertDeliveryEpisode \<Rightarrow> string" where
  "episode_key e = alertDeliveryScopedKey (ep_AuthorityScope e) (ep_EpisodeKey e)"

fun validate_episodes :: "alertDeliveryEpisode list \<Rightarrow> alertDeliveryEpisode list \<Rightarrow> goerror option" where
  "validate_episodes passed [] = None"
| "validate_episodes passed (e # es) = first_refusal [
     reject_if (ValidateAlertAuthorityScope (ep_AuthorityScope e) \<noteq> None) (invalid_state ''invalid alert delivery episode scope''),
     reject_if (episode_key e \<in> episode_key ` set passed \<or> ep_CurrentOccurrenceKey e = [] \<or> IsZero (ep_FirstSeenAt e) \<or> IsZero (ep_LastSeenAt e))
       (invalid_state ''invalid alert delivery episode''),
     validate_episodes (e # passed) es]"

definition end_coherent :: "alertDeliveryOccurrence \<Rightarrow> bool" where
  "end_coherent occ \<longleftrightarrow>
     (occ_State occ = AlertEpisodeRecovered \<and> occ_EndReason occ \<in> {AlertDeliveryEndRecovered, AlertDeliveryEndOmitted, AlertDeliveryEndUnobservedRecovery}) \<or>
     (occ_State occ \<noteq> AlertEpisodeRecovered \<and> occ_EndReason occ = AlertDeliveryEndSuperseded)"

definition validate_occurrence :: "golib \<Rightarrow> alertDeliveryData \<Rightarrow> alertDeliveryOccurrence list \<Rightarrow> alertDeliveryOccurrence \<Rightarrow> goerror option" where
  "validate_occurrence L d passed occ = first_refusal [
     reject_if (ValidateAlertAuthorityScope (occ_AuthorityScope occ) \<noteq> None) (invalid_state ''invalid alert delivery occurrence scope''),
     reject_if (AlertCandidate_Validate (alertCandidateFromOccurrence occ) \<noteq> None) (invalid_state ''invalid alert delivery occurrence''),
     reject_if (occ_DisplayID occ \<noteq> alertDeliveryDisplayID L (occ_AuthorityScope occ) (occ_OccurrenceKey occ) \<or> IsZero (occ_FirstSeenAt occ) \<or>
         IsZero (occ_LastSeenAt occ) \<or> occ_AttentionSeq occ = 0 \<or> \<not> validAlertDisposition (occ_Disposition occ))
       (invalid_state ''invalid alert delivery occurrence metadata''),
     reject_if (occ_FirstSeenAt occ > occ_LastSeenAt occ \<or> occ_ObservedAt occ \<noteq> occ_LastSeenAt occ)
       (invalid_state ''invalid alert delivery occurrence observation interval''),
     reject_if (IsZero (occ_EndedAt occ) \<and> (occ_EndReason occ \<noteq> NoEndReason \<or> occ_State occ = AlertEpisodeRecovered))
       (invalid_state ''invalid alert delivery occurrence end state''),
     reject_if (\<not> IsZero (occ_EndedAt occ) \<and> occ_EndedAt occ < occ_StateChangedAt occ) (invalid_state ''invalid alert delivery occurrence end time''),
     reject_if (\<not> IsZero (occ_EndedAt occ) \<and> \<not> end_coherent occ) (invalid_state ''invalid alert delivery occurrence end reason''),
     reject_if (occurrence_key occ \<in> occurrence_key ` set passed) (invalid_state ''duplicate alert delivery occurrence''),
     reject_if (occ_DisplayID occ \<in> occ_DisplayID ` set passed) (invalid_state ''duplicate alert delivery display id''),
     reject_if (occ_AttentionSeq occ > ad_AttentionHighWaterSeq d) (invalid_state ''alert delivery attention exceeds high-water''),
     reject_if (occ_AttentionSeq occ > ad_AttentionReadThroughSeq d \<and> occ_AttentionSeq occ \<in> occ_AttentionSeq ` set passed)
       (invalid_state ''duplicate alert delivery attention sequence'')]"

fun validate_occurrences :: "golib \<Rightarrow> alertDeliveryData \<Rightarrow> alertDeliveryOccurrence list \<Rightarrow> alertDeliveryOccurrence list \<Rightarrow> goerror option" where
  "validate_occurrences L d passed [] = None"
| "validate_occurrences L d passed (occ # occs) =
     (case validate_occurrence L d passed occ of Some e \<Rightarrow> Some e | None \<Rightarrow> validate_occurrences L d (occ # passed) occs)"

definition previous_candidate :: "alertDeliveryOccurrence \<Rightarrow> alertDeliveryPreviousContext \<Rightarrow> AlertCandidate" where
  "previous_candidate origin p = \<lparr>
     ac_EpisodeKey = occ_EpisodeKey origin, ac_OccurrenceKey = occ_OccurrenceKey origin, ac_EvidenceFingerprint = occ_EvidenceFingerprint origin,
     ac_Source = pc_Source p, ac_Kind = pc_Kind p, ac_PresentationCode = pc_PresentationCode p, ac_State = pc_State p, ac_Severity = pc_Severity p,
     ac_EvidenceHealth = pc_EvidenceHealth p, ac_Destination = pc_Destination p, ac_EvidenceAsOf = pc_EvidenceAsOf p,
     ac_StateChangedAt = pc_StateChangedAt p, ac_ObservedAt = pc_LastSeenAt p\<rparr>"

definition validate_previous :: "delivery_lib \<Rightarrow> alertDeliveryData \<Rightarrow> alertDeliveryPreviousContext list \<Rightarrow> alertDeliveryPreviousContext \<Rightarrow> goerror option" where
  "validate_previous D d passed p =
     (case ValidateAlertAuthorityScope (pc_AuthorityScope p) of
        Some _ \<Rightarrow> Some (invalid_state ''invalid previous alert context scope'')
      | None \<Rightarrow>
       (case find_first (\<lambda>occ. alertDeliveryScopedKey (occ_AuthorityScope occ) (occ_DisplayID occ) =
             alertDeliveryScopedKey (pc_AuthorityScope p) (pc_PriorDisplayID p)) (ad_Occurrences d) of
          None \<Rightarrow> Some (invalid_state ''previous alert context origin mismatch'')
        | Some origin \<Rightarrow> first_refusal [
            reject_if (occ_Source origin \<noteq> pc_Source p \<or> occ_Kind origin \<noteq> pc_Kind p \<or> occ_FirstSeenAt origin \<noteq> pc_FirstSeenAt p \<or>
                occ_AttentionSeq origin \<noteq> pc_OriginalAttention p) (invalid_state ''previous alert context origin mismatch''),
            reject_if (pc_State p = AlertEpisodeRecovered \<or> pc_EndReason p \<noteq> AlertDeliveryEndAuthorityScopeChanged \<or> IsZero (pc_EndedAt p) \<or>
                pc_EndedAt p < pc_StateChangedAt p \<or> pc_EndedAt p < pc_LastSeenAt p \<or> pc_FirstSeenAt p > pc_LastSeenAt p \<or>
                pc_ArchiveSeq p = 0 \<or> pc_ArchiveSeq p > ad_PreviousContextHighWater d \<or>
                pc_DisplayID p \<noteq> alertPreviousContextDisplayID D (pc_AuthorityScope p) (pc_PriorDisplayID p) (pc_EndedAt p) (pc_ArchiveSeq p) \<or>
                pc_OriginalAttention p = 0 \<or> pc_OriginalAttention p > ad_AttentionHighWaterSeq d)
              (invalid_state ''invalid previous alert context lifecycle''),
            reject_if (pc_ArchiveSeq p \<in> pc_ArchiveSeq ` set passed) (invalid_state ''duplicate previous alert context sequence''),
            reject_if (AlertCandidate_Validate (previous_candidate origin p) \<noteq> None) (invalid_state ''invalid previous alert context projection''),
            reject_if (\<not> validAlertDisposition (pc_Disposition p)) (invalid_state ''invalid previous alert context disposition''),
            reject_if (pc_DisplayID p \<in> occ_DisplayID ` set (ad_Occurrences d) \<or> pc_DisplayID p \<in> pc_DisplayID ` set passed)
              (invalid_state ''duplicate previous alert context display id'')]))"

fun validate_previouses :: "delivery_lib \<Rightarrow> alertDeliveryData \<Rightarrow> alertDeliveryPreviousContext list \<Rightarrow> alertDeliveryPreviousContext list \<Rightarrow> goerror option" where
  "validate_previouses D d passed [] = None"
| "validate_previouses D d passed (p # ps) =
     (case validate_previous D d passed p of Some e \<Rightarrow> Some e | None \<Rightarrow> validate_previouses D d (p # passed) ps)"

definition dormant_without_context :: "alertDeliveryData \<Rightarrow> alertDeliveryOccurrence \<Rightarrow> bool" where
  "dormant_without_context d occ \<longleftrightarrow> occ_AuthorityScope occ \<noteq> snap_AuthorityScope (ad_Snapshot d) \<and> IsZero (occ_EndedAt occ) \<and>
     occ_AttentionSeq occ > ad_AttentionReadThroughSeq d \<and>
     latestAlertDeliveryPreviousContext d (occ_AuthorityScope occ) (occ_DisplayID occ) = None"

definition unread_seqs :: "alertDeliveryData \<Rightarrow> 64 word list" where
  "unread_seqs d = filter (\<lambda>q. q > ad_AttentionReadThroughSeq d) (map occ_AttentionSeq (ad_Occurrences d))"

definition episode_matches :: "alertDeliveryData \<Rightarrow> alertDeliveryEpisode \<Rightarrow> bool" where
  "episode_matches d e =
     (case find_first (\<lambda>occ. occurrence_key occ = alertDeliveryScopedKey (ep_AuthorityScope e) (ep_CurrentOccurrenceKey e)) (ad_Occurrences d) of
        None \<Rightarrow> False
      | Some occ \<Rightarrow> occ_AuthorityScope occ = ep_AuthorityScope e \<and> occ_EpisodeKey occ = ep_EpisodeKey e \<and> occ_Source occ = ep_Source e \<and>
          occ_Kind occ = ep_Kind e \<and> occ_State occ = ep_State e)"

subsection \<open>Maps\<close>

definition validateAlertSourceBaselines :: "alertDeliveryData \<Rightarrow> int \<Rightarrow> goerror option" where
  "validateAlertSourceBaselines d maximum = first_refusal [
     reject_if (int (length (source_baselines d)) > maximum \<or> alertSourceBaselineCount d > maximum) (invalid_state ''source baselines exceed capacity''),
     reject_if (\<exists>(scope, rows)\<in>set (source_baselines d). ValidateAlertAuthorityScope scope \<noteq> None \<or> rows = [])
       (invalid_state ''invalid source baseline scope''),
     reject_if (\<exists>(scope, rows)\<in>set (source_baselines d). \<exists>(src, b)\<in>set rows. \<not> validAlertDeliverySource src \<or> IsZero (bl_EstablishedAt b) \<or>
         IsZero (bl_SnapshotAsOf b) \<or> bl_SnapshotAsOf b > bl_EstablishedAt b) (invalid_state ''invalid source baseline'')]"

definition watermarks_valid :: "watermarks \<Rightarrow> bool" where
  "watermarks_valid wms \<longleftrightarrow> (\<forall>(src, t)\<in>set wms. validAlertDeliverySource src \<and> \<not> IsZero t)"

definition validate_maps :: "alertDeliveryData \<Rightarrow> int \<Rightarrow> goerror option" where
  "validate_maps d maximum =
     (let baselines = (case ad_Baselines d of None \<Rightarrow> [] | Some m \<Rightarrow> m);
          byScope = (case ad_SourceWatermarksByScope d of None \<Rightarrow> [] | Some m \<Rightarrow> m)
      in first_refusal [
       reject_if (\<exists>(target, at)\<in>set (ad_RetiredTargets d). \<not> validAlertHash target \<or> IsZero at) (invalid_state ''invalid alert delivery retired target''),
       validateAlertSourceBaselines d maximum,
       reject_if (\<exists>(scope, b)\<in>set baselines. ValidateAlertAuthorityScope scope \<noteq> None \<or> IsZero (bl_EstablishedAt b) \<or> IsZero (bl_SnapshotAsOf b) \<or>
           bl_SnapshotAsOf b > bl_EstablishedAt b) (invalid_state ''invalid alert delivery baseline''),
       reject_if (\<not> watermarks_valid (ad_SourceWatermarks d)) (invalid_state ''invalid alert delivery source watermark''),
       reject_if (\<exists>(scope, wms)\<in>set byScope. ValidateAlertAuthorityScope scope \<noteq> None) (invalid_state ''invalid scoped alert delivery watermarks''),
       reject_if (\<exists>(scope, wms)\<in>set byScope. \<not> watermarks_valid wms) (invalid_state ''invalid scoped alert delivery source watermark''),
       reject_if (case map_of byScope (snap_AuthorityScope (ad_Snapshot d)) of None \<Rightarrow> True
                  | Some wms \<Rightarrow> \<not> (set (map fst wms) = set (map fst (ad_SourceWatermarks d)) \<and>
                      list_all (\<lambda>src. map_of wms src = map_of (ad_SourceWatermarks d) src) (map fst wms)))
         (invalid_state ''current alert delivery watermarks mismatch authority scope'')])"

subsection \<open>The ledger\<close>

definition validate_data :: "delivery_lib \<Rightarrow> int \<Rightarrow> alertDeliveryData \<Rightarrow> goerror option" where
  "validate_data D maximum d =
     (let over = (\<lambda>n. int n > maximum) in first_refusal [
       reject_if (ad_Version d \<noteq> AlertDeliveryVersion \<or> ad_Generation d = 0) (invalid_state ''invalid alert delivery version or generation''),
       reject_if (AlertCandidateSnapshot_Validate (ad_Snapshot d) \<noteq> None) (invalid_state ''invalid alert delivery snapshot''),
       reject_if (ad_SourceWatermarksByScope d = None) (invalid_state ''missing scoped alert delivery watermarks''),
       reject_if (ad_Baselines d = None) (invalid_state ''missing alert delivery baselines''),
       reject_if (over (length (ad_Episodes d)) \<or> over (length (ad_Occurrences d)) \<or> over (length (ad_PreviousContexts d)) \<or>
           over (length (ad_Attempts d)) \<or> over (length (ad_Receipts d)) \<or> over (length (ad_RetiredTargets d)) \<or>
           over (length (the (ad_SourceWatermarksByScope d))) \<or> over (length (the (ad_Baselines d))))
         (invalid_state ''alert delivery evidence exceeds capacity''),
       reject_if (\<not> validAlertDeliveryHealth (ad_Health d)) (invalid_state ''invalid alert delivery health''),
       validate_episodes [] (ad_Episodes d),
       validate_occurrences (dl_golib D) d [] (ad_Occurrences d),
       validate_previouses D d [] (ad_PreviousContexts d),
       reject_if (\<exists>occ\<in>set (ad_Occurrences d). dormant_without_context d occ)
         (invalid_state ''dormant alert occurrence lacks previous-context projection''),
       reject_if (ad_AttentionReadThroughSeq d > ad_AttentionHighWaterSeq d \<or>
           of_nat (length (remdups (unread_seqs d))) \<noteq> ad_AttentionHighWaterSeq d - ad_AttentionReadThroughSeq d)
         (invalid_state ''invalid alert delivery attention cursor''),
       reject_if (\<exists>e\<in>set (ad_Episodes d). \<not> episode_matches d e) (invalid_state ''alert delivery episode current state mismatch''),
       validate_attempts D d [] (ad_Attempts d),
       validate_receipts D d [] (ad_Receipts d),
       reject_if (\<exists>a\<in>set (ad_Attempts d). dat_Class a = AlertDeliveryAttemptAccepted \<and> dat_ReceiptKey a \<notin> rcp_ReceiptKey ` set (ad_Receipts d))
         (invalid_state ''accepted alert delivery attempt lacks receipt''),
       validate_maps d maximum])"

definition validateAlertDeliveryState :: "delivery_lib \<Rightarrow> AlertLedger \<Rightarrow> goerror option" where
  "validateAlertDeliveryState D s =
     (case al_data s of None \<Rightarrow> None | Some d \<Rightarrow> validate_data D (al_maxItems (initAlertDeliveryRuntime s)) d)"

end
