(* ===== verification/Delivery_Runs.thy ===== *)
theory Delivery_Runs
  imports Delivery_Validate
begin

text \<open>
  Runs of the delivery ledger: the operations of the app's store as values, what one does, and
  the facts that hold over every sequence of them. Between two operations nothing else changes the
  ledger (the code holds one mutex), so an interleaving of callers is a sequence of operations;
  each comes with the outcome of its file write.
  The shared lemmas say how an operation leaves the ledger: unchanged data, or the data it computed
  under a higher generation, written. The properties: memory is what was last written, failed
  writes change nothing, generations grow, transport is only granted to a reserved, current, eligible
  and durably confirmed attempt, and an occurrence is accepted for a target at most once.
\<close>

subsection \<open>Operations\<close>

datatype ledger_op =
    Observe gotime AlertCandidateSnapshot
  | Begin string string gotime
  | Confirm string gotime
  | Complete string AlertDeliveryCompletion gotime
  | Retire string gotime
  | Recover gotime
  | Prerequisite AlertDeliveryHealthClass gotime
  | MarkRead gotime "64 word"
  | Compact gotime

definition run_op :: "delivery_lib \<Rightarrow> goerror option \<Rightarrow> ledger_op \<Rightarrow> AlertLedger \<Rightarrow> AlertLedger" where
  "run_op D saveErr op s =
     (case op of
        Observe clock snap \<Rightarrow> fst (ObserveAlertSnapshot D saveErr clock snap s)
      | Begin occurrenceKey targetRef now \<Rightarrow> fst (BeginAlertDelivery D saveErr occurrenceKey targetRef now s)
      | Confirm attemptID now \<Rightarrow> fst (ConfirmAlertTransport saveErr attemptID now s)
      | Complete attemptID completion now \<Rightarrow> fst (CompleteAlertDelivery saveErr attemptID completion now s)
      | Retire targetRef at \<Rightarrow> fst (RetireAlertDeliveryTarget saveErr targetRef at s)
      | Recover now \<Rightarrow> fst (RecoverAlertDeliveries saveErr now s)
      | Prerequisite c now \<Rightarrow> fst (SetAlertDeliveryPrerequisiteHealth saveErr c now s)
      | MarkRead clock throughSeq \<Rightarrow> fst (MarkAlertDeliveryAttentionRead saveErr clock throughSeq s)
      | Compact now \<Rightarrow> fst (CompactAlertDelivery (dl_golib D) saveErr now s))"

fun run_ops :: "delivery_lib \<Rightarrow> (goerror option \<times> ledger_op) list \<Rightarrow> AlertLedger \<Rightarrow> AlertLedger" where
  "run_ops D [] s = s"
| "run_ops D ((saveErr, op) # ops) s = run_ops D ops (run_op D saveErr op s)"

lemma run_ops_fold: "run_ops D ops s = fold (\<lambda>(saveErr, op). run_op D saveErr op) ops s"
  by (induction ops arbitrary: s) auto

subsection \<open>How an operation ends\<close>

text \<open>\<open>advanced s s' next\<close>: the data became \<open>next\<close> under a higher generation, durably. The effective item
  limit, the mode and the quarantine flag never change.\<close>

definition limit :: "AlertLedger \<Rightarrow> int" where
  "limit s = al_maxItems (initAlertDeliveryRuntime s)"

definition settings :: "AlertLedger \<Rightarrow> int \<times> AlertMode \<times> bool" where
  "settings s = (limit s, al_mode s, al_quarantined s)"

definition advanced :: "AlertLedger \<Rightarrow> AlertLedger \<Rightarrow> alertDeliveryData \<Rightarrow> bool" where
  "advanced s s' next \<longleftrightarrow> (\<exists>n. bumpAlertDeliveryGenerationLocked s next = Inr n \<and> al_data s' = Some n \<and> al_saved s' = Some n) \<and> settings s' = settings s"

definition kept :: "AlertLedger \<Rightarrow> AlertLedger \<Rightarrow> bool" where
  "kept s s' \<longleftrightarrow> al_data s' = al_data s \<and> al_saved s' = al_saved s \<and> settings s' = settings s"

lemma kept_refl [simp]: "kept s s" by (simp add: kept_def)

lemma init_simps [simp, field_simps_canary]:
  "al_data (initAlertDeliveryRuntime s) = al_data s" "al_saved (initAlertDeliveryRuntime s) = al_saved s"
  "al_inFlight (initAlertDeliveryRuntime s) = al_inFlight s" "al_volatile (initAlertDeliveryRuntime s) = al_volatile s"
  "al_mode (initAlertDeliveryRuntime s) = al_mode s" "al_quarantined (initAlertDeliveryRuntime s) = al_quarantined s"
  "bumpAlertDeliveryGenerationLocked (initAlertDeliveryRuntime s) = bumpAlertDeliveryGenerationLocked s"
  by (simp_all add: initAlertDeliveryRuntime_def bumpAlertDeliveryGenerationLocked_def fun_eq_iff)

lemma init_settings [simp, field_simps_canary]: "settings (initAlertDeliveryRuntime s) = settings s"
  by (simp add: settings_def limit_def initAlertDeliveryRuntime_def defaultAlertDeliveryMaxItems_def)

lemma settings_updates [simp, field_simps_canary]:
  "settings (s\<lparr>al_data := d\<rparr>) = settings s" "settings (s\<lparr>al_saved := d\<rparr>) = settings s" "settings (s\<lparr>al_inFlight := f\<rparr>) = settings s"
  "settings (s\<lparr>al_volatile := v\<rparr>) = settings s" "settings (s\<lparr>al_volatileGeneration := g\<rparr>) = settings s"
  by (simp_all add: settings_def limit_def initAlertDeliveryRuntime_def)

lemma note_failure_simps [simp, field_simps_canary]:
  "al_data (noteAlertDeliverySaveFailureLocked at s) = al_data s" "al_saved (noteAlertDeliverySaveFailureLocked at s) = al_saved s"
  "al_inFlight (noteAlertDeliverySaveFailureLocked at s) = al_inFlight s" "settings (noteAlertDeliverySaveFailureLocked at s) = settings s"
  by (simp_all add: noteAlertDeliverySaveFailureLocked_def Let_def split: option.splits)

lemma clear_volatile_simps [simp, field_simps_canary]:
  "al_data (clearAlertDeliveryVolatileLocked s) = al_data s" "al_saved (clearAlertDeliveryVolatileLocked s) = al_saved s"
  "al_inFlight (clearAlertDeliveryVolatileLocked s) = al_inFlight s" "settings (clearAlertDeliveryVolatileLocked s) = settings s"
  by (simp_all add: clearAlertDeliveryVolatileLocked_def)

lemma release_simps [simp, field_simps_canary]:
  "al_data (release_attempt i s) = al_data s" "al_saved (release_attempt i s) = al_saved s" "settings (release_attempt i s) = settings s"
  by (simp_all add: release_attempt_def)

lemma save_outcome:
  assumes "save_or_roll_back saveErr at (al_data s) next s = (s', r)"
  shows "(saveErr = None \<and> r = None \<and> al_data s' = Some next \<and> al_saved s' = Some next \<and> settings s' = settings s) \<or> (saveErr \<noteq> None \<and> r \<noteq> None \<and> kept s s')"
  using assms by (auto simp: save_or_roll_back_def kept_def split: option.splits)

lemma commit_outcome:
  assumes "commit_ledger saveErr at next s = (s', r)"
  shows "(saveErr = None \<and> r = None \<and> advanced s s' next) \<or> (r \<noteq> None \<and> kept s s')"
  using assms save_outcome [of saveErr at s] by (fastforce simp: commit_ledger_def advanced_def split: sum.splits)

lemma commit_inFlight: "commit_ledger saveErr at next s = (s', r) \<Longrightarrow> al_inFlight s' = al_inFlight s"
  by (auto simp: commit_ledger_def save_or_roll_back_def split: sum.splits option.splits)

text \<open>The overflow posture as data.\<close>

definition overflow_data :: "alertDeliveryData option \<Rightarrow> gotime \<Rightarrow> alertDeliveryData" where
  "overflow_data prior at =
     (let d0 = (case prior of None \<Rightarrow> newAlertDeliveryData | Some p \<Rightarrow> cloneAlertDeliveryData p);
          byScope = (case ad_SourceWatermarksByScope d0 of None \<Rightarrow> [] | Some m \<Rightarrow> m);
          scope = snap_AuthorityScope (ad_Snapshot d0)
      in d0\<lparr>ad_SourceWatermarksByScope := Some (if scope \<noteq> [] then AList.update scope (ad_SourceWatermarks d0) byScope else byScope),
            ad_Version := AlertDeliveryVersion,
            ad_Health := \<lparr>dh_State = AlertDeliveryHealthOverflow, dh_Class = AlertDeliveryHealthClassOverflow, dh_UpdatedAt = at,
                          dh_LastAcceptedAt = dh_LastAcceptedAt (ad_Health d0)\<rparr>\<rparr>)"

lemma overflow_outcome:
  assumes "setAlertDeliveryOverflowLocked saveErr prior at s = (s', err)"
  shows "(saveErr = None \<and> advanced s s' (overflow_data prior at)) \<or> kept s s'"
proof (cases "bumpAlertDeliveryGenerationLocked s (overflow_data prior at)")
  case (Inl e)
  then show ?thesis using assms by (simp add: setAlertDeliveryOverflowLocked_def overflow_data_def Let_def)
next
  case (Inr n)
  obtain s1 r where sv: "save_or_roll_back saveErr at (al_data s) n s = (s1, r)" by fastforce
  then have "s' = s1" using assms Inr by (cases r) (simp_all add: setAlertDeliveryOverflowLocked_def overflow_data_def Let_def)
  then show ?thesis using save_outcome [OF sv] Inr by (auto simp: advanced_def)
qed

lemma overflow_inFlight: "setAlertDeliveryOverflowLocked saveErr prior at s = (s', err) \<Longrightarrow> al_inFlight s' = al_inFlight s"
  by (auto simp: setAlertDeliveryOverflowLocked_def save_or_roll_back_def Let_def split: sum.splits option.splits prod.splits)


subsection \<open>What an operation may write\<close>

text \<open>The data an operation can go on to write, one rule per branch of the code that writes. The
  rules keep the guards the invariants below rest on.\<close>

definition prior_data :: "AlertLedger \<Rightarrow> alertDeliveryData" where
  "prior_data s = (case al_data s of None \<Rightarrow> newAlertDeliveryData | Some d \<Rightarrow> d)"

definition first_unavailable :: "AlertCandidateSnapshot \<Rightarrow> alertDeliveryData" where
  "first_unavailable snap = newAlertDeliveryData\<lparr>ad_Version := AlertDeliveryVersion, ad_Snapshot := unavailableAlertSnapshot snap\<rparr>"

inductive planned :: "delivery_lib \<Rightarrow> AlertLedger \<Rightarrow> alertDeliveryData \<Rightarrow> bool" for D s where
  overflows: "planned D s (overflow_data (al_data s) at)"
| overflows_first: "al_data s = None \<Longrightarrow> planned D s (overflow_data (Some (first_unavailable snap)) at)"
| notes_rejection: "al_data s = Some d \<Longrightarrow>
    planned D s (recomputeAlertDeliveryHealthLocked at ((cloneAlertDeliveryData d)\<lparr>ad_ObservationRejectedAt := at\<rparr>))"
| clears_prerequisite: "al_data s = Some d \<Longrightarrow>
    planned D s (recomputeAlertDeliveryHealthLocked at ((cloneAlertDeliveryData d)\<lparr>ad_Health := zero_health\<rparr>))"
| sets_prerequisite: "al_data s = Some d \<Longrightarrow> planned D s ((cloneAlertDeliveryData d)\<lparr>ad_Health := h\<rparr>)"
| reserves: "al_data s = Some d \<Longrightarrow> scope = snap_AuthorityScope (ad_Snapshot d) \<Longrightarrow>
    latest = latestAlertDeliveryAttempt d (alertDeliveryReceiptKey (dl_golib D) scope occ target) \<Longrightarrow>
    (\<And>l. latest = Some l \<Longrightarrow> \<not> attempt_blocks l now) \<Longrightarrow>
    int (length (ad_Attempts d)) < al_maxItems (initAlertDeliveryRuntime s) \<Longrightarrow>
    number = (case latest of None \<Rightarrow> 1 | Some l \<Rightarrow> dat_AttemptNumber l + 1) \<Longrightarrow>
    planned D s (recomputeAlertDeliveryHealthLocked now
      ((cloneAlertDeliveryData d)\<lparr>ad_Attempts := ad_Attempts d @ [reserved_attempt D scope occ target number now]\<rparr>))"
| confirms: "al_data s = Some d \<Longrightarrow> first_index (\<lambda>a. dat_ID a = i) (ad_Attempts d) = Some k \<Longrightarrow>
    dat_Class (ad_Attempts d ! k) = AlertDeliveryAttemptReserved \<Longrightarrow>
    planned D s (recomputeAlertDeliveryHealthLocked now ((cloneAlertDeliveryData d)\<lparr>ad_Attempts :=
      (ad_Attempts d)[k := (ad_Attempts d ! k)\<lparr>dat_Class := AlertDeliveryAttemptConfirmed\<rparr>]\<rparr>))"
| refuses: "al_data s = Some d \<Longrightarrow> first_index (\<lambda>a. dat_ID a = i) (ad_Attempts d) = Some k \<Longrightarrow>
    dat_Class (ad_Attempts d ! k) = AlertDeliveryAttemptReserved \<Longrightarrow>
    confirm_refusal d (al_mode s) (ad_Attempts d ! k) now = Some (c, retiredAt) \<Longrightarrow>
    occs = ad_Occurrences d \<or> occs = suppress_occurrence scope occ (ad_Occurrences d) \<Longrightarrow>
    planned D s (recomputeAlertDeliveryHealthLocked now ((cloneAlertDeliveryData d)\<lparr>ad_Attempts :=
      (ad_Attempts d)[k := refused_attempt c retiredAt now (ad_Attempts d ! k)], ad_Occurrences := occs\<rparr>))"
| completes: "al_data s = Some d \<Longrightarrow> first_index (\<lambda>a. dat_ID a = i) (ad_Attempts d) = Some k \<Longrightarrow>
    dat_Class (ad_Attempts d ! k) = AlertDeliveryAttemptConfirmed \<Longrightarrow>
    completion \<in> {AlertDeliveryCompletionAccepted, AlertDeliveryCompletionRetryable, AlertDeliveryCompletionRejected} \<Longrightarrow>
    fresh = (completion = AlertDeliveryCompletionAccepted \<and> \<not> alertDeliveryHasAnyReceipt d (dat_ReceiptKey (ad_Attempts d ! k))) \<Longrightarrow>
    \<not> (fresh \<and> int (length (ad_Receipts d)) \<ge> al_maxItems (initAlertDeliveryRuntime s)) \<Longrightarrow>
    attempt = completed_attempt d completion now (ad_Attempts d ! k) \<Longrightarrow>
    planned D s (recomputeAlertDeliveryHealthLocked now ((cloneAlertDeliveryData d)\<lparr>ad_Attempts := (ad_Attempts d)[k := attempt],
      ad_Receipts := ad_Receipts d @ (if fresh then [receipt_of attempt now] else [])\<rparr>))"
| retires: "al_data s = Some d \<Longrightarrow>
    int (length (ad_RetiredTargets d) + length (filter (\<lambda>t. IsZero (time_at (ad_RetiredTargets d) t)) targets)) \<le> al_maxItems (initAlertDeliveryRuntime s) \<Longrightarrow>
    planned D s (recomputeAlertDeliveryHealthLocked at (retire_data targets at d))"
| recovers: "al_data s = Some d \<Longrightarrow>
    d1 = (cloneAlertDeliveryData d)\<lparr>ad_Attempts :=
      map (\<lambda>a. if unowned (al_inFlight s) a then recover_attempt d now a else a) (ad_Attempts d)\<rparr> \<Longrightarrow>
    d2 = d1 \<or> d2 = recomputeAlertDeliveryHealthLocked now d1 \<Longrightarrow> planned D s d2"
| marks_read: "al_data s = Some d \<Longrightarrow> ad_AttentionReadThroughSeq d \<le> q \<Longrightarrow> q \<le> ad_AttentionHighWaterSeq d \<Longrightarrow>
    alertDeliveryAttentionCompleteThrough d q \<Longrightarrow> planned D s ((cloneAlertDeliveryData d)\<lparr>ad_AttentionReadThroughSeq := q\<rparr>)"
| compacts: "al_data s = Some d \<Longrightarrow> next = compacted (time_Add now (- alertDeliveryRetention)) active (cloneAlertDeliveryData d) \<Longrightarrow>
    planned D s (recomputeAlertDeliveryHealthLocked now (if r then next\<lparr>ad_Health := zero_health\<rparr> else next))"
| observes: "AlertCandidateSnapshot_Validate snap = None \<Longrightarrow>
    d0 = migrateAlertSourceBaselines (case al_data s of None \<Rightarrow> newAlertDeliveryData | Some p \<Rightarrow> cloneAlertDeliveryData p) \<Longrightarrow>
    d1 = d0 \<or> archiveAlertDeliveryAuthorityScopeLocked D m snap d0 = Inr d1 \<Longrightarrow>
    m = al_maxItems (initAlertDeliveryRuntime s) \<Longrightarrow>
    applyAlertSnapshotLocked (dl_golib D) (al_mode s) m snap d1 = Inr d2 \<Longrightarrow>
    establish_baselines m snap d2 = Inr d3 \<Longrightarrow>
    planned D s ((recomputeAlertDeliveryHealthLocked (snap_AsOf snap) d3)\<lparr>ad_Snapshot := snap, ad_Version := AlertDeliveryVersion\<rparr>)"

text \<open>How an operation ends: the data kept, or planned data written under a higher generation.\<close>

definition settled :: "delivery_lib \<Rightarrow> goerror option \<Rightarrow> AlertLedger \<Rightarrow> AlertLedger \<Rightarrow> bool" where
  "settled D saveErr s s' \<longleftrightarrow> kept s s' \<or> (saveErr = None \<and> (\<exists>n. planned D s n \<and> advanced s s' n))"

lemma kept_settled [intro]: "kept s s' \<Longrightarrow> settled D saveErr s s'" by (simp add: settled_def)

lemma planned_init [simp]: "planned D (initAlertDeliveryRuntime s) = planned D s"
  by (simp add: fun_eq_iff planned.simps initAlertDeliveryRuntime_def)

lemma advanced_init [simp]: "advanced (initAlertDeliveryRuntime s) = advanced s"
  by (simp add: fun_eq_iff advanced_def)

lemma kept_init [simp]: "kept (initAlertDeliveryRuntime s) = kept s" by (simp add: fun_eq_iff kept_def)

lemma settled_init [simp]: "settled D saveErr (initAlertDeliveryRuntime s) s' = settled D saveErr s s'" by (simp add: settled_def)

lemma settled_fields:
  "al_data s' = al_data t \<Longrightarrow> al_saved s' = al_saved t \<Longrightarrow> settings s' = settings t \<Longrightarrow> settled D saveErr s s' = settled D saveErr s t"
  by (simp add: settled_def kept_def advanced_def)

lemma commit_settled:
  assumes "commit_ledger saveErr at n s = (s', r)" and "planned D s n"
  shows "settled D saveErr s s'"
  using commit_outcome [OF assms(1)] assms(2) by (auto simp: settled_def)

lemma overflow_settled:
  assumes "setAlertDeliveryOverflowLocked saveErr prior at s = (s', err)" and "planned D s (overflow_data prior at)"
  shows "settled D saveErr s s'"
  using overflow_outcome [OF assms(1)] assms(2) by (auto simp: settled_def)


lemma settled_self [simp]: "settled D saveErr s s" "settled D saveErr s (initAlertDeliveryRuntime s)"
  by (auto simp: kept_def)

lemma settled_release [simp]: "settled D saveErr s (release_attempt x t) = settled D saveErr s t"
  "settled D saveErr s (t\<lparr>al_inFlight := y\<rparr>) = settled D saveErr s t"
  by (rule settled_fields; simp)+

lemma begin_settled: "settled D saveErr s (fst (BeginAlertDelivery D saveErr occurrenceKey targetRef now s))"
proof (cases "\<exists>prior occ e. al_data s = Some prior \<and> findAlertDeliveryOccurrence prior (snap_AuthorityScope (ad_Snapshot prior)) occurrenceKey = Some (occ, e)")
  case False
  then show ?thesis
    by (auto simp: BeginAlertDelivery_def Let_def split: option.splits)
next
  case True
  then obtain prior occ e where d: "al_data s = Some prior"
    and f: "findAlertDeliveryOccurrence prior (snap_AuthorityScope (ad_Snapshot prior)) occurrenceKey = Some (occ, e)" by blast
  let ?s = "initAlertDeliveryRuntime s"
  let ?scope = "snap_AuthorityScope (ad_Snapshot prior)"
  let ?latest = "latestAlertDeliveryAttempt prior (alertDeliveryReceiptKey (dl_golib D) ?scope occurrenceKey targetRef)"
  let ?number = "case ?latest of None \<Rightarrow> 1 | Some l \<Rightarrow> dat_AttemptNumber l + 1"
  let ?next = "recomputeAlertDeliveryHealthLocked now ((cloneAlertDeliveryData prior)\<lparr>ad_Attempts :=
     ad_Attempts prior @ [reserved_attempt D ?scope occurrenceKey targetRef ?number now]\<rparr>)"
  have over: "planned D s (overflow_data (Some prior) now)" using overflows [of D s now] d by simp
  obtain s1 e1 where o: "setAlertDeliveryOverflowLocked saveErr (Some prior) now ?s = (s1, e1)" by fastforce
  obtain s2 r where c: "commit_ledger saveErr now ?next ?s = (s2, r)" by fastforce
  have s1: "settled D saveErr s s1" using overflow_settled [OF o, of D] over by simp
  show ?thesis
  proof (cases "(case ?latest of None \<Rightarrow> False | Some l \<Rightarrow> attempt_blocks l now) \<or> int (length (ad_Attempts prior)) \<ge> al_maxItems ?s")
    case True
    then show ?thesis using d f o s1 by (auto simp: BeginAlertDelivery_def Let_def)
  next
    case False
    have "planned D s ?next" using False by (intro reserves [OF d refl refl _ _ refl]) (auto split: option.splits)
    then have s2: "settled D saveErr s s2" using commit_settled [OF c, of D] by simp
    with False s1 d f o c show ?thesis
      by (auto simp: BeginAlertDelivery_def Let_def split: option.splits)
  qed
qed

lemma confirm_settled: "settled D saveErr s (fst (ConfirmAlertTransport saveErr attemptID now s))"
proof (cases "\<exists>prior k. al_data s = Some prior \<and> first_index (\<lambda>a. dat_ID a = attemptID) (ad_Attempts prior) = Some k")
  case False
  then show ?thesis by (auto simp: ConfirmAlertTransport_def Let_def split: option.splits)
next
  case True
  then obtain prior k where d: "al_data s = Some prior"
    and k: "first_index (\<lambda>a. dat_ID a = attemptID) (ad_Attempts prior) = Some k" by blast
  let ?s = "initAlertDeliveryRuntime s"
  let ?a = "ad_Attempts prior ! k"
  show ?thesis
  proof (cases "dat_Class ?a = AlertDeliveryAttemptReserved")
    case False
    then show ?thesis using d k by (auto simp: ConfirmAlertTransport_def Let_def)
  next
    case res: True
    show ?thesis
    proof (cases "confirm_refusal prior (al_mode s) ?a now")
      case None
      let ?next = "recomputeAlertDeliveryHealthLocked now ((cloneAlertDeliveryData prior)\<lparr>ad_Attempts :=
        (ad_Attempts prior)[k := ?a\<lparr>dat_Class := AlertDeliveryAttemptConfirmed\<rparr>]\<rparr>)"
      obtain s2 r where c: "commit_ledger saveErr now ?next ?s = (s2, r)" by fastforce
      have "settled D saveErr s s2" using commit_settled [OF c, of D] confirms [OF d k res] by simp
      then show ?thesis using d k res None c by (auto simp: ConfirmAlertTransport_def Let_def split: option.splits)
    next
      case (Some p)
      obtain c1 retiredAt where p: "p = (c1, retiredAt)" by fastforce
      define occs where "occs = (if c1 = AlertDeliveryAttemptModeSuppressed \<and>
          findAlertDeliveryOccurrence prior (dat_AuthorityScope ?a) (dat_OccurrenceKey ?a) \<noteq> None
        then suppress_occurrence (dat_AuthorityScope ?a) (dat_OccurrenceKey ?a) (ad_Occurrences prior) else ad_Occurrences prior)"
      let ?next = "recomputeAlertDeliveryHealthLocked now ((cloneAlertDeliveryData prior)\<lparr>ad_Attempts :=
        (ad_Attempts prior)[k := refused_attempt c1 retiredAt now ?a], ad_Occurrences := occs\<rparr>)"
      obtain s2 r where c: "commit_ledger saveErr now ?next ?s = (s2, r)" by fastforce
      have "planned D s ?next" using Some p by (intro refuses [OF d k res]) (auto simp: occs_def)
      then have "settled D saveErr s s2" using commit_settled [OF c, of D] by simp
      then show ?thesis using d k res Some p c
        by (simp add: ConfirmAlertTransport_def Let_def occs_def split: option.splits)
    qed
  qed
qed

lemma complete_settled: "settled D saveErr s (fst (CompleteAlertDelivery saveErr attemptID completion now s))"
proof (cases "\<exists>prior k. al_data s = Some prior \<and> first_index (\<lambda>a. dat_ID a = attemptID) (ad_Attempts prior) = Some k")
  case False
  then show ?thesis by (auto simp: CompleteAlertDelivery_def Let_def split: option.splits)
next
  case True
  then obtain prior k where d: "al_data s = Some prior"
    and k: "first_index (\<lambda>a. dat_ID a = attemptID) (ad_Attempts prior) = Some k" by blast
  let ?s = "initAlertDeliveryRuntime s"
  let ?a = "ad_Attempts prior ! k"
  show ?thesis
  proof (cases "dat_Class ?a = AlertDeliveryAttemptConfirmed \<and>
     completion \<in> {AlertDeliveryCompletionAccepted, AlertDeliveryCompletionRetryable, AlertDeliveryCompletionRejected}")
    case False
    then show ?thesis using d k by (auto simp: CompleteAlertDelivery_def Let_def)
  next
    case True
    define fresh where "fresh = (completion = AlertDeliveryCompletionAccepted \<and> \<not> alertDeliveryHasAnyReceipt prior (dat_ReceiptKey ?a))"
    define attempt where "attempt = completed_attempt prior completion now ?a"
    obtain s1 e1 where o: "setAlertDeliveryOverflowLocked saveErr (Some prior) now ?s = (s1, e1)" by fastforce
    have s1: "settled D saveErr s s1" using overflow_settled [OF o, of D] overflows [of D s now] d by simp
    let ?next = "recomputeAlertDeliveryHealthLocked now ((cloneAlertDeliveryData prior)\<lparr>ad_Attempts := (ad_Attempts prior)[k := attempt],
      ad_Receipts := ad_Receipts prior @ (if fresh then [receipt_of attempt now] else [])\<rparr>)"
    obtain s2 r where c: "commit_ledger saveErr now ?next ?s = (s2, r)" by fastforce
    show ?thesis
    proof (cases "fresh \<and> int (length (ad_Receipts prior)) \<ge> al_maxItems ?s")
      case ov: True
      then show ?thesis using d k True o s1
        by (simp add: CompleteAlertDelivery_def Let_def fresh_def)
    next
      case no: False
      have "planned D s ?next" using True no by (intro completes [OF d k _ _ fresh_def _ attempt_def]) auto
      then have "settled D saveErr s s2" using commit_settled [OF c, of D] by simp
      with True d k c show ?thesis
        by (cases r; cases "now < dat_ReservedAt ?a")
          (simp_all add: CompleteAlertDelivery_def Let_def fresh_def [symmetric] attempt_def [symmetric] no if_not_P [OF no])
    qed
  qed
qed


lemma bump_shape: "bumpAlertDeliveryGenerationLocked s d = Inr n \<Longrightarrow> \<exists>g. n = d\<lparr>ad_Generation := g\<rparr>"
  by (auto simp: bumpAlertDeliveryGenerationLocked_def bumpAlertDeliveryGeneration_def split: if_splits sum.splits)

lemma bump_commutes:
  "bumpAlertDeliveryGenerationLocked s d = Inr n \<Longrightarrow>
   bumpAlertDeliveryGenerationLocked s (d\<lparr>ad_Snapshot := snap, ad_Version := v\<rparr>) = Inr (n\<lparr>ad_Snapshot := snap, ad_Version := v\<rparr>)"
  by (auto simp: bumpAlertDeliveryGenerationLocked_def bumpAlertDeliveryGeneration_def split: if_splits sum.splits)

lemma retire_targets_outcome:
  assumes "retireAlertDeliveryTargetsLocked targets at s = (s1, r)"
  shows "(r = Inr ([], False) \<or> (\<exists>e. r = Inl e)) \<and> s1 = initAlertDeliveryRuntime s \<or>
    (\<exists>prior n rel. al_data s = Some prior \<and> r = Inr (rel, True) \<and> s1 = (initAlertDeliveryRuntime s)\<lparr>al_data := Some n\<rparr> \<and>
      rel = released_by_retirement targets prior \<and>
      int (length (ad_RetiredTargets prior) + length (filter (\<lambda>t. IsZero (time_at (ad_RetiredTargets prior) t)) targets)) \<le> al_maxItems (initAlertDeliveryRuntime s) \<and>
      bumpAlertDeliveryGenerationLocked s (recomputeAlertDeliveryHealthLocked at (retire_data targets at prior)) = Inr n)"
  using assms by (auto simp: retireAlertDeliveryTargetsLocked_def Let_def split: option.splits if_splits sum.splits)

lemma retire_settled: "settled D saveErr s (fst (RetireAlertDeliveryTarget saveErr targetRef at s))"
proof (cases "al_data s")
  case None
  then show ?thesis by (simp add: RetireAlertDeliveryTarget_def)
next
  case (Some prior)
  obtain s1 r where r: "retireAlertDeliveryTargetsLocked [targetRef] at s = (s1, r)" by fastforce
  from retire_targets_outcome [OF r] show ?thesis
  proof (elim disjE conjE exE)
    fix e assume e: "r = Inl e" and s1: "s1 = initAlertDeliveryRuntime s"
    obtain s2 err where o: "setAlertDeliveryOverflowLocked saveErr (Some prior) at s1 = (s2, err)" by fastforce
    have "settled D saveErr s s2" using overflow_settled [OF o, of D] overflows [of D s at] Some s1 by simp
    then show ?thesis using Some r e s1 o by (simp add: RetireAlertDeliveryTarget_def)
  next
    fix d n rel
    assume *: "al_data s = Some d" "r = Inr (rel, True)" "s1 = initAlertDeliveryRuntime s\<lparr>al_data := Some n\<rparr>"
      and cap: "int (length (ad_RetiredTargets d) + length (filter (\<lambda>t. IsZero (time_at (ad_RetiredTargets d) t)) [targetRef])) \<le> al_maxItems (initAlertDeliveryRuntime s)"
      and b: "bumpAlertDeliveryGenerationLocked s (recomputeAlertDeliveryHealthLocked at (retire_data [targetRef] at d)) = Inr n"
    have "settled D saveErr s t" if "saveErr = None" "al_data t = Some n" "al_saved t = Some n" "settings t = settings s" for t
      using retires [OF *(1) cap, of D] b that by (auto simp: settled_def advanced_def)
    moreover have "settled D saveErr s t" if "al_data t = Some d" "al_saved t = al_saved s" "settings t = settings s" for t
      using that *(1) by (intro kept_settled) (simp add: kept_def)
    ultimately show ?thesis using Some r * by (cases saveErr) (simp_all add: RetireAlertDeliveryTarget_def Let_def)
  qed (simp_all add: RetireAlertDeliveryTarget_def Some r)
qed

lemma recover_settled: "settled D saveErr s (fst (RecoverAlertDeliveries saveErr now s))"
proof (cases "al_data s")
  case None
  then show ?thesis by (simp add: RecoverAlertDeliveries_def Let_def)
next
  case (Some prior)
  let ?s = "initAlertDeliveryRuntime s"
  let ?d1 = "(cloneAlertDeliveryData prior)\<lparr>ad_Attempts :=
      map (\<lambda>a. if unowned (al_inFlight s) a then recover_attempt prior now a else a) (ad_Attempts prior)\<rparr>"
  have "settled D saveErr s (fst (commit_ledger saveErr now d2 ?s))" if "d2 = ?d1 \<or> d2 = recomputeAlertDeliveryHealthLocked now ?d1" for d2
  proof -
    obtain s2 r where c: "commit_ledger saveErr now d2 ?s = (s2, r)" by fastforce
    then show ?thesis using commit_settled [OF c, of D] recovers [OF Some refl that] by simp
  qed
  then show ?thesis using Some by (simp add: RecoverAlertDeliveries_def Let_def)
qed

lemma commit_planned: "planned D s n \<Longrightarrow> settled D saveErr s (fst (commit_ledger saveErr at n s))"
  by (cases "commit_ledger saveErr at n s") (simp add: commit_settled)

lemma prerequisite_settled: "settled D saveErr s (fst (SetAlertDeliveryPrerequisiteHealth saveErr c now s))"
  by (auto simp: SetAlertDeliveryPrerequisiteHealth_def Let_def intro: commit_planned clears_prerequisite sets_prerequisite split: option.splits)

lemma mark_settled: "settled D saveErr s (fst (MarkAlertDeliveryAttentionRead saveErr clock q s))"
proof (cases "al_data s")
  case None
  then show ?thesis by (simp add: MarkAlertDeliveryAttentionRead_def)
next
  case (Some d)
  obtain s2 r where c: "commit_ledger saveErr clock ((cloneAlertDeliveryData d)\<lparr>ad_AttentionReadThroughSeq := q\<rparr>) s = (s2, r)" by fastforce
  have "settled D saveErr s s2" if "ad_AttentionReadThroughSeq d \<le> q" "q \<le> ad_AttentionHighWaterSeq d" "alertDeliveryAttentionCompleteThrough d q"
    using commit_settled [OF c, of D] marks_read [OF Some that] by simp
  then show ?thesis using Some c by (auto simp: MarkAlertDeliveryAttentionRead_def not_less split: option.splits)
qed

lemma compact_settled: "settled D saveErr s (fst (CompactAlertDelivery L saveErr now s))"
  by (auto simp: CompactAlertDelivery_def Let_def intro!: commit_planned
        intro: compacts [OF _ refl, where r = True, simplified] compacts [OF _ refl, where r = False, simplified] split: option.splits)

lemma note_rejected_settled: "settled D saveErr s (noteAlertObservationRejectedLocked saveErr at s)"
  by (auto simp: noteAlertObservationRejectedLocked_def intro: commit_planned notes_rejection split: option.splits)


lemma observe_settled: "settled D saveErr s (fst (ObserveAlertSnapshot D saveErr clock snap s))"
proof (cases "AlertCandidateSnapshot_Validate snap")
  case (Some e)
  then show ?thesis by (simp add: ObserveAlertSnapshot_def)
next
  case valid: None
  let ?s = "initAlertDeliveryRuntime s"
  let ?d0 = "migrateAlertSourceBaselines (case al_data s of None \<Rightarrow> newAlertDeliveryData | Some p \<Rightarrow> cloneAlertDeliveryData p)"
  have over: "settled D saveErr s (fst (case setAlertDeliveryOverflowLocked saveErr prior at ?s of (s', err) \<Rightarrow> (s', zero_view, Some err)))"
    if "planned D s (overflow_data prior at)" for prior at
    using that overflow_settled [of saveErr prior at ?s] by (auto split: prod.splits)
  have o1: "settled D saveErr s (fst (case setAlertDeliveryOverflowLocked saveErr (al_data s) at ?s of (s', err) \<Rightarrow> (s', zero_view, Some err)))" for at
    by (rule over) (rule overflows)
  have o2: "settled D saveErr s (fst (case setAlertDeliveryOverflowLocked saveErr (Some (case al_data s of Some p \<Rightarrow> p
      | None \<Rightarrow> newAlertDeliveryData\<lparr>ad_Version := AlertDeliveryVersion, ad_Snapshot := unavailableAlertSnapshot snap\<rparr>)) at ?s of (s', err) \<Rightarrow> (s', zero_view, Some err)))" for at
    by (rule over) (use overflows_first [of s D snap at] overflows [of D s at] in \<open>auto simp: first_unavailable_def split: option.splits\<close>)
  have written: "settled D saveErr s (fst (case save_or_roll_back saveErr at (al_data s) (d4\<lparr>ad_Snapshot := snap, ad_Version := AlertDeliveryVersion\<rparr>) ?s of
        (s', Some err) \<Rightarrow> (s', zero_view, Some err) | (s', None) \<Rightarrow> (s', alertDeliveryViewLocked s' (al_data s') clock, None)))"
    if st: "(if c then archiveAlertDeliveryAuthorityScopeLocked D (al_maxItems ?s) snap ?d0 else Inr ?d0) = Inr d1"
      and a: "applyAlertSnapshotLocked (dl_golib D) (al_mode s) (al_maxItems ?s) snap d1 = Inr d2"
      and b: "establish_baselines (al_maxItems ?s) snap d2 = Inr d3"
      and g: "bumpAlertDeliveryGenerationLocked s (recomputeAlertDeliveryHealthLocked (snap_AsOf snap) d3) = Inr d4" for c d1 d2 d3 d4 at
  proof -
    obtain s' r where sv: "save_or_roll_back saveErr at (al_data s) (d4\<lparr>ad_Snapshot := snap, ad_Version := AlertDeliveryVersion\<rparr>) ?s = (s', r)" by fastforce
    have d1: "d1 = ?d0 \<or> archiveAlertDeliveryAuthorityScopeLocked D (al_maxItems ?s) snap ?d0 = Inr d1" using st by (auto split: if_splits)
    have "settled D saveErr s s'"
      using save_outcome [of saveErr at ?s] sv observes [OF valid refl d1 refl a b] bump_commutes [OF g]
      by (fastforce simp: settled_def advanced_def)
    then show ?thesis by (simp add: sv split: option.splits)
  qed
  have refused: "settled D saveErr s (fst (case x of Some err \<Rightarrow> (?s, zero_view, Some err) | None \<Rightarrow> y))" if "settled D saveErr s (fst y)" for x :: "goerror option" and y :: "AlertLedger \<times> AlertDeliveryView \<times> goerror option"
    using that by (simp split: option.splits)
  have noted: "settled D saveErr s (noteAlertObservationRejectedLocked saveErr at ?s)" for at
    using note_rejected_settled [of D saveErr ?s] by simp
  have cond: "settled D saveErr s (fst (if c then x else y))" if "settled D saveErr s (fst x)" "settled D saveErr s (fst y)" for c and x y :: "AlertLedger \<times> AlertDeliveryView \<times> goerror option"
    using that by simp
  have branch: "settled D saveErr s (fst (case r of Inl e \<Rightarrow> f e | Inr v \<Rightarrow> g v))"
    if "\<And>e. r = Inl e \<Longrightarrow> settled D saveErr s (fst (f e))" "\<And>v. r = Inr v \<Longrightarrow> settled D saveErr s (fst (g v))"
    for r :: "alertDeliveryData result" and f and g :: "alertDeliveryData \<Rightarrow> AlertLedger \<times> AlertDeliveryView \<times> goerror option"
    using that by (cases r) auto
  have here: "settled D saveErr s (fst (?s, x))" "settled D saveErr s (fst (noteAlertObservationRejectedLocked saveErr at ?s, x))" for x :: "AlertDeliveryView \<times> goerror option" and at
    using noted by simp_all
  show ?thesis
    unfolding ObserveAlertSnapshot_def valid option.case Let_def init_simps
    by (intro cond branch refused here o1 o2) (erule (2) written)+
qed


text \<open>Every operation ends that way.\<close>

lemma run_op_settled: "settled D saveErr s (run_op D saveErr op s)"
  by (cases op) (simp_all add: run_op_def begin_settled confirm_settled complete_settled retire_settled recover_settled
      prerequisite_settled mark_settled compact_settled observe_settled)

lemma bump_grows:
  assumes "bumpAlertDeliveryGenerationLocked s d = Inr n"
  shows "ad_Generation d < ad_Generation n"
proof -
  have step: "g < g + 1" if "g \<noteq> - 1" for g :: "64 word"
  proof -
    have "1 + g \<noteq> 0" using that by (metis add_eq_0_iff2 add.commute)
    then show ?thesis using unatSuc [of g] by (simp add: word_less_nat_alt add.commute)
  qed
  from assms show ?thesis
    using step [of "ad_Generation d"] step [of "ad_Generation d + 1"]
    by (auto simp: bumpAlertDeliveryGenerationLocked_def bumpAlertDeliveryGeneration_def add.assoc split: if_splits sum.splits intro: order.strict_trans)
qed

subsection \<open>Frames\<close>

text \<open>What the intake of a snapshot never touches: the generation, the transport evidence, the retired
  targets and the read cursor.\<close>

definition intake_frame :: "alertDeliveryData \<Rightarrow> 64 word \<times> alertDeliveryAttempt list \<times> alertDeliveryReceipt list \<times> (string \<times> gotime) list \<times> 64 word" where
  "intake_frame d = (ad_Generation d, ad_Attempts d, ad_Receipts d, ad_RetiredTargets d, ad_AttentionReadThroughSeq d)"

lemma clone_simps [simp]:
  "ad_Generation (cloneAlertDeliveryData d) = ad_Generation d" "ad_Attempts (cloneAlertDeliveryData d) = ad_Attempts d"
  "ad_Receipts (cloneAlertDeliveryData d) = ad_Receipts d" "ad_RetiredTargets (cloneAlertDeliveryData d) = ad_RetiredTargets d"
  "ad_AttentionReadThroughSeq (cloneAlertDeliveryData d) = ad_AttentionReadThroughSeq d"
  "ad_AttentionHighWaterSeq (cloneAlertDeliveryData d) = ad_AttentionHighWaterSeq d"
  "ad_Occurrences (cloneAlertDeliveryData d) = ad_Occurrences d" "ad_Episodes (cloneAlertDeliveryData d) = ad_Episodes d"
  "ad_PreviousContexts (cloneAlertDeliveryData d) = ad_PreviousContexts d" "ad_Snapshot (cloneAlertDeliveryData d) = ad_Snapshot d"
  "ad_Health (cloneAlertDeliveryData d) = ad_Health d" "ad_Baselines (cloneAlertDeliveryData d) = non_nil (ad_Baselines d)"
  "ad_SourceBaselines (cloneAlertDeliveryData d) = ad_SourceBaselines d"
  "ad_SourceWatermarks (cloneAlertDeliveryData d) = ad_SourceWatermarks d"
  "ad_SourceWatermarksByScope (cloneAlertDeliveryData d) = non_nil (ad_SourceWatermarksByScope d)"
  by (simp_all add: cloneAlertDeliveryData_def)

lemma recompute_shape: "\<exists>h. recomputeAlertDeliveryHealthLocked now d = d\<lparr>ad_Health := h\<rparr>"
  by (auto simp: recomputeAlertDeliveryHealthLocked_def recompute_health_def Let_def)

lemma recompute_simps [simp]:
  "ad_Generation (recomputeAlertDeliveryHealthLocked now d) = ad_Generation d" "ad_Attempts (recomputeAlertDeliveryHealthLocked now d) = ad_Attempts d"
  "ad_Receipts (recomputeAlertDeliveryHealthLocked now d) = ad_Receipts d" "ad_RetiredTargets (recomputeAlertDeliveryHealthLocked now d) = ad_RetiredTargets d"
  "ad_AttentionReadThroughSeq (recomputeAlertDeliveryHealthLocked now d) = ad_AttentionReadThroughSeq d"
  "ad_AttentionHighWaterSeq (recomputeAlertDeliveryHealthLocked now d) = ad_AttentionHighWaterSeq d"
  "ad_Occurrences (recomputeAlertDeliveryHealthLocked now d) = ad_Occurrences d" "ad_Episodes (recomputeAlertDeliveryHealthLocked now d) = ad_Episodes d"
  "ad_PreviousContexts (recomputeAlertDeliveryHealthLocked now d) = ad_PreviousContexts d"
  "ad_Snapshot (recomputeAlertDeliveryHealthLocked now d) = ad_Snapshot d"
  "ad_Baselines (recomputeAlertDeliveryHealthLocked now d) = ad_Baselines d"
  "ad_SourceBaselines (recomputeAlertDeliveryHealthLocked now d) = ad_SourceBaselines d"
  "ad_SourceWatermarksByScope (recomputeAlertDeliveryHealthLocked now d) = ad_SourceWatermarksByScope d"
  using recompute_shape [of now d] by auto

lemma overflow_data_simps [simp]:
  "ad_Generation (overflow_data prior at) = (case prior of None \<Rightarrow> 0 | Some d \<Rightarrow> ad_Generation d)"
  "ad_Attempts (overflow_data prior at) = (case prior of None \<Rightarrow> [] | Some d \<Rightarrow> ad_Attempts d)"
  "ad_Receipts (overflow_data prior at) = (case prior of None \<Rightarrow> [] | Some d \<Rightarrow> ad_Receipts d)"
  "ad_RetiredTargets (overflow_data prior at) = (case prior of None \<Rightarrow> [] | Some d \<Rightarrow> ad_RetiredTargets d)"
  "ad_AttentionReadThroughSeq (overflow_data prior at) = (case prior of None \<Rightarrow> 0 | Some d \<Rightarrow> ad_AttentionReadThroughSeq d)"
  "ad_AttentionHighWaterSeq (overflow_data prior at) = (case prior of None \<Rightarrow> 0 | Some d \<Rightarrow> ad_AttentionHighWaterSeq d)"
  "ad_Occurrences (overflow_data prior at) = (case prior of None \<Rightarrow> [] | Some d \<Rightarrow> ad_Occurrences d)"
  "ad_Episodes (overflow_data prior at) = (case prior of None \<Rightarrow> [] | Some d \<Rightarrow> ad_Episodes d)"
  by (simp_all add: overflow_data_def Let_def newAlertDeliveryData_def split: option.splits)

lemma new_data_simps [simp]:
  "ad_Generation newAlertDeliveryData = 0" "ad_Attempts newAlertDeliveryData = []" "ad_Receipts newAlertDeliveryData = []"
  "ad_RetiredTargets newAlertDeliveryData = []" "ad_AttentionReadThroughSeq newAlertDeliveryData = 0"
  "ad_AttentionHighWaterSeq newAlertDeliveryData = 0" "ad_Occurrences newAlertDeliveryData = []" "ad_Episodes newAlertDeliveryData = []"
  "ad_PreviousContexts newAlertDeliveryData = []"
  by (simp_all add: newAlertDeliveryData_def)

lemma first_unavailable_simps [simp]:
  "ad_Generation (first_unavailable snap) = 0" "ad_Attempts (first_unavailable snap) = []" "ad_Receipts (first_unavailable snap) = []"
  "ad_RetiredTargets (first_unavailable snap) = []" "ad_AttentionReadThroughSeq (first_unavailable snap) = 0"
  "ad_AttentionHighWaterSeq (first_unavailable snap) = 0" "ad_Occurrences (first_unavailable snap) = []" "ad_Episodes (first_unavailable snap) = []"
  by (simp_all add: first_unavailable_def)

lemma compact_stages [simp]:
  "ad_Generation (compact_scopes c d) = ad_Generation d" "ad_Generation (compact_episodes d) = ad_Generation d"
  "ad_Generation (compact_targets c a d) = ad_Generation d" "ad_Generation (compact_evidence c d) = ad_Generation d"
  "ad_Occurrences (compact_scopes c d) = ad_Occurrences d" "ad_Attempts (compact_scopes c d) = ad_Attempts d"
  "ad_Receipts (compact_scopes c d) = ad_Receipts d" "ad_RetiredTargets (compact_scopes c d) = ad_RetiredTargets d"
  "ad_Occurrences (compact_episodes d) = ad_Occurrences d" "ad_Attempts (compact_episodes d) = ad_Attempts d"
  "ad_Receipts (compact_episodes d) = ad_Receipts d" "ad_RetiredTargets (compact_episodes d) = ad_RetiredTargets d"
  "ad_Occurrences (compact_targets c a d) = ad_Occurrences d" "ad_Attempts (compact_targets c a d) = ad_Attempts d"
  "ad_Receipts (compact_targets c a d) = ad_Receipts d"
  by (simp_all add: compact_scopes_def compact_episodes_def compact_targets_def compact_evidence_def Let_def)

lemma migrate_shape: "\<exists>b. migrateAlertSourceBaselines d = d\<lparr>ad_SourceBaselines := b\<rparr>"
proof (cases "ad_SourceBaselines d")
  case (Some b)
  then show ?thesis by (intro exI [of _ "Some b"]) (simp add: migrateAlertSourceBaselines_def)
qed (auto simp: migrateAlertSourceBaselines_def Let_def)

lemma migrate_simps [simp]:
  "intake_frame (migrateAlertSourceBaselines d) = intake_frame d" "ad_Occurrences (migrateAlertSourceBaselines d) = ad_Occurrences d"
  "ad_Episodes (migrateAlertSourceBaselines d) = ad_Episodes d" "ad_AttentionHighWaterSeq (migrateAlertSourceBaselines d) = ad_AttentionHighWaterSeq d"
  using migrate_shape [of d] by (auto simp: intake_frame_def)

lemma establish_source_shape:
  "establishAlertSourceBaselines m snap rows d = Inr d' \<Longrightarrow> \<exists>b. d' = d\<lparr>ad_SourceBaselines := b\<rparr>"
proof (induction rows arbitrary: d)
  case Nil
  then show ?case by (intro exI [of _ "ad_SourceBaselines d"]) simp
next
  case (Cons row rows)
  then show ?case by (fastforce simp: Let_def split: if_splits)
qed

lemma establish_shape:
  assumes "establish_baselines m snap d = Inr d'"
  shows "\<exists>b c t. d' = d\<lparr>ad_ObservationRejectedAt := t, ad_Baselines := c, ad_SourceBaselines := b\<rparr>"
proof -
  let ?t = "if cov_State (snap_Coverage snap) \<noteq> AlertCoverageUnavailable then zero_time else ad_ObservationRejectedAt d"
  have same: "d\<lparr>ad_ObservationRejectedAt := ?t\<rparr> = d\<lparr>ad_ObservationRejectedAt := ?t, ad_Baselines := ad_Baselines d\<rparr>" by simp
  obtain c where "establishAlertSourceBaselines m snap (elems (snap_Sources snap)) (d\<lparr>ad_ObservationRejectedAt := ?t, ad_Baselines := c\<rparr>) = Inr d'"
  proof (cases "alertSnapshotCanEstablishBaseline snap \<and> \<not> alertDeliveryBaselineEstablished (d\<lparr>ad_ObservationRejectedAt := ?t\<rparr>) (snap_AuthorityScope snap)")
    case True
    show ?thesis by (rule that, use assms in \<open>simp add: establish_baselines_def Let_def True split: if_splits\<close>)
  next
    case False
    show ?thesis by (rule that [of "ad_Baselines d"], use assms in \<open>simp add: establish_baselines_def Let_def False same [symmetric] split: if_splits\<close>)
  qed
  from establish_source_shape [OF this] show ?thesis by blast
qed

lemma archive_episodes_shape:
  "archive_episodes D m p t es d = Inr d' \<Longrightarrow> \<exists>hw pcs. d' = d\<lparr>ad_PreviousContextHighWater := hw, ad_PreviousContexts := pcs\<rparr>"
proof (induction es arbitrary: d)
  case Nil
  then show ?case by (intro exI [of _ "ad_PreviousContextHighWater d"] exI [of _ "ad_PreviousContexts d"]) simp
next
  case (Cons e es)
  then show ?case by (fastforce simp: Let_def split: if_splits option.splits)
qed

lemma archive_frame:
  assumes "archiveAlertDeliveryAuthorityScopeLocked D m snap d = Inr d'"
  shows "intake_frame d' = intake_frame d" and "ad_Occurrences d' = ad_Occurrences d" and "ad_Episodes d' = ad_Episodes d"
    and "ad_AttentionHighWaterSeq d' = ad_AttentionHighWaterSeq d"
  using assms by (auto simp: archiveAlertDeliveryAuthorityScopeLocked_def Let_def intake_frame_def bind_result_Inr dest!: archive_episodes_shape)

lemma new_occurrence_frame:
  "newAlertDeliveryOccurrenceLocked L mode m scope c d = Inr (d', occ) \<Longrightarrow> \<exists>q. d' = d\<lparr>ad_AttentionHighWaterSeq := q\<rparr>"
  by (auto simp: newAlertDeliveryOccurrenceLocked_def Let_def split: if_splits)

lemma intake_candidate_frame:
  "intake_candidate L mode m snap c d = Inr d' \<Longrightarrow> intake_frame d' = intake_frame d"
  by (auto simp: intake_candidate_def first_sighting_def same_occurrence_def next_occurrence_def Let_def bind_result_Inr intake_frame_def
      split: if_splits option.splits dest!: new_occurrence_frame)

lemma intake_candidates_frame:
  "intake_candidates L mode m snap cs d = Inr d' \<Longrightarrow> intake_frame d' = intake_frame d"
proof (induction cs arbitrary: d)
  case (Cons c cs)
  then show ?case using intake_candidate_frame by (fastforce simp: bind_result_Inr)
qed simp

lemma omit_episodes_frame:
  "omit_episodes snap is d = Inr d' \<Longrightarrow> intake_frame d' = intake_frame d \<and> ad_AttentionHighWaterSeq d' = ad_AttentionHighWaterSeq d"
proof (induction "is" arbitrary: d)
  case (Cons i "is")
  then show ?case by (fastforce simp: Let_def intake_frame_def split: if_splits option.splits)
qed simp

lemma apply_stages:
  assumes "applyAlertSnapshotLocked L mode m snap d = Inr d'"
  obtains d1 wms d3 b where "intake_candidates L mode m snap (elems (snap_Candidates snap)) d = Inr d1"
    and "omit_episodes snap [0..<length (ad_Episodes d1)] (d1\<lparr>ad_SourceWatermarks := wms\<rparr>) = Inr d3"
    and "d' = d3\<lparr>ad_SourceWatermarksByScope := b\<rparr>"
proof -
  from assms obtain d1 d3 where 1: "intake_candidates L mode m snap (elems (snap_Candidates snap)) d = Inr d1"
    and 2: "omit_episodes snap [0..<length (ad_Episodes d1)] (d1\<lparr>ad_SourceWatermarks :=
       fold (\<lambda>src m. AList.update src (cov_AsOf (snap_Coverage snap)) m) (authoritative_sources snap) (ad_SourceWatermarks d1)\<rparr>) = Inr d3"
    and 3: "\<exists>b. d' = d3\<lparr>ad_SourceWatermarksByScope := b\<rparr>"
    by (simp add: applyAlertSnapshotLocked_def bind_result_Inr Let_def) (auto split: if_splits)
  from 3 obtain b where "d' = d3\<lparr>ad_SourceWatermarksByScope := b\<rparr>" by blast
  with 1 2 show ?thesis by (rule that)
qed

lemma apply_snapshot_frame:
  assumes "applyAlertSnapshotLocked L mode m snap d = Inr d'"
  shows "intake_frame d' = intake_frame d"
  using assms
proof (rule apply_stages)
  fix d1 wms d3 b
  assume i: "intake_candidates L mode m snap (elems (snap_Candidates snap)) d = Inr d1"
    and o: "omit_episodes snap [0..<length (ad_Episodes d1)] (d1\<lparr>ad_SourceWatermarks := wms\<rparr>) = Inr d3"
    and d': "d' = d3\<lparr>ad_SourceWatermarksByScope := b\<rparr>"
  show ?thesis using intake_candidates_frame [OF i] omit_episodes_frame [OF o] by (simp add: d' intake_frame_def)
qed

end
