(* ===== verification/Delivery_Example.thy ===== *)
theory Delivery_Example
  imports Delivery_Runs
begin

text \<open>
  A worked run of the delivery ledger, for the witnesses of the later theories: one regime source, a
  clear snapshot that sets the baseline, an open episode, and the delivery of its occurrence to one
  target. Time stamps are nanoseconds.
\<close>

definition sample_lib :: delivery_lib where
  "sample_lib = \<lparr>dl_golib = demo_lib, dl_RFC3339Nano = (\<lambda>t. digits10 (nat (nanos t)))\<rparr>"

definition sample_key :: string where
  "sample_key = ''alert-occurrence-v1:'' @ replicate 63 CHR ''0'' @ ''1''"

definition sample_target :: string where
  "sample_target = ''sha256:'' @ replicate 63 CHR ''0'' @ ''2''"

definition sample_candidate :: "AlertEpisodeState \<Rightarrow> int \<Rightarrow> int \<Rightarrow> AlertCandidate" where
  "sample_candidate st changed t = \<lparr>ac_EpisodeKey = demo_episode_key, ac_OccurrenceKey = sample_key,
     ac_EvidenceFingerprint = ''sha256:'' @ replicate 64 CHR ''0'', ac_Source = AlertSourceRegime, ac_Kind = AlertKindMarketState,
     ac_PresentationCode = AlertPresentationRegimeMarketStress, ac_State = st, ac_Severity = AlertSeverityWatch,
     ac_EvidenceHealth = AlertEvidenceCurrent, ac_Destination = AlertDestinationAlerts,
     ac_EvidenceAsOf = Instant t, ac_StateChangedAt = Instant changed, ac_ObservedAt = Instant t\<rparr>"

definition sample_snapshot :: "string \<Rightarrow> int \<Rightarrow> AlertCandidate list \<Rightarrow> AlertCandidateSnapshot" where
  "sample_snapshot scope t cs = \<lparr>snap_SchemaVersion = AlertCandidateSnapshotVersion, snap_AuthorityScope = scope,
     snap_AsOf = Instant t, snap_CurrentState = (if \<exists>c\<in>set cs. ac_State c \<noteq> AlertEpisodeRecovered then AlertSnapshotActive else AlertSnapshotClear),
     snap_Coverage = \<lparr>cov_State = AlertCoverageComplete, cov_Freshness = AlertCoverageCurrent, cov_AsOf = Instant t,
        cov_ExpectedSources = Slice [AlertSourceRegime], cov_CoveredSources = Slice [AlertSourceRegime]\<rparr>,
     snap_Sources = Slice [\<lparr>asc_Source = AlertSourceRegime, asc_Status = ''current'', asc_Reason = ''current'',
        asc_EvidenceHealth = AlertEvidenceCurrent, asc_InputAsOf = Instant t, asc_ObservedAt = Instant t,
        asc_EvidenceAsOf = Instant t, asc_FreshUntil = Instant (t + 1000), asc_Covered = True\<rparr>],
     snap_Candidates = Slice cs\<rparr>"

definition sample_ledger :: AlertLedger where
  "sample_ledger = \<lparr>al_data = None, al_saved = None, al_mode = AlertModeWatchAndAct, al_maxItems = 0, al_inFlight = [],
     al_volatile = None, al_volatileGeneration = 0, al_quarantined = False, al_devices = [], al_subscriptions = []\<rparr>"

definition sample_occurrence :: alertDeliveryOccurrence where
  "sample_occurrence = \<lparr>occ_AuthorityScope = demo_scope, occ_OccurrenceKey = sample_key, occ_EpisodeKey = demo_episode_key,
     occ_EvidenceFingerprint = ''sha256:'' @ replicate 64 CHR ''0'', occ_DisplayID = ''alert-1000000000000000'', occ_Source = AlertSourceRegime,
     occ_Kind = AlertKindMarketState, occ_PresentationCode = AlertPresentationRegimeMarketStress, occ_State = AlertEpisodeOpen,
     occ_Severity = AlertSeverityWatch, occ_EvidenceHealth = AlertEvidenceCurrent, occ_Destination = AlertDestinationAlerts,
     occ_EvidenceAsOf = Instant 200, occ_StateChangedAt = Instant 150, occ_ObservedAt = Instant 200, occ_FirstSeenAt = Instant 200,
     occ_LastSeenAt = Instant 200, occ_EndedAt = zero_time, occ_EndReason = NoEndReason, occ_AttentionSeq = 1,
     occ_Disposition = AlertDispositionEligible\<rparr>"

definition sample_episode :: alertDeliveryEpisode where
  "sample_episode = \<lparr>ep_AuthorityScope = demo_scope, ep_EpisodeKey = demo_episode_key, ep_Source = AlertSourceRegime, ep_Kind = AlertKindMarketState,
     ep_CurrentOccurrenceKey = sample_key, ep_State = AlertEpisodeOpen, ep_FirstSeenAt = Instant 200, ep_LastSeenAt = Instant 200\<rparr>"

definition sample_baseline :: alertDeliveryBaseline where
  "sample_baseline = \<lparr>bl_EstablishedAt = Instant 100, bl_SnapshotAsOf = Instant 100\<rparr>"

definition sample_attempt_id :: string where
  "sample_attempt_id = ''alert-attempt-0121000000000000''"

definition sample_attempt :: "AlertDeliveryAttemptClass \<Rightarrow> alertDeliveryAttempt" where
  "sample_attempt c = \<lparr>dat_AuthorityScope = demo_scope, dat_ID = sample_attempt_id, dat_OccurrenceKey = sample_key, dat_TargetRef = sample_target,
     dat_ReceiptKey = ''sha256:2'' @ replicate 63 CHR ''0'', dat_AttemptNumber = 1, dat_ReservedAt = Instant 210,
     dat_CompletedAt = (if c = AlertDeliveryAttemptAccepted then Instant 230 else zero_time), dat_Class = c,
     dat_Disposition = (if c = AlertDeliveryAttemptAccepted then AlertDeliveryCompletionApplied else NoCompletionDisposition),
     dat_RetryAt = zero_time, dat_RetiredAt = zero_time\<rparr>"

definition sample_receipt :: alertDeliveryReceipt where
  "sample_receipt = receipt_of (sample_attempt AlertDeliveryAttemptAccepted) (Instant 230)"

definition sample_data :: "64 word \<Rightarrow> gotime \<Rightarrow> alertDeliveryAttempt list \<Rightarrow> alertDeliveryReceipt list \<Rightarrow> alertDeliveryData" where
  "sample_data g now as rs = \<lparr>ad_SourceBaselines = Some [(demo_scope, [(AlertSourceRegime, sample_baseline)])],
     ad_Version = AlertDeliveryVersion, ad_Generation = g,
     ad_Snapshot = sample_snapshot demo_scope 200 [sample_candidate AlertEpisodeOpen 150 200],
     ad_SourceWatermarks = [(AlertSourceRegime, Instant 200)],
     ad_SourceWatermarksByScope = Some [(demo_scope, [(AlertSourceRegime, Instant 200)])],
     ad_Episodes = [sample_episode], ad_Occurrences = [sample_occurrence], ad_PreviousContexts = [], ad_PreviousContextHighWater = 0,
     ad_Attempts = as, ad_Receipts = rs, ad_RetiredTargets = [], ad_Baselines = Some [(demo_scope, sample_baseline)],
     ad_Health = \<lparr>dh_State = AlertDeliveryHealthHealthy, dh_Class = NoHealthClass, dh_UpdatedAt = now,
        dh_LastAcceptedAt = (if rs = [] then zero_time else Instant 230)\<rparr>,
     ad_ObservationRejectedAt = zero_time, ad_AttentionHighWaterSeq = 1, ad_AttentionReadThroughSeq = 0\<rparr>"

definition sample_state :: "alertDeliveryData \<Rightarrow> string list \<Rightarrow> AlertLedger" where
  "sample_state d inFlight = sample_ledger\<lparr>al_data := Some d, al_saved := Some d, al_maxItems := defaultAlertDeliveryMaxItems, al_inFlight := inFlight\<rparr>"

definition sample_open :: AlertLedger where
  "sample_open = sample_state (sample_data 2 (Instant 200) [] []) []"

definition sample_reserved :: AlertLedger where
  "sample_reserved = sample_state (sample_data 3 (Instant 210) [sample_attempt AlertDeliveryAttemptReserved] []) [sample_attempt_id]"

definition sample_confirmed :: AlertLedger where
  "sample_confirmed = sample_state (sample_data 4 (Instant 220) [sample_attempt AlertDeliveryAttemptConfirmed] []) [sample_attempt_id]"

definition sample_accepted :: AlertLedger where
  "sample_accepted = sample_state (sample_data 5 (Instant 230) [sample_attempt AlertDeliveryAttemptAccepted] [sample_receipt]) []"

text \<open>The states are those of the run.\<close>

lemma sample_run_open:
  "run_ops sample_lib [(None, Observe (Instant 100) (sample_snapshot demo_scope 100 [])),
     (None, Observe (Instant 200) (sample_snapshot demo_scope 200 [sample_candidate AlertEpisodeOpen 150 200]))] sample_ledger = sample_open"
  by code_simp

lemma sample_run_begin:
  "BeginAlertDelivery sample_lib None sample_key sample_target (Instant 210) sample_open =
     (sample_reserved, Inr (alertDeliveryReservationView (sample_attempt AlertDeliveryAttemptReserved) (occ_DisplayID sample_occurrence), True))"
  by code_simp

lemma sample_run_confirm:
  "ConfirmAlertTransport None sample_attempt_id (Instant 220) sample_reserved =
     (sample_confirmed, Inr ((alertDeliveryReservationView (sample_attempt AlertDeliveryAttemptConfirmed) (occ_DisplayID sample_occurrence))\<lparr>
        rv_Candidate := Some (sample_candidate AlertEpisodeOpen 150 200)\<rparr>, True))"
  by code_simp

lemma sample_run_complete:
  "CompleteAlertDelivery None sample_attempt_id AlertDeliveryCompletionAccepted (Instant 230) sample_confirmed =
     (sample_accepted, Inr \<lparr>out_Disposition = AlertDeliveryCompletionApplied, out_Class = AlertDeliveryAttemptAccepted, out_RetryAt = zero_time\<rparr>)"
  by code_simp

lemmas sample_run = sample_run_open sample_run_begin sample_run_confirm sample_run_complete

lemma sample_open_valid: "validateAlertDeliveryState sample_lib sample_open = None"
  by code_simp

lemma sample_reserved_valid: "validateAlertDeliveryState sample_lib sample_reserved = None"
  by code_simp

lemma sample_accepted_valid: "validateAlertDeliveryState sample_lib sample_accepted = None"
  by code_simp

lemmas sample_valid = sample_open_valid sample_reserved_valid sample_accepted_valid

end
