(* ===== verification/Delivery_Transport.thy ===== *)
theory Delivery_Transport
  imports Delivery_Example
begin

text \<open>
  What the delivery ledger promises about transport, over every run of its operations: memory is what
  was last written and a failed write changes nothing; generations grow with every change; the
  attempts and receipts refine an abstract transport machine (\<open>transport_step\<close>), in which an
  occurrence is accepted for a target at most once and a reservation is exclusive.
\<close>

subsection \<open>Durability and generations\<close>

definition generation :: "AlertLedger \<Rightarrow> 64 word" where
  "generation s = ad_Generation (prior_data s)"

lemma observed_frame:
  assumes "d0 = migrateAlertSourceBaselines (case al_data s of None \<Rightarrow> newAlertDeliveryData | Some p \<Rightarrow> cloneAlertDeliveryData p)"
    and "d1 = d0 \<or> archiveAlertDeliveryAuthorityScopeLocked D m snap d0 = Inr d1"
    and "applyAlertSnapshotLocked (dl_golib D) (al_mode s) m snap d1 = Inr d2" and "establish_baselines m snap d2 = Inr d3"
  shows "intake_frame d3 = intake_frame (prior_data s)"
proof -
  have "intake_frame d3 = intake_frame d2" using establish_shape [OF assms(4)] by (auto simp: intake_frame_def)
  also have "\<dots> = intake_frame d1" by (rule apply_snapshot_frame [OF assms(3)])
  also have "\<dots> = intake_frame d0" using assms(2) archive_frame(1) by blast
  also have "\<dots> = intake_frame (case al_data s of None \<Rightarrow> newAlertDeliveryData | Some p \<Rightarrow> cloneAlertDeliveryData p)"
    by (simp add: assms(1))
  finally show ?thesis by (simp add: intake_frame_def prior_data_def split: option.splits)
qed

lemma planned_generation: "planned D s n \<Longrightarrow> ad_Generation n = generation s"
proof (induction rule: planned.induct)
  case (observes snap d0 d1 m d2 d3)
  then show ?case using observed_frame [OF observes(2,3,5,6)] by (simp add: intake_frame_def generation_def)
next
  case (compacts d nxt now active r)
  then show ?case by (cases r) (simp_all add: generation_def prior_data_def compacted_def)
qed (auto simp: generation_def prior_data_def retire_data_def split: option.splits)

lemma run_op_generation:
  "al_data (run_op D saveErr op s) = al_data s \<or> generation s < generation (run_op D saveErr op s)"
  using run_op_settled [of D saveErr s op] bump_grows planned_generation
  by (fastforce simp: settled_def kept_def advanced_def generation_def prior_data_def)

lemma run_op_saved:
  assumes "al_data s = al_saved s"
  shows "al_data (run_op D saveErr op s) = al_saved (run_op D saveErr op s)"
  using run_op_settled [of D saveErr s op] assms by (auto simp: settled_def kept_def advanced_def)

lemma run_op_failed: "kept s (run_op D (Some e) op s)"
  using run_op_settled [of D "Some e" s op] by (simp add: settled_def)

text \<open>C16. The ledger in memory is what was last written, over every run of operations, and operations
  whose writes fail leave it as it was.\<close>

theorem ledger_is_durable:
  assumes "al_data s = al_saved s"
  shows "al_data (run_ops D ops s) = al_saved (run_ops D ops s) \<and>
    (list_all (\<lambda>(saveErr, op). saveErr \<noteq> None) ops \<longrightarrow> al_data (run_ops D ops s) = al_data s)"
  using assms
proof (induction ops arbitrary: s)
  case (Cons x ops)
  obtain saveErr op where x: "x = (saveErr, op)" by fastforce
  have "al_data (run_op D saveErr op s) = al_data s" if "saveErr \<noteq> None"
    using that run_op_failed by (auto simp: kept_def)
  moreover note IH = Cons.IH [OF run_op_saved [OF Cons.prems], of D saveErr op]
  ultimately show ?case using IH unfolding x run_ops.simps by (auto simp del: not_None_eq)
qed simp

text \<open>The generation counter grows, without wrapping, with every change of the ledger: a run of
  operations leaves the data as it was or under a higher generation.\<close>

theorem generation_grows:
  "al_data (run_ops D ops s) = al_data s \<or> generation s < generation (run_ops D ops s)"
proof (induction ops arbitrary: s)
  case (Cons x ops)
  obtain saveErr op where x: "x = (saveErr, op)" by fastforce
  have same: "generation t = generation u" if "al_data t = al_data u" for t u
    using that by (simp add: generation_def prior_data_def)
  note IH = Cons.IH [of "run_op D saveErr op s"]
  from run_op_generation [of D saveErr op s] show ?case
  proof
    assume eq: "al_data (run_op D saveErr op s) = al_data s"
    show ?thesis using IH unfolding x run_ops.simps eq same [OF eq] .
  next
    assume lt: "generation s < generation (run_op D saveErr op s)"
    from IH have "generation (run_op D saveErr op s) \<le> generation (run_ops D ops (run_op D saveErr op s))"
      by (auto dest: same)
    with lt have "generation s < generation (run_ops D ops (run_op D saveErr op s))" by (rule order.strict_trans2)
    then show ?thesis by (simp add: x)
  qed
qed simp

subsection \<open>The transport machine\<close>

text \<open>The state of the abstract machine: attempts and receipts. A class that \<open>pins\<close> its attempt forbids
  another attempt with the same receipt key; \<open>becomes\<close> is what may happen to one attempt apart from
  acceptance.\<close>

type_synonym transport = "alertDeliveryAttempt list \<times> alertDeliveryReceipt list"

definition transport :: "AlertLedger \<Rightarrow> transport" where
  "transport s = (ad_Attempts (prior_data s), ad_Receipts (prior_data s))"

definition pins :: "AlertDeliveryAttemptClass \<Rightarrow> bool" where
  "pins c \<longleftrightarrow> c \<in> {AlertDeliveryAttemptReserved, AlertDeliveryAttemptConfirmed, AlertDeliveryAttemptAccepted, AlertDeliveryAttemptRejected,
     AlertDeliveryAttemptInactive, AlertDeliveryAttemptExhausted, AlertDeliveryAttemptModeSuppressed}"

definition same_identity :: "alertDeliveryAttempt \<Rightarrow> alertDeliveryAttempt \<Rightarrow> bool" where
  "same_identity a b \<longleftrightarrow> dat_AuthorityScope b = dat_AuthorityScope a \<and> dat_ID b = dat_ID a \<and> dat_OccurrenceKey b = dat_OccurrenceKey a \<and>
     dat_TargetRef b = dat_TargetRef a \<and> dat_ReceiptKey b = dat_ReceiptKey a \<and> dat_AttemptNumber b = dat_AttemptNumber a \<and>
     dat_ReservedAt b = dat_ReservedAt a"

definition becomes :: "alertDeliveryAttempt \<Rightarrow> alertDeliveryAttempt \<Rightarrow> bool" where
  "becomes a b \<longleftrightarrow> same_identity a b \<and>
     (dat_Class b = dat_Class a \<or>
      dat_Class a = AlertDeliveryAttemptReserved \<and> dat_Class b \<in> {AlertDeliveryAttemptConfirmed, AlertDeliveryAttemptInactive,
        AlertDeliveryAttemptRetired, AlertDeliveryAttemptModeSuppressed, AlertDeliveryAttemptRetry, AlertDeliveryAttemptExhausted} \<or>
      dat_Class a = AlertDeliveryAttemptConfirmed \<and> dat_Class b \<in> {AlertDeliveryAttemptRetry, AlertDeliveryAttemptRejected,
        AlertDeliveryAttemptExhausted, AlertDeliveryAttemptInterrupted} \<or>
      dat_Class a = AlertDeliveryAttemptRetry \<and> dat_Class b = AlertDeliveryAttemptRetired)"

definition same_receipt :: "alertDeliveryReceipt \<Rightarrow> alertDeliveryReceipt \<Rightarrow> bool" where
  "same_receipt r q \<longleftrightarrow> rcp_AuthorityScope q = rcp_AuthorityScope r \<and> rcp_OccurrenceKey q = rcp_OccurrenceKey r \<and>
     rcp_TargetRef q = rcp_TargetRef r \<and> rcp_ReceiptKey q = rcp_ReceiptKey r \<and> rcp_AcceptedAt q = rcp_AcceptedAt r"

inductive transport_step :: "golib \<Rightarrow> transport \<Rightarrow> transport \<Rightarrow> bool" for L where
  reserve: "(\<And>b. b \<in> set as \<Longrightarrow> dat_ReceiptKey b = dat_ReceiptKey a \<Longrightarrow> \<not> pins (dat_Class b)) \<Longrightarrow>
    dat_Class a = AlertDeliveryAttemptReserved \<Longrightarrow>
    dat_ReceiptKey a = alertDeliveryReceiptKey L (dat_AuthorityScope a) (dat_OccurrenceKey a) (dat_TargetRef a) \<Longrightarrow>
    transport_step L (as, rs) (as @ [a], rs)"
| settle: "list_all2 becomes as bs \<Longrightarrow> list_all2 same_receipt rs qs \<Longrightarrow> transport_step L (as, rs) (bs, qs)"
| accept: "k < length as \<Longrightarrow> dat_Class (as ! k) = AlertDeliveryAttemptConfirmed \<Longrightarrow> same_identity (as ! k) b \<Longrightarrow>
    dat_Class b = AlertDeliveryAttemptAccepted \<Longrightarrow> dat_CompletedAt b = now \<Longrightarrow>
    (\<And>r. r \<in> set rs \<Longrightarrow> rcp_ReceiptKey r \<noteq> dat_ReceiptKey b) \<Longrightarrow>
    transport_step L (as, rs) (as[k := b], rs @ [receipt_of b now])"
| forget: "transport_step L (as, rs) (filter (\<lambda>a. P (dat_AuthorityScope a) (dat_OccurrenceKey a)) as,
    filter (\<lambda>r. P (rcp_AuthorityScope r) (rcp_OccurrenceKey r)) rs)"

definition receipt_matches :: "alertDeliveryAttempt \<Rightarrow> alertDeliveryReceipt \<Rightarrow> bool" where
  "receipt_matches a r \<longleftrightarrow> rcp_ReceiptKey r = dat_ReceiptKey a \<and> rcp_AuthorityScope r = dat_AuthorityScope a \<and>
     rcp_OccurrenceKey r = dat_OccurrenceKey a"

text \<open>The invariant: a pinned attempt is the last with its receipt key, receipts have distinct keys, and
  receipts and accepted attempts correspond.\<close>

definition transport_ok :: "transport \<Rightarrow> bool" where
  "transport_ok = (\<lambda>(as, rs).
     sorted_wrt (\<lambda>a b. dat_ReceiptKey a = dat_ReceiptKey b \<longrightarrow> \<not> pins (dat_Class a)) as \<and>
     distinct (map rcp_ReceiptKey rs) \<and>
     (\<forall>a\<in>set as. dat_Class a = AlertDeliveryAttemptAccepted \<longrightarrow> (\<exists>r\<in>set rs. receipt_matches a r)) \<and>
     (\<forall>r\<in>set rs. \<exists>a\<in>set as. dat_Class a = AlertDeliveryAttemptAccepted \<and> receipt_matches a r))"

lemma becomes_pins: "becomes a b \<Longrightarrow> pins (dat_Class b) \<Longrightarrow> pins (dat_Class a)"
  by (auto simp: becomes_def pins_def)

lemma becomes_accepted: "becomes a b \<Longrightarrow> dat_Class b = AlertDeliveryAttemptAccepted \<longleftrightarrow> dat_Class a = AlertDeliveryAttemptAccepted"
  by (auto simp: becomes_def)

lemma becomes_matches: "becomes a b \<Longrightarrow> same_receipt r q \<Longrightarrow> receipt_matches b q = receipt_matches a r"
  by (auto simp: becomes_def same_identity_def same_receipt_def receipt_matches_def)

lemma last_pinned_unique:
  assumes "sorted_wrt (\<lambda>a b. dat_ReceiptKey a = dat_ReceiptKey b \<longrightarrow> \<not> pins (dat_Class a)) as"
    and "i < length as" "j < length as" "dat_ReceiptKey (as ! i) = dat_ReceiptKey (as ! j)" "pins (dat_Class (as ! i))" "pins (dat_Class (as ! j))"
  shows "i = j"
proof (rule ccontr)
  assume "i \<noteq> j"
  then consider "i < j" | "j < i" by linarith
  then show False using assms by cases (auto simp: sorted_wrt_iff_nth_less)
qed

lemma settle_ok:
  assumes "transport_ok (as, rs)" "list_all2 becomes as bs" "list_all2 same_receipt rs qs"
  shows "transport_ok (bs, qs)"
proof -
  have len: "length bs = length as" "length qs = length rs" using assms(2,3) by (simp_all add: list_all2_lengthD)
  have nb: "becomes (as ! i) (bs ! i)" if "i < length as" for i using assms(2) that by (simp add: list_all2_conv_all_nth)
  have nr: "same_receipt (rs ! i) (qs ! i)" if "i < length rs" for i using assms(3) that by (simp add: list_all2_conv_all_nth)
  have key: "dat_ReceiptKey (bs ! i) = dat_ReceiptKey (as ! i)" if "i < length as" for i
    using nb [OF that] by (simp add: becomes_def same_identity_def)
  have "map rcp_ReceiptKey qs = map rcp_ReceiptKey rs"
  proof (rule nth_equalityI)
    fix i assume i: "i < length (map rcp_ReceiptKey qs)"
    then have "same_receipt (rs ! i) (qs ! i)" using nr len by simp
    then have "rcp_ReceiptKey (qs ! i) = rcp_ReceiptKey (rs ! i)" by (simp add: same_receipt_def)
    then show "map rcp_ReceiptKey qs ! i = map rcp_ReceiptKey rs ! i" using i len by simp
  qed (simp add: len)
  moreover have "sorted_wrt (\<lambda>a b. dat_ReceiptKey a = dat_ReceiptKey b \<longrightarrow> \<not> pins (dat_Class a)) bs"
    unfolding sorted_wrt_iff_nth_less
  proof (intro allI impI notI)
    fix i j assume ij: "i < j" "j < length bs" and k: "dat_ReceiptKey (bs ! i) = dat_ReceiptKey (bs ! j)" and p: "pins (dat_Class (bs ! i))"
    have "pins (dat_Class (as ! i))" using becomes_pins [OF nb p] ij len by simp
    moreover have "dat_ReceiptKey (as ! i) = dat_ReceiptKey (as ! j)" using k key ij len by simp
    ultimately show False using assms(1) ij len by (auto simp: transport_ok_def sorted_wrt_iff_nth_less)
  qed
  moreover have "\<exists>r\<in>set qs. receipt_matches b r" if b: "b \<in> set bs" "dat_Class b = AlertDeliveryAttemptAccepted" for b
  proof -
    obtain i where i: "i < length as" "b = bs ! i" using b(1) len by (auto simp: in_set_conv_nth)
    then have "dat_Class (as ! i) = AlertDeliveryAttemptAccepted" using nb becomes_accepted b(2) by blast
    then obtain r where r: "r \<in> set rs" "receipt_matches (as ! i) r" using assms(1) i(1) by (auto simp: transport_ok_def)
    then obtain j where "j < length rs" "r = rs ! j" by (auto simp: in_set_conv_nth)
    then show ?thesis using becomes_matches [OF nb [OF i(1)] nr] r(2) i(2) len by (intro bexI [of _ "qs ! j"]) auto
  qed
  moreover have "\<exists>a\<in>set bs. dat_Class a = AlertDeliveryAttemptAccepted \<and> receipt_matches a q" if q: "q \<in> set qs" for q
  proof -
    obtain j where j: "j < length rs" "q = qs ! j" using q len by (auto simp: in_set_conv_nth)
    then have "rs ! j \<in> set rs" by simp
    then obtain a where a: "a \<in> set as" "dat_Class a = AlertDeliveryAttemptAccepted" "receipt_matches a (rs ! j)" using assms(1) by (auto simp: transport_ok_def)
    then obtain i where "i < length as" "a = as ! i" by (auto simp: in_set_conv_nth)
    then show ?thesis using becomes_matches [OF nb nr [OF j(1)]] becomes_accepted [OF nb] a j(2) len by (intro bexI [of _ "bs ! i"]) auto
  qed
  ultimately show ?thesis using assms(1) by (simp add: transport_ok_def)
qed

lemma accept_ok:
  assumes ok: "transport_ok (as, rs)" and k: "k < length as" and conf: "dat_Class (as ! k) = AlertDeliveryAttemptConfirmed"
    and id: "same_identity (as ! k) b" and acc: "dat_Class b = AlertDeliveryAttemptAccepted"
    and fresh: "\<And>r. r \<in> set rs \<Longrightarrow> rcp_ReceiptKey r \<noteq> dat_ReceiptKey b"
  shows "transport_ok (as[k := b], rs @ [receipt_of b now])"
proof -
  have m: "receipt_matches b (receipt_of b now)" by (simp add: receipt_matches_def receipt_of_def)
  have key: "dat_ReceiptKey (as[k := b] ! i) = dat_ReceiptKey (as ! i)" if "i < length as" for i
    using id that k by (auto simp: nth_list_update same_identity_def)
  have pin: "pins (dat_Class (as[k := b] ! i)) \<Longrightarrow> pins (dat_Class (as ! i))" if "i < length as" for i
    using conf that k by (cases "i = k") (auto simp: pins_def)
  have "sorted_wrt (\<lambda>a b. dat_ReceiptKey a = dat_ReceiptKey b \<longrightarrow> \<not> pins (dat_Class a)) (as[k := b])"
    unfolding sorted_wrt_iff_nth_less
  proof (intro allI impI notI)
    fix i j assume ij: "i < j" "j < length (as[k := b])" and "dat_ReceiptKey (as[k := b] ! i) = dat_ReceiptKey (as[k := b] ! j)" and "pins (dat_Class (as[k := b] ! i))"
    then show False using ok pin [of i] key [of i] key [of j] by (auto simp: transport_ok_def sorted_wrt_iff_nth_less)
  qed
  moreover have "\<exists>r\<in>set (rs @ [receipt_of b now]). receipt_matches a r" if "a \<in> set (as[k := b])" "dat_Class a = AlertDeliveryAttemptAccepted" for a
    using that ok m set_update_subset_insert [of as k b] by (auto simp: transport_ok_def)
  moreover have "\<exists>a\<in>set (as[k := b]). dat_Class a = AlertDeliveryAttemptAccepted \<and> receipt_matches a r" if r: "r \<in> set rs" for r
  proof -
    obtain a where a: "a \<in> set as" "dat_Class a = AlertDeliveryAttemptAccepted" "receipt_matches a r" using ok r by (auto simp: transport_ok_def)
    then obtain i where i: "i < length as" "a = as ! i" by (auto simp: in_set_conv_nth)
    with a conf have "i \<noteq> k" by auto
    then have "as[k := b] ! i = a" "i < length (as[k := b])" using i by simp_all
    then have "a \<in> set (as[k := b])" by (metis nth_mem)
    with a show ?thesis by blast
  qed
  moreover have "b \<in> set (as[k := b])" using k by (rule set_update_memI)
  moreover have "dat_ReceiptKey b \<notin> rcp_ReceiptKey ` set rs" using fresh by (metis imageE)
  then have "distinct (map rcp_ReceiptKey (rs @ [receipt_of b now]))" using ok by (auto simp: transport_ok_def receipt_of_def)
  ultimately show ?thesis using acc m by (auto simp: transport_ok_def)
qed

lemma reserve_ok:
  assumes "transport_ok (as, rs)" "\<And>b. b \<in> set as \<Longrightarrow> dat_ReceiptKey b = dat_ReceiptKey a \<Longrightarrow> \<not> pins (dat_Class b)"
    and "dat_Class a = AlertDeliveryAttemptReserved"
  shows "transport_ok (as @ [a], rs)"
  using assms by (auto simp: transport_ok_def sorted_wrt_append)

lemma forget_ok:
  assumes "transport_ok (as, rs)"
  shows "transport_ok (filter (\<lambda>a. P (dat_AuthorityScope a) (dat_OccurrenceKey a)) as, filter (\<lambda>r. P (rcp_AuthorityScope r) (rcp_OccurrenceKey r)) rs)"
proof -
  have "distinct (map rcp_ReceiptKey (filter (\<lambda>r. P (rcp_AuthorityScope r) (rcp_OccurrenceKey r)) rs))"
    using assms by (auto simp: transport_ok_def distinct_map intro: inj_on_subset)
  then show ?thesis using assms
    by (simp add: transport_ok_def receipt_matches_def sorted_wrt_filter) fastforce
qed

lemma transport_step_ok: "transport_step L t t' \<Longrightarrow> transport_ok t \<Longrightarrow> transport_ok t'"
  by (induction rule: transport_step.induct) (auto intro: reserve_ok settle_ok accept_ok forget_ok)

subsection \<open>The ledger refines the transport machine\<close>

lemma becomes_refl [simp]: "becomes a a" by (simp add: becomes_def same_identity_def)

lemma same_receipt_refl [simp]: "same_receipt r r" by (simp add: same_receipt_def)

lemma transport_idle: "transport_step L t t"
  by (cases t) (auto intro!: settle list_all2_refl)

lemma retire_becomes: "becomes a (retire_attempt at a)"
  by (auto simp: becomes_def same_identity_def retire_attempt_def Let_def split: AlertDeliveryAttemptClass.splits)

lemma recover_becomes: "unowned f a \<Longrightarrow> becomes a (recover_attempt d now a)"
  by (auto simp: becomes_def same_identity_def recover_attempt_def unowned_def Let_def split: option.splits)

lemma confirm_refusal_class:
  "confirm_refusal d mode a now = Some (c, t) \<Longrightarrow>
   c \<in> {AlertDeliveryAttemptInactive, AlertDeliveryAttemptRetired, AlertDeliveryAttemptModeSuppressed, AlertDeliveryAttemptRetry}"
  by (auto simp: confirm_refusal_def split: option.splits prod.splits if_splits)

lemma refused_becomes:
  assumes "confirm_refusal d mode a now = Some (c, t)" and "dat_Class a = AlertDeliveryAttemptReserved"
  shows "becomes a (refused_attempt c t now a)"
  using confirm_refusal_class [OF assms(1)] assms(2)
  by (auto simp: becomes_def same_identity_def refused_attempt_def Let_def split: option.splits)

lemma completed_identity: "same_identity a (completed_attempt d completion now a)"
  by (auto simp: same_identity_def completed_attempt_def Let_def split: AlertDeliveryCompletion.splits option.splits)

lemma completed_becomes:
  assumes "dat_Class a = AlertDeliveryAttemptConfirmed" and "completion \<in> {AlertDeliveryCompletionRetryable, AlertDeliveryCompletionRejected}"
  shows "becomes a (completed_attempt d completion now a)"
  using assms completed_identity [of a d completion now]
  by (auto simp: becomes_def completed_attempt_def Let_def split: option.splits)

lemma completed_accepted:
  "dat_Class (completed_attempt d AlertDeliveryCompletionAccepted now a) = AlertDeliveryAttemptAccepted"
  "dat_CompletedAt (completed_attempt d AlertDeliveryCompletionAccepted now a) = now"
  by (simp_all add: completed_attempt_def Let_def)

lemma update_becomes: "k < length as \<Longrightarrow> becomes (as ! k) b \<Longrightarrow> list_all2 becomes as (as[k := b])"
  by (auto simp: list_all2_conv_all_nth nth_list_update)

lemma latest_not_pinned:
  assumes "sorted_wrt (\<lambda>a b. dat_ReceiptKey a = dat_ReceiptKey b \<longrightarrow> \<not> pins (dat_Class a)) as"
    and latest: "find_first (\<lambda>a. dat_ReceiptKey a = key) (rev as) = latest"
    and free: "\<And>l. latest = Some l \<Longrightarrow> \<not> pins (dat_Class l)"
    and b: "b \<in> set as" "dat_ReceiptKey b = key"
  shows "\<not> pins (dat_Class b)"
  using assms
proof (induction as rule: rev_induct)
  case (snoc a as)
  show ?case
  proof (cases "dat_ReceiptKey a = key")
    case True
    with snoc.prems have "latest = Some a" by auto
    with snoc.prems True show ?thesis by (auto simp: sorted_wrt_append)
  next
    case False
    with snoc show ?thesis by (auto simp: sorted_wrt_append)
  qed
qed simp

lemma blocks_pins: "pins (dat_Class l) \<Longrightarrow> attempt_blocks l now"
  by (auto simp: pins_def attempt_blocks_def)

lemma confirmed_has_no_receipt:
  assumes ok: "transport_ok (as, rs)" and k: "k < length as" and conf: "dat_Class (as ! k) = AlertDeliveryAttemptConfirmed"
    and r: "r \<in> set rs"
  shows "rcp_ReceiptKey r \<noteq> dat_ReceiptKey (as ! k)"
proof
  assume eq: "rcp_ReceiptKey r = dat_ReceiptKey (as ! k)"
  obtain a where a: "a \<in> set as" "dat_Class a = AlertDeliveryAttemptAccepted" "receipt_matches a r" using ok r by (auto simp: transport_ok_def)
  then obtain i where i: "i < length as" "a = as ! i" by (auto simp: in_set_conv_nth)
  have "i = k"
    using last_pinned_unique [of as i k] ok i k a conf eq by (simp add: transport_ok_def pins_def receipt_matches_def)
  then show False using a i conf by simp
qed

lemma planned_refines:
  assumes "planned D s n" and "transport_ok (transport s)"
  shows "transport_step (dl_golib D) (transport s) (ad_Attempts n, ad_Receipts n)"
  using assms
proof (induction rule: planned.induct)
  case (reserves d scope latest occ target now number)
  let ?a = "reserved_attempt D scope occ target number now"
  have a: "dat_Class ?a = AlertDeliveryAttemptReserved" "dat_ReceiptKey ?a = alertDeliveryReceiptKey (dl_golib D) scope occ target"
    "dat_AuthorityScope ?a = scope" "dat_OccurrenceKey ?a = occ" "dat_TargetRef ?a = target"
    by (simp_all add: reserved_attempt_def Let_def)
  have "\<not> pins (dat_Class b)" if "b \<in> set (ad_Attempts d)" "dat_ReceiptKey b = dat_ReceiptKey ?a" for b
  proof (rule latest_not_pinned)
    show "find_first (\<lambda>a. dat_ReceiptKey a = dat_ReceiptKey ?a) (rev (ad_Attempts d)) = latest"
      using reserves(3) a(2) by (simp add: latestAlertDeliveryAttempt_def)
    show "\<not> pins (dat_Class l)" if "latest = Some l" for l
      using reserves(4) [OF that] blocks_pins by blast
  qed (use that reserves(1,7) in \<open>auto simp: transport_def prior_data_def transport_ok_def\<close>)
  then show ?case using a reserves(1) by (auto simp: transport_def prior_data_def intro!: transport_step.reserve)
next
  case (confirms d i k now)
  have "becomes (ad_Attempts d ! k) ((ad_Attempts d ! k)\<lparr>dat_Class := AlertDeliveryAttemptConfirmed\<rparr>)"
    using confirms(3) by (simp add: becomes_def same_identity_def)
  then show ?case using confirms(1) first_index_Some [OF confirms(2)]
    by (auto simp: transport_def prior_data_def intro!: settle update_becomes list_all2_refl)
next
  case (refuses d i k now c retiredAt occs scope occ)
  then show ?case using refused_becomes [OF refuses(4,3)] first_index_Some [OF refuses(2)]
    by (auto simp: transport_def prior_data_def intro!: settle update_becomes list_all2_refl)
next
  case (completes d i k completion fresh attempt now)
  have k: "k < length (ad_Attempts d)" using first_index_Some [OF completes(2)] by simp
  have ok: "transport_ok (ad_Attempts d, ad_Receipts d)" using completes(1,8) by (simp add: transport_def prior_data_def)
  note none = confirmed_has_no_receipt [OF ok k completes(3)]
  show ?case
  proof (cases "completion = AlertDeliveryCompletionAccepted")
    case True
    have fresh: fresh using True none completes(5) by (auto simp: alertDeliveryHasAnyReceipt_def)
    have key: "dat_ReceiptKey attempt = dat_ReceiptKey (ad_Attempts d ! k)"
      using completed_identity completes(7) by (auto simp: same_identity_def)
    have "transport_step (dl_golib D) (ad_Attempts d, ad_Receipts d) ((ad_Attempts d)[k := attempt], ad_Receipts d @ [receipt_of attempt now])"
      by (rule accept [OF k completes(3)])
        (use completes(7) True completed_identity completed_accepted none key in auto)
    then show ?thesis using completes(1) fresh by (simp add: transport_def prior_data_def)
  next
    case False
    then show ?thesis using completes(1,4,5) completed_becomes [OF completes(3), of completion d now] k completes(7)
      by (auto simp: transport_def prior_data_def intro!: settle update_becomes list_all2_refl)
  qed
next
  case (retires d targets at)
  then show ?case
    by (auto simp: transport_def prior_data_def retire_data_def list_all2_conv_all_nth retire_becomes same_receipt_def intro!: settle)
next
  case (recovers d d1 now d2)
  then show ?case
    by (auto simp: transport_def prior_data_def list_all2_conv_all_nth recover_becomes intro!: settle list_all2_refl)
next
  case (compacts d nxt now active r)
  define gone where "gone = set (map occurrence_key (filter (removable_occurrence (time_Add now (- alertDeliveryRetention)) (ad_AttentionReadThroughSeq d)) (ad_Occurrences d)))"
  have "ad_Attempts (compacted (time_Add now (- alertDeliveryRetention)) active (cloneAlertDeliveryData d)) =
      filter (\<lambda>a. alertDeliveryScopedKey (dat_AuthorityScope a) (dat_OccurrenceKey a) \<notin> gone) (ad_Attempts d)"
    "ad_Receipts (compacted (time_Add now (- alertDeliveryRetention)) active (cloneAlertDeliveryData d)) =
      filter (\<lambda>r. alertDeliveryScopedKey (rcp_AuthorityScope r) (rcp_OccurrenceKey r) \<notin> gone) (ad_Receipts d)"
    by (simp_all add: compacted_def compact_scopes_def compact_episodes_def compact_targets_def compact_evidence_def Let_def gone_def)
  with forget [of "dl_golib D" "ad_Attempts d" "ad_Receipts d" "\<lambda>scope occ. alertDeliveryScopedKey scope occ \<notin> gone"]
  show ?case using compacts(1,2) by (simp add: transport_def prior_data_def)
next
  case (observes snap d0 d1 m d2 d3)
  then show ?case using observed_frame [OF observes(2,3,5,6)] transport_idle by (simp add: intake_frame_def transport_def)
qed (auto simp: transport_def prior_data_def transport_idle split: option.splits)

lemma run_op_refines:
  assumes "transport_ok (transport s)"
  shows "transport_step (dl_golib D) (transport s) (transport (run_op D saveErr op s))"
proof -
  from run_op_settled [of D saveErr s op] consider "al_data (run_op D saveErr op s) = al_data s"
    | n m where "planned D s n" "bumpAlertDeliveryGenerationLocked s n = Inr m" "al_data (run_op D saveErr op s) = Some m"
    by (auto simp: settled_def kept_def advanced_def)
  then show ?thesis
  proof cases
    case 1
    then show ?thesis by (simp add: transport_def prior_data_def transport_idle)
  next
    case (2 n m)
    then have "transport (run_op D saveErr op s) = (ad_Attempts n, ad_Receipts n)"
      by (auto simp: transport_def prior_data_def dest!: bump_shape)
    then show ?thesis using planned_refines [OF 2(1) assms] by simp
  qed
qed

interpretation transport_sim: op_simulation "\<lambda>(saveErr, op). run_op D saveErr op" transport "transport_step (dl_golib D)" transport_ok for D
  by unfold_locales (auto intro: r_into_rtranclp run_op_refines transport_step_ok)

lemma run_ops_refine:
  assumes "transport_ok (transport s)"
  shows "(transport_step (dl_golib D))\<^sup>*\<^sup>* (transport s) (transport (run_ops D ops s)) \<and> transport_ok (transport (run_ops D ops s))"
  using transport_sim.run_simulates [OF assms] by (simp add: run_ops_fold)

subsection \<open>A loaded ledger\<close>

text \<open>Receipt keys are digests; \<open>keys_apart\<close> says that those in the ledger do not collide: a receipt with an
  attempt's key is for that attempt's occurrence.\<close>

definition keys_apart :: "AlertLedger \<Rightarrow> bool" where
  "keys_apart s \<longleftrightarrow> (\<forall>a\<in>set (ad_Attempts (prior_data s)). \<forall>r\<in>set (ad_Receipts (prior_data s)).
     rcp_ReceiptKey r = dat_ReceiptKey a \<longrightarrow> receipt_matches a r)"

lemma validated_chain:
  "validate_attempts D d passed as = None \<Longrightarrow>
   sorted_wrt (\<lambda>a b. dat_ReceiptKey a = dat_ReceiptKey b \<longrightarrow> \<not> pins (dat_Class a)) (rev passed) \<Longrightarrow>
   sorted_wrt (\<lambda>a b. dat_ReceiptKey a = dat_ReceiptKey b \<longrightarrow> \<not> pins (dat_Class a)) (rev passed @ as)"
proof (induction as arbitrary: passed)
  case (Cons a as)
  have v: "validate_attempt D d passed a = None" and vs: "validate_attempts D d (a # passed) as = None"
    using Cons.prems(1) by (auto split: option.splits)
  have free: "\<not> pins (dat_Class l)" if "previous_attempt passed (dat_ReceiptKey a) = Some l" for l
    using v that by (auto simp: validate_attempt_def Let_def validAlertDeliveryAttemptTransition_def pins_def split: if_splits)
  have "\<not> pins (dat_Class b)" if "b \<in> set passed" "dat_ReceiptKey b = dat_ReceiptKey a" for b
    by (rule latest_not_pinned [OF Cons.prems(2), of "dat_ReceiptKey a" "previous_attempt passed (dat_ReceiptKey a)"])
      (use that free in \<open>auto simp: previous_attempt_def\<close>)
  then have "sorted_wrt (\<lambda>a b. dat_ReceiptKey a = dat_ReceiptKey b \<longrightarrow> \<not> pins (dat_Class a)) (rev (a # passed))"
    using Cons.prems(2) by (auto simp: sorted_wrt_append)
  from Cons.IH [OF vs this] show ?case by simp
qed simp

lemma validated_receipts:
  "validate_receipts D d passed rs = None \<Longrightarrow> distinct (map rcp_ReceiptKey passed) \<Longrightarrow>
   distinct (map rcp_ReceiptKey (rev passed @ rs)) \<and>
   (\<forall>r\<in>set rs. \<exists>l. latestAlertDeliveryAttempt d (rcp_ReceiptKey r) = Some l \<and> dat_Class l = AlertDeliveryAttemptAccepted)"
proof (induction rs arbitrary: passed)
  case (Cons r rs)
  have v: "validate_receipt D d passed r = None" and vs: "validate_receipts D d (r # passed) rs = None"
    using Cons.prems(1) by (auto split: option.splits)
  have r: "rcp_ReceiptKey r \<notin> rcp_ReceiptKey ` set passed"
    "\<exists>l. latestAlertDeliveryAttempt d (rcp_ReceiptKey r) = Some l \<and> dat_Class l = AlertDeliveryAttemptAccepted"
    using v by (auto simp: validate_receipt_def Let_def split: option.splits)
  then have "distinct (map rcp_ReceiptKey (r # passed))" using Cons.prems(2) by simp
  from Cons.IH [OF vs this] r show ?case by (auto simp: rev_map [symmetric])
qed (simp add: rev_map [symmetric])

lemma loaded_transport_ok:
  assumes "validateAlertDeliveryState D s = None" and apart: "keys_apart s"
  shows "transport_ok (transport s)"
proof (cases "al_data s")
  case None
  then show ?thesis by (simp add: transport_def prior_data_def transport_ok_def)
next
  case (Some d)
  have va: "validate_attempts D d [] (ad_Attempts d) = None" and vr: "validate_receipts D d [] (ad_Receipts d) = None"
    and lacks: "\<not> (\<exists>a\<in>set (ad_Attempts d). dat_Class a = AlertDeliveryAttemptAccepted \<and> dat_ReceiptKey a \<notin> rcp_ReceiptKey ` set (ad_Receipts d))"
    using assms(1) Some unfolding validateAlertDeliveryState_def validate_data_def Let_def by (simp_all only: option.case first_refusal_Cons_None reject_if_None simp_thms)
  have match: "receipt_matches a r" if "a \<in> set (ad_Attempts d)" "r \<in> set (ad_Receipts d)" "rcp_ReceiptKey r = dat_ReceiptKey a" for a r
    using apart Some that by (simp add: keys_apart_def prior_data_def)
  have latest: "\<exists>a\<in>set (ad_Attempts d). dat_Class a = AlertDeliveryAttemptAccepted \<and> dat_ReceiptKey a = rcp_ReceiptKey r" if "r \<in> set (ad_Receipts d)" for r
    using validated_receipts [OF vr] that by (fastforce simp: latestAlertDeliveryAttempt_def dest: find_first_Some)
  show ?thesis
    unfolding transport_ok_def transport_def prior_data_def Some option.case prod.case
    using validated_chain [OF va] validated_receipts [OF vr] lacks match latest by (auto simp: image_iff) (metis match)+
qed


lemma sample_apart: "keys_apart sample_open" "keys_apart sample_reserved" "keys_apart sample_accepted"
  by code_simp+

subsection \<open>Transport properties\<close>

text \<open>C8. Refinement: the attempts and receipts of the ledger move only along the abstract transport
  machine, over every run of operations from a ledger that loads.\<close>

theorem ledger_refines_transport:
  assumes "validateAlertDeliveryState D s = None" and "keys_apart s"
  shows "(transport_step (dl_golib D))\<^sup>*\<^sup>* (transport s) (transport (run_ops D ops s))"
  using run_ops_refine [OF loaded_transport_ok [OF assms]] by blast

theorem ledger_refines_transport_witness:
  "(transport_step demo_lib)\<^sup>*\<^sup>* (transport sample_accepted) (transport (run_op sample_lib None (Retire sample_target (Instant 240)) sample_accepted))"
proof -
  have "dl_golib sample_lib = demo_lib" by (simp add: sample_lib_def)
  then show ?thesis
    using ledger_refines_transport [OF sample_valid(3) sample_apart(3), of "[(None, Retire sample_target (Instant 240))]"] by simp
qed

lemma sorted_wrt_distinct: "sorted_wrt (\<lambda>a b. f a \<noteq> f b) xs \<Longrightarrow> distinct (map f xs)"
  by (induction xs) auto

text \<open>C2. An occurrence is accepted for a target at most once: over every run of operations from a
  ledger that loads, accepted attempts have distinct receipt keys, receipts have distinct keys, and
  the two sets of keys are the same.\<close>

theorem accepted_at_most_once:
  assumes "validateAlertDeliveryState D s = None" and "keys_apart s" and "al_data (run_ops D ops s) = Some d"
  shows "distinct (map dat_ReceiptKey (filter (\<lambda>a. dat_Class a = AlertDeliveryAttemptAccepted) (ad_Attempts d))) \<and>
    distinct (map rcp_ReceiptKey (ad_Receipts d)) \<and>
    dat_ReceiptKey ` {a \<in> set (ad_Attempts d). dat_Class a = AlertDeliveryAttemptAccepted} = rcp_ReceiptKey ` set (ad_Receipts d)"
proof -
  have ok: "transport_ok (ad_Attempts d, ad_Receipts d)"
    using run_ops_refine [OF loaded_transport_ok [OF assms(1,2)], of D ops] assms(3) by (simp add: transport_def prior_data_def)
  let ?acc = "filter (\<lambda>a. dat_Class a = AlertDeliveryAttemptAccepted) (ad_Attempts d)"
  have "sorted_wrt (\<lambda>a b. dat_ReceiptKey a = dat_ReceiptKey b \<longrightarrow> \<not> pins (dat_Class a)) ?acc"
    using ok by (simp add: transport_ok_def sorted_wrt_filter)
  then have "sorted_wrt (\<lambda>a b. dat_ReceiptKey a \<noteq> dat_ReceiptKey b) ?acc"
    by (rule sorted_wrt_mono_rel [rotated]) (auto simp: pins_def)
  then have "distinct (map dat_ReceiptKey ?acc)" by (rule sorted_wrt_distinct)
  moreover have "dat_ReceiptKey a \<in> rcp_ReceiptKey ` set (ad_Receipts d)" if "a \<in> set (ad_Attempts d)" "dat_Class a = AlertDeliveryAttemptAccepted" for a
    using ok that unfolding transport_ok_def prod.case receipt_matches_def by (metis imageI)
  moreover have "rcp_ReceiptKey r \<in> dat_ReceiptKey ` {a \<in> set (ad_Attempts d). dat_Class a = AlertDeliveryAttemptAccepted}" if "r \<in> set (ad_Receipts d)" for r
    using ok that by (fastforce simp: transport_ok_def receipt_matches_def)
  ultimately show ?thesis using ok by (auto simp: transport_ok_def)
qed

theorem accepted_at_most_once_witness:
  "length (ad_Receipts (prior_data sample_accepted)) = 1 \<and> distinct (map rcp_ReceiptKey (ad_Receipts (prior_data sample_accepted)))"
proof -
  have "al_data (run_ops sample_lib [] sample_accepted) = Some (prior_data sample_accepted)" by code_simp
  then have "distinct (map rcp_ReceiptKey (ad_Receipts (prior_data sample_accepted)))"
    using accepted_at_most_once [OF sample_valid(3) sample_apart(3)] by blast
  moreover have "length (ad_Receipts (prior_data sample_accepted)) = 1" by code_simp
  ultimately show ?thesis by simp
qed

text \<open>A granted reservation, and the attempt it wrote.\<close>

lemma begin_granted:
  assumes "BeginAlertDelivery D saveErr occurrenceKey targetRef now s = (s', Inr (rv, True))"
  obtains d occ e number where "al_data s = Some d"
    and "findAlertDeliveryOccurrence d (snap_AuthorityScope (ad_Snapshot d)) occurrenceKey = Some (occ, e)"
    and "alertDeliveryOccurrenceCurrent d occ e"
    and "alertDeliveryOccurrenceDispatchable d occ (alertCandidateFromOccurrence occ) (al_mode s) now"
    and "map_of (ad_RetiredTargets d) targetRef = None"
    and "\<And>l. latestAlertDeliveryAttempt d (alertDeliveryReceiptKey (dl_golib D) (snap_AuthorityScope (ad_Snapshot d)) occurrenceKey targetRef) = Some l \<Longrightarrow> \<not> attempt_blocks l now"
    and "advanced s s' (recomputeAlertDeliveryHealthLocked now ((cloneAlertDeliveryData d)\<lparr>ad_Attempts := ad_Attempts d @
      [reserved_attempt D (snap_AuthorityScope (ad_Snapshot d)) occurrenceKey targetRef number now]\<rparr>))"
    and "rv_AttemptID rv \<in> set (al_inFlight s')"
    and "rv_AttemptID rv = dat_ID (reserved_attempt D (snap_AuthorityScope (ad_Snapshot d)) occurrenceKey targetRef number now)"
proof (cases "al_data s")
  case None
  then show ?thesis using assms by (auto simp: BeginAlertDelivery_def Let_def split: if_splits)
next
  case (Some d)
  let ?s = "initAlertDeliveryRuntime s"
  let ?scope = "snap_AuthorityScope (ad_Snapshot d)"
  obtain occ e where f: "findAlertDeliveryOccurrence d ?scope occurrenceKey = Some (occ, e)"
    using assms Some by (cases "findAlertDeliveryOccurrence d ?scope occurrenceKey") (auto simp: BeginAlertDelivery_def Let_def split: if_splits)
  let ?latest = "latestAlertDeliveryAttempt d (alertDeliveryReceiptKey (dl_golib D) ?scope occurrenceKey targetRef)"
  let ?number = "case ?latest of None \<Rightarrow> 1 | Some l \<Rightarrow> dat_AttemptNumber l + 1"
  let ?a = "reserved_attempt D ?scope occurrenceKey targetRef ?number now"
  obtain s2 r where c: "commit_ledger saveErr now (recomputeAlertDeliveryHealthLocked now ((cloneAlertDeliveryData d)\<lparr>ad_Attempts := ad_Attempts d @ [?a]\<rparr>)) ?s = (s2, r)"
    by fastforce
  from assms Some f c have g: "alertDeliveryOccurrenceCurrent d occ e"
    "alertDeliveryOccurrenceDispatchable d occ (alertCandidateFromOccurrence occ) (al_mode s) now"
    "map_of (ad_RetiredTargets d) targetRef = None" "\<not> (case ?latest of None \<Rightarrow> False | Some l \<Rightarrow> attempt_blocks l now)"
    "r = None" "s' = s2\<lparr>al_inFlight := List.insert (dat_ID ?a) (al_inFlight s2)\<rparr>" "rv = alertDeliveryReservationView ?a (occ_DisplayID occ)"
    by (auto simp: BeginAlertDelivery_def Let_def split: if_splits option.splits prod.splits)
  show ?thesis
  proof (rule that [OF Some f g(1-3), of ?number])
    show "\<not> attempt_blocks l now" if "?latest = Some l" for l using g(4) that by simp
    show "advanced s s' (recomputeAlertDeliveryHealthLocked now ((cloneAlertDeliveryData d)\<lparr>ad_Attempts := ad_Attempts d @ [?a]\<rparr>))"
      using commit_outcome [OF c] g(5,6) by (simp add: advanced_def)
    show "rv_AttemptID rv \<in> set (al_inFlight s')" "rv_AttemptID rv = dat_ID ?a"
      using g(6,7) by (simp_all add: alertDeliveryReservationView_def)
  qed
qed


text \<open>C17. A granted reservation is exclusive and durable: after any run of operations from a ledger that
  loads, no attempt with the receipt key of a newly granted reservation was reserved, confirmed, accepted
  or otherwise final, no receipt has that key, and the new attempt is in the data that was written.\<close>

theorem reservation_is_exclusive:
  assumes "validateAlertDeliveryState D s0 = None" and "keys_apart s0"
    and "BeginAlertDelivery D saveErr occurrenceKey targetRef now (run_ops D ops s0) = (s', Inr (rv, True))"
  shows "\<exists>d key. al_data (run_ops D ops s0) = Some d \<and>
    key = alertDeliveryReceiptKey (dl_golib D) (snap_AuthorityScope (ad_Snapshot d)) occurrenceKey targetRef \<and>
    (\<forall>a\<in>set (ad_Attempts d). dat_ReceiptKey a = key \<longrightarrow> \<not> pins (dat_Class a)) \<and> \<not> alertDeliveryHasAnyReceipt d key \<and>
    (\<exists>d'. al_saved s' = Some d' \<and> (\<exists>a\<in>set (ad_Attempts d'). dat_ID a = rv_AttemptID rv \<and> dat_ReceiptKey a = key \<and>
       dat_Class a = AlertDeliveryAttemptReserved \<and> dat_ReservedAt a = now))"
  using assms(3)
proof (rule begin_granted)
  fix d :: alertDeliveryData and occ e number
  let ?scope = "snap_AuthorityScope (ad_Snapshot d)"
  let ?key = "alertDeliveryReceiptKey (dl_golib D) ?scope occurrenceKey targetRef"
  let ?a = "reserved_attempt D ?scope occurrenceKey targetRef number now"
  assume d: "al_data (run_ops D ops s0) = Some d"
    and free: "\<And>l. latestAlertDeliveryAttempt d ?key = Some l \<Longrightarrow> \<not> attempt_blocks l now"
    and adv: "advanced (run_ops D ops s0) s' (recomputeAlertDeliveryHealthLocked now ((cloneAlertDeliveryData d)\<lparr>ad_Attempts := ad_Attempts d @ [?a]\<rparr>))"
    and rv: "rv_AttemptID rv = dat_ID ?a"
  have ok: "transport_ok (ad_Attempts d, ad_Receipts d)"
    using run_ops_refine [OF loaded_transport_ok [OF assms(1,2)], of D ops] d by (simp add: transport_def prior_data_def)
  have none: "\<not> pins (dat_Class a)" if "a \<in> set (ad_Attempts d)" "dat_ReceiptKey a = ?key" for a
    by (rule latest_not_pinned [where key = ?key and latest = "latestAlertDeliveryAttempt d ?key"])
      (use ok that free blocks_pins in \<open>auto simp: transport_ok_def latestAlertDeliveryAttempt_def\<close>)
  have "\<not> alertDeliveryHasAnyReceipt d ?key"
  proof
    assume "alertDeliveryHasAnyReceipt d ?key"
    then obtain a where "a \<in> set (ad_Attempts d)" "dat_Class a = AlertDeliveryAttemptAccepted" "dat_ReceiptKey a = ?key"
      using ok by (fastforce simp: transport_ok_def alertDeliveryHasAnyReceipt_def receipt_matches_def)
    with none show False by (auto simp: pins_def)
  qed
  moreover obtain d' where d': "al_saved s' = Some d'" "?a \<in> set (ad_Attempts d')"
    using adv by (auto simp: advanced_def dest!: bump_shape)
  have "dat_ReceiptKey ?a = ?key \<and> dat_Class ?a = AlertDeliveryAttemptReserved \<and> dat_ReservedAt ?a = now"
    by (simp add: reserved_attempt_def Let_def)
  with d' rv have "\<exists>d'. al_saved s' = Some d' \<and> (\<exists>a\<in>set (ad_Attempts d'). dat_ID a = rv_AttemptID rv \<and> dat_ReceiptKey a = ?key \<and>
       dat_Class a = AlertDeliveryAttemptReserved \<and> dat_ReservedAt a = now)" by metis
  ultimately show ?thesis using d none by blast
qed

theorem reservation_is_exclusive_witness:
  "al_saved sample_reserved \<noteq> None \<and> \<not> alertDeliveryHasAnyReceipt (prior_data sample_open) (alertDeliveryReceiptKey demo_lib demo_scope sample_key sample_target)"
proof -
  have run: "run_ops sample_lib [] sample_open = sample_open" "al_data sample_open = Some (prior_data sample_open)"
    "snap_AuthorityScope (ad_Snapshot (prior_data sample_open)) = demo_scope" "dl_golib sample_lib = demo_lib"
    by (simp_all add: sample_open_def sample_state_def sample_data_def sample_snapshot_def prior_data_def sample_lib_def)
  show ?thesis
    using reservation_is_exclusive [OF sample_valid(1) sample_apart(1), of None sample_key sample_target "Instant 210" "[]"] sample_run(2) run by fastforce
qed

text \<open>C7. Transport is granted only on current authority: when \<^verbatim>\<open>ConfirmAlertTransport\<close> returns true, the
  attempt was reserved and owned by this process, its occurrence is current and dispatchable under the
  present mode and evidence, its target is not retired, the candidate handed to the sender is that
  occurrence, and the confirmation is in the data that was written.\<close>

theorem transport_needs_authority:
  assumes "ConfirmAlertTransport saveErr attemptID now s = (s', Inr (rv, True))"
  shows "\<exists>d k occ e. al_data s = Some d \<and> first_index (\<lambda>a. dat_ID a = attemptID) (ad_Attempts d) = Some k \<and>
    dat_Class (ad_Attempts d ! k) = AlertDeliveryAttemptReserved \<and> \<not> now < dat_ReservedAt (ad_Attempts d ! k) \<and>
    attemptID \<in> set (al_inFlight s) \<and> \<not> al_quarantined s \<and> al_volatile s = None \<and>
    findAlertDeliveryOccurrence d (dat_AuthorityScope (ad_Attempts d ! k)) (dat_OccurrenceKey (ad_Attempts d ! k)) = Some (occ, e) \<and>
    alertDeliveryOccurrenceCurrent d occ e \<and> IsZero (time_at (ad_RetiredTargets d) (dat_TargetRef (ad_Attempts d ! k))) \<and>
    alertModeAllowsSeverity (al_mode s) (occ_Severity occ) \<and>
    alertDeliveryOccurrenceDispatchable d occ (alertCandidateFromOccurrence occ) (al_mode s) now \<and>
    rv_Candidate rv = Some (alertCandidateFromOccurrence occ) \<and>
    (\<exists>d'. al_saved s' = Some d' \<and> ad_Attempts d' = (ad_Attempts d)[k := (ad_Attempts d ! k)\<lparr>dat_Class := AlertDeliveryAttemptConfirmed\<rparr>])"
proof -
  obtain d where d: "al_data s = Some d" using assms by (cases "al_data s") (auto simp: ConfirmAlertTransport_def Let_def split: if_splits)
  obtain k where k: "first_index (\<lambda>a. dat_ID a = attemptID) (ad_Attempts d) = Some k"
    using assms d by (cases "first_index (\<lambda>a. dat_ID a = attemptID) (ad_Attempts d)") (auto simp: ConfirmAlertTransport_def Let_def split: if_splits)
  let ?a = "ad_Attempts d ! k"
  let ?s = "initAlertDeliveryRuntime s"
  have none: "confirm_refusal d (al_mode s) ?a now = None"
    using assms d k by (cases "confirm_refusal d (al_mode s) ?a now") (auto simp: ConfirmAlertTransport_def Let_def split: if_splits option.splits prod.splits)
  then obtain occ e where f: "findAlertDeliveryOccurrence d (dat_AuthorityScope ?a) (dat_OccurrenceKey ?a) = Some (occ, e)"
    and g: "alertDeliveryOccurrenceCurrent d occ e" "IsZero (time_at (ad_RetiredTargets d) (dat_TargetRef ?a))"
      "alertModeAllowsSeverity (al_mode s) (occ_Severity occ)"
      "alertDeliveryOccurrenceDispatchable d occ (alertCandidateFromOccurrence occ) (al_mode s) now"
    by (auto simp: confirm_refusal_def split: option.splits prod.splits if_splits)
  let ?n = "recomputeAlertDeliveryHealthLocked now ((cloneAlertDeliveryData d)\<lparr>ad_Attempts := (ad_Attempts d)[k := ?a\<lparr>dat_Class := AlertDeliveryAttemptConfirmed\<rparr>]\<rparr>)"
  obtain s2 r where c: "commit_ledger saveErr now ?n ?s = (s2, r)" by fastforce
  have h: "dat_Class ?a = AlertDeliveryAttemptReserved" "\<not> now < dat_ReservedAt ?a" "attemptID \<in> set (al_inFlight s)" "\<not> al_quarantined s" "al_volatile s = None"
    "r = None" "s' = s2" "rv_Candidate rv = Some (alertCandidateFromOccurrence occ)"
    using assms d k none f c by (auto simp: ConfirmAlertTransport_def Let_def split: if_splits option.splits)
  have "\<exists>d'. al_saved s' = Some d' \<and> ad_Attempts d' = (ad_Attempts d)[k := ?a\<lparr>dat_Class := AlertDeliveryAttemptConfirmed\<rparr>]"
    using commit_outcome [OF c] h(6,7) by (auto simp: advanced_def dest!: bump_shape)
  with d k f g h show ?thesis by metis
qed

theorem transport_needs_authority_witness:
  "\<exists>d. al_data sample_reserved = Some d \<and> al_saved sample_confirmed \<noteq> al_saved sample_reserved \<and> sample_attempt_id \<in> set (al_inFlight sample_reserved)"
proof -
  have "al_saved sample_confirmed \<noteq> al_saved sample_reserved"
    by (simp add: sample_confirmed_def sample_reserved_def sample_state_def sample_data_def)
  then show ?thesis using transport_needs_authority [OF sample_run(3)] by blast
qed


theorem ledger_is_durable_witness:
  "al_data (run_ops sample_lib [(Some (New ''disk full''), Begin sample_key sample_target (Instant 210))] sample_open) = al_data sample_open"
proof -
  have "al_data sample_open = al_saved sample_open" by (simp add: sample_open_def sample_state_def)
  from ledger_is_durable [OF this, of sample_lib "[(Some (New ''disk full''), Begin sample_key sample_target (Instant 210))]"]
  show ?thesis by auto
qed

end
