(* ===== verification/Delivery_Attention.thy ===== *)
theory Delivery_Attention
  imports Delivery_Transport
begin

text \<open>
  The occurrences of the delivery ledger and its attention cursor, over every run of operations. The
  abstract machine \<open>attention_step\<close> changes an occurrence without touching its identity or taking
  back its end, adds one under the next sequence number, forgets read ones, or moves the read cursor;
  the ledger refines it. Hence the unread occurrences are always numbered without a gap, every cursor up
  to the high-water mark can be read, and an occurrence that ended never becomes active again.
\<close>

subsection \<open>The attention machine\<close>

type_synonym attention = "alertDeliveryOccurrence list \<times> 64 word \<times> 64 word"

definition attention_of :: "alertDeliveryData \<Rightarrow> attention" where
  "attention_of d = (ad_Occurrences d, ad_AttentionReadThroughSeq d, ad_AttentionHighWaterSeq d)"

definition evolves :: "alertDeliveryOccurrence \<Rightarrow> alertDeliveryOccurrence \<Rightarrow> bool" where
  "evolves occ occ' \<longleftrightarrow> occurrence_key occ' = occurrence_key occ \<and> occ_EpisodeKey occ' = occ_EpisodeKey occ \<and> occ_DisplayID occ' = occ_DisplayID occ \<and>
     occ_Source occ' = occ_Source occ \<and> occ_Kind occ' = occ_Kind occ \<and> occ_FirstSeenAt occ' = occ_FirstSeenAt occ \<and>
     occ_AttentionSeq occ' = occ_AttentionSeq occ \<and> (\<not> IsZero (occ_EndedAt occ) \<longrightarrow> \<not> IsZero (occ_EndedAt occ'))"

inductive attention_step :: "attention \<Rightarrow> attention \<Rightarrow> bool" where
  change: "j < length occs \<Longrightarrow> evolves (occs ! j) occ \<Longrightarrow> attention_step (occs, r, h) (occs[j := occ], r, h)"
| add: "h \<noteq> - 1 \<Longrightarrow> occ_AttentionSeq occ = h + 1 \<Longrightarrow> IsZero (occ_EndedAt occ) \<Longrightarrow> attention_step (occs, r, h) (occs @ [occ], r, h + 1)"
| drop_read: "(\<And>occ. occ \<in> set occs \<Longrightarrow> \<not> P occ \<Longrightarrow> occ_AttentionSeq occ \<le> r) \<Longrightarrow> attention_step (occs, r, h) (filter P occs, r, h)"
| read: "r \<le> q \<Longrightarrow> q \<le> h \<Longrightarrow> attention_step (occs, r, h) (occs, q, h)"

text \<open>The numbers handed out and not yet read belong to exactly one occurrence each.\<close>

definition unread_numbers :: "attention \<Rightarrow> 64 word list" where
  "unread_numbers = (\<lambda>(occs, r, h). filter (\<lambda>q. r < q) (map occ_AttentionSeq occs))"

definition attention_ok :: "attention \<Rightarrow> bool" where
  "attention_ok t = (case t of (occs, r, h) \<Rightarrow> r \<le> h \<and> distinct (unread_numbers t) \<and> set (unread_numbers t) = {q. r < q \<and> q \<le> h})"

lemma word_Suc_greater: "h \<noteq> - 1 \<Longrightarrow> (q \<le> h + 1) = (q \<le> h \<or> q = h + (1 :: 64 word))" and word_less_Suc: "h \<noteq> - 1 \<Longrightarrow> h < h + (1 :: 64 word)"
proof -
  assume "h \<noteq> - 1"
  then have "1 + h \<noteq> 0" by (metis add_eq_0_iff2 add.commute)
  then have u: "unat (h + 1) = Suc (unat h)" using unatSuc [of h] by (simp add: add.commute)
  then show "h < h + 1" by (simp add: word_less_nat_alt)
  have "q = h + 1 \<longleftrightarrow> unat q = unat (h + 1)" by (rule word_unat_eq_iff)
  then show "(q \<le> h + 1) = (q \<le> h \<or> q = h + 1)" using u by (auto simp: word_le_nat_alt)
qed

lemma attention_step_ok: "attention_step t t' \<Longrightarrow> attention_ok t \<Longrightarrow> attention_ok t'"
proof (induction rule: attention_step.induct)
  case (change j occs occ r h)
  have "map occ_AttentionSeq (occs[j := occ]) = map occ_AttentionSeq occs"
    using change(1,2) by (simp add: map_update evolves_def) (metis list_update_id nth_map)
  then show ?case using change(3) by (simp add: attention_ok_def unread_numbers_def)
next
  case (add h occ occs r)
  have r: "r \<le> h" using add(4) by (simp add: attention_ok_def)
  with word_less_Suc [OF add(1)] have new: "r < h + 1" by simp
  have "\<And>q. q \<le> h \<Longrightarrow> q \<noteq> h + 1" using word_less_Suc [OF add(1)] by auto
  then show ?case using add(2,4) new r
    by (auto simp: attention_ok_def unread_numbers_def word_Suc_greater [OF add(1)])
next
  case (drop_read occs P r h)
  have "filter (\<lambda>q. r < q) (map occ_AttentionSeq (filter P occs)) = filter (\<lambda>q. r < q) (map occ_AttentionSeq occs)"
    using drop_read(1) by (induction occs) (auto simp: not_less)
  then show ?case using drop_read(2) by (simp add: attention_ok_def unread_numbers_def)
next
  case (read r q h occs)
  have eq: "filter (\<lambda>x. q < x) (map occ_AttentionSeq occs) = filter (\<lambda>x. q < x) (filter (\<lambda>x. r < x) (map occ_AttentionSeq occs))"
    using read(1) by (auto simp: filter_filter intro!: filter_cong)
  show ?case using read unfolding attention_ok_def unread_numbers_def prod.case eq
    by (auto simp del: filter_filter intro: order.strict_trans1)
qed

text \<open>What an occurrence of a later state was: one that could only change that way, or a newer number.\<close>

definition descends :: "attention \<Rightarrow> attention \<Rightarrow> bool" where
  "descends = (\<lambda>(occs, r, h) (occs', r', h'). h \<le> h' \<and> r \<le> r' \<and>
     (\<forall>o'\<in>set occs'. (\<exists>occ\<in>set occs. evolves occ o') \<or> h < occ_AttentionSeq o'))"

lemma evolves_refl [simp]: "evolves x x" by (simp add: evolves_def)

lemma evolves_trans: "evolves x y \<Longrightarrow> evolves y z \<Longrightarrow> evolves x z" by (simp add: evolves_def)

lemma attention_step_descends: "attention_step t t' \<Longrightarrow> descends t t'"
proof (induction rule: attention_step.induct)
  case (change j occs occ r h)
  have "\<exists>x\<in>set occs. evolves x y" if "y \<in> set (occs[j := occ])" for y
    using that set_update_subset_insert [of occs j occ] nth_mem [OF change(1)] change(2) evolves_refl by blast
  then show ?case by (auto simp: descends_def)
next
  case (add h occ occs r)
  then show ?case using word_less_Suc [OF add(1)] by (auto simp: descends_def intro: evolves_refl)
qed (auto simp: descends_def intro: evolves_refl)

lemma descends_trans: "descends t u \<Longrightarrow> descends u v \<Longrightarrow> descends t v"
proof -
  assume tu: "descends t u" and uv: "descends u v"
  obtain o1 r1 h1 o2 r2 h2 o3 r3 h3 where e: "t = (o1, r1, h1)" "u = (o2, r2, h2)" "v = (o3, r3, h3)" by (metis prod_cases3)
  have "(\<exists>x\<in>set o1. evolves x z) \<or> h1 < occ_AttentionSeq z" if "z \<in> set o3" for z
  proof -
    from uv that e consider y where "y \<in> set o2" "evolves y z" | "h2 < occ_AttentionSeq z" by (auto simp: descends_def)
    then show ?thesis
    proof cases
      case (1 y)
      with tu e consider x where "x \<in> set o1" "evolves x y" | "h1 < occ_AttentionSeq y" by (auto simp: descends_def)
      then show ?thesis using 1(2) evolves_trans by cases (blast, simp add: evolves_def)
    next
      case 2
      then show ?thesis using tu e by (auto simp: descends_def)
    qed
  qed
  then show ?thesis using tu uv e by (auto simp: descends_def)
qed

lemma attention_steps_descend: "attention_step\<^sup>*\<^sup>* t t' \<Longrightarrow> descends t t'"
proof (induction rule: rtranclp_induct)
  case base
  then show ?case by (auto simp: descends_def intro: evolves_refl split: prod.splits)
next
  case (step y z)
  then show ?case using attention_step_descends descends_trans by blast
qed

subsection \<open>The ledger refines the attention machine\<close>

text \<open>Intake reaches its result by changing and adding occurrences.\<close>

definition attends :: "alertDeliveryData \<Rightarrow> alertDeliveryData \<Rightarrow> bool" where
  "attends d d' \<longleftrightarrow> attention_step\<^sup>*\<^sup>* (attention_of d) (attention_of d')"

lemma attends_refl [simp]: "attends d d" by (simp add: attends_def)

lemma attends_trans: "attends d e \<Longrightarrow> attends e f \<Longrightarrow> attends d f" by (simp add: attends_def)

lemma attends_same: "attention_of d' = attention_of d \<Longrightarrow> attends d d'" by (simp add: attends_def)

lemma attends_change:
  assumes "j < length (ad_Occurrences d)" and "evolves (ad_Occurrences d ! j) occ" and "attention_of d' = attention_of (d\<lparr>ad_Occurrences := (ad_Occurrences d)[j := occ]\<rparr>)"
  shows "attends d d'"
  using change [OF assms(1,2)] assms(3) by (simp add: attends_def attention_of_def r_into_rtranclp)

lemma new_occurrence_fields:
  assumes "newAlertDeliveryOccurrenceLocked L mode m scope c d = Inr (d', occ)"
  shows "ad_AttentionHighWaterSeq d \<noteq> - 1" "d' = d\<lparr>ad_AttentionHighWaterSeq := ad_AttentionHighWaterSeq d + 1\<rparr>"
    "occ_AttentionSeq occ = ad_AttentionHighWaterSeq d + 1" "IsZero (occ_EndedAt occ)"
  using assms by (auto simp: newAlertDeliveryOccurrenceLocked_def Let_def split: if_splits)

lemma attends_add:
  assumes n: "newAlertDeliveryOccurrenceLocked L mode m scope c d = Inr (d1, occ)"
    and "attention_of d' = attention_of (d1\<lparr>ad_Occurrences := ad_Occurrences d1 @ [occ]\<rparr>)"
  shows "attends d d'"
  using add [OF new_occurrence_fields(1,3,4) [OF n], of "ad_Occurrences d" "ad_AttentionReadThroughSeq d"] new_occurrence_fields(2) [OF n] assms(2)
  by (simp add: attends_def attention_of_def r_into_rtranclp)

lemma first_sighting_attends: "first_sighting L mode m scope c d = Inr d' \<Longrightarrow> attends d d'"
  by (auto simp: first_sighting_def bind_result_Inr attention_of_def split: if_splits intro: attends_add)

lemma applied_evolves: "evolves occ (applyAlertCandidate c occ)"
  by (simp add: evolves_def applyAlertCandidate_def occurrence_key_def)

lemma unobserved_evolves: "IsZero (occ_EndedAt occ) \<Longrightarrow> evolves occ (endUnobservedAlertRecovery c occ)"
  by (simp add: evolves_def endUnobservedAlertRecovery_def occurrence_key_def)

lemma same_occurrence_attends:
  assumes "same_occurrence c i j d = Inr d'" and j: "j < length (ad_Occurrences d)" and "\<not> IsZero (ac_StateChangedAt c)"
  shows "attends d d'"
proof -
  let ?cur = "ad_Occurrences d ! j"
  define cur2 where "cur2 = (if ac_State c = AlertEpisodeRecovered
    then (applyAlertCandidate c ?cur)\<lparr>occ_EndedAt := ac_StateChangedAt c, occ_EndReason := AlertDeliveryEndRecovered\<rparr> else applyAlertCandidate c ?cur)"
  have "evolves ?cur cur2"
    using assms(3) by (auto simp: cur2_def evolves_def applyAlertCandidate_def occurrence_key_def)
  moreover have "attention_of d' = attention_of (d\<lparr>ad_Occurrences := (ad_Occurrences d)[j := cur2]\<rparr>)"
    using assms(1) by (auto simp: same_occurrence_def Let_def attention_of_def cur2_def split: if_splits option.splits)
  ultimately show ?thesis by (rule attends_change [OF j])
qed

lemma next_occurrence_attends:
  assumes r: "next_occurrence L mode m scope c i j d = Inr d'" and j: "j < length (ad_Occurrences d)"
  shows "attends d d'"
proof -
  let ?cur = "ad_Occurrences d ! j"
  define cur1 where "cur1 = (if \<not> (occ_State ?cur \<noteq> AlertEpisodeRecovered \<and> IsZero (occ_EndedAt ?cur)) then ?cur
    else if ac_State c = AlertEpisodeEscalated then ?cur\<lparr>occ_EndedAt := ac_StateChangedAt c, occ_EndReason := AlertDeliveryEndSuperseded\<rparr>
    else endUnobservedAlertRecovery c ?cur)"
  have ev: "evolves ?cur cur1"
    using unobserved_evolves by (auto simp: cur1_def evolves_def occurrence_key_def endUnobservedAlertRecovery_def)
  have ch: "attends d (d\<lparr>ad_Occurrences := (ad_Occurrences d)[j := cur1]\<rparr>)" by (rule attends_change [OF j ev refl])
  show ?thesis
  proof (cases "ac_State c = AlertEpisodeRecovered")
    case True
    have "attends d (d\<lparr>ad_Occurrences := (ad_Occurrences d)[j := endUnobservedAlertRecovery c ?cur]\<rparr>)" if "IsZero (occ_EndedAt ?cur)"
      by (rule attends_change [OF j unobserved_evolves [OF that] refl])
    moreover have "attention_of d' = (if occ_State ?cur \<noteq> AlertEpisodeRecovered \<and> IsZero (occ_EndedAt ?cur)
        then attention_of (d\<lparr>ad_Occurrences := (ad_Occurrences d)[j := endUnobservedAlertRecovery c ?cur]\<rparr>) else attention_of d)"
      using r True by (auto simp: next_occurrence_def Let_def attention_of_def split: if_splits)
    ultimately show ?thesis by (auto simp: attends_def)
  next
    case False
    obtain d2 occ where n: "newAlertDeliveryOccurrenceLocked L mode m scope c (d\<lparr>ad_Occurrences := (ad_Occurrences d)[j := cur1]\<rparr>) = Inr (d2, occ)"
      and d': "attention_of d' = attention_of (d2\<lparr>ad_Occurrences := ad_Occurrences d2 @ [occ]\<rparr>)"
    proof -
      from r False have "\<exists>d2 occ. newAlertDeliveryOccurrenceLocked L mode m scope c (d\<lparr>ad_Occurrences := (ad_Occurrences d)[j := cur1]\<rparr>) = Inr (d2, occ) \<and>
          attention_of d' = attention_of (d2\<lparr>ad_Occurrences := ad_Occurrences d2 @ [occ]\<rparr>)"
        unfolding next_occurrence_def Let_def cur1_def [symmetric]
        by (auto simp: bind_result_Inr attention_of_def split: if_splits)
      then show ?thesis using that by blast
    qed
    show ?thesis by (rule attends_trans [OF ch attends_add [OF n d']])
  qed
qed

lemma intake_candidate_attends:
  assumes "intake_candidate L mode m snap c d = Inr d'" and "\<not> IsZero (ac_StateChangedAt c)"
  shows "attends d d'"
  using assms
  by (auto simp: intake_candidate_def Let_def occurrence_index_def split: if_splits option.splits
      dest!: last_index_Some intro: first_sighting_attends same_occurrence_attends next_occurrence_attends)

lemma intake_candidates_attend:
  "intake_candidates L mode m snap cs d = Inr d' \<Longrightarrow> (\<And>c. c \<in> set cs \<Longrightarrow> \<not> IsZero (ac_StateChangedAt c)) \<Longrightarrow> attends d d'"
proof (induction cs arbitrary: d)
  case (Cons c cs)
  then obtain d1 where "intake_candidate L mode m snap c d = Inr d1" "intake_candidates L mode m snap cs d1 = Inr d'" by (auto simp: bind_result_Inr)
  then show ?case using Cons.IH [of d1] Cons.prems(2) intake_candidate_attends attends_trans by (metis list.set_intros(1) list.set_intros(2))
qed simp

lemma omit_episodes_attend: "omit_episodes snap is d = Inr d' \<Longrightarrow> attends d d'"
proof (induction "is" arbitrary: d)
  case (Cons i "is")
  let ?e = "ad_Episodes d ! i"
  show ?case
  proof (cases "occurrence_index d (alertDeliveryScopedKey (snap_AuthorityScope snap) (ep_CurrentOccurrenceKey ?e))")
    case None
    then show ?thesis using Cons by (auto simp: Let_def split: if_splits)
  next
    case (Some j)
    let ?occ = "ad_Occurrences d ! j"
    let ?d = "d\<lparr>ad_Occurrences := (ad_Occurrences d)[j := omitted_occurrence snap ?occ],
           ad_Episodes := (ad_Episodes d)[i := ?e\<lparr>ep_State := AlertEpisodeRecovered, ep_LastSeenAt := snap_AsOf snap\<rparr>]\<rparr>"
    have j: "j < length (ad_Occurrences d)" using Some last_index_Some unfolding occurrence_index_def by blast
    have "attends d ?d" if "IsZero (occ_EndedAt ?occ)"
      by (rule attends_change [OF j, of "omitted_occurrence snap ?occ"])
        (use that in \<open>simp_all add: evolves_def omitted_occurrence_def occurrence_key_def attention_of_def\<close>)
    then show ?thesis using Cons.prems Cons.IH [of ?d] Cons.IH [of d] Some attends_trans
      by (simp add: Let_def split: if_splits)
  qed
qed simp

lemma snapshot_changed_at: "AlertCandidateSnapshot_Validate snap = None \<Longrightarrow> c \<in> set (elems (snap_Candidates snap)) \<Longrightarrow> \<not> IsZero (ac_StateChangedAt c)"
  using AlertCandidateSnapshot_Validate_None(3) [of snap] by (simp add: snapshot_candidates_None AlertCandidate_Validate_def)

lemma apply_snapshot_attends:
  assumes v: "AlertCandidateSnapshot_Validate snap = None" and a: "applyAlertSnapshotLocked L mode m snap d = Inr d'"
  shows "attends d d'"
  using a
proof (rule apply_stages)
  fix d1 wms d3 b
  assume i: "intake_candidates L mode m snap (elems (snap_Candidates snap)) d = Inr d1"
    and o: "omit_episodes snap [0..<length (ad_Episodes d1)] (d1\<lparr>ad_SourceWatermarks := wms\<rparr>) = Inr d3"
    and d': "d' = d3\<lparr>ad_SourceWatermarksByScope := b\<rparr>"
  have "attends d d1" using intake_candidates_attend [OF i] snapshot_changed_at [OF v] by blast
  also have "attends d1 d3" using omit_episodes_attend [OF o] by (simp add: attends_def attention_of_def)
  finally (attends_trans) show ?thesis by (simp add: d' attends_def attention_of_def)
qed

lemma suppress_attends:
  "\<exists>j occ. suppress_occurrence scope key occs = occs \<or>
     (suppress_occurrence scope key occs = occs[j := occ] \<and> j < length occs \<and> evolves (occs ! j) occ)"
proof (induction occs)
  case (Cons x xs)
  show ?case
  proof (cases "occ_AuthorityScope x = scope \<and> occ_OccurrenceKey x = key")
    case True
    then show ?thesis
      by (intro exI [of _ 0] exI [of _ "x\<lparr>occ_Disposition := AlertDispositionModeSuppressed\<rparr>"])
        (simp add: suppress_occurrence_def evolves_def occurrence_key_def)
  next
    case False
    then have eq: "suppress_occurrence scope key (x # xs) = x # suppress_occurrence scope key xs" by (auto simp: suppress_occurrence_def)
    from Cons.IH obtain j occ where "suppress_occurrence scope key xs = xs \<or>
      (suppress_occurrence scope key xs = xs[j := occ] \<and> j < length xs \<and> evolves (xs ! j) occ)" by blast
    then show ?thesis unfolding eq by (intro exI [of _ "Suc j"] exI [of _ occ]) auto
  qed
qed (simp add: suppress_occurrence_def)

lemma planned_attends: "planned D s n \<Longrightarrow> attends (prior_data s) n"
proof (induction rule: planned.induct)
  case (refuses d i k now c retiredAt occs scope occ)
  have p: "prior_data s = d" using refuses(1) by (simp add: prior_data_def)
  from suppress_attends [of scope occ "ad_Occurrences d"] obtain j x where
    "suppress_occurrence scope occ (ad_Occurrences d) = ad_Occurrences d \<or>
     (suppress_occurrence scope occ (ad_Occurrences d) = (ad_Occurrences d)[j := x] \<and> j < length (ad_Occurrences d) \<and> evolves (ad_Occurrences d ! j) x)" by blast
  then have "attends d (d\<lparr>ad_Occurrences := occs\<rparr>)" using refuses(5) attends_change [of j d x] by (auto simp: attends_def)
  then show ?case unfolding p by (simp add: attends_def attention_of_def)
next
  case (compacts d nxt now active r)
  let ?P = "\<lambda>occ. \<not> removable_occurrence (time_Add now (- alertDeliveryRetention)) (ad_AttentionReadThroughSeq d) occ"
  have "attention_step (attention_of d) (filter ?P (ad_Occurrences d), ad_AttentionReadThroughSeq d, ad_AttentionHighWaterSeq d)"
    unfolding attention_of_def by (rule drop_read) (auto simp: removable_occurrence_def)
  moreover have "attention_of nxt = (filter ?P (ad_Occurrences d), ad_AttentionReadThroughSeq d, ad_AttentionHighWaterSeq d)"
    by (simp add: compacts(2) compacted_def compact_scopes_def compact_episodes_def compact_targets_def compact_evidence_def Let_def attention_of_def)
  ultimately show ?case using compacts(1) by (simp add: attends_def prior_data_def attention_of_def r_into_rtranclp)
next
  case (marks_read d q)
  then show ?case using attention_step.read [OF marks_read(2,3)] by (simp add: attends_def prior_data_def attention_of_def r_into_rtranclp)
next
  case (observes snap d0 d1 m d2 d3)
  have "attention_of (prior_data s) = attention_of d0"
  proof -
    have "ad_AttentionReadThroughSeq (migrateAlertSourceBaselines x) = ad_AttentionReadThroughSeq x" for x
      using migrate_shape [of x] by auto
    then show ?thesis by (simp add: observes(2) attention_of_def prior_data_def split: option.splits)
  qed
  moreover have "attention_of d1 = attention_of d0"
    using observes(3) archive_frame [of D m snap d0 d1] by (auto simp: attention_of_def intake_frame_def)
  moreover have "attends d1 d2" by (rule apply_snapshot_attends [OF observes(1,5)])
  moreover have "attention_of d3 = attention_of d2" using establish_shape [OF observes(6)] by (auto simp: attention_of_def)
  ultimately show ?case by (simp add: attends_def attention_of_def)
qed (auto simp: prior_data_def attention_of_def retire_data_def intro!: attends_same split: option.splits)

lemma run_op_attends: "attends (prior_data s) (prior_data (run_op D saveErr op s))"
proof -
  from run_op_settled [of D saveErr s op] consider "al_data (run_op D saveErr op s) = al_data s"
    | n m where "planned D s n" "bumpAlertDeliveryGenerationLocked s n = Inr m" "al_data (run_op D saveErr op s) = Some m"
    by (auto simp: settled_def kept_def advanced_def)
  then show ?thesis
  proof cases
    case 1
    then show ?thesis by (simp add: prior_data_def)
  next
    case (2 n m)
    then have "attention_of (prior_data (run_op D saveErr op s)) = attention_of n"
      by (auto simp: attention_of_def prior_data_def dest!: bump_shape)
    then show ?thesis using planned_attends [OF 2(1)] by (simp add: attends_def)
  qed
qed

interpretation attention_sim: op_simulation "\<lambda>(saveErr, op). run_op D saveErr op" "\<lambda>s. attention_of (prior_data s)" attention_step "\<lambda>_. True" for D
  by unfold_locales (auto intro: run_op_attends [unfolded attends_def])

interpretation attention_inv: op_simulation "\<lambda>(saveErr, op). run_op D saveErr op" "\<lambda>s. attention_of (prior_data s)" attention_step attention_ok for D
  by unfold_locales (auto intro: run_op_attends [unfolded attends_def] attention_step_ok)

lemma run_ops_attend: "attends (prior_data s) (prior_data (run_ops D ops s))"
  using attention_sim.run_simulates [OF TrueI, of s D ops] by (simp add: run_ops_fold attends_def)

subsection \<open>A loaded ledger\<close>

lemma unat_bound64: "unat (w :: 64 word) < 2 ^ LENGTH(64)"
  by (rule unsigned_less)

lemma unat_of_nat_eq64: "n < 2 ^ LENGTH(64) \<Longrightarrow> unat (word_of_nat n :: 64 word) = n"
  by (simp add: unsigned_of_nat take_bit_nat_eq_self)

lemma card_word_interval: "r \<le> h \<Longrightarrow> card {q. r < q \<and> q \<le> (h :: 64 word)} = unat (h - r)"
proof -
  assume rh: "r \<le> h"
  have "{q. r < q \<and> q \<le> h} = word_of_nat ` {unat r <.. unat h}"
  proof (intro set_eqI iffI)
    fix q :: "64 word" assume "q \<in> {q. r < q \<and> q \<le> h}"
    then show "q \<in> word_of_nat ` {unat r <.. unat h}" by (intro image_eqI [of _ _ "unat q"]) (auto simp: word_less_nat_alt word_le_nat_alt)
  next
    fix q :: "64 word" assume "q \<in> word_of_nat ` {unat r <.. unat h}"
    then obtain n where n: "q = word_of_nat n" "unat r < n" "n \<le> unat h" by auto
    then have "n < 2 ^ LENGTH(64)" using unat_bound64 [of h] by simp
    then have "unat q = n" unfolding n(1) by (rule unat_of_nat_eq64)
    then show "q \<in> {q. r < q \<and> q \<le> h}" using n by (simp add: word_less_nat_alt word_le_nat_alt)
  qed
  moreover have "inj_on (word_of_nat :: nat \<Rightarrow> 64 word) {unat r <.. unat h}"
  proof (rule inj_onI)
    fix x y assume xy: "x \<in> {unat r <.. unat h}" "y \<in> {unat r <.. unat h}" "(word_of_nat x :: 64 word) = word_of_nat y"
    then have "x < 2 ^ LENGTH(64)" "y < 2 ^ LENGTH(64)" using unat_bound64 [of h] by auto
    then show "x = y" using xy(3) by (metis unat_of_nat_eq64)
  qed
  moreover have "unat (h - r) = unat h - unat r" using rh by (simp add: unat_sub)
  ultimately show ?thesis by (simp add: card_image)
qed

lemma validated_numbers:
  "validate_occurrences L d passed occs = None \<Longrightarrow>
   (\<forall>occ\<in>set occs. occ_AttentionSeq occ \<le> ad_AttentionHighWaterSeq d) \<and>
   (distinct (filter (\<lambda>q. ad_AttentionReadThroughSeq d < q) (map occ_AttentionSeq passed)) \<longrightarrow>
    distinct (filter (\<lambda>q. ad_AttentionReadThroughSeq d < q) (map occ_AttentionSeq (rev passed @ occs))))"
proof (induction occs arbitrary: passed)
  case Nil
  then show ?case by (simp add: rev_filter [symmetric] rev_map [symmetric])
next
  case (Cons occ occs)
  have v: "validate_occurrence L d passed occ = None" and vs: "validate_occurrences L d (occ # passed) occs = None"
    using Cons.prems by (auto split: option.splits)
  have "occ_AttentionSeq occ \<le> ad_AttentionHighWaterSeq d"
    "ad_AttentionReadThroughSeq d < occ_AttentionSeq occ \<Longrightarrow> occ_AttentionSeq occ \<notin> occ_AttentionSeq ` set passed"
    using v by (auto simp: validate_occurrence_def not_less)
  then show ?case using Cons.IH [OF vs] by auto
qed

lemma loaded_attention_ok:
  assumes "validateAlertDeliveryState D s = None"
  shows "attention_ok (attention_of (prior_data s))"
proof (cases "al_data s")
  case None
  have "\<not> (0 < q \<and> q \<le> 0)" for q :: "64 word" by auto
  with None show ?thesis by (simp add: attention_ok_def attention_of_def prior_data_def unread_numbers_def)
next
  case (Some d)
  let ?r = "ad_AttentionReadThroughSeq d" and ?h = "ad_AttentionHighWaterSeq d"
  have vo: "validate_occurrences (dl_golib D) d [] (ad_Occurrences d) = None"
    and cur: "\<not> (?r > ?h \<or> of_nat (length (remdups (unread_seqs d))) \<noteq> ?h - ?r)"
    using assms Some unfolding validateAlertDeliveryState_def validate_data_def Let_def
    by (simp_all only: option.case first_refusal_Cons_None reject_if_None simp_thms)
  have dist: "distinct (unread_seqs d)" and sub: "set (unread_seqs d) \<subseteq> {q. ?r < q \<and> q \<le> ?h}"
    using validated_numbers [OF vo] by (auto simp: unread_seqs_def)
  have rh: "?r \<le> ?h" and n: "of_nat (length (unread_seqs d)) = ?h - ?r" using cur dist by (auto simp: distinct_remdups_id)
  have "length (unread_seqs d) = card (set (unread_seqs d))" using dist by (simp add: distinct_card)
  also have "\<dots> \<le> card {q. ?r < q \<and> q \<le> ?h}" by (rule card_mono [OF _ sub]) simp
  also have "\<dots> = unat (?h - ?r)" by (rule card_word_interval [OF rh])
  finally have le: "length (unread_seqs d) \<le> unat (?h - ?r)" .
  then have "length (unread_seqs d) < 2 ^ LENGTH(64)" using unat_bound64 [of "?h - ?r"] by linarith
  then have "unat (?h - ?r) = length (unread_seqs d)" unfolding n [symmetric] by (rule unat_of_nat_eq64)
  then have "card (set (unread_seqs d)) = card {q. ?r < q \<and> q \<le> ?h}" using dist card_word_interval [OF rh] by (simp add: distinct_card)
  then have "set (unread_seqs d) = {q. ?r < q \<and> q \<le> ?h}" using sub by (intro card_subset_eq) simp_all
  then show ?thesis using dist rh Some
    by (simp add: attention_ok_def attention_of_def prior_data_def unread_numbers_def unread_seqs_def)
qed

lemma run_ops_attention_ok:
  "validateAlertDeliveryState D s = None \<Longrightarrow> attention_ok (attention_of (prior_data (run_ops D ops s)))"
  using attention_inv.run_simulates [OF loaded_attention_ok, of D s D ops] by (simp add: run_ops_fold)

subsection \<open>Properties\<close>

text \<open>The attention numbers have no gap and no duplicate: after every run of operations from a ledger
  that loads, the numbers between the read cursor and the high-water mark belong to exactly one unread
  occurrence each, so the count of unread occurrences is the distance of the two.\<close>

theorem unread_numbers_have_no_gap:
  assumes "validateAlertDeliveryState D s = None" and "al_data (run_ops D ops s) = Some d"
  shows "ad_AttentionReadThroughSeq d \<le> ad_AttentionHighWaterSeq d \<and> distinct (unread_seqs d) \<and>
    set (unread_seqs d) = {q. ad_AttentionReadThroughSeq d < q \<and> q \<le> ad_AttentionHighWaterSeq d} \<and>
    length (unread_seqs d) = unat (ad_AttentionHighWaterSeq d - ad_AttentionReadThroughSeq d)"
proof -
  have ok: "ad_AttentionReadThroughSeq d \<le> ad_AttentionHighWaterSeq d" "distinct (unread_seqs d)"
    "set (unread_seqs d) = {q. ad_AttentionReadThroughSeq d < q \<and> q \<le> ad_AttentionHighWaterSeq d}"
    using run_ops_attention_ok [OF assms(1), of ops] assms(2)
    by (simp_all add: attention_ok_def attention_of_def prior_data_def unread_numbers_def unread_seqs_def)
  then show ?thesis using card_word_interval [OF ok(1)] distinct_card [OF ok(2)] by simp
qed

lemma complete_through_seen:
  "distinct (filter (\<lambda>x. r < x) (map occ_AttentionSeq occs)) \<Longrightarrow> set seen \<inter> set (filter (\<lambda>x. r < x) (map occ_AttentionSeq occs)) = {} \<Longrightarrow>
   complete_through r q seen occs = Some (rev (filter (\<lambda>x. r < x \<and> x \<le> q) (map occ_AttentionSeq occs)) @ seen)"
proof (induction occs arbitrary: seen)
  case (Cons occ occs)
  show ?case
  proof (cases "r < occ_AttentionSeq occ \<and> occ_AttentionSeq occ \<le> q")
    case True
    then show ?thesis using Cons.prems Cons.IH [of "occ_AttentionSeq occ # seen"] by (auto simp: Let_def)
  next
    case False
    have "set seen \<inter> set (filter (\<lambda>x. r < x) (map occ_AttentionSeq occs)) = {}" using Cons.prems(2) by (auto split: if_splits)
    moreover have "distinct (filter (\<lambda>x. r < x) (map occ_AttentionSeq occs))" using Cons.prems(1) by (auto split: if_splits)
    ultimately show ?thesis using False Cons.IH [of seen] by (auto simp: Let_def not_less)
  qed
qed simp

lemma complete_through_ok:
  assumes "attention_ok (attention_of d)" and "ad_AttentionReadThroughSeq d \<le> q" and "q \<le> ad_AttentionHighWaterSeq d"
  shows "alertDeliveryAttentionCompleteThrough d q"
proof -
  let ?r = "ad_AttentionReadThroughSeq d"
  let ?qs = "filter (\<lambda>x. ?r < x) (map occ_AttentionSeq (ad_Occurrences d))"
  have dist: "distinct ?qs" and st: "set ?qs = {x. ?r < x \<and> x \<le> ad_AttentionHighWaterSeq d}"
    using assms(1) unfolding attention_ok_def attention_of_def unread_numbers_def by auto
  have eq: "filter (\<lambda>x. ?r < x \<and> x \<le> q) (map occ_AttentionSeq (ad_Occurrences d)) = filter (\<lambda>x. x \<le> q) ?qs"
    by (auto simp: filter_filter intro!: filter_cong)
  have "set (filter (\<lambda>x. x \<le> q) ?qs) = {x. ?r < x \<and> x \<le> q}" by (subst set_filter, subst st) (use assms(3) in auto)
  then have "length (filter (\<lambda>x. x \<le> q) ?qs) = unat (q - ?r)"
    using distinct_card [of "filter (\<lambda>x. x \<le> q) ?qs"] dist card_word_interval [OF assms(2)] by (simp del: set_filter filter_filter)
  then show ?thesis
    unfolding alertDeliveryAttentionCompleteThrough_def complete_through_seen [OF dist, of "[]", simplified] eq by simp
qed

text \<open>C33. Every cursor of the unread range can be read: after every run of operations from a ledger that
  loads, marking any number between the cursor and the high-water mark as read succeeds and writes it,
  as long as the store is not quarantined and the generation counter is not at its end.\<close>

theorem unread_range_is_readable:
  assumes "validateAlertDeliveryState D s = None" and "t = run_ops D ops s" and "al_data t = Some d" and "\<not> al_quarantined t"
    and "ad_AttentionReadThroughSeq d \<le> q" and "q \<le> ad_AttentionHighWaterSeq d" and "ad_Generation d < - 2"
  shows "\<exists>t' att. MarkAlertDeliveryAttentionRead None clock q t = (t', att, None) \<and>
    ad_AttentionReadThroughSeq (prior_data t') = q \<and> al_saved t' = (if q = ad_AttentionReadThroughSeq d then al_saved t else al_data t')"
proof (cases "q = ad_AttentionReadThroughSeq d")
  case True
  have "alertDeliveryAttentionCompleteThrough d q"
    using complete_through_ok [OF _ assms(5,6)] run_ops_attention_ok [OF assms(1), of ops] assms(2,3) by (simp add: prior_data_def)
  then show ?thesis using assms True by (auto simp: MarkAlertDeliveryAttentionRead_def prior_data_def)
next
  case False
  have full: "alertDeliveryAttentionCompleteThrough d q"
    using complete_through_ok [OF _ assms(5,6)] run_ops_attention_ok [OF assms(1), of ops] assms(2,3) by (simp add: prior_data_def)
  let ?n = "(cloneAlertDeliveryData d)\<lparr>ad_AttentionReadThroughSeq := q\<rparr>"
  have g: "ad_Generation d \<noteq> - 1" "ad_Generation d + 1 \<noteq> - 1"
  proof -
    show "ad_Generation d \<noteq> - 1" using assms(7) by auto
    show "ad_Generation d + 1 \<noteq> - 1"
    proof
      assume "ad_Generation d + 1 = - 1"
      then have "ad_Generation d = - 1 - 1" by (metis add_diff_cancel_right')
      with assms(7) show False by simp
    qed
  qed
  obtain m where m: "bumpAlertDeliveryGenerationLocked t ?n = Inr m"
    using g by (cases "al_volatile t") (auto simp: bumpAlertDeliveryGenerationLocked_def bumpAlertDeliveryGeneration_def add.commute)
  then have "ad_AttentionReadThroughSeq m = q" using bump_shape by fastforce
  then show ?thesis using assms(3-6) False full m
    by (auto simp: MarkAlertDeliveryAttentionRead_def commit_ledger_def save_or_roll_back_def prior_data_def not_less)
qed

lemma run_ops_append: "run_ops D (xs @ ys) s = run_ops D ys (run_ops D xs s)"
  by (induction xs arbitrary: s) auto

text \<open>The end of an occurrence is final: an occurrence that is open after further operations continues
  one that was open before, or was first seen since; an ended one never becomes active again.\<close>

theorem ended_is_final:
  assumes "al_data s = Some d" and "al_data (run_ops D ops s) = Some d'" and "occ' \<in> set (ad_Occurrences d')" and "IsZero (occ_EndedAt occ')"
  shows "(\<exists>occ\<in>set (ad_Occurrences d). occurrence_key occ = occurrence_key occ' \<and> occ_AttentionSeq occ = occ_AttentionSeq occ' \<and> IsZero (occ_EndedAt occ)) \<or>
    ad_AttentionHighWaterSeq d < occ_AttentionSeq occ'"
  using attention_steps_descend [OF run_ops_attend [of s D ops, unfolded attends_def]] assms
  by (auto simp: descends_def attention_of_def prior_data_def evolves_def)

theorem unread_numbers_have_no_gap_witness:
  "unread_seqs (prior_data sample_open) = [1] \<and> distinct (unread_seqs (prior_data sample_open))"
proof -
  have "al_data (run_ops sample_lib [] sample_open) = Some (prior_data sample_open)"
    by (simp add: sample_open_def sample_state_def prior_data_def)
  from unread_numbers_have_no_gap [OF sample_valid(1) this] have "distinct (unread_seqs (prior_data sample_open))" by blast
  moreover have "unread_seqs (prior_data sample_open) = [1]" by code_simp
  ultimately show ?thesis by simp
qed

theorem unread_range_is_readable_witness:
  "\<exists>t' att. MarkAlertDeliveryAttentionRead None (Instant 220) 1 sample_open = (t', att, None) \<and> ad_AttentionReadThroughSeq (prior_data t') = 1"
proof -
  have f: "al_data sample_open = Some (prior_data sample_open)" "\<not> al_quarantined sample_open"
    "ad_AttentionReadThroughSeq (prior_data sample_open) = 0" "ad_AttentionHighWaterSeq (prior_data sample_open) = 1" "ad_Generation (prior_data sample_open) = 2"
    by (simp_all add: sample_open_def sample_state_def sample_ledger_def sample_data_def prior_data_def)
  have w: "ad_AttentionReadThroughSeq (prior_data sample_open) \<le> 1" "1 \<le> ad_AttentionHighWaterSeq (prior_data sample_open)"
    "ad_Generation (prior_data sample_open) < - 2" by (simp_all add: f(3-5))
  have "sample_open = run_ops sample_lib [] sample_open" by simp
  from unread_range_is_readable [OF sample_valid(1) this f(1,2) w] show ?thesis by blast
qed

theorem ended_is_final_witness:
  "\<exists>occ\<in>set (ad_Occurrences (prior_data sample_open)). IsZero (occ_EndedAt occ) \<and> occ_AttentionSeq occ = 1"
proof -
  have f: "al_data sample_open = Some (prior_data sample_open)" "al_data (run_ops sample_lib [] sample_open) = Some (prior_data sample_open)"
    "sample_occurrence \<in> set (ad_Occurrences (prior_data sample_open))" "IsZero (occ_EndedAt sample_occurrence)"
    "occ_AttentionSeq sample_occurrence = 1" "ad_AttentionHighWaterSeq (prior_data sample_open) = 1"
    by (simp_all add: sample_open_def sample_state_def sample_data_def prior_data_def sample_occurrence_def)
  from ended_is_final [OF f(1-4)] f(5,6) show ?thesis by auto
qed

end
