(* ===== verification/Delivery_Safety.thy ===== *)
theory Delivery_Safety
  imports Delivery_Attention
begin

text \<open>
  Further guarantees of the delivery ledger: the derived health does not depend on the order in which the
  map of latest attempts is visited; retention removes only old, ended and read evidence; and the item
  limit holds over every run.
\<close>

subsection \<open>Health\<close>

definition has_class :: "AlertDeliveryAttemptClass \<Rightarrow> alertDeliveryAttempt set \<Rightarrow> bool" where
  "has_class c A \<longleftrightarrow> (\<exists>a\<in>A. dat_Class a = c)"

text \<open>The most serious class among the latest attempts.\<close>

definition worst_class :: "alertDeliveryAttempt set \<Rightarrow> AlertDeliveryHealthClass" where
  "worst_class A =
     (if has_class AlertDeliveryAttemptExhausted A then HealthClassRetryExhausted
      else if has_class AlertDeliveryAttemptRejected A then AlertDeliveryHealthClassRejected
      else if has_class AlertDeliveryAttemptRetry A then AlertDeliveryHealthClassRetry
      else NoHealthClass)"

lemma fold_health_class:
  "c \<in> {NoHealthClass, AlertDeliveryHealthClassRetry, AlertDeliveryHealthClassRejected, HealthClassRetryExhausted} \<Longrightarrow>
   fold health_class_step xs c =
     (if c = HealthClassRetryExhausted \<or> has_class AlertDeliveryAttemptExhausted (set xs) then HealthClassRetryExhausted
      else if c = AlertDeliveryHealthClassRejected \<or> has_class AlertDeliveryAttemptRejected (set xs) then AlertDeliveryHealthClassRejected
      else if c = AlertDeliveryHealthClassRetry \<or> has_class AlertDeliveryAttemptRetry (set xs) then AlertDeliveryHealthClassRetry
      else NoHealthClass)"
proof (induction xs arbitrary: c)
  case Nil
  then show ?case by (auto simp: has_class_def)
next
  case (Cons a xs)
  have hc: "has_class k (set (a # xs)) \<longleftrightarrow> dat_Class a = k \<or> has_class k (set xs)" for k by (auto simp: has_class_def)
  have in4: "health_class_step a c \<in> {NoHealthClass, AlertDeliveryHealthClassRetry, AlertDeliveryHealthClassRejected, HealthClassRetryExhausted}"
    using Cons.prems by (auto simp: health_class_step_def split: AlertDeliveryAttemptClass.splits)
  show ?case
    unfolding fold_simps Cons.IH [OF in4] hc
    using Cons.prems by (cases "dat_Class a") (auto simp: health_class_step_def)
qed



subsection \<open>Retention\<close>

lemma compact_outcome:
  assumes "CompactAlertDelivery L saveErr now s = (s', r)" and "al_data s = Some d" and "al_data s' = Some d'"
  shows "d' = d \<or> (\<exists>g h. d' = (compacted (time_Add now (- alertDeliveryRetention)) (activeAlertDeliveryTargetsLocked L s) (cloneAlertDeliveryData d))
    \<lparr>ad_Health := h, ad_Generation := g\<rparr>)"
proof -
  let ?n = "compacted (time_Add now (- alertDeliveryRetention)) (activeAlertDeliveryTargetsLocked L s) (cloneAlertDeliveryData d)"
  have "s' = s \<or> (\<exists>b. commit_ledger saveErr now (recomputeAlertDeliveryHealthLocked now (if b then ?n\<lparr>ad_Health := zero_health\<rparr> else ?n)) s = (s', r))"
    using assms(1,2) by (auto simp: CompactAlertDelivery_def Let_def split: if_splits)
  then show ?thesis
  proof
    assume "\<exists>b. commit_ledger saveErr now (recomputeAlertDeliveryHealthLocked now (if b then ?n\<lparr>ad_Health := zero_health\<rparr> else ?n)) s = (s', r)"
    then obtain b where c: "commit_ledger saveErr now (recomputeAlertDeliveryHealthLocked now (if b then ?n\<lparr>ad_Health := zero_health\<rparr> else ?n)) s = (s', r)" by blast
    obtain h where h: "recomputeAlertDeliveryHealthLocked now (if b then ?n\<lparr>ad_Health := zero_health\<rparr> else ?n) = ?n\<lparr>ad_Health := h\<rparr>"
      using recompute_shape [of now "if b then ?n\<lparr>ad_Health := zero_health\<rparr> else ?n"] by (cases b) auto
    from commit_outcome [OF c] show ?thesis
    proof (elim disjE conjE)
      assume "advanced s s' (recomputeAlertDeliveryHealthLocked now (if b then ?n\<lparr>ad_Health := zero_health\<rparr> else ?n))"
      then obtain m where m: "bumpAlertDeliveryGenerationLocked s (?n\<lparr>ad_Health := h\<rparr>) = Inr m" "al_data s' = Some m" unfolding h advanced_def by blast
      then show ?thesis using bump_shape [OF m(1)] assms(3) by auto
    qed (use assms in \<open>simp add: kept_def\<close>)
  qed (use assms in simp)
qed

lemma compacted_fields:
  "ad_Occurrences (compacted cutoff active d) = filter (\<lambda>occ. \<not> removable_occurrence cutoff (ad_AttentionReadThroughSeq d) occ) (ad_Occurrences d)"
  "ad_Attempts (compacted cutoff active d) = filter (\<lambda>a. alertDeliveryScopedKey (dat_AuthorityScope a) (dat_OccurrenceKey a) \<notin>
     occurrence_key ` {occ \<in> set (ad_Occurrences d). removable_occurrence cutoff (ad_AttentionReadThroughSeq d) occ}) (ad_Attempts d)"
  "ad_Receipts (compacted cutoff active d) = filter (\<lambda>q. alertDeliveryScopedKey (rcp_AuthorityScope q) (rcp_OccurrenceKey q) \<notin>
     occurrence_key ` {occ \<in> set (ad_Occurrences d). removable_occurrence cutoff (ad_AttentionReadThroughSeq d) occ}) (ad_Receipts d)"
  "ad_RetiredTargets (compacted cutoff active d) = filter (\<lambda>(target, at). \<not> (at < cutoff \<and> target \<notin> set active \<and>
     target \<notin> dat_TargetRef ` set (ad_Attempts (compacted cutoff active d)) \<and> target \<notin> rcp_TargetRef ` set (ad_Receipts (compacted cutoff active d)))) (ad_RetiredTargets d)"
  by (simp_all add: compacted_def) (simp_all add: compact_targets_def compact_evidence_def Let_def)

text \<open>C35. Retention removes only evidence that is read, ended and older than ninety days: every occurrence
  that disappears was so, every attempt or receipt that disappears belonged to such an occurrence, nothing
  is added or altered, and a retired target stays known while an attempt or receipt names it.\<close>

theorem retention_is_safe:
  assumes "CompactAlertDelivery L saveErr now s = (s', r)" and "al_data s = Some d" and "al_data s' = Some d'"
  shows "set (ad_Occurrences d') \<subseteq> set (ad_Occurrences d) \<and> set (ad_Attempts d') \<subseteq> set (ad_Attempts d) \<and> set (ad_Receipts d') \<subseteq> set (ad_Receipts d) \<and>
    (\<forall>occ\<in>set (ad_Occurrences d) - set (ad_Occurrences d'). occ_AttentionSeq occ \<le> ad_AttentionReadThroughSeq d \<and> \<not> IsZero (occ_EndedAt occ) \<and>
       nanos (occ_EndedAt occ) < nanos now - 90 * 24 * hour) \<and>
    (\<forall>a\<in>set (ad_Attempts d) - set (ad_Attempts d'). \<exists>occ\<in>set (ad_Occurrences d) - set (ad_Occurrences d').
       occurrence_key occ = alertDeliveryScopedKey (dat_AuthorityScope a) (dat_OccurrenceKey a)) \<and>
    (\<forall>q\<in>set (ad_Receipts d) - set (ad_Receipts d'). \<exists>occ\<in>set (ad_Occurrences d) - set (ad_Occurrences d').
       occurrence_key occ = alertDeliveryScopedKey (rcp_AuthorityScope q) (rcp_OccurrenceKey q)) \<and>
    (\<forall>(t, at)\<in>set (ad_RetiredTargets d). t \<in> dat_TargetRef ` set (ad_Attempts d') \<union> rcp_TargetRef ` set (ad_Receipts d') \<longrightarrow>
       (t, at) \<in> set (ad_RetiredTargets d'))"
proof -
  let ?cut = "time_Add now (- alertDeliveryRetention)"
  let ?rem = "removable_occurrence ?cut (ad_AttentionReadThroughSeq d)"
  let ?gone = "occurrence_key ` {occ \<in> set (ad_Occurrences d). ?rem occ}"
  from compact_outcome [OF assms] show ?thesis
  proof
    assume "d' = d"
    then show ?thesis by auto
  next
    assume "\<exists>g h. d' = (compacted ?cut (activeAlertDeliveryTargetsLocked L s) (cloneAlertDeliveryData d))\<lparr>ad_Health := h, ad_Generation := g\<rparr>"
    then obtain g h where d': "d' = (compacted ?cut (activeAlertDeliveryTargetsLocked L s) (cloneAlertDeliveryData d))\<lparr>ad_Health := h, ad_Generation := g\<rparr>" by blast
    have o: "set (ad_Occurrences d') = {occ \<in> set (ad_Occurrences d). \<not> ?rem occ}"
      unfolding d' by (simp add: compacted_fields)
    have a: "set (ad_Attempts d') = {a \<in> set (ad_Attempts d). alertDeliveryScopedKey (dat_AuthorityScope a) (dat_OccurrenceKey a) \<notin> ?gone}"
      unfolding d' by (simp add: compacted_fields)
    have q: "set (ad_Receipts d') = {q \<in> set (ad_Receipts d). alertDeliveryScopedKey (rcp_AuthorityScope q) (rcp_OccurrenceKey q) \<notin> ?gone}"
      unfolding d' by (simp add: compacted_fields)
    have t: "ad_RetiredTargets d' = filter (\<lambda>(target, at). \<not> (at < ?cut \<and> target \<notin> set (activeAlertDeliveryTargetsLocked L s) \<and>
         target \<notin> dat_TargetRef ` set (ad_Attempts d') \<and> target \<notin> rcp_TargetRef ` set (ad_Receipts d'))) (ad_RetiredTargets d)"
      unfolding d' by (simp add: compacted_fields(4))
    have gone: "\<exists>occ\<in>set (ad_Occurrences d) - set (ad_Occurrences d'). occurrence_key occ = k" if "k \<in> ?gone" for k
      using that o by auto
    have rem: "occ_AttentionSeq occ \<le> ad_AttentionReadThroughSeq d \<and> \<not> IsZero (occ_EndedAt occ) \<and> nanos (occ_EndedAt occ) < nanos now - 90 * 24 * hour"
      if "?rem occ" for occ
      using that by (auto simp: removable_occurrence_def less_gotime_def time_Add_def alertDeliveryRetention_def)
    show ?thesis
    proof (intro conjI)
      show "set (ad_Occurrences d') \<subseteq> set (ad_Occurrences d)" "set (ad_Attempts d') \<subseteq> set (ad_Attempts d)" "set (ad_Receipts d') \<subseteq> set (ad_Receipts d)"
        using o a q by auto
      show "\<forall>occ\<in>set (ad_Occurrences d) - set (ad_Occurrences d'). occ_AttentionSeq occ \<le> ad_AttentionReadThroughSeq d \<and> \<not> IsZero (occ_EndedAt occ) \<and>
         nanos (occ_EndedAt occ) < nanos now - 90 * 24 * hour" using o rem by blast
      show "\<forall>a\<in>set (ad_Attempts d) - set (ad_Attempts d'). \<exists>occ\<in>set (ad_Occurrences d) - set (ad_Occurrences d').
         occurrence_key occ = alertDeliveryScopedKey (dat_AuthorityScope a) (dat_OccurrenceKey a)" using a gone by blast
      show "\<forall>q\<in>set (ad_Receipts d) - set (ad_Receipts d'). \<exists>occ\<in>set (ad_Occurrences d) - set (ad_Occurrences d').
         occurrence_key occ = alertDeliveryScopedKey (rcp_AuthorityScope q) (rcp_OccurrenceKey q)" using q gone by blast
      show "\<forall>(t, at)\<in>set (ad_RetiredTargets d). t \<in> dat_TargetRef ` set (ad_Attempts d') \<union> rcp_TargetRef ` set (ad_Receipts d') \<longrightarrow>
         (t, at) \<in> set (ad_RetiredTargets d')" using t by auto
    qed
  qed
qed

definition ended_occurrence :: alertDeliveryOccurrence where
  "ended_occurrence = sample_occurrence\<lparr>occ_State := AlertEpisodeRecovered, occ_EndedAt := Instant 300, occ_EndReason := AlertDeliveryEndOmitted\<rparr>"

definition sample_ended :: AlertLedger where
  "sample_ended = sample_state ((sample_data 7 (Instant 310) [sample_attempt AlertDeliveryAttemptAccepted] [sample_receipt])
     \<lparr>ad_Occurrences := [ended_occurrence], ad_AttentionReadThroughSeq := 1\<rparr>) []"

theorem retention_is_safe_witness:
  "ad_Receipts (prior_data (fst (CompactAlertDelivery demo_lib None (Instant (10 ^ 16)) sample_ended))) = [] \<and>
   nanos (occ_EndedAt ended_occurrence) < nanos (Instant (10 ^ 16)) - 90 * 24 * hour"
proof -
  let ?r = "CompactAlertDelivery demo_lib None (Instant (10 ^ 16)) sample_ended"
  have e: "ad_Receipts (prior_data (fst ?r)) = []" "ad_Occurrences (prior_data (fst ?r)) = []" "al_data (fst ?r) = Some (prior_data (fst ?r))"
    by code_simp+
  have p: "?r = (fst ?r, snd ?r)" by simp
  have d: "al_data sample_ended = Some (prior_data sample_ended)" "ended_occurrence \<in> set (ad_Occurrences (prior_data sample_ended))"
    by (simp_all add: sample_ended_def sample_state_def prior_data_def)
  from retention_is_safe [OF p d(1) e(3)] e(1,2) d(2) show ?thesis by simp
qed

subsection \<open>Capacity\<close>

definition within :: "int \<Rightarrow> alertDeliveryData \<Rightarrow> bool" where
  "within m d \<longleftrightarrow> int (length (ad_Episodes d)) \<le> m \<and> int (length (ad_Occurrences d)) \<le> m \<and> int (length (ad_PreviousContexts d)) \<le> m \<and>
     int (length (ad_Attempts d)) \<le> m \<and> int (length (ad_Receipts d)) \<le> m \<and> int (length (ad_RetiredTargets d)) \<le> m"

lemma length_AList_update: "length (AList.update k v al) \<le> Suc (length al)"
  by (induction al) (auto split: prod.splits)

lemma time_at_update: "time_at (AList.update k t m) x = (if x = k then t else time_at m x)"
  by (simp add: time_at_def update_conv')

lemma length_retired_targets:
  "length (fold (\<lambda>target m. if IsZero (time_at m target) then AList.update target at m else m) targets m) \<le>
   length m + length (filter (\<lambda>t. IsZero (time_at m t)) targets)"
proof (induction targets arbitrary: m)
  case (Cons t ts)
  let ?m = "if IsZero (time_at m t) then AList.update t at m else m"
  have "length (filter (\<lambda>x. IsZero (time_at ?m x)) ts) \<le> length (filter (\<lambda>x. IsZero (time_at m x)) ts)"
    by (induction ts) (auto simp: time_at_update)
  then show ?case using Cons.IH [of ?m] length_AList_update [of t at m] by (auto split: if_splits)
qed simp

lemma within_archived:
  "within m d \<Longrightarrow> \<not> m \<le> int (length (ad_PreviousContexts d)) \<Longrightarrow>
   within m (d\<lparr>ad_PreviousContextHighWater := q, ad_PreviousContexts := ad_PreviousContexts d @ [x]\<rparr>)"
  by (simp add: within_def)

lemma within_changed: "within m (d\<lparr>ad_Occurrences := (ad_Occurrences d)[j := x], ad_Episodes := (ad_Episodes d)[i := y]\<rparr>) = within m d"
  by (simp add: within_def)

lemma archive_episodes_within:
  "archive_episodes D m p t es d = Inr d' \<Longrightarrow> within m d \<Longrightarrow> within m d'"
proof (induction es arbitrary: d p)
  case (Cons e es)
  show ?case using Cons.prems
    by (auto simp: Let_def split: if_splits option.splits dest!: Cons.IH intro!: within_archived)
qed simp

lemma intake_candidate_within:
  "intake_candidate L mode m snap c d = Inr d' \<Longrightarrow> within m d \<Longrightarrow> within m d'"
  by (auto simp: intake_candidate_def first_sighting_def same_occurrence_def next_occurrence_def newAlertDeliveryOccurrenceLocked_def
      Let_def bind_result_Inr within_def split: if_splits option.splits)

lemma intake_candidates_within:
  "intake_candidates L mode m snap cs d = Inr d' \<Longrightarrow> within m d \<Longrightarrow> within m d'"
proof (induction cs arbitrary: d)
  case (Cons c cs)
  then obtain d1 where "intake_candidate L mode m snap c d = Inr d1" "intake_candidates L mode m snap cs d1 = Inr d'" by (auto simp: bind_result_Inr)
  then show ?case using Cons intake_candidate_within by blast
qed simp

lemma omit_episodes_within: "omit_episodes snap is d = Inr d' \<Longrightarrow> within m d \<Longrightarrow> within m d'"
proof (induction "is" arbitrary: d)
  case (Cons i "is")
  show ?case using Cons.prems by (auto simp: Let_def within_changed split: if_splits option.splits intro: Cons.IH)
qed simp

lemma apply_snapshot_within:
  assumes "applyAlertSnapshotLocked L mode m snap d = Inr d'" and "within m d"
  shows "within m d'"
  using assms(1)
proof (rule apply_stages)
  fix d1 wms d3 b
  assume i: "intake_candidates L mode m snap (elems (snap_Candidates snap)) d = Inr d1"
    and o: "omit_episodes snap [0..<length (ad_Episodes d1)] (d1\<lparr>ad_SourceWatermarks := wms\<rparr>) = Inr d3"
    and d': "d' = d3\<lparr>ad_SourceWatermarksByScope := b\<rparr>"
  have "within m (d1\<lparr>ad_SourceWatermarks := wms\<rparr>)" using intake_candidates_within [OF i assms(2)] by (simp add: within_def)
  from omit_episodes_within [OF o this] show ?thesis by (simp add: d' within_def)
qed

lemma archive_within:
  assumes "archiveAlertDeliveryAuthorityScopeLocked D m snap d = Inr d'" and "within m d"
  shows "within m d'"
proof -
  from assms(1) obtain d1 where d1: "archive_episodes D m (snap_AuthorityScope (ad_Snapshot d))
      (if snap_AsOf (ad_Snapshot d) > snap_AsOf snap then snap_AsOf (ad_Snapshot d) else snap_AsOf snap) (ad_Episodes d) d = Inr d1"
    and d': "\<exists>x y z. d' = d1\<lparr>ad_SourceWatermarksByScope := x, ad_SourceWatermarks := y, ad_Health := z\<rparr>"
    by (auto simp: archiveAlertDeliveryAuthorityScopeLocked_def Let_def bind_result_Inr)
  show ?thesis using archive_episodes_within [OF d1 assms(2)] d' by (auto simp: within_def)
qed

lemma planned_within: "planned D s n \<Longrightarrow> within (limit s) (prior_data s) \<Longrightarrow> within (limit s) n"
proof (induction rule: planned.induct)
  case (overflows at)
  then show ?case by (auto simp: within_def prior_data_def overflow_data_def Let_def split: option.splits)
next
  case (overflows_first snap at)
  then show ?case by (auto simp: within_def prior_data_def overflow_data_def first_unavailable_def Let_def split: option.splits)
next
  case (completes d i k completion fresh attempt now)
  then show ?case by (auto simp: within_def prior_data_def limit_def not_le)
next
  case (refuses d i k now c retiredAt occs scope occ)
  then show ?case by (auto simp: within_def prior_data_def suppress_occurrence_def)
next
  case (retires d targets at)
  have "int (length (ad_RetiredTargets (retire_data targets at d))) \<le> limit s"
    using retires(2) length_retired_targets [of at targets "ad_RetiredTargets d"] by (simp add: retire_data_def limit_def)
  then show ?case using retires by (simp add: within_def prior_data_def retire_data_def)
next
  case (compacts d nxt now active r)
  have "within (limit s) (compacted (time_Add now (- alertDeliveryRetention)) active (cloneAlertDeliveryData d))"
  proof -
    have f: "length (ad_Episodes (compacted c a x)) \<le> length (ad_Episodes x)" "length (ad_PreviousContexts (compacted c a x)) \<le> length (ad_PreviousContexts x)"
      "length (ad_Occurrences (compacted c a x)) \<le> length (ad_Occurrences x)" "length (ad_Attempts (compacted c a x)) \<le> length (ad_Attempts x)"
      "length (ad_Receipts (compacted c a x)) \<le> length (ad_Receipts x)" "length (ad_RetiredTargets (compacted c a x)) \<le> length (ad_RetiredTargets x)" for c a x
      by (simp_all add: compacted_fields length_filter_le) (simp_all add: compacted_def compact_scopes_def compact_episodes_def compact_targets_def compact_evidence_def Let_def length_filter_le)
    have "within (limit s) (cloneAlertDeliveryData d)" using compacts(1,3) by (simp add: within_def prior_data_def)
    then show ?thesis unfolding within_def using f [of "time_Add now (- alertDeliveryRetention)" active "cloneAlertDeliveryData d"] by linarith
  qed
  then show ?case using compacts(2) by (simp add: within_def)
next
  case (observes snap d0 d1 m d2 d3)
  have m: "m = limit s" using observes(4) by (simp add: limit_def)
  have "within m d0"
    using observes(7) migrate_shape [of "case al_data s of None \<Rightarrow> newAlertDeliveryData | Some p \<Rightarrow> cloneAlertDeliveryData p"]
    by (auto simp: m observes(2) within_def prior_data_def split: option.splits)
  then have "within m d1" using observes(3) archive_within by blast
  then have "within m d2" by (rule apply_snapshot_within [OF observes(5)])
  then have "within m d3" using establish_shape [OF observes(6)] by (auto simp: within_def)
  then show ?case by (simp add: m within_def)
qed (auto simp: within_def prior_data_def limit_def)

lemma run_op_limit: "limit (run_op D saveErr op s) = limit s"
  using run_op_settled [of D saveErr s op] by (auto simp: settled_def kept_def advanced_def settings_def)

lemma run_op_within: "within (limit s) (prior_data s) \<Longrightarrow> within (limit s) (prior_data (run_op D saveErr op s))"
proof -
  assume w: "within (limit s) (prior_data s)"
  from run_op_settled [of D saveErr s op] consider "al_data (run_op D saveErr op s) = al_data s"
    | n m where "planned D s n" "bumpAlertDeliveryGenerationLocked s n = Inr m" "al_data (run_op D saveErr op s) = Some m"
    by (auto simp: settled_def kept_def advanced_def)
  then show ?thesis
  proof cases
    case 1
    then show ?thesis using w by (simp add: prior_data_def)
  next
    case (2 n m)
    then show ?thesis using planned_within [OF 2(1) w] bump_shape [OF 2(2)] by (auto simp: prior_data_def within_def)
  qed
qed

interpretation capacity: op_simulation "\<lambda>(saveErr, op). run_op D saveErr op" "\<lambda>s. (limit s, prior_data s)"
  "\<lambda>(m, d) (m', d'). m' = m \<and> (within m d \<longrightarrow> within m' d')" "\<lambda>(m, d). within m d" for D
  by unfold_locales (auto intro!: r_into_rtranclp simp: run_op_limit run_op_within)

text \<open>C36. The item limit bounds the ledger: over every run of operations the episodes, occurrences,
  previous contexts, attempts, receipts and retired targets each stay within the limit of the store.\<close>

theorem ledger_is_bounded:
  assumes "validateAlertDeliveryState D s = None" and "al_data (run_ops D ops s) = Some d"
  shows "within (limit s) d"
proof -
  have "0 < limit s" by (simp add: limit_def initAlertDeliveryRuntime_def defaultAlertDeliveryMaxItems_def)
  then have start: "within (limit s) (prior_data s)"
    using assms(1) by (cases "al_data s")
      (auto simp: within_def prior_data_def validateAlertDeliveryState_def validate_data_def limit_def not_less)
  have "limit (run_ops D ops s) = limit s" by (induction ops arbitrary: s) (auto simp: run_op_limit)
  then show ?thesis
    using capacity.run_simulates [of s D ops] start assms(2) by (simp add: run_ops_fold [symmetric] prior_data_def)
qed

theorem ledger_is_bounded_witness: "within 4096 (prior_data sample_accepted)"
proof -
  have "al_data (run_ops sample_lib [] sample_accepted) = Some (prior_data sample_accepted)" by (simp add: sample_accepted_def sample_state_def prior_data_def)
  moreover have "limit sample_accepted = 4096" by code_simp
  ultimately show ?thesis using ledger_is_bounded [OF sample_valid(3)] by metis
qed

end
