(* ===== verification/Delivery_Observe.thy ===== *)
theory Delivery_Observe
  imports Delivery_Safety
begin

text \<open>
  Guarantees of the intake (\<^verbatim>\<open>ObserveAlertSnapshot\<close>): an open episode is resolved only by a reported recovery
  on current evidence or by omission from an authoritative source, and a snapshot that was accepted is
  accepted again without effect.
\<close>


subsection \<open>Resolving an episode\<close>

definition same_episode :: "alertDeliveryEpisode \<Rightarrow> alertDeliveryEpisode \<Rightarrow> bool" where
  "same_episode e e' \<longleftrightarrow> ep_AuthorityScope e' = ep_AuthorityScope e \<and> ep_EpisodeKey e' = ep_EpisodeKey e \<and> ep_Source e' = ep_Source e \<and> ep_Kind e' = ep_Kind e"

text \<open>A candidate that reports the recovery of the episode on current evidence of its source.\<close>

definition reports_recovery :: "AlertCandidateSnapshot \<Rightarrow> alertDeliveryEpisode \<Rightarrow> AlertCandidate \<Rightarrow> bool" where
  "reports_recovery snap e c \<longleftrightarrow> ep_AuthorityScope e = snap_AuthorityScope snap \<and> ac_EpisodeKey c = ep_EpisodeKey e \<and> ac_Source c = ep_Source e \<and>
     ac_State c = AlertEpisodeRecovered \<and> alertCandidateSourceCurrent snap c (snap_AsOf snap)"

lemma intake_candidate_episode:
  assumes r: "intake_candidate L mode m snap c d = Inr d'" and i: "i < length (ad_Episodes d)"
  shows "i < length (ad_Episodes d') \<and> same_episode (ad_Episodes d ! i) (ad_Episodes d' ! i) \<and>
    (ep_State (ad_Episodes d' ! i) = AlertEpisodeRecovered \<longrightarrow> ep_State (ad_Episodes d ! i) = AlertEpisodeRecovered \<or> reports_recovery snap (ad_Episodes d ! i) c)"
proof (cases "episode_index d (alertDeliveryScopedKey (snap_AuthorityScope snap) (ac_EpisodeKey c))")
  case None
  with r i have "ad_Episodes d' = ad_Episodes d \<or> (\<exists>e. ad_Episodes d' = ad_Episodes d @ [e])"
    by (auto simp: intake_candidate_def first_sighting_def Let_def bind_result_Inr split: if_splits dest!: new_occurrence_frame)
  then show ?thesis using i by (auto simp: nth_append same_episode_def)
next
  case (Some k)
  let ?e = "ad_Episodes d ! k"
  have k: "k < length (ad_Episodes d)" "alertDeliveryScopedKey (ep_AuthorityScope ?e) (ep_EpisodeKey ?e) = alertDeliveryScopedKey (snap_AuthorityScope snap) (ac_EpisodeKey c)"
    using Some last_index_Some unfolding episode_index_def by blast+
  from r Some have g: "ep_AuthorityScope ?e = snap_AuthorityScope snap" "ep_Source ?e = ac_Source c"
    "ac_State c = AlertEpisodeRecovered \<Longrightarrow> alertCandidateSourceCurrent snap c (snap_AsOf snap)"
    by (auto simp: intake_candidate_def Let_def split: if_splits option.splits)
  with k have key: "ac_EpisodeKey c = ep_EpisodeKey ?e" by (simp add: alertDeliveryScopedKey_def)
  from r Some have "ad_Episodes d' = ad_Episodes d \<or> (\<exists>e'. ad_Episodes d' = (ad_Episodes d)[k := e'] \<and> same_episode ?e e' \<and>
      (ep_State e' = AlertEpisodeRecovered \<longrightarrow> ac_State c = AlertEpisodeRecovered))"
    by (auto simp: intake_candidate_def same_occurrence_def next_occurrence_def Let_def bind_result_Inr same_episode_def
        split: if_splits option.splits dest!: new_occurrence_frame)
  then show ?thesis using i k(1) g key by (cases "i = k") (auto simp: same_episode_def reports_recovery_def)
qed

lemma same_episode_trans: "same_episode a b \<Longrightarrow> same_episode b c \<Longrightarrow> same_episode a c" by (simp add: same_episode_def)

lemma intake_candidates_episode:
  "intake_candidates L mode m snap cs d = Inr d' \<Longrightarrow> i < length (ad_Episodes d) \<Longrightarrow>
   i < length (ad_Episodes d') \<and> same_episode (ad_Episodes d ! i) (ad_Episodes d' ! i) \<and>
   (ep_State (ad_Episodes d' ! i) = AlertEpisodeRecovered \<longrightarrow> ep_State (ad_Episodes d ! i) = AlertEpisodeRecovered \<or>
     (\<exists>c\<in>set cs. reports_recovery snap (ad_Episodes d ! i) c))"
proof (induction cs arbitrary: d)
  case Nil
  then show ?case by (simp add: same_episode_def)
next
  case (Cons c cs)
  then obtain d1 where c: "intake_candidate L mode m snap c d = Inr d1" "intake_candidates L mode m snap cs d1 = Inr d'" by (auto simp: bind_result_Inr)
  note a = intake_candidate_episode [OF c(1) Cons.prems(2)]
  note b = Cons.IH [OF c(2), OF conjunct1 [OF a]]
  have "reports_recovery snap (ad_Episodes d ! i) x" if "reports_recovery snap (ad_Episodes d1 ! i) x" for x
    using that a by (simp add: reports_recovery_def same_episode_def)
  then show ?case using a b same_episode_trans by (metis list.set_intros(1) list.set_intros(2))
qed

lemma omit_episodes_episode:
  "omit_episodes snap is d = Inr d' \<Longrightarrow> i < length (ad_Episodes d) \<Longrightarrow>
   same_episode (ad_Episodes d ! i) (ad_Episodes d' ! i) \<and>
   (ep_State (ad_Episodes d' ! i) = AlertEpisodeRecovered \<longrightarrow> ep_State (ad_Episodes d ! i) = AlertEpisodeRecovered \<or> omits snap (ad_Episodes d ! i))"
proof (induction "is" arbitrary: d)
  case Nil
  then show ?case by (simp add: same_episode_def)
next
  case (Cons k "is")
  let ?e = "ad_Episodes d ! k"
  from Cons.prems(1) consider "omit_episodes snap is d = Inr d'"
    | occs where "omits snap ?e" "omit_episodes snap is (d\<lparr>ad_Occurrences := occs,
         ad_Episodes := (ad_Episodes d)[k := ?e\<lparr>ep_State := AlertEpisodeRecovered, ep_LastSeenAt := snap_AsOf snap\<rparr>]\<rparr>) = Inr d'"
    by (auto simp: Let_def split: if_splits option.splits)
  then show ?case
  proof cases
    case 1
    then show ?thesis using Cons by blast
  next
    case (2 occs)
    let ?d = "d\<lparr>ad_Occurrences := occs, ad_Episodes := (ad_Episodes d)[k := ?e\<lparr>ep_State := AlertEpisodeRecovered, ep_LastSeenAt := snap_AsOf snap\<rparr>]\<rparr>"
    have ih: "same_episode (ad_Episodes ?d ! i) (ad_Episodes d' ! i)"
      "ep_State (ad_Episodes d' ! i) = AlertEpisodeRecovered \<longrightarrow> ep_State (ad_Episodes ?d ! i) = AlertEpisodeRecovered \<or> omits snap (ad_Episodes ?d ! i)"
      using Cons.IH [OF 2(2)] Cons.prems(2) by simp_all
    show ?thesis
    proof (cases "i = k")
      case True
      then show ?thesis using ih(1) 2(1) Cons.prems(2) by (simp add: same_episode_def)
    next
      case False
      then show ?thesis using ih by simp
    qed
  qed
qed

text \<open>How a snapshot is accepted: as the one already installed, or written after every stage.\<close>

definition accepted_as_installed :: "AlertCandidateSnapshot \<Rightarrow> AlertLedger \<Rightarrow> AlertLedger \<Rightarrow> bool" where
  "accepted_as_installed snap s s' \<longleftrightarrow> s' = initAlertDeliveryRuntime s \<and>
     (\<exists>p. al_data s = Some p \<and> ad_Generation p > 0 \<and> equalAlertCandidateSnapshot (ad_Snapshot p) snap)"

definition accepted_as_written :: "delivery_lib \<Rightarrow> AlertCandidateSnapshot \<Rightarrow> AlertLedger \<Rightarrow> AlertLedger \<Rightarrow> bool" where
  "accepted_as_written D snap s s' \<longleftrightarrow>
     (\<exists>c d1 d2 d3 d4. let d0 = migrateAlertSourceBaselines (case al_data s of None \<Rightarrow> newAlertDeliveryData | Some p \<Rightarrow> cloneAlertDeliveryData p) in
        (if c then archiveAlertDeliveryAuthorityScopeLocked D (limit s) snap d0 else Inr d0) = Inr d1 \<and>
        applyAlertSnapshotLocked (dl_golib D) (al_mode s) (limit s) snap d1 = Inr d2 \<and> establish_baselines (limit s) snap d2 = Inr d3 \<and>
        bumpAlertDeliveryGenerationLocked s (recomputeAlertDeliveryHealthLocked (snap_AsOf snap) d3) = Inr d4 \<and>
        al_data s' = Some (d4\<lparr>ad_Snapshot := snap, ad_Version := AlertDeliveryVersion\<rparr>) \<and> al_saved s' = al_data s' \<and> settings s' = settings s)"

lemma observe_accepted:
  assumes "ObserveAlertSnapshot D saveErr clock snap s = (s', v, None)"
  shows "AlertCandidateSnapshot_Validate snap = None \<and> \<not> al_quarantined s \<and> (accepted_as_installed snap s s' \<or> accepted_as_written D snap s s')"
proof -
  let ?s = "initAlertDeliveryRuntime s"
  let ?d0 = "migrateAlertSourceBaselines (case al_data s of None \<Rightarrow> newAlertDeliveryData | Some p \<Rightarrow> cloneAlertDeliveryData p)"
  have valid: "AlertCandidateSnapshot_Validate snap = None" and q: "\<not> al_quarantined s"
    using assms by (auto simp: ObserveAlertSnapshot_def Let_def split: option.splits if_splits)
  define ok where "ok = (\<lambda>r :: AlertLedger \<times> AlertDeliveryView \<times> goerror option. snd (snd r) = None \<longrightarrow>
    accepted_as_installed snap s (fst r) \<or> accepted_as_written D snap s (fst r))"
  have refused: "ok (case x of Some err \<Rightarrow> (?s, zero_view, Some err) | None \<Rightarrow> y)" if "ok y" for x :: "goerror option" and y
    using that by (simp add: ok_def split: option.splits)
  have cond: "ok (if c then x else y)" if "c \<Longrightarrow> ok x" "\<not> c \<Longrightarrow> ok y" for c x y using that by simp
  have branch: "ok (case r of Inl e \<Rightarrow> f e | Inr v \<Rightarrow> g v)" if "\<And>e. r = Inl e \<Longrightarrow> ok (f e)" "\<And>v. r = Inr v \<Longrightarrow> ok (g v)"
    for r :: "alertDeliveryData result" and f g using that by (cases r) auto
  have over: "ok (case x of (s1, err) \<Rightarrow> (s1, zero_view, Some err))" for x by (cases x) (simp add: ok_def)
  have err: "ok (x, zero_view, Some e)" "ok (x, y, Some e)" for x y e by (simp_all add: ok_def)
  have installed: "ok (?s, y, None)"
    if "\<not> \<not> equalAlertCandidateSnapshot (ad_Snapshot (the (al_data s))) snap" and
      "\<not> z \<and> (case al_data s of None \<Rightarrow> False | Some p \<Rightarrow> ad_Generation p > 0) \<and> w" for y z w
    using that by (auto simp: ok_def accepted_as_installed_def split: option.splits)
  have written: "ok (case save_or_roll_back saveErr at (al_data s) (d4\<lparr>ad_Snapshot := snap, ad_Version := AlertDeliveryVersion\<rparr>) ?s of
        (s', Some err) \<Rightarrow> (s', zero_view, Some err) | (s', None) \<Rightarrow> (s', alertDeliveryViewLocked s' (al_data s') clock, None))"
    if st: "(if c then archiveAlertDeliveryAuthorityScopeLocked D (al_maxItems ?s) snap ?d0 else Inr ?d0) = Inr d1"
      and a: "applyAlertSnapshotLocked (dl_golib D) (al_mode s) (al_maxItems ?s) snap d1 = Inr d2"
      and b: "establish_baselines (al_maxItems ?s) snap d2 = Inr d3"
      and g: "bumpAlertDeliveryGenerationLocked s (recomputeAlertDeliveryHealthLocked (snap_AsOf snap) d3) = Inr d4" for c d1 d2 d3 d4 at
  proof -
    obtain s1 r where sv: "save_or_roll_back saveErr at (al_data s) (d4\<lparr>ad_Snapshot := snap, ad_Version := AlertDeliveryVersion\<rparr>) ?s = (s1, r)" by fastforce
    have "accepted_as_written D snap s s1" if "r = None"
      unfolding accepted_as_written_def Let_def limit_def
      using save_outcome [of saveErr at ?s "d4\<lparr>ad_Snapshot := snap, ad_Version := AlertDeliveryVersion\<rparr>" s1 r] sv that st a b g
      by (intro exI [of _ c] exI [of _ d1] exI [of _ d2] exI [of _ d3] exI [of _ d4]) simp
    then show ?thesis by (simp add: sv ok_def split: option.splits)
  qed
  have "ok (ObserveAlertSnapshot D saveErr clock snap s)"
    unfolding ObserveAlertSnapshot_def valid option.case Let_def init_simps
    by (intro cond branch refused over err) ((erule (1) installed) | (erule (2) written))+
  then show ?thesis using assms valid q by (simp add: ok_def)
qed

text \<open>C15. Absence of news is not recovery: an accepted snapshot turns an open episode into a recovered one
  only if a candidate of the snapshot reports its recovery on current evidence, or the snapshot
  omits it while the episode's source is authoritative, that is covered, current and within its
  freshness at the snapshot's time, under coverage that is not unavailable.\<close>

theorem resolution_needs_evidence:
  assumes "ObserveAlertSnapshot D saveErr clock snap s = (s', v, None)" and "al_data s = Some d" and "al_data s' = Some d'"
    and "i < length (ad_Episodes d)" and "ep_State (ad_Episodes d ! i) \<noteq> AlertEpisodeRecovered" and "ep_State (ad_Episodes d' ! i) = AlertEpisodeRecovered"
  shows "ep_AuthorityScope (ad_Episodes d ! i) = snap_AuthorityScope snap \<and>
    ((\<exists>c\<in>set (elems (snap_Candidates snap)). reports_recovery snap (ad_Episodes d ! i) c) \<or>
     (cov_State (snap_Coverage snap) \<noteq> AlertCoverageUnavailable \<and>
      (\<exists>row\<in>set (elems (snap_Sources snap)). asc_Source row = ep_Source (ad_Episodes d ! i) \<and> alertSourceCurrent row (snap_AsOf snap)) \<and>
      ep_EpisodeKey (ad_Episodes d ! i) \<notin> ac_EpisodeKey ` set (elems (snap_Candidates snap))))"
proof -
  let ?e = "ad_Episodes d ! i"
  from observe_accepted [OF assms(1)] show ?thesis
  proof (elim conjE disjE)
    assume "accepted_as_installed snap s s'"
    then show ?thesis using assms by (auto simp: accepted_as_installed_def)
  next
    assume "accepted_as_written D snap s s'"
    then obtain c d1 d2 d3 d4 where
      st: "(if c then archiveAlertDeliveryAuthorityScopeLocked D (limit s) snap (migrateAlertSourceBaselines (cloneAlertDeliveryData d)) else Inr (migrateAlertSourceBaselines (cloneAlertDeliveryData d))) = Inr d1"
      and ap: "applyAlertSnapshotLocked (dl_golib D) (al_mode s) (limit s) snap d1 = Inr d2" and es: "establish_baselines (limit s) snap d2 = Inr d3"
      and bp: "bumpAlertDeliveryGenerationLocked s (recomputeAlertDeliveryHealthLocked (snap_AsOf snap) d3) = Inr d4"
      and d': "al_data s' = Some (d4\<lparr>ad_Snapshot := snap, ad_Version := AlertDeliveryVersion\<rparr>)"
      unfolding accepted_as_written_def Let_def assms(2) option.case by blast
    have eps1: "ad_Episodes d1 = ad_Episodes d" using st archive_frame(3) by (auto split: if_splits)
    have eps': "ad_Episodes d' = ad_Episodes d2"
      using assms(3) d' bump_shape [OF bp] establish_shape [OF es] by auto
    from ap show ?thesis
    proof (rule apply_stages)
      fix e1 wms e3 b
      assume ic: "intake_candidates (dl_golib D) (al_mode s) (limit s) snap (elems (snap_Candidates snap)) d1 = Inr e1"
        and om: "omit_episodes snap [0..<length (ad_Episodes e1)] (e1\<lparr>ad_SourceWatermarks := wms\<rparr>) = Inr e3"
        and d2: "d2 = e3\<lparr>ad_SourceWatermarksByScope := b\<rparr>"
      note A = intake_candidates_episode [OF ic, of i, unfolded eps1, OF assms(4)]
      have B: "same_episode (ad_Episodes e1 ! i) (ad_Episodes e3 ! i)"
        "ep_State (ad_Episodes e3 ! i) = AlertEpisodeRecovered \<longrightarrow> ep_State (ad_Episodes e1 ! i) = AlertEpisodeRecovered \<or> omits snap (ad_Episodes e1 ! i)"
        using omit_episodes_episode [OF om, of i] A by simp_all
      have "ep_State (ad_Episodes e3 ! i) = AlertEpisodeRecovered" using assms(6) eps' d2 by simp
      with A B assms(5) consider x where "x \<in> set (elems (snap_Candidates snap))" "reports_recovery snap ?e x" | "omits snap (ad_Episodes e1 ! i)" by blast
      then show ?thesis
      proof cases
        case 1
        then show ?thesis by (auto simp: reports_recovery_def)
      next
        case 2
        have same: "ep_AuthorityScope (ad_Episodes e1 ! i) = ep_AuthorityScope ?e" "ep_EpisodeKey (ad_Episodes e1 ! i) = ep_EpisodeKey ?e"
          "ep_Source (ad_Episodes e1 ! i) = ep_Source ?e" using A by (simp_all add: same_episode_def)
        from 2 show ?thesis unfolding omits_def same
          by (auto simp: authoritative_sources_def alertDeliveryScopedKey_def image_iff split: if_splits)
      qed
    qed
  qed
qed


theorem resolution_needs_evidence_witness:
  "\<exists>row\<in>set (elems (snap_Sources (sample_snapshot demo_scope 300 []))). asc_Source row = AlertSourceRegime \<and> alertSourceCurrent row (Instant 300)"
proof -
  let ?r = "ObserveAlertSnapshot sample_lib None (Instant 300) (sample_snapshot demo_scope 300 []) sample_open"
  have "snd (snd ?r) = None \<and> al_data (fst ?r) \<noteq> None \<and> ep_State (ad_Episodes (prior_data (fst ?r)) ! 0) = AlertEpisodeRecovered"
    by code_simp
  then have e: "snd (snd ?r) = None" "al_data (fst ?r) = Some (prior_data (fst ?r))" "ep_State (ad_Episodes (prior_data (fst ?r)) ! 0) = AlertEpisodeRecovered"
    by (auto simp: prior_data_def)
  have p: "?r = (fst ?r, fst (snd ?r), None)" using e(1) by (metis prod.collapse)
  have d: "al_data sample_open = Some (prior_data sample_open)" "0 < length (ad_Episodes (prior_data sample_open))"
    "ep_State (ad_Episodes (prior_data sample_open) ! 0) \<noteq> AlertEpisodeRecovered" "ep_Source (ad_Episodes (prior_data sample_open) ! 0) = AlertSourceRegime"
    by (simp_all add: sample_open_def sample_state_def prior_data_def sample_data_def sample_episode_def)
  show ?thesis using resolution_needs_evidence [OF p d(1) e(2) d(2,3) e(3)] d(4) by (simp add: sample_snapshot_def)
qed

subsection \<open>Replay\<close>

lemma replay_accepted:
  assumes "AlertCandidateSnapshot_Validate snap = None" and "\<not> al_quarantined t" and "al_data t = Some p" and "ad_Generation p > 0"
    and "equalAlertCandidateSnapshot (ad_Snapshot p) snap"
  shows "ObserveAlertSnapshot D saveErr clock snap t = (initAlertDeliveryRuntime t, alertDeliveryViewLocked (initAlertDeliveryRuntime t) (al_data t) clock, None)"
proof -
  have e: "snap_AuthorityScope (ad_Snapshot p) = snap_AuthorityScope snap" "snap_AsOf (ad_Snapshot p) = snap_AsOf snap"
    "cov_State (snap_Coverage (ad_Snapshot p)) = cov_State (snap_Coverage snap)"
    using assms(5) by (simp_all add: equalAlertCandidateSnapshot_def)
  have "\<not> (alertSnapshotCanEstablishBaseline snap \<and> cov_State (snap_Coverage snap) = AlertCoverageUnavailable)"
    by (simp add: alertSnapshotCanEstablishBaseline_def)
  then show ?thesis using assms e by (auto simp: ObserveAlertSnapshot_def Let_def)
qed

text \<open>Accepting a snapshot is idempotent: a snapshot that was accepted is accepted again, whatever the
  outcome of a write would be, without changing the ledger or what is on disk.\<close>

theorem accepted_snapshot_replays:
  assumes "ObserveAlertSnapshot D saveErr clock snap s = (s', v, None)"
  shows "ObserveAlertSnapshot D saveErr' clock' snap s' =
    (initAlertDeliveryRuntime s', alertDeliveryViewLocked (initAlertDeliveryRuntime s') (al_data s') clock', None) \<and> kept s' (initAlertDeliveryRuntime s')"
proof -
  note a = observe_accepted [OF assms]
  obtain p where p: "al_data s' = Some p" "ad_Generation p > 0" "equalAlertCandidateSnapshot (ad_Snapshot p) snap" "\<not> al_quarantined s'"
  proof -
    from a have "accepted_as_installed snap s s' \<or> accepted_as_written D snap s s'" by blast
    then show ?thesis
    proof
      assume "accepted_as_installed snap s s'"
      then show ?thesis using that a by (auto simp: accepted_as_installed_def)
    next
      assume "accepted_as_written D snap s s'"
      then obtain d3 d4 where b: "bumpAlertDeliveryGenerationLocked s (recomputeAlertDeliveryHealthLocked (snap_AsOf snap) d3) = Inr d4"
        and d': "al_data s' = Some (d4\<lparr>ad_Snapshot := snap, ad_Version := AlertDeliveryVersion\<rparr>)" and st: "settings s' = settings s"
        unfolding accepted_as_written_def Let_def by blast
      have "ad_Generation d4 > 0" using bump_grows [OF b] by (rule order.strict_trans1 [rotated]) simp
      then show ?thesis using that [OF d'] st a by (simp add: equalAlertCandidateSnapshot_def settings_def)
    qed
  qed
  show ?thesis using replay_accepted [OF conjunct1 [OF a] p(4,1,2,3)] by (simp add: kept_def)
qed

theorem accepted_snapshot_replays_witness:
  "snd (snd (ObserveAlertSnapshot sample_lib (Some (New ''disk full'')) (Instant 400) (sample_snapshot demo_scope 100 [])
     (fst (ObserveAlertSnapshot sample_lib None (Instant 100) (sample_snapshot demo_scope 100 []) sample_ledger)))) = None"
proof -
  let ?r = "ObserveAlertSnapshot sample_lib None (Instant 100) (sample_snapshot demo_scope 100 []) sample_ledger"
  have "snd (snd ?r) = None" by code_simp
  then have "?r = (fst ?r, fst (snd ?r), None)" by (metis prod.collapse)
  from accepted_snapshot_replays [OF this] show ?thesis by simp
qed

end
