(* ===== verification/Delivery_Findings.thy ===== *)
theory Delivery_Findings
  imports Delivery_Transport
begin

text \<open>
  Two behaviours of the delivery ledger that its own checks contradict, as evaluated runs. The states on
  the way are given, so that each operation is evaluated by itself.
\<close>

definition other_scope :: string where
  "other_scope = alertAuthorityScopePrefix @ replicate 63 CHR ''0'' @ ''f''"

definition late_retry :: alertDeliveryAttempt where
  "late_retry = (sample_attempt AlertDeliveryAttemptRetry)\<lparr>dat_CompletedAt := Instant 250, dat_Disposition := AlertDeliveryCompletionInactive\<rparr>"

definition second_attempt :: alertDeliveryAttempt where
  "second_attempt = (sample_attempt AlertDeliveryAttemptReserved)\<lparr>dat_ID := ''alert-attempt-0722000000000000'', dat_AttemptNumber := 2, dat_ReservedAt := Instant 270\<rparr>"

text \<open>The ledger under the other account, and after the return to the first one.\<close>

definition away_data :: "64 word \<Rightarrow> gotime \<Rightarrow> alertDeliveryAttempt list \<Rightarrow> alertDeliveryData" where
  "away_data g now as = (let b = \<lparr>bl_EstablishedAt = Instant 240, bl_SnapshotAsOf = Instant 240\<rparr> in
     (sample_data g now as [])\<lparr>
       ad_SourceBaselines := Some [(demo_scope, [(AlertSourceRegime, sample_baseline)]), (other_scope, [(AlertSourceRegime, b)])],
       ad_Baselines := Some [(demo_scope, sample_baseline), (other_scope, b)],
       ad_Snapshot := sample_snapshot other_scope 240 [], ad_SourceWatermarks := [(AlertSourceRegime, Instant 240)],
       ad_SourceWatermarksByScope := Some [(demo_scope, [(AlertSourceRegime, Instant 200)]), (other_scope, [(AlertSourceRegime, Instant 240)])],
       ad_PreviousContexts := [(previous_context sample_lib demo_scope sample_occurrence (Instant 240) 1)\<lparr>pc_DisplayID := ''alert-previous-1042000000000000''\<rparr>],
       ad_PreviousContextHighWater := 1\<rparr>)"

definition back_data :: "64 word \<Rightarrow> gotime \<Rightarrow> alertDeliveryAttempt list \<Rightarrow> alertDeliveryData" where
  "back_data g now as = (away_data g now as)\<lparr>
     ad_Snapshot := sample_snapshot demo_scope 260 [sample_candidate AlertEpisodeOpen 150 260], ad_SourceWatermarks := [(AlertSourceRegime, Instant 260)],
     ad_SourceWatermarksByScope := Some [(demo_scope, [(AlertSourceRegime, Instant 260)]), (other_scope, [(AlertSourceRegime, Instant 240)])],
     ad_Episodes := [sample_episode\<lparr>ep_LastSeenAt := Instant 260\<rparr>],
     ad_Occurrences := [sample_occurrence\<lparr>occ_EvidenceAsOf := Instant 260, occ_ObservedAt := Instant 260, occ_LastSeenAt := Instant 260\<rparr>]\<rparr>"

lemma away_switch:
  "run_op sample_lib None (Observe (Instant 240) (sample_snapshot other_scope 240 [])) sample_confirmed =
     sample_state (away_data 5 (Instant 240) [sample_attempt AlertDeliveryAttemptConfirmed]) [sample_attempt_id]"
  by code_simp

lemma away_outcome:
  "run_op sample_lib None (Complete sample_attempt_id AlertDeliveryCompletionRetryable (Instant 250))
     (sample_state (away_data 5 (Instant 240) [sample_attempt AlertDeliveryAttemptConfirmed]) [sample_attempt_id]) =
     sample_state (away_data 6 (Instant 250) [late_retry]) []"
  by code_simp

lemma away_return:
  "run_op sample_lib None (Observe (Instant 260) (sample_snapshot demo_scope 260 [sample_candidate AlertEpisodeOpen 150 260]))
     (sample_state (away_data 6 (Instant 250) [late_retry]) []) = sample_state (back_data 7 (Instant 260) [late_retry]) []"
  by code_simp

lemma back_begin:
  "BeginAlertDelivery sample_lib None sample_key sample_target (Instant 270) (sample_state (back_data 7 (Instant 260) [late_retry]) []) =
     (sample_state (back_data 8 (Instant 270) [late_retry, second_attempt]) [dat_ID second_attempt],
      Inr (alertDeliveryReservationView second_attempt (occ_DisplayID sample_occurrence), True))"
  by code_simp

lemma back_valid: "validateAlertDeliveryState sample_lib (sample_state (back_data 7 (Instant 260) [late_retry]) []) = None"
  by code_simp

lemma back_invalid:
  "validateAlertDeliveryState sample_lib (sample_state (back_data 8 (Instant 270) [late_retry, second_attempt]) [dat_ID second_attempt]) =
     Some (invalid_state ''invalid alert delivery attempt transition chain'')"
  by code_simp

text \<open>A transport outcome that arrives while another account is selected, and the return to the first one.\<close>

definition away_and_back :: "(goerror option \<times> ledger_op) list" where
  "away_and_back =
     [(None, Observe (Instant 240) (sample_snapshot other_scope 240 [])),
      (None, Complete sample_attempt_id AlertDeliveryCompletionRetryable (Instant 250)),
      (None, Observe (Instant 260) (sample_snapshot demo_scope 260 [sample_candidate AlertEpisodeOpen 150 260]))]"


text \<open>After a change of the authority scope the health still reports the acceptance of the scope that
  was left: archiving the old scope resets the health, and it is then derived again while the snapshot of
  the old scope is still installed, although the new scope has no receipt.\<close>

theorem scope_change_keeps_old_acceptance:
  "(let d = prior_data (run_op sample_lib None (Observe (Instant 240) (sample_snapshot other_scope 240 [])) sample_accepted) in
    snap_AuthorityScope (ad_Snapshot d) = other_scope \<and> other_scope \<notin> rcp_AuthorityScope ` set (ad_Receipts d) \<and>
    dh_LastAcceptedAt (ad_Health d) = Instant 230)"
  by code_simp

end
