(* ===== verification/Proto_Wire.thy ===== *)
theory Proto_Wire
  imports Canary_Prelude
begin

text \<open>
  The protobuf wire format of broker orders: the append and iteration routines of
  \<^verbatim>\<open>pkg/ibkr/place_order_proto.go\<close> and what they use of Go's \<^verbatim>\<open>encoding/binary\<close>.
  \<^item> A byte is an \<open>8 word\<close>, a varint a \<open>64 word\<close>; \<open>Uvarint\<close> follows the library routine with its overflow
    rule (ten bytes, the last at most 1) and returns the number of bytes read, which is not positive on
    failure.
  \<^item> \<open>forEachProtoField\<close> is the iteration: the callback takes the state it updates and may refuse. The
    partially updated state that accompanies a refusal is dropped, as every caller does.
  \<^item> Go strings are byte strings; \<open>bytes_of\<close> and \<open>string_of\<close> are the two conversions.
  \<^item> The locale \<open>wire_value\<close> is the interface between the encoder and the iteration: a kind of value, how
    it is written after its tag, and what the callback is given. It is interpreted for varints,
    64-bit values and byte strings.
\<close>

unbundle bit_operations_syntax

type_synonym bytes = "8 word list"

named_theorems wire_simps \<open>reading back what was appended\<close>

subsection \<open>Conversions\<close>

definition bytes_of :: "string \<Rightarrow> bytes" where
  "bytes_of s = map of_char s"

definition string_of :: "bytes \<Rightarrow> string" where
  "string_of bs = map (\<lambda>b. char_of (unat b)) bs"

definition go_int32 :: "int \<Rightarrow> 32 word" where
  "go_int32 v = word_of_int v"

definition go_int :: "64 word \<Rightarrow> int" where
  "go_int v = sint v"

subsection \<open>encoding/binary\<close>

function uvarint_bytes :: "64 word \<Rightarrow> bytes" where
  "uvarint_bytes x = (if x < 0x80 then [ucast x] else (ucast x OR 0x80) # uvarint_bytes (drop_bit 7 x))"
  by pat_completeness auto
termination
proof (relation "measure unat")
  fix x :: "64 word"
  assume "\<not> x < 0x80"
  then have "x \<noteq> 0" by auto
  then have "0 < unat x" by (simp add: word_gt_0 unat_gt_0)
  moreover have "unat (drop_bit 7 x) = unat x div 128"
    unfolding unat_drop_bit_eq by (simp add: drop_bit_eq_div)
  ultimately show "(drop_bit 7 x, x) \<in> measure unat" by simp
qed simp

definition AppendUvarint :: "bytes \<Rightarrow> 64 word \<Rightarrow> bytes" where
  "AppendUvarint buf x = buf @ uvarint_bytes x"

fun Uvarint_from :: "nat \<Rightarrow> 64 word \<Rightarrow> nat \<Rightarrow> bytes \<Rightarrow> 64 word \<times> int" where
  "Uvarint_from i x s [] = (0, 0)"
| "Uvarint_from i x s (b # bs) =
     (if i = 10 then (0, - (int i + 1))
      else if b < 0x80 then
        (if i = 9 \<and> 1 < b then (0, - (int i + 1)) else (x OR push_bit s (ucast b), int i + 1))
      else Uvarint_from (Suc i) (x OR push_bit s (ucast (b AND 0x7f))) (s + 7) bs)"

definition Uvarint :: "bytes \<Rightarrow> 64 word \<times> int" where
  "Uvarint buf = Uvarint_from 0 0 0 buf"

definition LittleEndian_AppendUint64 :: "bytes \<Rightarrow> 64 word \<Rightarrow> bytes" where
  "LittleEndian_AppendUint64 buf x = buf @ map (\<lambda>k. ucast (drop_bit (8 * k) x)) [0..<8]"

definition LittleEndian_Uint64 :: "bytes \<Rightarrow> 64 word" where
  "LittleEndian_Uint64 buf = foldr (\<lambda>k acc. push_bit (8 * k) (ucast (buf ! k)) OR acc) [0..<8] 0"

definition BigEndian_AppendUint32 :: "bytes \<Rightarrow> 32 word \<Rightarrow> bytes" where
  "BigEndian_AppendUint32 buf x = buf @ map (\<lambda>k. ucast (drop_bit (8 * k) x)) [3, 2, 1, 0]"

subsection \<open>Appending fields\<close>

definition protoWireVarint :: int where "protoWireVarint = 0"
definition protoWireFixed64 :: int where "protoWireFixed64 = 1"
definition protoWireBytes :: int where "protoWireBytes = 2"

definition protoAppendTag :: "bytes \<Rightarrow> int \<Rightarrow> int \<Rightarrow> bytes" where
  "protoAppendTag buf fieldNumber wireType = AppendUvarint buf (word_of_int (push_bit 3 fieldNumber OR wireType))"

definition protoAppendInt32 :: "bytes \<Rightarrow> int \<Rightarrow> 32 word \<Rightarrow> bytes" where
  "protoAppendInt32 buf fieldNumber v = AppendUvarint (protoAppendTag buf fieldNumber protoWireVarint) (scast v)"

definition protoAppendInt64 :: "bytes \<Rightarrow> int \<Rightarrow> 64 word \<Rightarrow> bytes" where
  "protoAppendInt64 buf fieldNumber v = AppendUvarint (protoAppendTag buf fieldNumber protoWireVarint) v"

definition protoAppendBool :: "bytes \<Rightarrow> int \<Rightarrow> bool \<Rightarrow> bytes" where
  "protoAppendBool buf fieldNumber v = protoAppendTag buf fieldNumber protoWireVarint @ [if v then 1 else 0]"

definition protoAppendDouble :: "bytes \<Rightarrow> int \<Rightarrow> 64 word \<Rightarrow> bytes" where
  "protoAppendDouble buf fieldNumber v = LittleEndian_AppendUint64 (protoAppendTag buf fieldNumber protoWireFixed64) v"

definition protoAppendMessage :: "bytes \<Rightarrow> int \<Rightarrow> bytes \<Rightarrow> bytes" where
  "protoAppendMessage buf fieldNumber v =
     AppendUvarint (protoAppendTag buf fieldNumber protoWireBytes) (word_of_nat (length v)) @ v"

definition protoAppendString :: "bytes \<Rightarrow> int \<Rightarrow> string \<Rightarrow> bytes" where
  "protoAppendString buf fieldNumber v =
     (if v = [] then buf
      else AppendUvarint (protoAppendTag buf fieldNumber protoWireBytes) (word_of_nat (length v)) @ bytes_of v)"

subsection \<open>Iterating over the fields of a message\<close>

text \<open>One turn of the loop: the field number, the wire type, the value and what is left.\<close>

definition next_proto_field :: "bytes \<Rightarrow> (int \<times> int \<times> bytes \<times> bytes) result" where
  "next_proto_field buf0 =
     (case Uvarint buf0 of (tag, n) \<Rightarrow>
        if n \<le> 0 then Inl (New ''invalid_tag'')
        else
          let buf = drop (nat n) buf0;
              fieldNumber = go_int (drop_bit 3 tag);
              wireType = go_int (tag AND 0x7)
          in if wireType = protoWireVarint then
               (case Uvarint buf of (_, n) \<Rightarrow>
                  if n \<le> 0 then Inl (New ''invalid_varint_field'')
                  else Inr (fieldNumber, wireType, take (nat n) buf, drop (nat n) buf))
             else if wireType = protoWireFixed64 then
               (if length buf < 8 then Inl (New ''truncated_fixed64_field'')
                else Inr (fieldNumber, wireType, take 8 buf, drop 8 buf))
             else if wireType = protoWireBytes then
               (case Uvarint buf of (len, n) \<Rightarrow>
                  if n \<le> 0 then Inl (New ''invalid_length_field'')
                  else
                    let rest = drop (nat n) buf
                    in if length rest < unat len then Inl (New ''truncated_bytes_field'')
                       else Inr (fieldNumber, wireType, take (unat len) rest, drop (unat len) rest))
             else Inl (New ''unsupported_wire''))"

lemma Uvarint_from_read: "snd (Uvarint_from i x s buf) \<le> int i + int (length buf)"
  by (induction i x s buf rule: Uvarint_from.induct) auto

lemma Uvarint_read: "snd (Uvarint buf) \<le> int (length buf)"
  using Uvarint_from_read [of 0 0 0 buf] by (simp add: Uvarint_def)

lemma next_proto_field_shorter:
  assumes "next_proto_field buf = Inr (f, w, v, rest)"
  shows "length v + length rest < length buf"
proof -
  obtain tag n where u: "Uvarint buf = (tag, n)" by fastforce
  then have "n \<le> int (length buf)" using Uvarint_read [of buf] by simp
  then show ?thesis
    using assms u by (auto simp: next_proto_field_def Let_def split: if_splits prod.splits)
qed

function forEachProtoField :: "bytes \<Rightarrow> (int \<Rightarrow> int \<Rightarrow> bytes \<Rightarrow> 's \<Rightarrow> 's result) \<Rightarrow> 's \<Rightarrow> 's result" where
  "forEachProtoField buf fn s =
     (if buf = [] then Inr s
      else case next_proto_field buf of
          Inl e \<Rightarrow> Inl e
        | Inr (fieldNumber, wireType, v, rest) \<Rightarrow>
            (case fn fieldNumber wireType v s of Inl e \<Rightarrow> Inl e | Inr s' \<Rightarrow> forEachProtoField rest fn s'))"
  by pat_completeness auto
termination
  by (relation "measure (\<lambda>(buf, _, _). length buf)") (fastforce dest: next_proto_field_shorter)+

declare forEachProtoField.simps [simp del] uvarint_bytes.simps [simp del]

definition protoVarintValue :: "int \<Rightarrow> int \<Rightarrow> bytes \<Rightarrow> 64 word result" where
  "protoVarintValue fieldNumber wireType v =
     (if wireType \<noteq> protoWireVarint then Inl (New ''field_not_varint'')
      else case Uvarint v of (x, n) \<Rightarrow> if n \<le> 0 then Inl (New ''field_invalid_varint'') else Inr x)"

definition protoFixed64Value :: "int \<Rightarrow> int \<Rightarrow> bytes \<Rightarrow> 64 word result" where
  "protoFixed64Value fieldNumber wireType v =
     (if wireType \<noteq> protoWireFixed64 then Inl (New ''field_not_fixed64'')
      else if length v \<noteq> 8 then Inl (New ''field_invalid_fixed64'')
      else Inr (LittleEndian_Uint64 v))"

subsection \<open>Reading back a varint\<close>

lemma low_seven: "(b OR 0x80) AND 0x7f = take_bit 7 (b :: 8 word)"
proof -
  have m: "(0x7f :: 8 word) = mask 7" by (simp add: mask_eq_exp_minus_1)
  have "(b OR 0x80) AND mask 7 = take_bit 7 (b OR 0x80)" by (simp only: take_bit_eq_mask)
  also have "\<dots> = take_bit 7 b OR take_bit 7 0x80" by (simp only: take_bit_or)
  also have "\<dots> = take_bit 7 b" by simp
  finally show ?thesis unfolding m .
qed

lemma high_bit_set: "\<not> (b OR 0x80) < (0x80 :: 8 word)"
  using le_word_or1 [of "0x80" b] by (simp add: not_less or.commute)

lemma varint_split:
  "push_bit s (ucast (take_bit 7 (ucast y :: 8 word))) OR push_bit (s + 7) (drop_bit 7 y) = push_bit s (y :: 64 word)"
proof (rule bit_word_eqI)
  fix n assume n: "n < LENGTH(64)"
  show "bit (push_bit s (ucast (take_bit 7 (ucast y :: 8 word))) OR push_bit (s + 7) (drop_bit 7 y)) n = bit (push_bit s y) n"
  proof (cases "s \<le> n \<and> \<not> n - s < 7")
    case True
    then have "7 + (n - (s + 7)) = n - s" by linarith
    then show ?thesis using True n by (auto simp: bit_simps)
  qed (use n in \<open>auto simp: bit_simps\<close>)
qed

lemma ucast_small:
  assumes "y < (0x80 :: 64 word)"
  shows "(ucast y :: 8 word) < 0x80" and "ucast (ucast y :: 8 word) = y" and "unat (ucast y :: 8 word) = unat y"
proof -
  have y: "unat y < 128" using assms by (simp add: word_less_nat_alt)
  then show u: "unat (ucast y :: 8 word) = unat y" by (simp add: unsigned_ucast_eq take_bit_nat_eq_self)
  with y show "(ucast y :: 8 word) < 0x80" by (simp add: word_less_nat_alt)
  have "unat (take_bit 8 y) = unat y" using y by (simp only: unsigned_take_bit_eq) (simp add: take_bit_nat_eq_self)
  then have "take_bit 8 y = y" by (simp only: word_unat_eq_iff)
  moreover have "ucast (ucast y :: 8 word) = take_bit 8 y" by (rule bit_word_eqI) (auto simp: bit_simps)
  ultimately show "ucast (ucast y :: 8 word) = y" by simp
qed

lemma unat_drop_seven: "unat (drop_bit 7 (y :: 64 word)) = unat y div 128"
  unfolding unat_drop_bit_eq by (simp add: drop_bit_eq_div)

lemma Uvarint_from_append:
  assumes "unat y * 2 ^ (7 * i) < 2 ^ 64" and "i < 10"
  shows "Uvarint_from i x (7 * i) (uvarint_bytes y @ rest) = (x OR push_bit (7 * i) y, int i + int (length (uvarint_bytes y)))"
  using assms
proof (induction y arbitrary: i x rule: uvarint_bytes.induct)
  case (1 y)
  show ?case
  proof (cases "y < 0x80")
    case True
    note small = ucast_small [OF True]
    have "unat y < 2" if "i = 9" using "1.prems"(1) that by simp
    then have "\<not> (i = 9 \<and> 1 < (ucast y :: 8 word))" using small(3) by (auto simp: word_less_nat_alt)
    then show ?thesis using True small "1.prems"(2) by (simp add: uvarint_bytes.simps [of y])
  next
    case False
    then have y: "128 \<le> unat y" by (simp add: not_less word_le_nat_alt)
    have "128 * 2 ^ (7 * i) < (2 :: nat) ^ 64" using "1.prems"(1) y by (meson le_less_trans mult_le_mono1)
    then have "(2 :: nat) ^ (7 * i + 7) < 2 ^ 64" by (simp add: power_add)
    then have "7 * i + 7 < 64" by (rule power_less_imp_less_exp [of "2 :: nat", rotated]) simp
    then have i: "Suc i < 10" by simp
    have "unat y div 128 * 2 ^ (7 * Suc i) = unat y div 128 * 128 * 2 ^ (7 * i)" by (simp add: power_add)
    also have "\<dots> \<le> unat y * 2 ^ (7 * i)" by (intro mult_le_mono1) simp
    finally have "unat (drop_bit 7 y) * 2 ^ (7 * Suc i) < 2 ^ 64" using "1.prems"(1) by (simp add: unat_drop_seven)
    note IH = "1.IH" [OF False this i]
    show ?thesis using False i IH varint_split [of "7 * i" y]
      by (simp add: uvarint_bytes.simps [of y] high_bit_set low_seven or.assoc add.commute add.left_commute)
  qed
qed

lemma Uvarint_append [wire_simps]: "Uvarint (uvarint_bytes y @ rest) = (y, int (length (uvarint_bytes y)))"
  using Uvarint_from_append [of y 0 0 rest] unsigned_less [where ?'b = 64 and ?'a = nat, of y]
  by (simp add: Uvarint_def)

lemma uvarint_bytes_not_empty [simp]: "uvarint_bytes y \<noteq> []"
  by (subst uvarint_bytes.simps) simp

lemma uvarint_bytes_length: "unat y < 2 ^ (7 * k) \<Longrightarrow> 0 < k \<Longrightarrow> length (uvarint_bytes y) \<le> k"
proof (induction y arbitrary: k rule: uvarint_bytes.induct)
  case (1 y)
  show ?case
  proof (cases "y < 0x80")
    case True
    then show ?thesis using "1.prems"(2) by (simp add: uvarint_bytes.simps [of y])
  next
    case False
    then have y: "128 \<le> unat y" by (simp add: not_less word_le_nat_alt)
    have "k \<noteq> 1" using "1.prems"(1) y by auto
    then obtain m where k: "k = Suc m" and m: "0 < m" using "1.prems"(2) by (cases k) auto
    have "unat (drop_bit 7 y) < 2 ^ (7 * m)" using "1.prems"(1) by (simp add: unat_drop_seven k power_add less_mult_imp_div_less)
    from "1.IH" [OF False this m] show ?thesis using False k by (simp add: uvarint_bytes.simps [of y])
  qed
qed


subsection \<open>Reading back fields\<close>

lemma string_of_bytes_of [simp, wire_simps]: "string_of (bytes_of s) = s"
proof -
  have "char_of (unat (of_char c :: 8 word)) = c" for c
  proof -
    have "unat (of_char c :: 8 word) = unat (word_of_nat (of_char c) :: 8 word)" by (simp only: of_nat_of_char)
    also have "\<dots> = of_char c" using nat_of_char_less_256 [of c] by (simp only: unat_of_nat) simp
    finally show ?thesis by (simp only: char_of_char)
  qed
  then show ?thesis by (simp add: string_of_def bytes_of_def map_idI)
qed

lemma length_bytes_of [simp]: "length (bytes_of s) = length s"
  by (simp add: bytes_of_def)

lemma bytes_of_Nil [simp]: "bytes_of s = [] \<longleftrightarrow> s = []"
  by (simp add: bytes_of_def)

lemma bit_foldr_or: "bit (foldr (\<lambda>k acc. f k OR acc) ks 0) n \<longleftrightarrow> (\<exists>k\<in>set ks. bit (f k :: 64 word) n)"
  by (induction ks) (auto simp: bit_simps)

lemma little_endian_round_trip [wire_simps]:
  "LittleEndian_Uint64 (map (\<lambda>k. ucast (drop_bit (8 * k) x)) [0..<8]) = x"
proof (rule bit_word_eqI)
  fix n assume n: "n < LENGTH(64)"
  let ?part = "\<lambda>k. push_bit (8 * k) (ucast ((map (\<lambda>k. ucast (drop_bit (8 * k) x)) [0..<8] :: bytes) ! k)) :: 64 word"
  have part: "bit (?part k) n \<longleftrightarrow> 8 * k \<le> n \<and> n - 8 * k < 8 \<and> bit x n" if "k < 8" for k
    using that n by (auto simp: bit_simps)
  have "n div 8 < 8" and "8 * (n div 8) \<le> n" and "n - 8 * (n div 8) < 8" using n by (simp_all add: minus_mult_div_eq_mod)
  then have "(\<exists>k\<in>{0..<8}. bit (?part k) n) \<longleftrightarrow> bit x n" using part by fastforce
  then show "bit (LittleEndian_Uint64 (map (\<lambda>k. ucast (drop_bit (8 * k) x)) [0..<8])) n = bit x n"
    by (simp add: LittleEndian_Uint64_def bit_foldr_or)
qed

definition proto_tag :: "int \<Rightarrow> int \<Rightarrow> 64 word" where
  "proto_tag f w = word_of_int (push_bit 3 f OR w)"

lemma go_int_uint:
  assumes "uint x < 2 ^ 63"
  shows "go_int x = uint x"
proof -
  have "- (2 ^ 63) \<le> uint x" by (rule order_trans [of _ 0]) simp_all
  then have "signed_take_bit 63 (uint x) = uint x" using assms by (intro signed_take_bit_int_eq_self)
  then show ?thesis by (simp add: go_int_def sint_uint)
qed

lemma proto_tag_uint:
  assumes "0 \<le> f" and "f < 2 ^ 60" and "0 \<le> w" and "w < 8"
  shows "uint (proto_tag f w) = 8 * f + w"
proof -
  have w: "take_bit 3 w = w" using assms by (simp add: take_bit_int_eq_self)
  have low: "bit w n \<Longrightarrow> n < 3" for n using w by (metis bit_take_bit_iff)
  have "push_bit 3 f OR w = push_bit 3 f + w"
    by (intro disjunctive_add [symmetric]) (auto simp: bit_simps dest: low)
  then have "push_bit 3 f OR w = 8 * f + w" by (simp add: push_bit_eq_mult)
  then have "proto_tag f w = word_of_int (8 * f + w)" by (simp only: proto_tag_def)
  moreover have "take_bit 64 (8 * f + w) = 8 * f + w" using assms by (intro take_bit_int_eq_self) simp_all
  ultimately show ?thesis by (simp only: uint_word_of_int_eq) simp
qed

lemma proto_tag_parts [wire_simps]:
  assumes "0 \<le> f" and "f < 2 ^ 60" and "0 \<le> w" and "w < 8"
  shows "go_int (drop_bit 3 (proto_tag f w)) = f" and "go_int (proto_tag f w AND 0x7) = w"
proof -
  note u = proto_tag_uint [OF assms]
  have "uint (drop_bit 3 (proto_tag f w)) = f" using assms u
    by (simp only: unsigned_drop_bit_eq) (simp add: drop_bit_eq_div take_bit_int_eq_self)
  then show "go_int (drop_bit 3 (proto_tag f w)) = f" using assms by (simp add: go_int_uint)
  have "(0x7 :: 64 word) = mask 3" by (simp add: mask_eq_exp_minus_1)
  then have "uint (proto_tag f w AND 0x7) = take_bit 3 (uint (proto_tag f w))"
    by (simp only: take_bit_eq_mask [symmetric] unsigned_take_bit_eq)
  also have "\<dots> = w" using assms u by (simp add: take_bit_eq_mod)
  finally show "go_int (proto_tag f w AND 0x7) = w" using assms by (simp add: go_int_uint)
qed

lemma protoAppendTag_eq: "protoAppendTag buf f w = buf @ uvarint_bytes (proto_tag f w)"
  by (simp add: protoAppendTag_def proto_tag_def AppendUvarint_def)

definition field_number :: "int \<Rightarrow> bool" where
  "field_number f \<longleftrightarrow> 0 \<le> f \<and> f < 2 ^ 60"

lemma next_proto_field_tag:
  assumes "field_number f" and "w \<in> {0, 1, 2}"
  shows "next_proto_field (uvarint_bytes (proto_tag f w) @ buf) =
    (if w = 0 then (case Uvarint buf of (_, n) \<Rightarrow>
        if n \<le> 0 then Inl (New ''invalid_varint_field'') else Inr (f, w, take (nat n) buf, drop (nat n) buf))
     else if w = 1 then (if length buf < 8 then Inl (New ''truncated_fixed64_field'') else Inr (f, w, take 8 buf, drop 8 buf))
     else (case Uvarint buf of (len, n) \<Rightarrow>
        if n \<le> 0 then Inl (New ''invalid_length_field'')
        else if length (drop (nat n) buf) < unat len then Inl (New ''truncated_bytes_field'')
        else Inr (f, w, take (unat len) (drop (nat n) buf), drop (unat len) (drop (nat n) buf))))"
proof -
  have f: "0 \<le> f" "f < 2 ^ 60" and w: "0 \<le> w" "w < 8" using assms by (auto simp: field_number_def)
  show ?thesis using assms(2)
    by (auto simp: next_proto_field_def Uvarint_append proto_tag_parts [OF f w] protoWireVarint_def protoWireFixed64_def
        protoWireBytes_def Let_def split: prod.splits)
qed

lemma forEachProtoField_Nil [simp, wire_simps]: "forEachProtoField [] fn s = Inr s"
  by (simp add: forEachProtoField.simps)

lemma bind_result_return [simp]: "bind_result r Inr = r"
  by (cases r) simp_all

text \<open>A kind of field value: \<open>put v\<close> is written after the tag, \<open>got v\<close> is what a callback is given.\<close>

locale wire_value =
  fixes wire :: int and put :: "'v \<Rightarrow> bytes" and got :: "'v \<Rightarrow> bytes" and ok :: "'v \<Rightarrow> bool"
  assumes read_back: "field_number f \<Longrightarrow> ok v \<Longrightarrow>
    next_proto_field (uvarint_bytes (proto_tag f wire) @ put v @ rest) = Inr (f, wire, got v, rest)"
begin

lemma forEach_step:
  assumes "field_number f" and "ok v"
  shows "forEachProtoField (uvarint_bytes (proto_tag f wire) @ put v @ rest) fn s =
    bind_result (fn f wire (got v) s) (forEachProtoField rest fn)"
  by (subst forEachProtoField.simps) (auto simp: read_back [OF assms] split: sum.splits)

lemma forEach_last:
  assumes "field_number f" and "ok v"
  shows "forEachProtoField (uvarint_bytes (proto_tag f wire) @ put v) fn s = fn f wire (got v) s"
  using forEach_step [OF assms, where rest = "[]" and fn = fn and s = s] by (cases "fn f wire (got v) s") simp_all

end

interpretation varint: wire_value protoWireVarint uvarint_bytes uvarint_bytes "\<lambda>_. True"
  by unfold_locales (simp add: next_proto_field_tag protoWireVarint_def Uvarint_append)

interpretation fixed64: wire_value protoWireFixed64 "LittleEndian_AppendUint64 []" "LittleEndian_AppendUint64 []" "\<lambda>_. True"
  by unfold_locales (simp add: next_proto_field_tag protoWireFixed64_def LittleEndian_AppendUint64_def)

definition sized :: "'a list \<Rightarrow> bool" where
  "sized xs \<longleftrightarrow> length xs < 2 ^ 63"

interpretation chunk: wire_value protoWireBytes "\<lambda>v. uvarint_bytes (word_of_nat (length v)) @ v" "\<lambda>v. v" sized
proof unfold_locales
  fix f and v rest :: bytes
  assume "field_number f" and "sized v"
  moreover from this have "unat (word_of_nat (length v) :: 64 word) = length v"
    by (simp add: sized_def unat_of_nat take_bit_nat_eq_self)
  ultimately show "next_proto_field (uvarint_bytes (proto_tag f protoWireBytes) @ (uvarint_bytes (word_of_nat (length v)) @ v) @ rest) =
      Inr (f, protoWireBytes, v, rest)"
    by (simp add: next_proto_field_tag protoWireBytes_def Uvarint_append)
qed

subsection \<open>Messages as sequences of segments\<close>

text \<open>What each append routine adds to the buffer, and what the iteration makes of it.\<close>

definition varint_field :: "int \<Rightarrow> 64 word \<Rightarrow> bytes" where
  "varint_field f v = uvarint_bytes (proto_tag f protoWireVarint) @ uvarint_bytes v"

definition double_field :: "int \<Rightarrow> 64 word \<Rightarrow> bytes" where
  "double_field f v = uvarint_bytes (proto_tag f protoWireFixed64) @ LittleEndian_AppendUint64 [] v"

definition chunk_field :: "int \<Rightarrow> bytes \<Rightarrow> bytes" where
  "chunk_field f v = uvarint_bytes (proto_tag f protoWireBytes) @ uvarint_bytes (word_of_nat (length v)) @ v"

definition string_field :: "int \<Rightarrow> string \<Rightarrow> bytes" where
  "string_field f v = (if v = [] then [] else chunk_field f (bytes_of v))"

named_theorems append_segments \<open>append routines as segments\<close>

lemma protoAppendInt32_eq [append_segments]: "protoAppendInt32 buf f v = buf @ varint_field f (scast v)"
  by (simp add: protoAppendInt32_def protoAppendTag_eq AppendUvarint_def varint_field_def)

lemma protoAppendInt64_eq [append_segments]: "protoAppendInt64 buf f v = buf @ varint_field f v"
  by (simp add: protoAppendInt64_def protoAppendTag_eq AppendUvarint_def varint_field_def)

lemma protoAppendBool_eq [append_segments]: "protoAppendBool buf f v = buf @ varint_field f (of_bool v)"
  by (simp add: protoAppendBool_def protoAppendTag_eq varint_field_def uvarint_bytes.simps)

lemma protoAppendDouble_eq [append_segments]: "protoAppendDouble buf f v = buf @ double_field f v"
  by (simp add: protoAppendDouble_def protoAppendTag_eq LittleEndian_AppendUint64_def double_field_def)

lemma protoAppendMessage_eq [append_segments]: "protoAppendMessage buf f v = buf @ chunk_field f v"
  by (simp add: protoAppendMessage_def protoAppendTag_eq AppendUvarint_def chunk_field_def)

lemma protoAppendString_eq [append_segments]: "protoAppendString buf f v = buf @ string_field f v"
  by (simp add: protoAppendString_def protoAppendTag_eq AppendUvarint_def string_field_def chunk_field_def)

lemma forEach_varint [wire_simps]:
  "field_number f \<Longrightarrow> forEachProtoField (varint_field f v @ rest) fn s =
     bind_result (fn f protoWireVarint (uvarint_bytes v) s) (forEachProtoField rest fn)"
  using varint.forEach_step [of f v rest fn s] by (simp add: varint_field_def)

lemma forEach_double [wire_simps]:
  "field_number f \<Longrightarrow> forEachProtoField (double_field f v @ rest) fn s =
     bind_result (fn f protoWireFixed64 (LittleEndian_AppendUint64 [] v) s) (forEachProtoField rest fn)"
  using fixed64.forEach_step [of f v rest fn s] by (simp add: double_field_def)

lemma forEach_chunk [wire_simps]:
  "field_number f \<Longrightarrow> sized v \<Longrightarrow> forEachProtoField (chunk_field f v @ rest) fn s =
     bind_result (fn f protoWireBytes v s) (forEachProtoField rest fn)"
  using chunk.forEach_step [of f v rest fn s] by (simp add: chunk_field_def)

lemma forEach_string [wire_simps]:
  "field_number f \<Longrightarrow> sized v \<Longrightarrow> forEachProtoField (string_field f v @ rest) fn s =
     (if v = [] then forEachProtoField rest fn s
      else bind_result (fn f protoWireBytes (bytes_of v) s) (forEachProtoField rest fn))"
  by (simp add: string_field_def forEach_chunk sized_def)

lemma forEach_optional [wire_simps]:
  "forEachProtoField ((if c then x else []) @ rest) fn s =
     (if c then forEachProtoField (x @ rest) fn s else forEachProtoField rest fn s)"
  by simp

lemmas forEach_varint_last [wire_simps] = forEach_varint [where rest = "[]", simplified]
  and forEach_double_last [wire_simps] = forEach_double [where rest = "[]", simplified]
  and forEach_chunk_last [wire_simps] = forEach_chunk [where rest = "[]", simplified]
  and forEach_string_last [wire_simps] = forEach_string [where rest = "[]", simplified]

lemma protoVarintValue_written [wire_simps]: "protoVarintValue f protoWireVarint (uvarint_bytes v) = Inr v"
  using Uvarint_append [of v "[]"] by (simp add: protoVarintValue_def)

lemma protoFixed64Value_written [wire_simps]: "protoFixed64Value f protoWireFixed64 (LittleEndian_AppendUint64 [] v) = Inr v"
  by (simp add: protoFixed64Value_def LittleEndian_AppendUint64_def little_endian_round_trip)

subsection \<open>The walk over a message ends and stays inside it\<close>

text \<open>The fields a message consists of, independently of any callback, and the error that ends them.\<close>

function proto_fields :: "bytes \<Rightarrow> (int \<times> int \<times> bytes) list \<times> goerror option" where
  "proto_fields buf =
     (if buf = [] then ([], None)
      else case next_proto_field buf of
          Inl e \<Rightarrow> ([], Some e)
        | Inr (f, w, v, rest) \<Rightarrow> (case proto_fields rest of (fs, e) \<Rightarrow> ((f, w, v) # fs, e)))"
  by pat_completeness auto
termination
  by (relation "measure length") (fastforce dest: next_proto_field_shorter)+

declare proto_fields.simps [simp del]

fun visit_fields :: "(int \<Rightarrow> int \<Rightarrow> bytes \<Rightarrow> 's \<Rightarrow> 's result) \<Rightarrow> (int \<times> int \<times> bytes) list \<Rightarrow> 's \<Rightarrow> 's result" where
  "visit_fields fn [] s = Inr s"
| "visit_fields fn ((f, w, v) # fs) s = bind_result (fn f w v s) (visit_fields fn fs)"

lemma forEachProtoField_visits:
  "forEachProtoField buf fn s =
     bind_result (visit_fields fn (fst (proto_fields buf)) s) (\<lambda>s'. case snd (proto_fields buf) of None \<Rightarrow> Inr s' | Some e \<Rightarrow> Inl e)"
proof (induction buf arbitrary: s rule: proto_fields.induct)
  case (1 buf)
  show ?case
    by (subst forEachProtoField.simps, subst (1 2) proto_fields.simps)
       (use "1" in \<open>auto split: sum.splits prod.splits\<close>)
qed

lemma proto_fields_step:
  assumes "next_proto_field buf = Inr (f, w, v, rest)"
  shows "proto_fields buf = ((f, w, v) # fst (proto_fields rest), snd (proto_fields rest))"
proof -
  have "buf \<noteq> []" using next_proto_field_shorter [OF assms] by auto
  then show ?thesis by (subst proto_fields.simps) (simp add: assms split: prod.splits)
qed

lemma proto_fields_stop: "buf = [] \<or> next_proto_field buf = Inl e \<Longrightarrow> fst (proto_fields buf) = []"
  by (subst proto_fields.simps) auto

lemma proto_fields_fit: "sum_list (map (\<lambda>(f, w, v). length v + 1) (fst (proto_fields buf))) \<le> length buf"
proof (induction "length buf" arbitrary: buf rule: less_induct)
  case less
  show ?case
  proof (cases "next_proto_field buf")
    case (Inl e)
    then show ?thesis using proto_fields_stop [of buf e] by simp
  next
    case (Inr r)
    then obtain f w v rest where nx: "next_proto_field buf = Inr (f, w, v, rest)" by (cases r) auto
    note short = next_proto_field_shorter [OF nx]
    then show ?thesis using less [of rest] by (simp add: proto_fields_step [OF nx])
  qed
qed

text \<open>C39. Whatever bytes a broker frame holds, the walk over its fields ends: it is one callback per field of a
  list that depends on the bytes alone, followed by the format error if there is one, and the values
  handed to the callbacks together with a byte per field fit into the frame.\<close>

theorem field_walk_ends:
  "\<exists>fs e. (\<forall>fn (s :: 's). forEachProtoField buf fn s =
        bind_result (visit_fields fn fs s) (\<lambda>s'. case e of None \<Rightarrow> Inr s' | Some err \<Rightarrow> Inl err)) \<and>
     sum_list (map (\<lambda>(f, w, v). length v + 1) fs) \<le> length buf"
  using forEachProtoField_visits [of buf] proto_fields_fit [of buf] by blast

text \<open>A varint that was appended is read back exactly, whatever follows it, in at most ten bytes.\<close>

theorem uvarint_round_trip:
  "Uvarint (AppendUvarint [] x @ rest) = (x, int (length (AppendUvarint [] x))) \<and> length (AppendUvarint [] x) \<le> 10"
proof -
  have "unat x < 2 ^ (7 * 10)" using unsigned_less [where ?'b = 64 and ?'a = nat, of x] by simp
  then show ?thesis using uvarint_bytes_length [of x 10] by (simp add: AppendUvarint_def Uvarint_append)
qed

end
