(* ===== verification/Go_Float.thy ===== *)
theory Go_Float
  imports Complex_Main Canary_Prelude
begin

text \<open>
  What the order code uses of Go's \<^verbatim>\<open>float64\<close>. A value is its IEEE 754 bit pattern, so \<^verbatim>\<open>math.Float64bits\<close> and
  \<^verbatim>\<open>math.Float64frombits\<close> are the identity and nothing is lost on the wire. The bits below the sign, read
  as an integer (\<open>f64_mag\<close>), order the magnitudes; the value of a finite pattern is an exact rational,
  and the arithmetic rounds the exact result to the nearest pattern, ties to even.
\<close>

unbundle bit_operations_syntax

type_synonym float64 = "64 word"

definition f64_mag :: "float64 \<Rightarrow> int" where
  "f64_mag x = uint (take_bit 63 x)"

definition f64_neg :: "float64 \<Rightarrow> bool" where
  "f64_neg x \<longleftrightarrow> bit x 63"

definition f64_inf_mag :: int where
  "f64_inf_mag = 0x7FF0000000000000"

definition f64_IsNaN :: "float64 \<Rightarrow> bool" where
  "f64_IsNaN x \<longleftrightarrow> f64_inf_mag < f64_mag x"

definition f64_IsInf :: "float64 \<Rightarrow> bool" where
  "f64_IsInf x \<longleftrightarrow> f64_mag x = f64_inf_mag"

definition f64_key :: "float64 \<Rightarrow> int" where
  "f64_key x = (if f64_neg x then - f64_mag x else f64_mag x)"

definition f64_less :: "float64 \<Rightarrow> float64 \<Rightarrow> bool" where
  "f64_less x y \<longleftrightarrow> \<not> f64_IsNaN x \<and> \<not> f64_IsNaN y \<and> f64_key x < f64_key y"

definition f64_le :: "float64 \<Rightarrow> float64 \<Rightarrow> bool" where
  "f64_le x y \<longleftrightarrow> \<not> f64_IsNaN x \<and> \<not> f64_IsNaN y \<and> f64_key x \<le> f64_key y"

definition f64_eq :: "float64 \<Rightarrow> float64 \<Rightarrow> bool" where
  "f64_eq x y \<longleftrightarrow> \<not> f64_IsNaN x \<and> \<not> f64_IsNaN y \<and> f64_key x = f64_key y"

text \<open>The comparisons with the constant 0 that the sources make.\<close>

abbreviation f64_nonzero :: "float64 \<Rightarrow> bool" where
  "f64_nonzero x \<equiv> \<not> f64_eq x 0"

abbreviation f64_positive :: "float64 \<Rightarrow> bool" where
  "f64_positive x \<equiv> f64_less 0 x"

subsection \<open>Exact values and rounding\<close>

definition f64_mag_value :: "int \<Rightarrow> rat" where
  "f64_mag_value m =
     (let e = m div 2 ^ 52; fr = m mod 2 ^ 52
      in if e = 0 then of_int fr / 2 ^ 1074
         else if 1075 \<le> e then of_int (2 ^ 52 + fr) * 2 ^ nat (e - 1075)
         else of_int (2 ^ 52 + fr) / 2 ^ nat (1075 - e))"

definition f64_value :: "float64 \<Rightarrow> rat" where
  "f64_value x = (if f64_neg x then - f64_mag_value (f64_mag x) else f64_mag_value (f64_mag x))"

text \<open>The largest magnitude whose value is at most \<open>q\<close>, found bit by bit.\<close>

fun f64_floor_mag :: "nat \<Rightarrow> int \<Rightarrow> rat \<Rightarrow> int" where
  "f64_floor_mag 0 acc q = acc"
| "f64_floor_mag (Suc k) acc q =
     (if acc + 2 ^ k \<le> f64_inf_mag \<and> f64_mag_value (acc + 2 ^ k) \<le> q then f64_floor_mag k (acc + 2 ^ k) q
      else f64_floor_mag k acc q)"

definition f64_nearest_mag :: "rat \<Rightarrow> int" where
  "f64_nearest_mag q =
     (let m = f64_floor_mag 63 0 q; below = q - f64_mag_value m; above = f64_mag_value (m + 1) - q
      in if m = f64_inf_mag \<or> below < above \<or> below = above \<and> even m then m else m + 1)"

definition f64_make :: "bool \<Rightarrow> int \<Rightarrow> float64" where
  "f64_make neg m = word_of_int (if neg then 2 ^ 63 + m else m)"

definition f64_round :: "bool \<Rightarrow> rat \<Rightarrow> float64" where
  "f64_round neg q = f64_make neg (f64_nearest_mag q)"

definition f64_NaN :: float64 where
  "f64_NaN = 0x7FF8000000000001"

definition f64_Abs :: "float64 \<Rightarrow> float64" where
  "f64_Abs x = take_bit 63 x"

definition f64_div :: "float64 \<Rightarrow> float64 \<Rightarrow> float64" where
  "f64_div x y =
     (let neg = (f64_neg x \<noteq> f64_neg y)
      in if f64_IsNaN x \<or> f64_IsNaN y \<or> f64_IsInf x \<and> f64_IsInf y \<or> f64_mag x = 0 \<and> f64_mag y = 0 then f64_NaN
         else if f64_IsInf x \<or> f64_mag y = 0 then f64_make neg f64_inf_mag
         else if f64_IsInf y then f64_make neg 0
         else f64_round neg (f64_mag_value (f64_mag x) / f64_mag_value (f64_mag y)))"

definition f64_sub :: "float64 \<Rightarrow> float64 \<Rightarrow> float64" where
  "f64_sub x y =
     (if f64_IsNaN x \<or> f64_IsNaN y \<or> f64_IsInf x \<and> f64_IsInf y \<and> f64_neg x = f64_neg y then f64_NaN
      else if f64_IsInf x then x
      else if f64_IsInf y then f64_make (\<not> f64_neg y) f64_inf_mag
      else let d = f64_value x - f64_value y
           in if d = 0 then f64_make (f64_mag x = 0 \<and> f64_neg x \<and> \<not> f64_neg y) 0 else f64_round (d < 0) \<bar>d\<bar>)"

text \<open>\<^verbatim>\<open>math.Round\<close>: half away from zero.\<close>

definition f64_Round :: "float64 \<Rightarrow> float64" where
  "f64_Round x =
     (if f64_IsNaN x \<or> f64_IsInf x then x
      else f64_round (f64_neg x) (of_int \<lfloor>f64_mag_value (f64_mag x) + 1 / 2\<rfloor>))"

text \<open>\<^verbatim>\<open>int(x)\<close> for a finite \<open>x\<close> in range: truncation.\<close>

definition f64_to_int :: "float64 \<Rightarrow> int" where
  "f64_to_int x = (if f64_neg x then - \<lfloor>f64_mag_value (f64_mag x)\<rfloor> else \<lfloor>f64_mag_value (f64_mag x)\<rfloor>)"

lemma f64_zero [simp]: "f64_mag 0 = 0" "\<not> f64_neg 0" "\<not> f64_IsNaN 0" "\<not> f64_IsInf 0" "f64_key 0 = 0"
  by (simp_all add: f64_mag_def f64_neg_def f64_IsNaN_def f64_IsInf_def f64_key_def f64_inf_mag_def)

end
