(* ===== verification/Order_Proto.thy ===== *)
theory Order_Proto
  imports Proto_Wire Go_Float
begin

text \<open>
  Encoding broker orders: \<^verbatim>\<open>pkg/ibkr/place_order_proto.go\<close>, \<^verbatim>\<open>cancel_order_proto.go\<close>, the checks of \<^verbatim>\<open>orders.go\<close> and
  \<^verbatim>\<open>bond_order.go\<close> they call, and the decoder that reads an outbound frame back for the wire log.
  \<^item> \<open>IBKROrder\<close> holds every field the encoder or its checks read. Fields that the checks only compare with their
    zero value are grouped by type (\<open>order_texts\<close>, \<open>order_counts\<close>, \<open>order_amounts\<close>, \<open>order_flags\<close>); fields that
    record what happened to an order afterwards are left out.
  \<^item> An \<open>int\<close> of the source is an integer; \<^verbatim>\<open>int32(x)\<close> truncates (\<open>go_int32\<close>).
  \<^item> Prices are bit patterns of \<open>Go_Float\<close>.
\<close>

subsection \<open>Orders\<close>

record ComboLeg =
  leg_ConID :: int
  leg_Ratio :: int
  leg_Action :: string
  leg_Exchange :: string
  leg_OpenClose :: int

record BondOrderRules =
  bor_MinTick :: float64
  bor_MinSize :: float64
  bor_SizeIncrement :: float64

record order_texts =
  oo_GoodAfterTime :: string
  oo_GoodTillDate :: string
  oo_FaGroup :: string
  oo_FaMethod :: string
  oo_FaPercentage :: string
  oo_FaProfile :: string
  oo_ModelCode :: string
  oo_DesignatedLocation :: string
  oo_Rule80A :: string
  oo_SettlingFirm :: string
  oo_DeltaNeutralOrderType :: string
  oo_DeltaNeutralSettlingFirm :: string
  oo_DeltaNeutralClearingAccount :: string
  oo_DeltaNeutralClearingIntent :: string
  oo_DeltaNeutralOpenClose :: string
  oo_DeltaNeutralDesignatedLocation :: string
  oo_HedgeType :: string
  oo_HedgeParam :: string
  oo_ClearingAccount :: string
  oo_ClearingIntent :: string

record order_counts =
  oo_PermID :: int
  oo_DisplaySize :: int
  oo_ShortSaleSlot :: int
  oo_MinQty :: int
  oo_AuctionStrategy :: int
  oo_VolatilityType :: int
  oo_DeltaNeutralConID :: int
  oo_DeltaNeutralShortSaleSlot :: int
  oo_ContinuousUpdate :: int
  oo_ReferencePriceType :: int
  oo_BasisPointsType :: int
  oo_ScaleInitLevelSize :: int
  oo_ScaleSubsLevelSize :: int
  oo_ScalePriceAdjustInterval :: int
  oo_ScaleInitPosition :: int
  oo_ScaleInitFillQty :: int

record order_amounts =
  oo_DiscretionaryAmt :: float64
  oo_PercentOffset :: float64
  oo_NbboPriceCap :: float64
  oo_StartingPrice :: float64
  oo_StockRefPrice :: float64
  oo_Delta :: float64
  oo_StockRangeLower :: float64
  oo_StockRangeUpper :: float64
  oo_Volatility :: float64
  oo_DeltaNeutralAuxPrice :: float64
  oo_BasisPoints :: float64
  oo_ScalePriceIncrement :: float64
  oo_ScalePriceAdjustValue :: float64
  oo_ScaleProfitOffset :: float64

record order_flags =
  oo_BlockOrder :: bool
  oo_SweepToFill :: bool
  oo_Hidden :: bool
  oo_AllOrNone :: bool
  oo_ETradeOnly :: bool
  oo_FirmQuoteOnly :: bool
  oo_OverridePercentageConstraints :: bool
  oo_DeltaNeutralShortSale :: bool
  oo_ScaleAutoReset :: bool
  oo_ScaleRandomPercent :: bool
  oo_OptOutSmartRouting :: bool
  oo_NotHeld :: bool

record IBKROrder =
  ord_AdaptivePriority :: string
  ord_OrderID :: int
  ord_ClientID :: int
  ord_Account :: string
  ord_Symbol :: string
  ord_SecType :: string
  ord_ConID :: int
  ord_Exchange :: string
  ord_Currency :: string
  ord_Expiry :: string
  ord_Strike :: float64
  ord_Right :: string
  ord_Multiplier :: string
  ord_PrimaryExch :: string
  ord_LocalSymbol :: string
  ord_TradingClass :: string
  ord_SecIDType :: string
  ord_SecID :: string
  ord_BondRules :: "BondOrderRules option"
  ord_Action :: string
  ord_TotalQty :: int
  ord_OrderType :: string
  ord_LmtPrice :: float64
  ord_LmtPriceSet :: bool
  ord_AuxPrice :: float64
  ord_ComboLegs :: "ComboLeg list"
  ord_TIF :: string
  ord_OcaGroup :: string
  ord_OcaType :: int
  ord_OrderRef :: string
  ord_Transmit :: bool
  ord_WhatIf :: bool
  ord_OpenClose :: string
  ord_Origin :: int
  ord_ParentID :: int
  ord_TriggerMethod :: int
  ord_OutsideRth :: bool
  ord_TrailStopPrice :: float64
  ord_TrailingPercent :: float64
  ord_LmtPriceOffset :: float64
  ord_ExemptCode :: int
  ord_texts :: order_texts
  ord_counts :: order_counts
  ord_amounts :: order_amounts
  ord_flags :: order_flags

subsection \<open>Checks\<close>

definition minProtoInt32 :: int where "minProtoInt32 = - (2 ^ 31)"
definition maxProtoInt32 :: int where "maxProtoInt32 = 2 ^ 31 - 1"

definition validateProtoInt32 :: "string \<Rightarrow> int \<Rightarrow> goerror option" where
  "validateProtoInt32 name v =
     reject_if (v < minProtoInt32 \<or> maxProtoInt32 < v) (New (''protobuf placeOrder outside int32 range: '' @ name))"

definition unsupportedPlaceOrderProtoField :: "string \<Rightarrow> goerror" where
  "unsupportedPlaceOrderProtoField name = New (''protobuf placeOrder does not support populated field '' @ name)"

definition unsupportedPlaceOrderProtoValue :: "string \<Rightarrow> goerror" where
  "unsupportedPlaceOrderProtoValue name = New (''protobuf placeOrder does not support the value of '' @ name)"

definition IsBillOrBond :: "string \<Rightarrow> bool" where
  "IsBillOrBond secType \<longleftrightarrow> ToUpper (TrimSpace secType) \<in> {''BILL'', ''BOND''}"

definition isPositiveFiniteStockPrice :: "float64 \<Rightarrow> bool" where
  "isPositiveFiniteStockPrice p \<longleftrightarrow> f64_positive p \<and> \<not> f64_IsNaN p \<and> \<not> f64_IsInf p"

definition validateAdaptiveOrder :: "IBKROrder \<Rightarrow> goerror option" where
  "validateAdaptiveOrder ord =
     (if ord_AdaptivePriority ord = [] then None
      else first_refusal
        [reject_if (ord_AdaptivePriority ord \<notin> {''Patient'', ''Normal'', ''Urgent''}) (New ''unsupported Adaptive priority''),
         reject_if ((ord_SecType ord \<noteq> ''STK'' \<and> ord_SecType ord \<noteq> ''ETF'') \<or> ord_OrderType ord \<noteq> ''LMT'' \<or> ord_TIF ord \<noteq> ''DAY'' \<or>
             ord_Exchange ord \<noteq> ''SMART'' \<or> ord_OutsideRth ord \<or> f64_le (ord_LmtPrice ord) 0 \<or>
             f64_IsNaN (ord_LmtPrice ord) \<or> f64_IsInf (ord_LmtPrice ord))
           (New ''the Adaptive algorithm requires a SMART stock LMT DAY order with a positive limit during regular hours'')])"

text \<open>The grid of a bond line.\<close>

definition bondPositiveFinite :: "float64 \<Rightarrow> bool" where
  "bondPositiveFinite v \<longleftrightarrow> f64_positive v \<and> \<not> f64_IsNaN v \<and> \<not> f64_IsInf v"

definition bondWholeUnits :: "float64 \<Rightarrow> bool" where
  "bondWholeUnits v \<longleftrightarrow> f64_le (f64_Abs (f64_sub v (f64_Round v))) (f64_round False (1 / 10 ^ 9)) \<and>
     f64_less v (f64_round False 2147483647)"

definition BondOrderRules_Validate :: "BondOrderRules \<Rightarrow> goerror option" where
  "BondOrderRules_Validate r = first_refusal
     [reject_if (\<not> bondPositiveFinite (bor_MinTick r)) (New ''bond contract details carry no minimum tick''),
      reject_if (\<not> bondPositiveFinite (bor_MinSize r)) (New ''bond contract details carry no minimum size''),
      reject_if (f64_IsNaN (bor_SizeIncrement r) \<or> f64_IsInf (bor_SizeIncrement r) \<or> f64_less (bor_SizeIncrement r) 0)
        (New ''bond contract details carry an invalid size increment''),
      reject_if (\<not> bondWholeUnits (bor_MinSize r) \<or> f64_positive (bor_SizeIncrement r) \<and> \<not> bondWholeUnits (bor_SizeIncrement r))
        (New ''bond size rules are not whole order units'')]"

definition bond_Step :: "BondOrderRules \<Rightarrow> int" where
  "bond_Step r = (if f64_positive (bor_SizeIncrement r) then f64_to_int (f64_Round (bor_SizeIncrement r))
     else f64_to_int (f64_Round (bor_MinSize r)))"

definition bond_Minimum :: "BondOrderRules \<Rightarrow> int" where
  "bond_Minimum r = f64_to_int (f64_Round (bor_MinSize r))"

text \<open>The remainder of Go has the sign of the dividend; it is compared with 0 only.\<close>

definition CheckQuantity :: "BondOrderRules \<Rightarrow> int \<Rightarrow> goerror option" where
  "CheckQuantity r quantity = first_refusal
     [BondOrderRules_Validate r,
      reject_if (quantity < bond_Minimum r) (New ''bond order quantity is below the contract's minimum size''),
      reject_if (0 < bond_Step r \<and> quantity mod bond_Step r \<noteq> 0) (New ''bond order quantity is not a multiple of the contract's size step'')]"

definition OnBondTick :: "float64 \<Rightarrow> float64 \<Rightarrow> bool" where
  "OnBondTick price tick \<longleftrightarrow>
     (if \<not> bondPositiveFinite price \<or> \<not> bondPositiveFinite tick then False
      else let n = f64_div price tick in f64_le (f64_Abs (f64_sub n (f64_Round n))) (f64_round False (1 / 10 ^ 6)))"

definition CheckPrice :: "BondOrderRules \<Rightarrow> float64 \<Rightarrow> goerror option" where
  "CheckPrice r price = first_refusal
     [BondOrderRules_Validate r,
      reject_if (\<not> bondPositiveFinite price) (New ''bond order limit price must be positive''),
      reject_if (\<not> OnBondTick price (bor_MinTick r)) (New ''bond order limit price is not on the contract's minimum tick'')]"

definition bondCurrencyCode :: "string \<Rightarrow> bool" where
  "bondCurrencyCode ccy \<longleftrightarrow> length ccy = 3 \<and> list_all (\<lambda>c. CHR ''A'' \<le> c \<and> c \<le> CHR ''Z'') ccy"

definition validateBondOrder :: "IBKROrder \<Rightarrow> goerror option" where
  "validateBondOrder ord = first_refusal
     [reject_if (ord_ConID ord \<le> 0) (New ''bond orders require a positive contract id''),
      reject_if (\<not> bondCurrencyCode (ToUpper (TrimSpace (ord_Currency ord)))) (New ''bond orders require a three-letter currency''),
      reject_if (\<not> EqualFold (TrimSpace (ord_OrderType ord)) ''LMT'') (New ''bond orders must be limit orders''),
      reject_if (ord_TIF ord \<noteq> [] \<and> \<not> EqualFold (TrimSpace (ord_TIF ord)) ''DAY'') (New ''bond orders must be DAY orders''),
      reject_if (ord_Expiry ord \<noteq> [] \<or> ord_Right ord \<noteq> [] \<or> f64_nonzero (ord_Strike ord) \<or> ord_Multiplier ord \<noteq> [] \<or> ord_ComboLegs ord \<noteq> [])
        (New ''bond orders carry no expiry, right, strike, multiplier or combo legs''),
      reject_if (f64_nonzero (ord_AuxPrice ord) \<or> f64_nonzero (ord_TrailStopPrice ord) \<or> f64_nonzero (ord_TrailingPercent ord) \<or>
          f64_nonzero (ord_LmtPriceOffset ord))
        (New ''bond limit orders carry no stop or trail prices''),
      (case ord_BondRules ord of
         None \<Rightarrow> Some (New ''bond orders require the line's size and price rules from its contract details'')
       | Some r \<Rightarrow> first_refusal [CheckQuantity r (ord_TotalQty ord), CheckPrice r (ord_LmtPrice ord)])]"

text \<open>Combination legs.\<close>

fun validateComboLegs_from :: "int list \<Rightarrow> ComboLeg list \<Rightarrow> goerror option" where
  "validateComboLegs_from seen [] = None"
| "validateComboLegs_from seen (leg # legs) = first_refusal
     [validateProtoInt32 ''comboLegs.conID'' (leg_ConID leg),
      validateProtoInt32 ''comboLegs.ratio'' (leg_Ratio leg),
      reject_if (leg_ConID leg \<le> 0) (New ''protobuf placeOrder BAG combo leg requires a positive ConID''),
      reject_if (leg_Ratio leg \<le> 0) (New ''protobuf placeOrder BAG combo leg requires a positive ratio''),
      reject_if (ToUpper (TrimSpace (leg_Action leg)) \<notin> {''BUY'', ''SELL''}) (unsupportedPlaceOrderProtoValue ''comboLegs.action''),
      reject_if (TrimSpace (leg_Exchange leg) = []) (New ''protobuf placeOrder BAG combo leg requires an exchange''),
      reject_if (leg_OpenClose leg < 0 \<or> 3 < leg_OpenClose leg) (unsupportedPlaceOrderProtoValue ''comboLegs.openClose''),
      reject_if (leg_ConID leg \<in> set seen) (New ''protobuf placeOrder BAG repeats combo leg ConID''),
      validateComboLegs_from (leg_ConID leg # seen) legs]"

definition validateComboLegs :: "ComboLeg list \<Rightarrow> goerror option" where
  "validateComboLegs legs = first_refusal
     [reject_if (length legs < 2) (New ''protobuf placeOrder BAG requires at least two combo legs''),
      validateComboLegs_from [] legs]"

definition validatePlaceOrderTriggerMethod :: "string \<Rightarrow> int \<Rightarrow> goerror option" where
  "validatePlaceOrderTriggerMethod orderType method =
     (if method = 0 then None
      else first_refusal
        [reject_if (orderType \<noteq> ''TRAIL'' \<and> orderType \<noteq> ''TRAIL LIMIT'' \<and> orderType \<noteq> ''STP'') (unsupportedPlaceOrderProtoValue ''triggerMethod''),
         reject_if (method \<notin> {1, 2, 3, 4, 7, 8}) (unsupportedPlaceOrderProtoValue ''triggerMethod'')])"

definition validateProtoOrderTypePrices :: "string \<Rightarrow> IBKROrder \<Rightarrow> goerror option" where
  "validateProtoOrderTypePrices orderType ord =
     (let hasAmount = f64_positive (ord_AuxPrice ord); hasPercent = f64_positive (ord_TrailingPercent ord)
      in if orderType = ''STP'' then
           reject_if (\<not> isPositiveFiniteStockPrice (ord_AuxPrice ord) \<or> f64_nonzero (ord_LmtPrice ord) \<or> f64_nonzero (ord_TrailStopPrice ord) \<or>
               f64_nonzero (ord_TrailingPercent ord) \<or> f64_nonzero (ord_LmtPriceOffset ord))
             (New ''attached stock stop requires only a positive fixed auxPrice'')
         else if orderType = ''LMT'' then first_refusal
           [(if EqualFold (ord_SecType ord) ''BAG''
             then reject_if (\<not> ord_LmtPriceSet ord \<or> f64_IsNaN (ord_LmtPrice ord) \<or> f64_IsInf (ord_LmtPrice ord))
               (New ''protobuf placeOrder BAG requires a finite explicit lmtPrice'')
             else reject_if (f64_le (ord_LmtPrice ord) 0) (New ''protobuf placeOrder requires positive lmtPrice'')),
            reject_if (f64_nonzero (ord_AuxPrice ord) \<or> f64_nonzero (ord_TrailStopPrice ord) \<or> f64_nonzero (ord_TrailingPercent ord) \<or>
                f64_nonzero (ord_LmtPriceOffset ord))
              (New ''protobuf placeOrder LMT does not support populated trail/auxiliary price fields'')]
         else if orderType = ''TRAIL'' then first_refusal
           [reject_if (f64_nonzero (ord_LmtPrice ord)) (unsupportedPlaceOrderProtoField ''lmtPrice''),
            reject_if (f64_le (ord_TrailStopPrice ord) 0) (New ''protobuf placeOrder TRAIL requires positive trailStopPrice''),
            reject_if (hasAmount = hasPercent) (New ''protobuf placeOrder TRAIL requires exactly one of auxPrice or trailingPercent''),
            reject_if (f64_nonzero (ord_LmtPriceOffset ord)) (unsupportedPlaceOrderProtoField ''lmtPriceOffset'')]
         else if orderType = ''TRAIL LIMIT'' then first_refusal
           [reject_if (f64_nonzero (ord_LmtPrice ord)) (New ''protobuf placeOrder TRAIL LIMIT must use lmtPriceOffset, not lmtPrice''),
            reject_if (f64_le (ord_TrailStopPrice ord) 0) (New ''protobuf placeOrder TRAIL LIMIT requires positive trailStopPrice''),
            reject_if (hasAmount = hasPercent) (New ''protobuf placeOrder TRAIL LIMIT requires exactly one of auxPrice or trailingPercent''),
            reject_if (f64_le (ord_LmtPriceOffset ord) 0) (New ''protobuf placeOrder TRAIL LIMIT requires positive lmtPriceOffset'')]
         else None)"

definition validatePlaceOrderOCA :: "IBKROrder \<Rightarrow> goerror option" where
  "validatePlaceOrderOCA ord =
     (let group = TrimSpace (ord_OcaGroup ord)
      in if group = [] \<and> ord_OcaType ord = 0 then None
         else if group = [] then Some (New ''protobuf placeOrder ocaType needs an ocaGroup'')
         else reject_if (ord_OcaType ord < 1 \<or> 3 < ord_OcaType ord) (unsupportedPlaceOrderProtoValue ''ocaType''))"

definition unsupported_texts :: "order_texts \<Rightarrow> (string \<times> string) list" where
  "unsupported_texts x = [(''goodAfterTime'', oo_GoodAfterTime x),
     (''goodTillDate'', oo_GoodTillDate x),
     (''faGroup'', oo_FaGroup x),
     (''faMethod'', oo_FaMethod x),
     (''faPercentage'', oo_FaPercentage x),
     (''faProfile'', oo_FaProfile x),
     (''modelCode'', oo_ModelCode x),
     (''designatedLocation'', oo_DesignatedLocation x),
     (''rule80A'', oo_Rule80A x),
     (''settlingFirm'', oo_SettlingFirm x),
     (''deltaNeutralOrderType'', oo_DeltaNeutralOrderType x),
     (''deltaNeutralSettlingFirm'', oo_DeltaNeutralSettlingFirm x),
     (''deltaNeutralClearingAccount'', oo_DeltaNeutralClearingAccount x),
     (''deltaNeutralClearingIntent'', oo_DeltaNeutralClearingIntent x),
     (''deltaNeutralOpenClose'', oo_DeltaNeutralOpenClose x),
     (''deltaNeutralDesignatedLocation'', oo_DeltaNeutralDesignatedLocation x),
     (''hedgeType'', oo_HedgeType x),
     (''hedgeParam'', oo_HedgeParam x),
     (''clearingAccount'', oo_ClearingAccount x),
     (''clearingIntent'', oo_ClearingIntent x)]"

definition unsupported_counts :: "order_counts \<Rightarrow> (string \<times> int) list" where
  "unsupported_counts x = [(''permID'', oo_PermID x),
     (''displaySize'', oo_DisplaySize x),
     (''shortSaleSlot'', oo_ShortSaleSlot x),
     (''minQty'', oo_MinQty x),
     (''auctionStrategy'', oo_AuctionStrategy x),
     (''volatilityType'', oo_VolatilityType x),
     (''deltaNeutralConID'', oo_DeltaNeutralConID x),
     (''deltaNeutralShortSaleSlot'', oo_DeltaNeutralShortSaleSlot x),
     (''continuousUpdate'', oo_ContinuousUpdate x),
     (''referencePriceType'', oo_ReferencePriceType x),
     (''basisPointsType'', oo_BasisPointsType x),
     (''scaleInitLevelSize'', oo_ScaleInitLevelSize x),
     (''scaleSubsLevelSize'', oo_ScaleSubsLevelSize x),
     (''scalePriceAdjustInterval'', oo_ScalePriceAdjustInterval x),
     (''scaleInitPosition'', oo_ScaleInitPosition x),
     (''scaleInitFillQty'', oo_ScaleInitFillQty x)]"

definition unsupported_amounts :: "order_amounts \<Rightarrow> (string \<times> float64) list" where
  "unsupported_amounts x = [(''discretionaryAmt'', oo_DiscretionaryAmt x),
     (''percentOffset'', oo_PercentOffset x),
     (''nbboPriceCap'', oo_NbboPriceCap x),
     (''startingPrice'', oo_StartingPrice x),
     (''stockRefPrice'', oo_StockRefPrice x),
     (''delta'', oo_Delta x),
     (''stockRangeLower'', oo_StockRangeLower x),
     (''stockRangeUpper'', oo_StockRangeUpper x),
     (''volatility'', oo_Volatility x),
     (''deltaNeutralAuxPrice'', oo_DeltaNeutralAuxPrice x),
     (''basisPoints'', oo_BasisPoints x),
     (''scalePriceIncrement'', oo_ScalePriceIncrement x),
     (''scalePriceAdjustValue'', oo_ScalePriceAdjustValue x),
     (''scaleProfitOffset'', oo_ScaleProfitOffset x)]"

definition unsupported_flags :: "order_flags \<Rightarrow> (string \<times> bool) list" where
  "unsupported_flags x = [(''blockOrder'', oo_BlockOrder x),
     (''sweepToFill'', oo_SweepToFill x),
     (''hidden'', oo_Hidden x),
     (''allOrNone'', oo_AllOrNone x),
     (''eTradeOnly'', oo_ETradeOnly x),
     (''firmQuoteOnly'', oo_FirmQuoteOnly x),
     (''overridePercentageConstraints'', oo_OverridePercentageConstraints x),
     (''deltaNeutralShortSale'', oo_DeltaNeutralShortSale x),
     (''scaleAutoReset'', oo_ScaleAutoReset x),
     (''scaleRandomPercent'', oo_ScaleRandomPercent x),
     (''optOutSmartRouting'', oo_OptOutSmartRouting x),
     (''notHeld'', oo_NotHeld x)]"


text \<open>The rules per security type.\<close>

definition validate_bond_shape :: "string \<Rightarrow> string \<Rightarrow> IBKROrder \<Rightarrow> goerror option" where
  "validate_bond_shape secType orderType ord =
     (if \<not> IsBillOrBond secType then None
      else first_refusal
        [reject_if (orderType \<noteq> ''LMT'') (unsupportedPlaceOrderProtoValue ''orderType''),
         reject_if (ToUpper (TrimSpace (ord_TIF ord)) \<noteq> ''DAY'') (unsupportedPlaceOrderProtoValue ''tif''),
         map_option (Wrap ''protobuf placeOrder'') (validateBondOrder ord)])"

definition validate_future_shape :: "string \<Rightarrow> string \<Rightarrow> IBKROrder \<Rightarrow> goerror option" where
  "validate_future_shape secType orderType ord =
     (if secType \<noteq> ''FUT'' then None
      else first_refusal
        [reject_if (orderType \<noteq> ''LMT'') (unsupportedPlaceOrderProtoValue ''orderType''),
         reject_if (ToUpper (TrimSpace (ord_TIF ord)) \<noteq> ''DAY'') (unsupportedPlaceOrderProtoValue ''tif''),
         reject_if (ord_OutsideRth ord) (unsupportedPlaceOrderProtoField ''outsideRth''),
         reject_if (ord_ConID ord \<le> 0 \<or> TrimSpace (ord_Expiry ord) = [] \<or> TrimSpace (ord_Multiplier ord) = [] \<or> TrimSpace (ord_Exchange ord) = [])
           (New ''protobuf placeOrder FUT requires conID, expiry, multiplier and exchange''),
         reject_if (ord_Right ord \<noteq> [] \<or> f64_nonzero (ord_Strike ord) \<or> ord_ComboLegs ord \<noteq> [])
           (New ''protobuf placeOrder FUT takes no right, strike or combo legs'')])"

definition validate_cash_shape :: "string \<Rightarrow> string \<Rightarrow> IBKROrder \<Rightarrow> goerror option" where
  "validate_cash_shape secType orderType ord =
     (if secType \<noteq> ''CASH'' then None
      else first_refusal
        [reject_if (orderType \<noteq> ''LMT'') (unsupportedPlaceOrderProtoValue ''orderType''),
         reject_if (ToUpper (TrimSpace (ord_TIF ord)) \<noteq> ''DAY'') (unsupportedPlaceOrderProtoValue ''tif''),
         reject_if (\<not> EqualFold (TrimSpace (ord_Exchange ord)) ''IDEALPRO'') (unsupportedPlaceOrderProtoValue ''exchange''),
         reject_if (ord_OutsideRth ord) (unsupportedPlaceOrderProtoField ''outsideRth'')])"

definition no_derivative_terms :: "IBKROrder \<Rightarrow> goerror option" where
  "no_derivative_terms ord = first_refusal
     [reject_if (ord_Expiry ord \<noteq> []) (unsupportedPlaceOrderProtoField ''expiry''),
      reject_if (ord_Right ord \<noteq> []) (unsupportedPlaceOrderProtoField ''right''),
      reject_if (ord_Multiplier ord \<noteq> []) (unsupportedPlaceOrderProtoField ''multiplier''),
      reject_if (f64_nonzero (ord_Strike ord)) (unsupportedPlaceOrderProtoField ''strike'')]"

definition validate_contract_shape :: "string \<Rightarrow> IBKROrder \<Rightarrow> goerror option" where
  "validate_contract_shape secType ord =
     (if secType = ''BAG'' then first_refusal [validateComboLegs (ord_ComboLegs ord), no_derivative_terms ord]
      else if secType = ''FUT'' then None
      else if secType = ''OPT'' then first_refusal
        [reject_if (TrimSpace (ord_Expiry ord) = []) (New ''protobuf placeOrder OPT requires expiry''),
         reject_if (ToUpper (TrimSpace (ord_Right ord)) \<notin> {''C'', ''P''}) (unsupportedPlaceOrderProtoValue ''right''),
         reject_if (f64_le (ord_Strike ord) 0) (New ''protobuf placeOrder OPT requires positive strike''),
         reject_if (TrimSpace (ord_Multiplier ord) = []) (New ''protobuf placeOrder OPT requires multiplier'')]
      else first_refusal
        [reject_if (ord_ComboLegs ord \<noteq> []) (unsupportedPlaceOrderProtoField ''comboLegs''), no_derivative_terms ord])"

definition refuse_populated :: "('a \<Rightarrow> bool) \<Rightarrow> (string \<times> 'a) list \<Rightarrow> goerror option" where
  "refuse_populated populated entries =
     first_refusal (map (\<lambda>(name, v). reject_if (populated v) (unsupportedPlaceOrderProtoField name)) entries)"

definition validatePlaceOrderProtoSupported :: "IBKROrder option \<Rightarrow> goerror option" where
  "validatePlaceOrderProtoSupported order =
     (case order of
        None \<Rightarrow> Some (New ''order is nil'')
      | Some ord \<Rightarrow>
         let secType = ToUpper (ord_SecType ord);
             orderType = ToUpper (TrimSpace (ord_OrderType ord));
             tif = ToUpper (ord_TIF ord);
             gtcTrail = (tif = ''GTC'' \<and> orderType \<in> {''TRAIL'', ''TRAIL LIMIT'', ''STP''});
             openClose = ToUpper (TrimSpace (ord_OpenClose ord))
         in first_refusal
           [validateAdaptiveOrder ord,
            validateProtoInt32 ''orderID'' (ord_OrderID ord),
            validateProtoInt32 ''clientID'' (ord_ClientID ord),
            validateProtoInt32 ''conID'' (ord_ConID ord),
            validateProtoInt32 ''totalQty'' (ord_TotalQty ord),
            reject_if (secType \<notin> {''STK'', ''ETF'', ''OPT'', ''BAG'', ''CASH'', ''FUT''} \<and> \<not> IsBillOrBond secType) (unsupportedPlaceOrderProtoValue ''secType''),
            reject_if (orderType \<notin> {''LMT'', ''TRAIL'', ''TRAIL LIMIT'', ''STP''}) (unsupportedPlaceOrderProtoValue ''orderType''),
            reject_if (orderType = ''STP'' \<and> (secType \<noteq> ''STK'' \<or> ord_ParentID ord \<le> 0 \<or> ord_Action ord \<noteq> ''SELL'' \<or> ord_TIF ord \<noteq> ''GTC'' \<or>
                ord_TriggerMethod ord \<noteq> 2 \<or> ord_OutsideRth ord \<or> (\<not> ord_Transmit ord \<and> \<not> ord_WhatIf ord)))
              (New ''fixed stop is supported only as an attached regular-session stock child''),
            reject_if (ord_ParentID ord \<noteq> 0 \<and> orderType \<noteq> ''STP'') (unsupportedPlaceOrderProtoField ''parentID''),
            validate_bond_shape secType orderType ord,
            validate_future_shape secType orderType ord,
            validate_cash_shape secType orderType ord,
            validatePlaceOrderTriggerMethod orderType (ord_TriggerMethod ord),
            reject_if (tif \<noteq> ''DAY'' \<and> \<not> gtcTrail) (unsupportedPlaceOrderProtoValue ''tif''),
            validateProtoOrderTypePrices orderType ord,
            validate_contract_shape secType ord,
            validatePlaceOrderOCA ord,
            refuse_populated (\<lambda>v. v \<noteq> []) (unsupported_texts (ord_texts ord)),
            refuse_populated (\<lambda>v. v \<noteq> 0) (unsupported_counts (ord_counts ord)),
            reject_if (ord_ExemptCode ord \<noteq> 0 \<and> ord_ExemptCode ord \<noteq> -1) (unsupportedPlaceOrderProtoField ''exemptCode''),
            reject_if (openClose \<notin> {[], ''O'', ''C''}) (unsupportedPlaceOrderProtoValue ''openClose''),
            refuse_populated f64_nonzero (unsupported_amounts (ord_amounts ord)),
            refuse_populated (\<lambda>v. v) (unsupported_flags (ord_flags ord))])"

subsection \<open>Encoding\<close>

definition msg_placeOrder :: int where "msg_placeOrder = 3"
definition msg_cancelOrder :: int where "msg_cancelOrder = 4"
definition protoBufMsgID :: int where "protoBufMsgID = 200"
definition protoPlaceOrderMsgID :: int where "protoPlaceOrderMsgID = msg_placeOrder + protoBufMsgID"
definition protoCancelOrderMsgID :: int where "protoCancelOrderMsgID = msg_cancelOrder + protoBufMsgID"

text \<open>\<^verbatim>\<open>if c { msg = f(msg) }\<close>.\<close>

definition append_when :: "bool \<Rightarrow> (bytes \<Rightarrow> bytes) \<Rightarrow> bytes \<Rightarrow> bytes" where
  "append_when c f msg = (if c then f msg else msg)"

definition Itoa :: "int \<Rightarrow> string" where
  "Itoa n = (if n < 0 then CHR ''-'' # digits10 (nat (- n)) else digits10 (nat n))"

definition encodeComboLegProto :: "ComboLeg \<Rightarrow> bytes" where
  "encodeComboLegProto leg =
     (let msg = protoAppendInt32 [] 1 (go_int32 (leg_ConID leg));
          msg = protoAppendInt32 msg 2 (go_int32 (leg_Ratio leg));
          msg = protoAppendString msg 3 (ToUpper (TrimSpace (leg_Action leg)));
          msg = protoAppendString msg 4 (ToUpper (TrimSpace (leg_Exchange leg)))
      in append_when (leg_OpenClose leg \<noteq> 0) (\<lambda>m. protoAppendInt32 m 5 (go_int32 (leg_OpenClose leg))) msg)"

definition encodePlaceOrderContractProto :: "IBKROrder \<Rightarrow> bytes result" where
  "encodePlaceOrderContractProto ord =
     (let msg = protoAppendInt32 [] 1 (go_int32 (ord_ConID ord));
          msg = protoAppendString msg 2 (ord_Symbol ord);
          msg = protoAppendString msg 3 (ToUpper (ord_SecType ord));
          msg = protoAppendString msg 4 (ord_Expiry ord);
          msg = append_when (f64_nonzero (ord_Strike ord)) (\<lambda>m. protoAppendDouble m 5 (ord_Strike ord)) msg;
          msg = protoAppendString msg 6 (ToUpper (ord_Right ord));
          msg = protoAppendString msg 7 (ord_Multiplier ord);
          msg = protoAppendString msg 8 (ord_Exchange ord);
          msg = protoAppendString msg 9 (ord_PrimaryExch ord);
          msg = protoAppendString msg 10 (ord_Currency ord);
          msg = protoAppendString msg 11 (ord_LocalSymbol ord);
          msg = protoAppendString msg 12 (ord_TradingClass ord);
          msg = protoAppendString msg 13 (ord_SecIDType ord);
          msg = protoAppendString msg 14 (ord_SecID ord)
      in Inr (fold (\<lambda>leg m. protoAppendMessage m 20 (encodeComboLegProto leg)) (ord_ComboLegs ord) msg))"

definition adaptive_entry :: "string \<Rightarrow> bytes" where
  "adaptive_entry priority = protoAppendString (protoAppendString [] 1 ''adaptivePriority'') 2 priority"

definition encodePlaceOrderOrderProto :: "IBKROrder \<Rightarrow> bytes result" where
  "encodePlaceOrderOrderProto ord =
     (let msg = protoAppendInt32 [] 1 (go_int32 (ord_ClientID ord));
          msg = protoAppendInt64 msg 3 (word_of_int (oo_PermID (ord_counts ord)));
          msg = protoAppendInt32 msg 4 (go_int32 (ord_ParentID ord));
          msg = protoAppendString msg 5 (ToUpper (ord_Action ord));
          msg = protoAppendString msg 6 (Itoa (ord_TotalQty ord));
          msg = protoAppendInt32 msg 7 (go_int32 (oo_DisplaySize (ord_counts ord)));
          msg = protoAppendString msg 8 (ToUpper (ord_OrderType ord));
          msg = append_when (f64_nonzero (ord_LmtPrice ord) \<or> ord_LmtPriceSet ord) (\<lambda>m. protoAppendDouble m 9 (ord_LmtPrice ord)) msg;
          msg = append_when (f64_nonzero (ord_AuxPrice ord)) (\<lambda>m. protoAppendDouble m 10 (ord_AuxPrice ord)) msg;
          msg = protoAppendString msg 11 (ToUpper (ord_TIF ord));
          msg = protoAppendString msg 12 (ord_Account ord);
          msg = append_when (ord_OutsideRth ord) (\<lambda>m. protoAppendBool m 19 True) msg;
          msg = protoAppendString msg 27 (ord_OcaGroup ord);
          msg = protoAppendString msg 28 (ord_OrderRef ord);
          msg = protoAppendInt32 msg 30 (go_int32 (ord_OcaType ord));
          msg = protoAppendInt32 msg 31 (go_int32 (ord_TriggerMethod ord));
          msg = append_when (f64_nonzero (ord_TrailingPercent ord)) (\<lambda>m. protoAppendDouble m 22 (ord_TrailingPercent ord)) msg;
          msg = append_when (f64_nonzero (ord_TrailStopPrice ord)) (\<lambda>m. protoAppendDouble m 23 (ord_TrailStopPrice ord)) msg;
          msg = protoAppendInt32 msg 43 (go_int32 (oo_DeltaNeutralConID (ord_counts ord)));
          msg = protoAppendInt32 msg 46 (go_int32 (oo_DeltaNeutralShortSaleSlot (ord_counts ord)));
          msg = append_when (ord_AdaptivePriority ord \<noteq> []) (\<lambda>m. protoAppendMessage (protoAppendString m 61 ''Adaptive'') 62
                  (adaptive_entry (ord_AdaptivePriority ord))) msg;
          msg = append_when (ord_WhatIf ord) (\<lambda>m. protoAppendBool m 65 True) msg;
          msg = append_when (ord_Transmit ord) (\<lambda>m. protoAppendBool m 66 True) msg;
          msg = protoAppendString msg 68 (ord_OpenClose ord);
          msg = protoAppendInt32 msg 69 (go_int32 (ord_Origin ord));
          msg = protoAppendInt32 msg 70 (go_int32 (oo_ShortSaleSlot (ord_counts ord)));
          msg = protoAppendInt32 msg 72 (go_int32 (-1));
          msg = protoAppendDouble msg 76 (oo_DiscretionaryAmt (ord_amounts ord));
          msg = protoAppendInt32 msg 88 0;
          msg = protoAppendDouble msg 89 0;
          msg = protoAppendDouble msg 91 0;
          msg = append_when (f64_nonzero (ord_LmtPriceOffset ord)) (\<lambda>m. protoAppendDouble m 99 (ord_LmtPriceOffset ord)) msg;
          msg = protoAppendInt32 msg 98 0
      in Inr (protoAppendMessage msg 105 []))"

definition encodePlaceOrderProtoBody :: "IBKROrder option \<Rightarrow> bytes result" where
  "encodePlaceOrderProtoBody order =
     (case validatePlaceOrderProtoSupported order of
        Some e \<Rightarrow> Inl e
      | None \<Rightarrow>
         bind_result (encodePlaceOrderContractProto (the order)) (\<lambda>contract.
         bind_result (encodePlaceOrderOrderProto (the order)) (\<lambda>orderMsg.
           Inr (protoAppendMessage (protoAppendMessage (protoAppendMessage
             (protoAppendInt32 [] 1 (go_int32 (ord_OrderID (the order)))) 2 contract) 3 orderMsg) 4 []))))"

definition encodePlaceOrderProtoFrame :: "IBKROrder option \<Rightarrow> bytes result" where
  "encodePlaceOrderProtoFrame order =
     bind_result (encodePlaceOrderProtoBody order) (\<lambda>body.
       Inr (BigEndian_AppendUint32 [] (word_of_int protoPlaceOrderMsgID) @ body))"

definition encodeCancelOrderProtoBody :: "int \<Rightarrow> bytes" where
  "encodeCancelOrderProtoBody orderID = protoAppendMessage (protoAppendInt32 [] 1 (go_int32 orderID)) 2 []"

definition encodeCancelOrderProtoFrame :: "int \<Rightarrow> bytes" where
  "encodeCancelOrderProtoFrame orderID =
     BigEndian_AppendUint32 [] (word_of_int protoCancelOrderMsgID) @ encodeCancelOrderProtoBody orderID"

subsection \<open>Reading an outbound frame back\<close>

record placeOrderProtoSummary =
  sum_parentID :: int
  sum_orderID :: int
  sum_conID :: int
  sum_symbol :: string
  sum_secType :: string
  sum_expiry :: string
  sum_strike :: float64
  sum_right :: string
  sum_multiplier :: string
  sum_clientID :: int
  sum_action :: string
  sum_quantity :: string
  sum_orderType :: string
  sum_lmtPrice :: float64
  sum_auxPrice :: float64
  sum_trailingPercent :: float64
  sum_trailStopPrice :: float64
  sum_lmtPriceOffset :: float64
  sum_tif :: string
  sum_triggerMethod :: int
  sum_account :: string
  sum_orderRef :: string
  sum_outsideRth :: bool
  sum_whatIf :: bool
  sum_transmit :: bool
  sum_openClose :: string

definition zero_summary :: placeOrderProtoSummary where
  "zero_summary = \<lparr>sum_parentID = 0, sum_orderID = 0, sum_conID = 0, sum_symbol = [], sum_secType = [], sum_expiry = [], sum_strike = 0,
     sum_right = [], sum_multiplier = [], sum_clientID = 0, sum_action = [], sum_quantity = [], sum_orderType = [], sum_lmtPrice = 0,
     sum_auxPrice = 0, sum_trailingPercent = 0, sum_trailStopPrice = 0, sum_lmtPriceOffset = 0, sum_tif = [], sum_triggerMethod = 0,
     sum_account = [], sum_orderRef = [], sum_outsideRth = False, sum_whatIf = False, sum_transmit = False, sum_openClose = []\<rparr>"

text \<open>\<^verbatim>\<open>v, err := protoVarintValue(...); if err != nil { return err }\<close> followed by an assignment, and the
  same for a 64-bit value.\<close>

definition set_varint :: "int \<Rightarrow> int \<Rightarrow> bytes \<Rightarrow> (64 word \<Rightarrow> 's) \<Rightarrow> 's result" where
  "set_varint f w v assign = bind_result (protoVarintValue f w v) (\<lambda>x. Inr (assign x))"

definition setProtoDouble :: "int \<Rightarrow> int \<Rightarrow> bytes \<Rightarrow> (float64 \<Rightarrow> 's) \<Rightarrow> 's result" where
  "setProtoDouble f w v assign = bind_result (protoFixed64Value f w v) (\<lambda>x. Inr (assign x))"

definition contract_summary_field :: "int \<Rightarrow> int \<Rightarrow> bytes \<Rightarrow> placeOrderProtoSummary \<Rightarrow> placeOrderProtoSummary result" where
  "contract_summary_field f w v s =
     (if f = 1 then set_varint f w v (\<lambda>x. s\<lparr>sum_conID := go_int x\<rparr>)
      else if f = 2 then Inr (s\<lparr>sum_symbol := string_of v\<rparr>)
      else if f = 3 then Inr (s\<lparr>sum_secType := string_of v\<rparr>)
      else if f = 4 then Inr (s\<lparr>sum_expiry := string_of v\<rparr>)
      else if f = 5 then setProtoDouble f w v (\<lambda>x. s\<lparr>sum_strike := x\<rparr>)
      else if f = 6 then Inr (s\<lparr>sum_right := string_of v\<rparr>)
      else if f = 7 then Inr (s\<lparr>sum_multiplier := string_of v\<rparr>)
      else Inr s)"

definition parseContractProtoSummary :: "bytes \<Rightarrow> placeOrderProtoSummary \<Rightarrow> placeOrderProtoSummary result" where
  "parseContractProtoSummary body s = forEachProtoField body contract_summary_field s"

definition order_summary_field :: "int \<Rightarrow> int \<Rightarrow> bytes \<Rightarrow> placeOrderProtoSummary \<Rightarrow> placeOrderProtoSummary result" where
  "order_summary_field f w v s =
     (if f = 1 then set_varint f w v (\<lambda>x. s\<lparr>sum_clientID := go_int x\<rparr>)
      else if f = 4 then set_varint f w v (\<lambda>x. s\<lparr>sum_parentID := go_int x\<rparr>)
      else if f = 5 then Inr (s\<lparr>sum_action := string_of v\<rparr>)
      else if f = 6 then Inr (s\<lparr>sum_quantity := string_of v\<rparr>)
      else if f = 8 then Inr (s\<lparr>sum_orderType := string_of v\<rparr>)
      else if f = 9 then setProtoDouble f w v (\<lambda>x. s\<lparr>sum_lmtPrice := x\<rparr>)
      else if f = 10 then setProtoDouble f w v (\<lambda>x. s\<lparr>sum_auxPrice := x\<rparr>)
      else if f = 11 then Inr (s\<lparr>sum_tif := string_of v\<rparr>)
      else if f = 12 then Inr (s\<lparr>sum_account := string_of v\<rparr>)
      else if f = 19 then set_varint f w v (\<lambda>x. s\<lparr>sum_outsideRth := (x \<noteq> 0)\<rparr>)
      else if f = 28 then Inr (s\<lparr>sum_orderRef := string_of v\<rparr>)
      else if f = 31 then set_varint f w v (\<lambda>x. s\<lparr>sum_triggerMethod := go_int x\<rparr>)
      else if f = 22 then setProtoDouble f w v (\<lambda>x. s\<lparr>sum_trailingPercent := x\<rparr>)
      else if f = 23 then setProtoDouble f w v (\<lambda>x. s\<lparr>sum_trailStopPrice := x\<rparr>)
      else if f = 65 then set_varint f w v (\<lambda>x. s\<lparr>sum_whatIf := (x \<noteq> 0)\<rparr>)
      else if f = 66 then set_varint f w v (\<lambda>x. s\<lparr>sum_transmit := (x \<noteq> 0)\<rparr>)
      else if f = 68 then Inr (s\<lparr>sum_openClose := string_of v\<rparr>)
      else if f = 99 then setProtoDouble f w v (\<lambda>x. s\<lparr>sum_lmtPriceOffset := x\<rparr>)
      else Inr s)"

definition parseOrderProtoSummary :: "bytes \<Rightarrow> placeOrderProtoSummary \<Rightarrow> placeOrderProtoSummary result" where
  "parseOrderProtoSummary body s = forEachProtoField body order_summary_field s"

definition place_summary_field :: "int \<Rightarrow> int \<Rightarrow> bytes \<Rightarrow> placeOrderProtoSummary \<Rightarrow> placeOrderProtoSummary result" where
  "place_summary_field f w v s =
     (if f = 1 then set_varint f w v (\<lambda>x. s\<lparr>sum_orderID := go_int x\<rparr>)
      else if f = 2 then parseContractProtoSummary v s
      else if f = 3 then parseOrderProtoSummary v s
      else Inr s)"

definition parsePlaceOrderProtoSummary :: "bytes \<Rightarrow> placeOrderProtoSummary result" where
  "parsePlaceOrderProtoSummary body = forEachProtoField body place_summary_field zero_summary"

record cancelOrderProtoSummary =
  cos_orderID :: int
  cos_hasOrderCancel :: bool

definition order_cancel_field :: "int \<Rightarrow> int \<Rightarrow> bytes \<Rightarrow> unit \<Rightarrow> unit result" where
  "order_cancel_field f w v s =
     (if f = 1 \<or> f = 2 then (if w \<noteq> protoWireBytes then Inl (New ''field_not_string'') else Inr ())
      else if f = 3 then (if w \<noteq> protoWireVarint then Inl (New ''field_not_varint'') else Inr ())
      else Inl (New ''unsupported_order_cancel_field''))"

definition parseOrderCancelProtoSummary :: "bytes \<Rightarrow> unit result" where
  "parseOrderCancelProtoSummary body = forEachProtoField body order_cancel_field ()"

definition cancel_summary_field :: "int \<Rightarrow> int \<Rightarrow> bytes \<Rightarrow> cancelOrderProtoSummary \<Rightarrow> cancelOrderProtoSummary result" where
  "cancel_summary_field f w v s =
     (if f = 1 then set_varint f w v (\<lambda>x. s\<lparr>cos_orderID := go_int x\<rparr>)
      else if f = 2 then
        (if w \<noteq> protoWireBytes then Inl (New ''field_not_message'')
         else bind_result (parseOrderCancelProtoSummary v) (\<lambda>_. Inr (s\<lparr>cos_hasOrderCancel := True\<rparr>)))
      else Inr s)"

definition parseCancelOrderProtoSummary :: "bytes \<Rightarrow> cancelOrderProtoSummary result" where
  "parseCancelOrderProtoSummary body =
     forEachProtoField body cancel_summary_field \<lparr>cos_orderID = 0, cos_hasOrderCancel = False\<rparr>"

end
