(* ===== verification/Order_Callback.thy ===== *)
theory Order_Callback
  imports Order_Proto
begin

text \<open>
  Broker callbacks about orders: \<^verbatim>\<open>pkg/ibkr/order_proto_callbacks.go\<close> decodes the protobuf body of an openOrder, orderStatus or
  execDetails frame and flattens it into text fields; \<^verbatim>\<open>pkg/ibkr/order_events.go\<close> reads those fields, or the legacy
  positional ones, into an event.
  \<^item> \<open>inboundOrderProtoSummary\<close> groups the fields of the source structure by the message they come from.
  \<^item> \<open>float_text\<close> is what the sources use of \<^verbatim>\<open>strconv.FormatFloat\<close> and \<^verbatim>\<open>strconv.ParseFloat\<close>; \<open>float_text_ok\<close> is the
    documented law of the shortest format: it reads back as the same value.
  \<^item> \<open>Atoi\<close> saturates out of range and reports the error, as the library does.
\<close>

unbundle bit_operations_syntax

subsection \<open>Text\<close>

record float_text =
  FormatFloat :: "float64 \<Rightarrow> string"
  ParseFloat :: "string \<Rightarrow> float64"

definition float_text_ok :: "float_text \<Rightarrow> bool" where
  "float_text_ok F \<longleftrightarrow> (\<forall>x. \<not> f64_IsNaN x \<longrightarrow> ParseFloat F (FormatFloat F x) = x) \<and> (\<forall>x. TrimSpace (FormatFloat F x) = FormatFloat F x)"

definition is_digit :: "char \<Rightarrow> bool" where
  "is_digit c \<longleftrightarrow> CHR ''0'' \<le> c \<and> c \<le> CHR ''9''"

fun decimal_value :: "nat \<Rightarrow> string \<Rightarrow> nat" where
  "decimal_value acc [] = acc"
| "decimal_value acc (c # cs) = decimal_value (10 * acc + (of_char c - 48)) cs"

text \<open>\<^verbatim>\<open>strconv.Atoi\<close>: the value and whether there was no error. A syntax error gives 0, a value out of range the
  nearest integer.\<close>

definition Atoi :: "string \<Rightarrow> int \<times> bool" where
  "Atoi s =
     (let neg = (s \<noteq> [] \<and> hd s = CHR ''-'');
          ds = (if s \<noteq> [] \<and> (hd s = CHR ''-'' \<or> hd s = CHR ''+'') then tl s else s);
          n = int (decimal_value 0 ds)
      in if ds = [] \<or> \<not> list_all is_digit ds then (0, False)
         else if neg then (if 2 ^ 63 < n then (- (2 ^ 63), False) else (- n, True))
         else if 2 ^ 63 \<le> n then (2 ^ 63 - 1, False) else (n, True))"

definition FormatBool :: "bool \<Rightarrow> string" where
  "FormatBool b = (if b then ''true'' else ''false'')"

definition ParseBool :: "string \<Rightarrow> bool option" where
  "ParseBool s =
     (if s \<in> {''1'', ''t'', ''T'', ''TRUE'', ''true'', ''True''} then Some True
      else if s \<in> {''0'', ''f'', ''F'', ''FALSE'', ''false'', ''False''} then Some False else None)"

subsection \<open>The decoded callback\<close>

record inbound_contract =
  ic_conID :: int
  ic_symbol :: string
  ic_secType :: string
  ic_expiry :: string
  ic_strike :: float64
  ic_right :: string
  ic_multiplier :: string
  ic_exchange :: string
  ic_primaryExch :: string
  ic_currency :: string
  ic_localSymbol :: string
  ic_tradingClass :: string

record inbound_terms =
  it_modifyTermsKnown :: bool
  it_modifyUnsupported :: string
  it_openClose :: string
  it_deactivated :: "bool option"
  it_algoStrategy :: string
  it_adaptivePriority :: string
  it_action :: string
  it_quantity :: string
  it_orderType :: string
  it_lmtPrice :: float64
  it_auxPrice :: float64
  it_trailingPercent :: float64
  it_trailStopPrice :: float64
  it_lmtPriceOffset :: float64
  it_tif :: string
  it_triggerMethod :: int
  it_account :: string
  it_ocaGroup :: string
  it_ocaType :: int
  it_outsideRth :: bool
  it_whatIf :: bool
  it_transmit :: bool

record inbound_state =
  is_initMarginBefore :: float64
  is_maintMarginBefore :: float64
  is_equityWithLoanBefore :: float64
  is_initMarginChange :: float64
  is_maintMarginChange :: float64
  is_equityWithLoanChange :: float64
  is_initMarginAfter :: float64
  is_maintMarginAfter :: float64
  is_equityWithLoanAfter :: float64
  is_commission :: float64
  is_minCommission :: float64
  is_maxCommission :: float64
  is_commissionCurrency :: string
  is_stateSent :: "32 word"
  is_marginCurrency :: string
  is_rejectReason :: string
  is_warningText :: string

record inbound_fill =
  ix_filled :: string
  ix_remaining :: string
  ix_avgFillPrice :: float64
  ix_lastFillPrice :: float64
  ix_whyHeld :: string
  ix_mktCapPrice :: float64
  ix_execID :: string
  ix_execTime :: string
  ix_execAccount :: string
  ix_executionExchange :: string
  ix_executionSide :: string
  ix_shares :: string
  ix_price :: float64
  ix_cumQty :: string

record inboundOrderProtoSummary =
  in_orderID :: int
  in_requestID :: int
  in_permID :: int
  in_parentID :: int
  in_parentIDKnown :: bool
  in_clientID :: int
  in_status :: string
  in_orderRef :: string
  in_contract :: inbound_contract
  in_terms :: inbound_terms
  in_state :: inbound_state
  in_fill :: inbound_fill

definition zero_inbound :: inboundOrderProtoSummary where
  "zero_inbound = \<lparr>in_orderID = 0, in_requestID = 0, in_permID = 0, in_parentID = 0, in_parentIDKnown = False, in_clientID = 0,
     in_status = [], in_orderRef = [], in_contract = \<lparr>ic_conID = 0, ic_symbol = [], ic_secType = [], ic_expiry = [],
     ic_strike = 0, ic_right = [], ic_multiplier = [], ic_exchange = [], ic_primaryExch = [], ic_currency = [],
     ic_localSymbol = [], ic_tradingClass = []\<rparr>, in_terms = \<lparr>it_modifyTermsKnown = False,
     it_modifyUnsupported = [], it_openClose = [], it_deactivated = None, it_algoStrategy = [], it_adaptivePriority = [],
     it_action = [], it_quantity = [], it_orderType = [], it_lmtPrice = 0, it_auxPrice = 0, it_trailingPercent = 0,
     it_trailStopPrice = 0, it_lmtPriceOffset = 0, it_tif = [], it_triggerMethod = 0, it_account = [], it_ocaGroup = [],
     it_ocaType = 0, it_outsideRth = False, it_whatIf = False, it_transmit = False\<rparr>,
     in_state = \<lparr>is_initMarginBefore = 0, is_maintMarginBefore = 0, is_equityWithLoanBefore = 0, is_initMarginChange = 0,
     is_maintMarginChange = 0, is_equityWithLoanChange = 0, is_initMarginAfter = 0, is_maintMarginAfter = 0,
     is_equityWithLoanAfter = 0, is_commission = 0, is_minCommission = 0, is_maxCommission = 0, is_commissionCurrency = [],
     is_stateSent = 0, is_marginCurrency = [], is_rejectReason = [], is_warningText = []\<rparr>,
     in_fill = \<lparr>ix_filled = [], ix_remaining = [], ix_avgFillPrice = 0, ix_lastFillPrice = 0, ix_whyHeld = [],
     ix_mktCapPrice = 0, ix_execID = [], ix_execTime = [], ix_execAccount = [], ix_executionExchange = [],
     ix_executionSide = [], ix_shares = [], ix_price = 0, ix_cumQty = []\<rparr>\<rparr>"

text \<open>Updates of the groups.\<close>

definition upd_contract :: "(inbound_contract \<Rightarrow> inbound_contract) \<Rightarrow> inboundOrderProtoSummary \<Rightarrow> inboundOrderProtoSummary" where
  "upd_contract g s = s\<lparr>in_contract := g (in_contract s)\<rparr>"

definition upd_terms :: "(inbound_terms \<Rightarrow> inbound_terms) \<Rightarrow> inboundOrderProtoSummary \<Rightarrow> inboundOrderProtoSummary" where
  "upd_terms g s = s\<lparr>in_terms := g (in_terms s)\<rparr>"

definition upd_state :: "(inbound_state \<Rightarrow> inbound_state) \<Rightarrow> inboundOrderProtoSummary \<Rightarrow> inboundOrderProtoSummary" where
  "upd_state g s = s\<lparr>in_state := g (in_state s)\<rparr>"

definition upd_fill :: "(inbound_fill \<Rightarrow> inbound_fill) \<Rightarrow> inboundOrderProtoSummary \<Rightarrow> inboundOrderProtoSummary" where
  "upd_fill g s = s\<lparr>in_fill := g (in_fill s)\<rparr>"

definition inbound_contract_field :: "float_text \<Rightarrow> int \<Rightarrow> int \<Rightarrow> bytes \<Rightarrow> inboundOrderProtoSummary \<Rightarrow> inboundOrderProtoSummary result" where
  "inbound_contract_field F f w v s =
     (if f = 1 then set_varint f w v (\<lambda>x. upd_contract (\<lambda>c. c\<lparr>ic_conID := sint (ucast x :: 32 word)\<rparr>) s)
      else if f = 2 then Inr (upd_contract (\<lambda>c. c\<lparr>ic_symbol := string_of v\<rparr>) s)
      else if f = 3 then Inr (upd_contract (\<lambda>c. c\<lparr>ic_secType := string_of v\<rparr>) s)
      else if f = 4 then Inr (upd_contract (\<lambda>c. c\<lparr>ic_expiry := string_of v\<rparr>) s)
      else if f = 5 then setProtoDouble f w v (\<lambda>x. upd_contract (\<lambda>c. c\<lparr>ic_strike := x\<rparr>) s)
      else if f = 6 then Inr (upd_contract (\<lambda>c. c\<lparr>ic_right := string_of v\<rparr>) s)
      else if f = 7 then setProtoDouble f w v (\<lambda>x. upd_contract (\<lambda>c. c\<lparr>ic_multiplier := FormatFloat F x\<rparr>) s)
      else if f = 8 then Inr (upd_contract (\<lambda>c. c\<lparr>ic_exchange := string_of v\<rparr>) s)
      else if f = 9 then Inr (upd_contract (\<lambda>c. c\<lparr>ic_primaryExch := string_of v\<rparr>) s)
      else if f = 10 then Inr (upd_contract (\<lambda>c. c\<lparr>ic_currency := string_of v\<rparr>) s)
      else if f = 11 then Inr (upd_contract (\<lambda>c. c\<lparr>ic_localSymbol := string_of v\<rparr>) s)
      else if f = 12 then Inr (upd_contract (\<lambda>c. c\<lparr>ic_tradingClass := string_of v\<rparr>) s)
      else if f = 21 then Inr (upd_contract (\<lambda>c. c\<lparr>ic_expiry := string_of v\<rparr>) s)
      else Inr s)"

definition parseInboundContractProto :: "float_text \<Rightarrow> bytes \<Rightarrow> inboundOrderProtoSummary \<Rightarrow> inboundOrderProtoSummary result" where
  "parseInboundContractProto F body s = forEachProtoField body (inbound_contract_field F) s"

definition twsModifySupportedField :: "int \<Rightarrow> bool" where
  "twsModifySupportedField f \<longleftrightarrow> f \<in> {1, 2, 3, 5, 6, 8, 9, 11, 12, 19, 27, 28, 30, 31, 61, 62, 66, 68, 138}"

definition f64_MaxFloat64 :: float64 where
  "f64_MaxFloat64 = 0x7FEFFFFFFFFFFFFF"

definition protoOrderFieldHasValue :: "int \<Rightarrow> int \<Rightarrow> bytes \<Rightarrow> bool" where
  "protoOrderFieldHasValue f w v =
     (if w = protoWireBytes then v \<noteq> []
      else if w = protoWireVarint then
        (case protoVarintValue f w v of Inl _ \<Rightarrow> True
         | Inr x \<Rightarrow> x \<noteq> 0 \<and> x \<noteq> 2147483647 \<and> \<not> (f = 72 \<and> sint (ucast x :: 32 word) = -1))
      else if w = protoWireFixed64 then
        (case protoFixed64Value f w v of Inl _ \<Rightarrow> True | Inr x \<Rightarrow> f64_nonzero x \<and> \<not> f64_eq x f64_MaxFloat64)
      else True)"

definition algo_param_field :: "int \<Rightarrow> int \<Rightarrow> bytes \<Rightarrow> string \<times> string \<Rightarrow> (string \<times> string) result" where
  "algo_param_field f w v kp =
     (if w \<noteq> protoWireBytes then Inl (New ''invalid algo parameter wire type'')
      else Inr (if f = 1 then string_of v else fst kp, if f = 2 then string_of v else snd kp))"

definition algo_params :: "int \<Rightarrow> bytes \<Rightarrow> inboundOrderProtoSummary \<Rightarrow> inboundOrderProtoSummary result" where
  "algo_params w v s =
     (if w \<noteq> protoWireBytes then Inl (New ''invalid algoParams wire type'')
      else bind_result (forEachProtoField v algo_param_field ([], [])) (\<lambda>(key, param).
        Inr (if key = ''adaptivePriority'' \<and> it_adaptivePriority (in_terms s) = []
             then upd_terms (\<lambda>t. t\<lparr>it_adaptivePriority := param\<rparr>) s
             else upd_terms (\<lambda>t. t\<lparr>it_modifyUnsupported := ''unsupported or duplicate algorithm parameter''\<rparr>) s)))"

definition inbound_order_assign :: "int \<Rightarrow> int \<Rightarrow> bytes \<Rightarrow> inboundOrderProtoSummary \<Rightarrow> inboundOrderProtoSummary result" where
  "inbound_order_assign f w v s =
     (if f = 61 then (if w \<noteq> protoWireBytes then Inl (New ''invalid algoStrategy wire type'') else Inr (upd_terms (\<lambda>t. t\<lparr>it_algoStrategy := string_of v\<rparr>) s))
      else if f = 62 then algo_params w v s
      else if f = 1 then set_varint f w v (\<lambda>x. s\<lparr>in_clientID := go_int x\<rparr>)
      else if f = 2 then set_varint f w v (\<lambda>x. if in_orderID s = 0 then s\<lparr>in_orderID := go_int x\<rparr> else s)
      else if f = 3 then set_varint f w v (\<lambda>x. s\<lparr>in_permID := go_int x\<rparr>)
      else if f = 4 then set_varint f w v (\<lambda>x. s\<lparr>in_parentID := go_int x, in_parentIDKnown := True\<rparr>)
      else if f = 5 then Inr (upd_terms (\<lambda>t. t\<lparr>it_action := string_of v\<rparr>) s)
      else if f = 6 then Inr (upd_terms (\<lambda>t. t\<lparr>it_quantity := string_of v\<rparr>) s)
      else if f = 8 then Inr (upd_terms (\<lambda>t. t\<lparr>it_orderType := string_of v\<rparr>) s)
      else if f = 9 then setProtoDouble f w v (\<lambda>x. upd_terms (\<lambda>t. t\<lparr>it_lmtPrice := x\<rparr>) s)
      else if f = 10 then setProtoDouble f w v (\<lambda>x. upd_terms (\<lambda>t. t\<lparr>it_auxPrice := x\<rparr>) s)
      else if f = 11 then Inr (upd_terms (\<lambda>t. t\<lparr>it_tif := string_of v\<rparr>) s)
      else if f = 12 then Inr (upd_terms (\<lambda>t. t\<lparr>it_account := string_of v\<rparr>) s)
      else if f = 19 then set_varint f w v (\<lambda>x. upd_terms (\<lambda>t. t\<lparr>it_outsideRth := (x \<noteq> 0)\<rparr>) s)
      else if f = 22 then setProtoDouble f w v (\<lambda>x. upd_terms (\<lambda>t. t\<lparr>it_trailingPercent := x\<rparr>) s)
      else if f = 23 then setProtoDouble f w v (\<lambda>x. upd_terms (\<lambda>t. t\<lparr>it_trailStopPrice := x\<rparr>) s)
      else if f = 27 then Inr (upd_terms (\<lambda>t. t\<lparr>it_ocaGroup := string_of v\<rparr>) s)
      else if f = 28 then Inr (s\<lparr>in_orderRef := string_of v\<rparr>)
      else if f = 30 then set_varint f w v (\<lambda>x. upd_terms (\<lambda>t. t\<lparr>it_ocaType := go_int x\<rparr>) s)
      else if f = 31 then set_varint f w v (\<lambda>x. upd_terms (\<lambda>t. t\<lparr>it_triggerMethod := go_int x\<rparr>) s)
      else if f = 65 then set_varint f w v (\<lambda>x. upd_terms (\<lambda>t. t\<lparr>it_whatIf := (x \<noteq> 0)\<rparr>) s)
      else if f = 66 then set_varint f w v (\<lambda>x. upd_terms (\<lambda>t. t\<lparr>it_transmit := (x \<noteq> 0)\<rparr>) s)
      else if f = 68 then Inr (upd_terms (\<lambda>t. t\<lparr>it_openClose := string_of v\<rparr>) s)
      else if f = 138 then (case protoVarintValue f w v of
          Inr x \<Rightarrow> if 1 < x then Inl (New ''invalid order deactivate field'') else Inr (upd_terms (\<lambda>t. t\<lparr>it_deactivated := Some (x = 1)\<rparr>) s)
        | Inl _ \<Rightarrow> Inl (New ''invalid order deactivate field''))
      else if f = 99 then setProtoDouble f w v (\<lambda>x. upd_terms (\<lambda>t. t\<lparr>it_lmtPriceOffset := x\<rparr>) s)
      else Inr s)"

definition inbound_order_field :: "int \<Rightarrow> int \<Rightarrow> bytes \<Rightarrow> inboundOrderProtoSummary \<Rightarrow> inboundOrderProtoSummary result" where
  "inbound_order_field f w v s =
     inbound_order_assign f w v
       (if \<not> twsModifySupportedField f \<and> protoOrderFieldHasValue f w v \<and> it_modifyUnsupported (in_terms s) = []
        then upd_terms (\<lambda>t. t\<lparr>it_modifyUnsupported := ''unsupported broker order field '' @ Itoa f\<rparr>) s else s)"

definition parseInboundOrderProto :: "bytes \<Rightarrow> inboundOrderProtoSummary \<Rightarrow> inboundOrderProtoSummary result" where
  "parseInboundOrderProto body s =
     forEachProtoField body inbound_order_field (upd_terms (\<lambda>t. t\<lparr>it_modifyTermsKnown := True\<rparr>) s)"

definition set_state_double :: "int \<Rightarrow> int \<Rightarrow> bytes \<Rightarrow> (float64 \<Rightarrow> inbound_state \<Rightarrow> inbound_state) \<Rightarrow> inboundOrderProtoSummary \<Rightarrow> inboundOrderProtoSummary result" where
  "set_state_double f w v assign s =
     setProtoDouble f w v (\<lambda>x. upd_state (\<lambda>t. assign x (t\<lparr>is_stateSent := is_stateSent t OR push_bit (nat f) 1\<rparr>)) s)"

definition inbound_state_field :: "int \<Rightarrow> int \<Rightarrow> bytes \<Rightarrow> inboundOrderProtoSummary \<Rightarrow> inboundOrderProtoSummary result" where
  "inbound_state_field f w v s =
     (if f = 1 then Inr (s\<lparr>in_status := string_of v\<rparr>)
      else if f = 2 then set_state_double f w v (\<lambda>x t. t\<lparr>is_initMarginBefore := x\<rparr>) s
      else if f = 3 then set_state_double f w v (\<lambda>x t. t\<lparr>is_maintMarginBefore := x\<rparr>) s
      else if f = 4 then set_state_double f w v (\<lambda>x t. t\<lparr>is_equityWithLoanBefore := x\<rparr>) s
      else if f = 5 then set_state_double f w v (\<lambda>x t. t\<lparr>is_initMarginChange := x\<rparr>) s
      else if f = 6 then set_state_double f w v (\<lambda>x t. t\<lparr>is_maintMarginChange := x\<rparr>) s
      else if f = 7 then set_state_double f w v (\<lambda>x t. t\<lparr>is_equityWithLoanChange := x\<rparr>) s
      else if f = 8 then set_state_double f w v (\<lambda>x t. t\<lparr>is_initMarginAfter := x\<rparr>) s
      else if f = 9 then set_state_double f w v (\<lambda>x t. t\<lparr>is_maintMarginAfter := x\<rparr>) s
      else if f = 10 then set_state_double f w v (\<lambda>x t. t\<lparr>is_equityWithLoanAfter := x\<rparr>) s
      else if f = 11 then set_state_double f w v (\<lambda>x t. t\<lparr>is_commission := x\<rparr>) s
      else if f = 12 then set_state_double f w v (\<lambda>x t. t\<lparr>is_minCommission := x\<rparr>) s
      else if f = 13 then set_state_double f w v (\<lambda>x t. t\<lparr>is_maxCommission := x\<rparr>) s
      else if f = 14 then Inr (upd_state (\<lambda>t. t\<lparr>is_commissionCurrency := string_of v\<rparr>) s)
      else if f = 15 then Inr (upd_state (\<lambda>t. t\<lparr>is_marginCurrency := string_of v\<rparr>) s)
      else if f = 26 then Inr (upd_state (\<lambda>t. t\<lparr>is_rejectReason := string_of v\<rparr>) s)
      else if f = 28 then Inr (upd_state (\<lambda>t. t\<lparr>is_warningText := string_of v\<rparr>) s)
      else Inr s)"

definition parseInboundOrderStateProto :: "bytes \<Rightarrow> inboundOrderProtoSummary \<Rightarrow> inboundOrderProtoSummary result" where
  "parseInboundOrderStateProto body s = forEachProtoField body inbound_state_field s"

definition inbound_execution_field :: "int \<Rightarrow> int \<Rightarrow> bytes \<Rightarrow> inboundOrderProtoSummary \<Rightarrow> inboundOrderProtoSummary result" where
  "inbound_execution_field f w v s =
     (if f = 1 then set_varint f w v (\<lambda>x. s\<lparr>in_orderID := go_int x\<rparr>)
      else if f = 2 then Inr (upd_fill (\<lambda>t. t\<lparr>ix_execID := string_of v\<rparr>) s)
      else if f = 3 then Inr (upd_fill (\<lambda>t. t\<lparr>ix_execTime := string_of v\<rparr>) s)
      else if f = 4 then Inr (upd_fill (\<lambda>t. t\<lparr>ix_execAccount := string_of v\<rparr>) s)
      else if f = 5 then Inr (upd_fill (\<lambda>t. t\<lparr>ix_executionExchange := string_of v\<rparr>) s)
      else if f = 6 then Inr (upd_fill (\<lambda>t. t\<lparr>ix_executionSide := string_of v\<rparr>) s)
      else if f = 7 then Inr (upd_fill (\<lambda>t. t\<lparr>ix_shares := string_of v\<rparr>) s)
      else if f = 8 then setProtoDouble f w v (\<lambda>x. upd_fill (\<lambda>t. t\<lparr>ix_price := x\<rparr>) s)
      else if f = 9 then set_varint f w v (\<lambda>x. s\<lparr>in_permID := go_int x\<rparr>)
      else if f = 10 then set_varint f w v (\<lambda>x. s\<lparr>in_clientID := go_int x\<rparr>)
      else if f = 12 then Inr (upd_fill (\<lambda>t. t\<lparr>ix_cumQty := string_of v\<rparr>) s)
      else if f = 13 then setProtoDouble f w v (\<lambda>x. upd_fill (\<lambda>t. t\<lparr>ix_avgFillPrice := x\<rparr>) s)
      else if f = 14 then Inr (s\<lparr>in_orderRef := string_of v\<rparr>)
      else Inr s)"

definition parseInboundExecutionProto :: "bytes \<Rightarrow> inboundOrderProtoSummary \<Rightarrow> inboundOrderProtoSummary result" where
  "parseInboundExecutionProto body s = forEachProtoField body inbound_execution_field s"

definition open_order_field :: "float_text \<Rightarrow> int \<Rightarrow> int \<Rightarrow> bytes \<Rightarrow> inboundOrderProtoSummary \<Rightarrow> inboundOrderProtoSummary result" where
  "open_order_field F f w v s =
     (if f = 1 then set_varint f w v (\<lambda>x. s\<lparr>in_orderID := go_int x\<rparr>)
      else if f = 2 then parseInboundContractProto F v s
      else if f = 3 then parseInboundOrderProto v s
      else if f = 4 then parseInboundOrderStateProto v s
      else Inr s)"

definition parseOpenOrderProtoCallback :: "float_text \<Rightarrow> bytes \<Rightarrow> inboundOrderProtoSummary result" where
  "parseOpenOrderProtoCallback F body =
     bind_result (forEachProtoField body (open_order_field F) zero_inbound) (\<lambda>s.
       Inr (if \<not> it_transmit (in_terms s) \<and> it_modifyUnsupported (in_terms s) = []
            then upd_terms (\<lambda>t. t\<lparr>it_modifyUnsupported := ''order is not explicitly transmitted''\<rparr>) s else s))"

definition order_status_field :: "int \<Rightarrow> int \<Rightarrow> bytes \<Rightarrow> inboundOrderProtoSummary \<Rightarrow> inboundOrderProtoSummary result" where
  "order_status_field f w v s =
     (if f = 1 then set_varint f w v (\<lambda>x. s\<lparr>in_orderID := go_int x\<rparr>)
      else if f = 2 then Inr (s\<lparr>in_status := string_of v\<rparr>)
      else if f = 3 then Inr (upd_fill (\<lambda>t. t\<lparr>ix_filled := string_of v\<rparr>) s)
      else if f = 4 then Inr (upd_fill (\<lambda>t. t\<lparr>ix_remaining := string_of v\<rparr>) s)
      else if f = 5 then setProtoDouble f w v (\<lambda>x. upd_fill (\<lambda>t. t\<lparr>ix_avgFillPrice := x\<rparr>) s)
      else if f = 6 then set_varint f w v (\<lambda>x. s\<lparr>in_permID := go_int x\<rparr>)
      else if f = 7 then set_varint f w v (\<lambda>x. s\<lparr>in_parentID := go_int x, in_parentIDKnown := True\<rparr>)
      else if f = 8 then setProtoDouble f w v (\<lambda>x. upd_fill (\<lambda>t. t\<lparr>ix_lastFillPrice := x\<rparr>) s)
      else if f = 9 then set_varint f w v (\<lambda>x. s\<lparr>in_clientID := go_int x\<rparr>)
      else if f = 10 then Inr (upd_fill (\<lambda>t. t\<lparr>ix_whyHeld := string_of v\<rparr>) s)
      else if f = 11 then setProtoDouble f w v (\<lambda>x. upd_fill (\<lambda>t. t\<lparr>ix_mktCapPrice := x\<rparr>) s)
      else Inr s)"

definition parseOrderStatusProtoCallback :: "bytes \<Rightarrow> inboundOrderProtoSummary result" where
  "parseOrderStatusProtoCallback body = forEachProtoField body order_status_field zero_inbound"

definition exec_details_field :: "float_text \<Rightarrow> int \<Rightarrow> int \<Rightarrow> bytes \<Rightarrow> inboundOrderProtoSummary \<Rightarrow> inboundOrderProtoSummary result" where
  "exec_details_field F f w v s =
     (if f = 1 then set_varint f w v (\<lambda>x. s\<lparr>in_requestID := go_int x\<rparr>)
      else if f = 2 then parseInboundContractProto F v s
      else if f = 3 then parseInboundExecutionProto v s
      else Inr s)"

definition parseExecDetailsProtoCallback :: "float_text \<Rightarrow> bytes \<Rightarrow> inboundOrderProtoSummary result" where
  "parseExecDetailsProtoCallback F body = forEachProtoField body (exec_details_field F) zero_inbound"

subsection \<open>Flattening a callback into text fields\<close>

definition msgOrderStatus :: int where "msgOrderStatus = 3"
definition msgOpenOrder :: int where "msgOpenOrder = 5"
definition msgExecDetails :: int where "msgExecDetails = 11"
definition msgOpenOrderEnd :: int where "msgOpenOrderEnd = 53"
definition msgExecDetailsEnd :: int where "msgExecDetailsEnd = 55"
definition protoOrderStatusMsgID :: int where "protoOrderStatusMsgID = msgOrderStatus + protoBufMsgID"
definition protoOpenOrderMsgID :: int where "protoOpenOrderMsgID = msgOpenOrder + protoBufMsgID"
definition protoExecDetailsMsgID :: int where "protoExecDetailsMsgID = msgExecDetails + protoBufMsgID"
definition protoOpenOrderEndMsgID :: int where "protoOpenOrderEndMsgID = msgOpenOrderEnd + protoBufMsgID"
definition protoExecDetailsEndMsgID :: int where "protoExecDetailsEndMsgID = msgExecDetailsEnd + protoBufMsgID"

text \<open>The texts of the decoding errors; only plain errors occur here.\<close>

definition error_text :: "goerror \<Rightarrow> string" where
  "error_text e = (case e of New m \<Rightarrow> m | _ \<Rightarrow> ''error'')"

definition stateDouble :: "float_text \<Rightarrow> inbound_state \<Rightarrow> nat \<Rightarrow> float64 \<Rightarrow> string" where
  "stateDouble F st f x = (if is_stateSent st AND push_bit f 1 = 0 then [] else FormatFloat F x)"

definition inboundProtoBaseFields :: "int \<Rightarrow> int \<Rightarrow> string list" where
  "inboundProtoBaseFields baseMsgID wireMsgID = [Itoa baseMsgID, ''protobuf'', ''wire_msg_id='' @ Itoa wireMsgID]"

definition appendContractSummaryFields :: "float_text \<Rightarrow> string list \<Rightarrow> inboundOrderProtoSummary \<Rightarrow> string list" where
  "appendContractSummaryFields F rows s = rows @
     [''conId='' @ Itoa (ic_conID (in_contract s)),
      ''symbol='' @ ic_symbol (in_contract s),
      ''secType='' @ ic_secType (in_contract s),
      ''expiry='' @ ic_expiry (in_contract s),
      ''strike='' @ FormatFloat F (ic_strike (in_contract s)),
      ''right='' @ ic_right (in_contract s),
      ''multiplier='' @ ic_multiplier (in_contract s),
      ''exchange='' @ ic_exchange (in_contract s),
      ''primaryExch='' @ ic_primaryExch (in_contract s),
      ''currency='' @ ic_currency (in_contract s),
      ''localSymbol='' @ ic_localSymbol (in_contract s),
      ''tradingClass='' @ ic_tradingClass (in_contract s)]"

definition parent_row :: "inboundOrderProtoSummary \<Rightarrow> string list" where
  "parent_row s = (if in_parentIDKnown s then [''parentId='' @ Itoa (in_parentID s)] else [])"

definition appendOrderSummaryFields :: "float_text \<Rightarrow> string list \<Rightarrow> inboundOrderProtoSummary \<Rightarrow> string list" where
  "appendOrderSummaryFields F rows s = rows @ parent_row s @
     (case it_deactivated (in_terms s) of None \<Rightarrow> [] | Some b \<Rightarrow> [''deactivated='' @ FormatBool b]) @
     [''modifyTermsKnown='' @ FormatBool (it_modifyTermsKnown (in_terms s)),
      ''modifyUnsupported='' @ it_modifyUnsupported (in_terms s),
      ''openClose='' @ it_openClose (in_terms s),
      ''algoStrategy='' @ it_algoStrategy (in_terms s),
      ''adaptivePriority='' @ it_adaptivePriority (in_terms s),
      ''action='' @ it_action (in_terms s),
      ''qty='' @ it_quantity (in_terms s),
      ''orderType='' @ it_orderType (in_terms s),
      ''lmtPrice='' @ FormatFloat F (it_lmtPrice (in_terms s)),
      ''auxPrice='' @ FormatFloat F (it_auxPrice (in_terms s)),
      ''trailingPercent='' @ FormatFloat F (it_trailingPercent (in_terms s)),
      ''trailStopPrice='' @ FormatFloat F (it_trailStopPrice (in_terms s)),
      ''lmtPriceOffset='' @ FormatFloat F (it_lmtPriceOffset (in_terms s)),
      ''tif='' @ it_tif (in_terms s),
      ''triggerMethod='' @ Itoa (it_triggerMethod (in_terms s)),
      ''account='' @ it_account (in_terms s),
      ''orderRef='' @ in_orderRef s,
      ''ocaGroup='' @ it_ocaGroup (in_terms s),
      ''ocaType='' @ Itoa (it_ocaType (in_terms s)),
      ''outsideRth='' @ FormatBool (it_outsideRth (in_terms s)),
      ''whatIf='' @ FormatBool (it_whatIf (in_terms s)),
      ''transmit='' @ FormatBool (it_transmit (in_terms s))]"

definition open_order_rows :: "float_text \<Rightarrow> inboundOrderProtoSummary \<Rightarrow> string list" where
  "open_order_rows F s =
     appendOrderSummaryFields F (appendContractSummaryFields F (inboundProtoBaseFields msgOpenOrder protoOpenOrderMsgID @
       [''orderId='' @ Itoa (in_orderID s), ''permId='' @ Itoa (in_permID s), ''clientId='' @ Itoa (in_clientID s)]) s) s @
     [''status='' @ in_status s,
      ''initMarginBefore='' @ stateDouble F (in_state s) 2 (is_initMarginBefore (in_state s)),
      ''maintMarginBefore='' @ stateDouble F (in_state s) 3 (is_maintMarginBefore (in_state s)),
      ''equityWithLoanBefore='' @ stateDouble F (in_state s) 4 (is_equityWithLoanBefore (in_state s)),
      ''initMarginChange='' @ stateDouble F (in_state s) 5 (is_initMarginChange (in_state s)),
      ''maintMarginChange='' @ stateDouble F (in_state s) 6 (is_maintMarginChange (in_state s)),
      ''equityWithLoanChange='' @ stateDouble F (in_state s) 7 (is_equityWithLoanChange (in_state s)),
      ''initMarginAfter='' @ stateDouble F (in_state s) 8 (is_initMarginAfter (in_state s)),
      ''maintMarginAfter='' @ stateDouble F (in_state s) 9 (is_maintMarginAfter (in_state s)),
      ''equityWithLoanAfter='' @ stateDouble F (in_state s) 10 (is_equityWithLoanAfter (in_state s)),
      ''commission='' @ stateDouble F (in_state s) 11 (is_commission (in_state s)),
      ''minCommission='' @ stateDouble F (in_state s) 12 (is_minCommission (in_state s)),
      ''maxCommission='' @ stateDouble F (in_state s) 13 (is_maxCommission (in_state s)),
      ''commissionCurrency='' @ is_commissionCurrency (in_state s),
      ''marginCurrency='' @ is_marginCurrency (in_state s),
      ''rejectReason='' @ is_rejectReason (in_state s),
      ''warningText='' @ is_warningText (in_state s)]"

definition summarizeOpenOrderProtoCallback :: "float_text \<Rightarrow> bytes \<Rightarrow> string list" where
  "summarizeOpenOrderProtoCallback F body =
     (case parseOpenOrderProtoCallback F body of
        Inl e \<Rightarrow> inboundProtoBaseFields msgOpenOrder protoOpenOrderMsgID @ [''decode_error='' @ error_text e]
      | Inr s \<Rightarrow> open_order_rows F s)"

definition order_status_rows :: "float_text \<Rightarrow> inboundOrderProtoSummary \<Rightarrow> string list" where
  "order_status_rows F s = inboundProtoBaseFields msgOrderStatus protoOrderStatusMsgID @ parent_row s @
     [''orderId='' @ Itoa (in_orderID s),
      ''status='' @ in_status s,
      ''filled='' @ ix_filled (in_fill s),
      ''remaining='' @ ix_remaining (in_fill s),
      ''avgFillPrice='' @ FormatFloat F (ix_avgFillPrice (in_fill s)),
      ''permId='' @ Itoa (in_permID s),
      ''lastFillPrice='' @ FormatFloat F (ix_lastFillPrice (in_fill s)),
      ''clientId='' @ Itoa (in_clientID s),
      ''whyHeld='' @ ix_whyHeld (in_fill s),
      ''mktCapPrice='' @ FormatFloat F (ix_mktCapPrice (in_fill s))]"

definition summarizeOrderStatusProtoCallback :: "float_text \<Rightarrow> bytes \<Rightarrow> string list" where
  "summarizeOrderStatusProtoCallback F body =
     (case parseOrderStatusProtoCallback body of
        Inl e \<Rightarrow> inboundProtoBaseFields msgOrderStatus protoOrderStatusMsgID @ [''decode_error='' @ error_text e]
      | Inr s \<Rightarrow> order_status_rows F s)"

definition exec_details_rows :: "float_text \<Rightarrow> inboundOrderProtoSummary \<Rightarrow> string list" where
  "exec_details_rows F s =
     appendContractSummaryFields F (inboundProtoBaseFields msgExecDetails protoExecDetailsMsgID @ [''reqId='' @ Itoa (in_requestID s)]) s @
     [''orderId='' @ Itoa (in_orderID s),
      ''execId='' @ ix_execID (in_fill s),
      ''execTime='' @ ix_execTime (in_fill s),
      ''account='' @ ix_execAccount (in_fill s),
      ''executionExchange='' @ ix_executionExchange (in_fill s),
      ''executionSide='' @ ix_executionSide (in_fill s),
      ''shares='' @ ix_shares (in_fill s),
      ''price='' @ FormatFloat F (ix_price (in_fill s)),
      ''permId='' @ Itoa (in_permID s),
      ''clientId='' @ Itoa (in_clientID s),
      ''cumQty='' @ ix_cumQty (in_fill s),
      ''avgFillPrice='' @ FormatFloat F (ix_avgFillPrice (in_fill s)),
      ''orderRef='' @ in_orderRef s]"

definition summarizeExecDetailsProtoCallback :: "float_text \<Rightarrow> bytes \<Rightarrow> string list" where
  "summarizeExecDetailsProtoCallback F body =
     (case parseExecDetailsProtoCallback F body of
        Inl e \<Rightarrow> inboundProtoBaseFields msgExecDetails protoExecDetailsMsgID @ [''decode_error='' @ error_text e]
      | Inr s \<Rightarrow> exec_details_rows F s)"

definition exec_end_field :: "int \<Rightarrow> int \<Rightarrow> bytes \<Rightarrow> int \<Rightarrow> int result" where
  "exec_end_field f w v r = (if f \<noteq> 1 then Inr r else set_varint f w v go_int)"

definition summarizeExecDetailsEndProtoCallback :: "bytes \<Rightarrow> string list" where
  "summarizeExecDetailsEndProtoCallback body =
     inboundProtoBaseFields msgExecDetailsEnd protoExecDetailsEndMsgID @
     (case forEachProtoField body exec_end_field 0 of Inl e \<Rightarrow> [''decode_error='' @ error_text e] | Inr r \<Rightarrow> [''reqId='' @ Itoa r])"

definition summarizeInboundOrderProtoCallback :: "float_text \<Rightarrow> int \<Rightarrow> bytes \<Rightarrow> string list option" where
  "summarizeInboundOrderProtoCallback F wireMsgID body =
     (if wireMsgID = protoOpenOrderMsgID then Some (summarizeOpenOrderProtoCallback F body)
      else if wireMsgID = protoOrderStatusMsgID then Some (summarizeOrderStatusProtoCallback F body)
      else if wireMsgID = protoExecDetailsMsgID then Some (summarizeExecDetailsProtoCallback F body)
      else if wireMsgID = protoOpenOrderEndMsgID then Some [Itoa msgOpenOrderEnd, ''protobuf'', ''wire_msg_id='' @ Itoa wireMsgID]
      else if wireMsgID = protoExecDetailsEndMsgID then Some (summarizeExecDetailsEndProtoCallback body)
      else None)"

subsection \<open>Events\<close>

record event_contract =
  ev_ConID :: int
  ev_Symbol :: string
  ev_SecType :: string
  ev_Expiry :: string
  ev_Strike :: float64
  ev_Right :: string
  ev_Multiplier :: int
  ev_Exchange :: string
  ev_PrimaryExch :: string
  ev_Currency :: string
  ev_LocalSymbol :: string
  ev_TradingClass :: string

record event_terms =
  ev_Action :: string
  ev_TotalQuantity :: float64
  ev_OrderType :: string
  ev_LimitPrice :: float64
  ev_AuxPrice :: float64
  ev_TrailingPercent :: float64
  ev_TrailStopPrice :: float64
  ev_LmtPriceOffset :: float64
  ev_TIF :: string
  ev_TriggerMethod :: int
  ev_OutsideRth :: bool
  ev_WhatIf :: bool
  ev_OpenClose :: string
  ev_OcaGroup :: string
  ev_OcaType :: int
  ev_ModifyTermsKnown :: bool
  ev_ModifyUnsupported :: string
  ev_Deactivated :: "bool option"
  ev_AlgoStrategy :: string
  ev_AdaptivePriority :: string
  ev_AlgoKnown :: bool

record event_fill =
  ev_Filled :: float64
  ev_Remaining :: float64
  ev_AvgFillPrice :: float64
  ev_LastFillPrice :: float64
  ev_WhyHeld :: string
  ev_MktCapPrice :: float64
  ev_ExecID :: string
  ev_ExecTime :: string
  ev_ExecutionSide :: string
  ev_Shares :: float64
  ev_Price :: float64
  ev_CumQty :: float64

record OrderLifecycleEvent =
  ev_ParentID :: "int option"
  ev_Type :: string
  ev_OrderID :: int
  ev_PermID :: int
  ev_ClientID :: int
  ev_ClientIDPresent :: bool
  ev_RequestID :: int
  ev_Status :: string
  ev_ErrorCode :: int
  ev_Message :: string
  ev_Account :: string
  ev_OrderRef :: string
  ev_Raw :: "string list"
  ev_contract :: event_contract
  ev_terms :: event_terms
  ev_fill :: event_fill

definition OrderLifecycleEventOpenOrder :: string where "OrderLifecycleEventOpenOrder = ''openOrder''"
definition OrderLifecycleEventStatus :: string where "OrderLifecycleEventStatus = ''orderStatus''"
definition OrderLifecycleEventExecDetails :: string where "OrderLifecycleEventExecDetails = ''execDetails''"
definition OrderLifecycleEventError :: string where "OrderLifecycleEventError = ''error''"

definition orderEventInt :: "string \<Rightarrow> int" where
  "orderEventInt s = fst (Atoi (TrimSpace s))"

definition orderEventIntOK :: "string \<Rightarrow> bool" where
  "orderEventIntOK s = snd (Atoi (TrimSpace s))"

text \<open>\<^verbatim>\<open>ParseFloat\<close> with its error ignored.\<close>

definition orderEventFloat :: "float_text \<Rightarrow> string \<Rightarrow> float64" where
  "orderEventFloat F s = ParseFloat F (TrimSpace s)"

definition orderEventField :: "string list \<Rightarrow> nat \<Rightarrow> string" where
  "orderEventField rows idx = (if idx < length rows then rows ! idx else [])"

fun summaryFieldValue :: "string list \<Rightarrow> string \<Rightarrow> string" where
  "summaryFieldValue [] key = []"
| "summaryFieldValue (row # rows) key = (if HasPrefix row key then drop (length key) row else summaryFieldValue rows key)"

fun orderEventSummaryInt :: "string list \<Rightarrow> string \<Rightarrow> int \<times> bool" where
  "orderEventSummaryInt [] key = (0, False)"
| "orderEventSummaryInt (row # rows) key =
     (if HasPrefix row key \<and> orderEventIntOK (drop (length key) row) then (orderEventInt (drop (length key) row), True)
      else orderEventSummaryInt rows key)"

definition orderEventParentID :: "string list \<Rightarrow> int option" where
  "orderEventParentID rows = (case orderEventSummaryInt rows ''parentId='' of (n, ok) \<Rightarrow> if ok then Some n else None)"

definition protoSummaryBool :: "string list \<Rightarrow> string \<Rightarrow> bool" where
  "protoSummaryBool rows key = EqualFold (summaryFieldValue rows key) ''true''"

definition orderEventWarningMessage :: "string list \<Rightarrow> string" where
  "orderEventWarningMessage rows =
     (let rejectReason = TrimSpace (summaryFieldValue rows ''rejectReason=''); warningText = TrimSpace (summaryFieldValue rows ''warningText='')
      in if rejectReason \<noteq> [] \<and> warningText \<noteq> [] then rejectReason @ ''; '' @ warningText
         else if rejectReason \<noteq> [] then rejectReason else warningText)"

definition parseIBKRBool :: "string \<Rightarrow> bool" where
  "parseIBKRBool raw \<longleftrightarrow> ToLower (TrimSpace raw) \<in> {''1'', ''true'', ''yes''}"

definition orderWhatIfStateStatus :: "string \<Rightarrow> bool" where
  "orderWhatIfStateStatus status \<longleftrightarrow> ToLower (TrimSpace status) \<in> {''pending'', ''pendingsubmit'', ''apisent'', ''apipending'', ''presubmitted'',
     ''submitted'', ''inactive'', ''cancelled'', ''apicancelled'', ''rejected''}"

definition open_order_event :: "float_text \<Rightarrow> bool option \<Rightarrow> string list \<Rightarrow> OrderLifecycleEvent" where
  "open_order_event F deactivated rows = (let client = orderEventSummaryInt rows ''clientId='' in
     \<lparr>ev_ParentID = orderEventParentID rows, ev_Type = OrderLifecycleEventOpenOrder,
     ev_OrderID = orderEventInt (summaryFieldValue rows ''orderId=''), ev_PermID = orderEventInt (summaryFieldValue rows ''permId=''),
     ev_ClientID = fst client, ev_ClientIDPresent = snd client, ev_RequestID = 0,
     ev_Status = TrimSpace (summaryFieldValue rows ''status=''), ev_ErrorCode = 0, ev_Message = orderEventWarningMessage rows,
     ev_Account = TrimSpace (summaryFieldValue rows ''account=''), ev_OrderRef = TrimSpace (summaryFieldValue rows ''orderRef=''),
     ev_Raw = rows,
     ev_contract = \<lparr>ev_ConID = orderEventInt (summaryFieldValue rows ''conId=''),
     ev_Symbol = ToUpper (TrimSpace (summaryFieldValue rows ''symbol='')),
     ev_SecType = ToUpper (TrimSpace (summaryFieldValue rows ''secType='')), ev_Expiry = TrimSpace (summaryFieldValue rows ''expiry=''),
     ev_Strike = orderEventFloat F (summaryFieldValue rows ''strike=''),
     ev_Right = ToUpper (TrimSpace (summaryFieldValue rows ''right='')),
     ev_Multiplier = orderEventInt (summaryFieldValue rows ''multiplier=''),
     ev_Exchange = TrimSpace (summaryFieldValue rows ''exchange=''), ev_PrimaryExch = summaryFieldValue rows ''primaryExch='',
     ev_Currency = ToUpper (TrimSpace (summaryFieldValue rows ''currency='')),
     ev_LocalSymbol = TrimSpace (summaryFieldValue rows ''localSymbol=''),
     ev_TradingClass = TrimSpace (summaryFieldValue rows ''tradingClass='')\<rparr>,
     ev_terms = \<lparr>ev_Action = ToUpper (TrimSpace (summaryFieldValue rows ''action='')),
     ev_TotalQuantity = orderEventFloat F (summaryFieldValue rows ''qty=''),
     ev_OrderType = ToUpper (TrimSpace (summaryFieldValue rows ''orderType='')),
     ev_LimitPrice = orderEventFloat F (summaryFieldValue rows ''lmtPrice=''),
     ev_AuxPrice = orderEventFloat F (summaryFieldValue rows ''auxPrice=''),
     ev_TrailingPercent = orderEventFloat F (summaryFieldValue rows ''trailingPercent=''),
     ev_TrailStopPrice = orderEventFloat F (summaryFieldValue rows ''trailStopPrice=''),
     ev_LmtPriceOffset = orderEventFloat F (summaryFieldValue rows ''lmtPriceOffset=''),
     ev_TIF = ToUpper (TrimSpace (summaryFieldValue rows ''tif='')),
     ev_TriggerMethod = orderEventInt (summaryFieldValue rows ''triggerMethod=''), ev_OutsideRth = protoSummaryBool rows ''outsideRth='',
     ev_WhatIf = protoSummaryBool rows ''whatIf='', ev_OpenClose = summaryFieldValue rows ''openClose='',
     ev_OcaGroup = TrimSpace (summaryFieldValue rows ''ocaGroup=''), ev_OcaType = orderEventInt (summaryFieldValue rows ''ocaType=''),
     ev_ModifyTermsKnown = (summaryFieldValue rows ''modifyTermsKnown='' = ''true''),
     ev_ModifyUnsupported = summaryFieldValue rows ''modifyUnsupported='', ev_Deactivated = deactivated,
     ev_AlgoStrategy = summaryFieldValue rows ''algoStrategy='', ev_AdaptivePriority = summaryFieldValue rows ''adaptivePriority='',
     ev_AlgoKnown = True\<rparr>,
     ev_fill = \<lparr>ev_Filled = 0, ev_Remaining = 0, ev_AvgFillPrice = 0, ev_LastFillPrice = 0, ev_WhyHeld = [], ev_MktCapPrice = 0,
     ev_ExecID = [], ev_ExecTime = [], ev_ExecutionSide = [], ev_Shares = 0, ev_Price = 0, ev_CumQty = 0\<rparr>\<rparr>)"

definition parseOpenOrderProtoEvent :: "float_text \<Rightarrow> string list \<Rightarrow> OrderLifecycleEvent option" where
  "parseOpenOrderProtoEvent F rows =
     (if summaryFieldValue rows ''decode_error='' \<noteq> [] then None
      else
        let raw = summaryFieldValue rows ''deactivated='' in
        if raw \<noteq> [] \<and> ParseBool raw = None then None
        else
          let ev = open_order_event F (if raw = [] then None else ParseBool raw) rows
          in if 0 < ev_OrderID ev then Some ev else None)"

definition order_status_event :: "float_text \<Rightarrow> string list \<Rightarrow> OrderLifecycleEvent" where
  "order_status_event F rows = (let client = orderEventSummaryInt rows ''clientId='' in
     \<lparr>ev_ParentID = orderEventParentID rows, ev_Type = OrderLifecycleEventStatus,
     ev_OrderID = orderEventInt (summaryFieldValue rows ''orderId=''), ev_PermID = orderEventInt (summaryFieldValue rows ''permId=''),
     ev_ClientID = fst client, ev_ClientIDPresent = snd client, ev_RequestID = 0,
     ev_Status = TrimSpace (summaryFieldValue rows ''status=''), ev_ErrorCode = 0, ev_Message = [], ev_Account = [], ev_OrderRef = [],
     ev_Raw = rows,
     ev_contract = \<lparr>ev_ConID = orderEventInt (summaryFieldValue rows ''conId=''), ev_Symbol = [], ev_SecType = [], ev_Expiry = [],
     ev_Strike = 0, ev_Right = [], ev_Multiplier = 0, ev_Exchange = [], ev_PrimaryExch = [], ev_Currency = [], ev_LocalSymbol = [],
     ev_TradingClass = []\<rparr>,
     ev_terms = \<lparr>ev_Action = [], ev_TotalQuantity = 0, ev_OrderType = [], ev_LimitPrice = 0, ev_AuxPrice = 0,
     ev_TrailingPercent = 0, ev_TrailStopPrice = 0, ev_LmtPriceOffset = 0, ev_TIF = [], ev_TriggerMethod = 0, ev_OutsideRth = False,
     ev_WhatIf = False, ev_OpenClose = [], ev_OcaGroup = [], ev_OcaType = 0, ev_ModifyTermsKnown = False, ev_ModifyUnsupported = [],
     ev_Deactivated = None, ev_AlgoStrategy = [], ev_AdaptivePriority = [], ev_AlgoKnown = False\<rparr>,
     ev_fill = \<lparr>ev_Filled = orderEventFloat F (summaryFieldValue rows ''filled=''),
     ev_Remaining = orderEventFloat F (summaryFieldValue rows ''remaining=''),
     ev_AvgFillPrice = orderEventFloat F (summaryFieldValue rows ''avgFillPrice=''),
     ev_LastFillPrice = orderEventFloat F (summaryFieldValue rows ''lastFillPrice=''),
     ev_WhyHeld = TrimSpace (summaryFieldValue rows ''whyHeld=''),
     ev_MktCapPrice = orderEventFloat F (summaryFieldValue rows ''mktCapPrice=''), ev_ExecID = [], ev_ExecTime = [],
     ev_ExecutionSide = [], ev_Shares = 0, ev_Price = 0, ev_CumQty = 0\<rparr>\<rparr>)"

definition parseOrderStatusProtoEvent :: "float_text \<Rightarrow> string list \<Rightarrow> OrderLifecycleEvent option" where
  "parseOrderStatusProtoEvent F rows =
     (let ev = order_status_event F rows in if 0 < ev_OrderID ev \<and> ev_Status ev \<noteq> [] then Some ev else None)"

definition exec_details_event :: "float_text \<Rightarrow> string list \<Rightarrow> OrderLifecycleEvent" where
  "exec_details_event F rows = (let client = orderEventSummaryInt rows ''clientId='' in
     \<lparr>ev_ParentID = None, ev_Type = OrderLifecycleEventExecDetails, ev_OrderID = orderEventInt (summaryFieldValue rows ''orderId=''),
     ev_PermID = orderEventInt (summaryFieldValue rows ''permId=''), ev_ClientID = fst client, ev_ClientIDPresent = snd client,
     ev_RequestID = orderEventInt (summaryFieldValue rows ''reqId=''), ev_Status = [], ev_ErrorCode = 0, ev_Message = [],
     ev_Account = TrimSpace (summaryFieldValue rows ''account=''), ev_OrderRef = TrimSpace (summaryFieldValue rows ''orderRef=''),
     ev_Raw = rows,
     ev_contract = \<lparr>ev_ConID = orderEventInt (summaryFieldValue rows ''conId=''),
     ev_Symbol = ToUpper (TrimSpace (summaryFieldValue rows ''symbol='')),
     ev_SecType = ToUpper (TrimSpace (summaryFieldValue rows ''secType='')), ev_Expiry = TrimSpace (summaryFieldValue rows ''expiry=''),
     ev_Strike = orderEventFloat F (summaryFieldValue rows ''strike=''),
     ev_Right = ToUpper (TrimSpace (summaryFieldValue rows ''right='')),
     ev_Multiplier = orderEventInt (summaryFieldValue rows ''multiplier=''),
     ev_Exchange = TrimSpace (summaryFieldValue rows ''exchange=''), ev_PrimaryExch = [],
     ev_Currency = ToUpper (TrimSpace (summaryFieldValue rows ''currency='')),
     ev_LocalSymbol = TrimSpace (summaryFieldValue rows ''localSymbol=''), ev_TradingClass = []\<rparr>,
     ev_terms = \<lparr>ev_Action = [], ev_TotalQuantity = 0, ev_OrderType = [], ev_LimitPrice = 0, ev_AuxPrice = 0,
     ev_TrailingPercent = 0, ev_TrailStopPrice = 0, ev_LmtPriceOffset = 0, ev_TIF = [], ev_TriggerMethod = 0, ev_OutsideRth = False,
     ev_WhatIf = False, ev_OpenClose = [], ev_OcaGroup = [], ev_OcaType = 0, ev_ModifyTermsKnown = False, ev_ModifyUnsupported = [],
     ev_Deactivated = None, ev_AlgoStrategy = [], ev_AdaptivePriority = [], ev_AlgoKnown = False\<rparr>,
     ev_fill = \<lparr>ev_Filled = 0, ev_Remaining = 0, ev_AvgFillPrice = orderEventFloat F (summaryFieldValue rows ''avgFillPrice=''),
     ev_LastFillPrice = 0, ev_WhyHeld = [], ev_MktCapPrice = 0, ev_ExecID = TrimSpace (summaryFieldValue rows ''execId=''),
     ev_ExecTime = TrimSpace (summaryFieldValue rows ''execTime=''),
     ev_ExecutionSide = ToUpper (TrimSpace (summaryFieldValue rows ''executionSide='')),
     ev_Shares = orderEventFloat F (summaryFieldValue rows ''shares=''), ev_Price = orderEventFloat F (summaryFieldValue rows ''price=''),
     ev_CumQty = orderEventFloat F (summaryFieldValue rows ''cumQty='')\<rparr>\<rparr>)"

definition exec_identified :: "OrderLifecycleEvent \<Rightarrow> bool" where
  "exec_identified ev \<longleftrightarrow> ev_ExecID (ev_fill ev) \<noteq> [] \<and> (0 < ev_OrderID ev \<or> 0 < ev_PermID ev \<or> ev_OrderRef ev \<noteq> [])"

definition parseExecDetailsProtoEvent :: "float_text \<Rightarrow> string list \<Rightarrow> OrderLifecycleEvent option" where
  "parseExecDetailsProtoEvent F rows = (let ev = exec_details_event F rows in if exec_identified ev then Some ev else None)"

text \<open>The legacy positional forms. A callback with an explicit version number is shifted by one field.\<close>

definition is_proto :: "string list \<Rightarrow> bool" where
  "is_proto rows \<longleftrightarrow> 1 < length rows \<and> rows ! 1 = ''protobuf''"

definition legacy_open_order_event :: "float_text \<Rightarrow> nat \<Rightarrow> bool \<Rightarrow> nat \<Rightarrow> string list \<Rightarrow> OrderLifecycleEvent" where
  "legacy_open_order_event F start whatIf statusIdx rows =
     \<lparr>ev_ParentID = None, ev_Type = OrderLifecycleEventOpenOrder, ev_OrderID = orderEventInt (orderEventField rows (start + 0)),
     ev_PermID = orderEventInt (orderEventField rows (start + 19)), ev_ClientID = 0, ev_ClientIDPresent = False, ev_RequestID = 0,
     ev_Status = TrimSpace (orderEventField rows statusIdx), ev_ErrorCode = 0, ev_Message = [], ev_Account = [], ev_OrderRef = [],
     ev_Raw = rows,
     ev_contract = \<lparr>ev_ConID = orderEventInt (orderEventField rows (start + 1)),
     ev_Symbol = ToUpper (TrimSpace (orderEventField rows (start + 2))),
     ev_SecType = ToUpper (TrimSpace (orderEventField rows (start + 3))), ev_Expiry = TrimSpace (orderEventField rows (start + 4)),
     ev_Strike = orderEventFloat F (orderEventField rows (start + 5)), ev_Right = ToUpper (TrimSpace (orderEventField rows (start + 6))),
     ev_Multiplier = orderEventInt (orderEventField rows (start + 7)), ev_Exchange = TrimSpace (orderEventField rows (start + 8)),
     ev_PrimaryExch = [], ev_Currency = ToUpper (TrimSpace (orderEventField rows (start + 9))),
     ev_LocalSymbol = TrimSpace (orderEventField rows (start + 10)),
     ev_TradingClass = TrimSpace (orderEventField rows (start + 11))\<rparr>,
     ev_terms = \<lparr>ev_Action = ToUpper (TrimSpace (orderEventField rows (start + 12))),
     ev_TotalQuantity = orderEventFloat F (orderEventField rows (start + 13)),
     ev_OrderType = ToUpper (TrimSpace (orderEventField rows (start + 14))),
     ev_LimitPrice = orderEventFloat F (orderEventField rows (start + 15)),
     ev_AuxPrice = orderEventFloat F (orderEventField rows (start + 16)), ev_TrailingPercent = 0, ev_TrailStopPrice = 0,
     ev_LmtPriceOffset = 0, ev_TIF = ToUpper (TrimSpace (orderEventField rows (start + 17))), ev_TriggerMethod = 0, ev_OutsideRth = False,
     ev_WhatIf = whatIf, ev_OpenClose = [], ev_OcaGroup = [], ev_OcaType = 0, ev_ModifyTermsKnown = False, ev_ModifyUnsupported = [],
     ev_Deactivated = None, ev_AlgoStrategy = [], ev_AdaptivePriority = [], ev_AlgoKnown = False\<rparr>,
     ev_fill = \<lparr>ev_Filled = 0, ev_Remaining = 0, ev_AvgFillPrice = 0, ev_LastFillPrice = 0, ev_WhyHeld = [], ev_MktCapPrice = 0,
     ev_ExecID = [], ev_ExecTime = [], ev_ExecutionSide = [], ev_Shares = 0, ev_Price = 0, ev_CumQty = 0\<rparr>\<rparr>"

definition parseOpenOrderEvent :: "float_text \<Rightarrow> string list \<Rightarrow> OrderLifecycleEvent option" where
  "parseOpenOrderEvent F rows =
     (if is_proto rows then parseOpenOrderProtoEvent F rows
      else
        let start = (if 2 < length rows \<and> orderEventIntOK (rows ! 1) then 2 else 1);
            whatIf = (parseIBKRBool (orderEventField rows (start + 18)) \<and> orderWhatIfStateStatus (orderEventField rows (start + 19)));
            ev = legacy_open_order_event F start whatIf (if whatIf then start + 19 else start + 18) rows
        in if length rows \<le> start + 17 then None else if 0 < ev_OrderID ev then Some ev else None)"

definition legacy_order_status_event :: "float_text \<Rightarrow> nat \<Rightarrow> string list \<Rightarrow> OrderLifecycleEvent" where
  "legacy_order_status_event F start rows =
     \<lparr>ev_ParentID = None, ev_Type = OrderLifecycleEventStatus, ev_OrderID = orderEventInt (orderEventField rows (start + 0)),
     ev_PermID = orderEventInt (orderEventField rows (start + 5)), ev_ClientID = orderEventInt (orderEventField rows (start + 8)),
     ev_ClientIDPresent = (start + 8 < length rows \<and> orderEventIntOK (orderEventField rows (start + 8))), ev_RequestID = 0,
     ev_Status = TrimSpace (orderEventField rows (start + 1)), ev_ErrorCode = 0, ev_Message = [], ev_Account = [], ev_OrderRef = [],
     ev_Raw = rows,
     ev_contract = \<lparr>ev_ConID = 0, ev_Symbol = [], ev_SecType = [], ev_Expiry = [], ev_Strike = 0, ev_Right = [], ev_Multiplier = 0,
     ev_Exchange = [], ev_PrimaryExch = [], ev_Currency = [], ev_LocalSymbol = [], ev_TradingClass = []\<rparr>,
     ev_terms = \<lparr>ev_Action = [], ev_TotalQuantity = 0, ev_OrderType = [], ev_LimitPrice = 0, ev_AuxPrice = 0,
     ev_TrailingPercent = 0, ev_TrailStopPrice = 0, ev_LmtPriceOffset = 0, ev_TIF = [], ev_TriggerMethod = 0, ev_OutsideRth = False,
     ev_WhatIf = False, ev_OpenClose = [], ev_OcaGroup = [], ev_OcaType = 0, ev_ModifyTermsKnown = False, ev_ModifyUnsupported = [],
     ev_Deactivated = None, ev_AlgoStrategy = [], ev_AdaptivePriority = [], ev_AlgoKnown = False\<rparr>,
     ev_fill = \<lparr>ev_Filled = orderEventFloat F (orderEventField rows (start + 2)),
     ev_Remaining = orderEventFloat F (orderEventField rows (start + 3)),
     ev_AvgFillPrice = orderEventFloat F (orderEventField rows (start + 4)),
     ev_LastFillPrice = orderEventFloat F (orderEventField rows (start + 7)), ev_WhyHeld = TrimSpace (orderEventField rows (start + 9)),
     ev_MktCapPrice = orderEventFloat F (orderEventField rows (start + 10)), ev_ExecID = [], ev_ExecTime = [], ev_ExecutionSide = [],
     ev_Shares = 0, ev_Price = 0, ev_CumQty = 0\<rparr>\<rparr>"

definition parseOrderStatusEvent :: "float_text \<Rightarrow> string list \<Rightarrow> OrderLifecycleEvent option" where
  "parseOrderStatusEvent F rows =
     (if is_proto rows then parseOrderStatusProtoEvent F rows
      else
        let start = (if 3 < length rows \<and> orderEventIntOK (rows ! 1) \<and> orderEventIntOK (rows ! 2) then 2 else 1);
            ev = legacy_order_status_event F start rows
        in if length rows \<le> start + 3 then None else if 0 < ev_OrderID ev \<and> ev_Status ev \<noteq> [] then Some ev else None)"

definition legacy_exec_details_event :: "float_text \<Rightarrow> nat \<Rightarrow> string list \<Rightarrow> OrderLifecycleEvent" where
  "legacy_exec_details_event F start rows =
     \<lparr>ev_ParentID = None, ev_Type = OrderLifecycleEventExecDetails, ev_OrderID = orderEventInt (orderEventField rows (start + 1)),
     ev_PermID = orderEventInt (orderEventField rows (start + 19)), ev_ClientID = orderEventInt (orderEventField rows (start + 20)),
     ev_ClientIDPresent = (start + 20 < length rows \<and> orderEventIntOK (orderEventField rows (start + 20))),
     ev_RequestID = orderEventInt (orderEventField rows (start + 0)), ev_Status = [], ev_ErrorCode = 0, ev_Message = [],
     ev_Account = TrimSpace (orderEventField rows (start + 14)), ev_OrderRef = TrimSpace (orderEventField rows (start + 24)),
     ev_Raw = rows,
     ev_contract = \<lparr>ev_ConID = orderEventInt (orderEventField rows (start + 2)),
     ev_Symbol = ToUpper (TrimSpace (orderEventField rows (start + 3))),
     ev_SecType = ToUpper (TrimSpace (orderEventField rows (start + 4))), ev_Expiry = TrimSpace (orderEventField rows (start + 5)),
     ev_Strike = orderEventFloat F (orderEventField rows (start + 6)), ev_Right = ToUpper (TrimSpace (orderEventField rows (start + 7))),
     ev_Multiplier = orderEventInt (orderEventField rows (start + 8)), ev_Exchange = TrimSpace (orderEventField rows (start + 9)),
     ev_PrimaryExch = [], ev_Currency = ToUpper (TrimSpace (orderEventField rows (start + 10))),
     ev_LocalSymbol = TrimSpace (orderEventField rows (start + 11)), ev_TradingClass = []\<rparr>,
     ev_terms = \<lparr>ev_Action = [], ev_TotalQuantity = 0, ev_OrderType = [], ev_LimitPrice = 0, ev_AuxPrice = 0,
     ev_TrailingPercent = 0, ev_TrailStopPrice = 0, ev_LmtPriceOffset = 0, ev_TIF = [], ev_TriggerMethod = 0, ev_OutsideRth = False,
     ev_WhatIf = False, ev_OpenClose = [], ev_OcaGroup = [], ev_OcaType = 0, ev_ModifyTermsKnown = False, ev_ModifyUnsupported = [],
     ev_Deactivated = None, ev_AlgoStrategy = [], ev_AdaptivePriority = [], ev_AlgoKnown = False\<rparr>,
     ev_fill = \<lparr>ev_Filled = 0, ev_Remaining = 0, ev_AvgFillPrice = orderEventFloat F (orderEventField rows (start + 23)),
     ev_LastFillPrice = 0, ev_WhyHeld = [], ev_MktCapPrice = 0, ev_ExecID = TrimSpace (orderEventField rows (start + 12)),
     ev_ExecTime = TrimSpace (orderEventField rows (start + 13)),
     ev_ExecutionSide = ToUpper (TrimSpace (orderEventField rows (start + 16))),
     ev_Shares = orderEventFloat F (orderEventField rows (start + 17)), ev_Price = orderEventFloat F (orderEventField rows (start + 18)),
     ev_CumQty = orderEventFloat F (orderEventField rows (start + 22))\<rparr>\<rparr>"

definition parseExecDetailsEvent :: "float_text \<Rightarrow> string list \<Rightarrow> OrderLifecycleEvent option" where
  "parseExecDetailsEvent F rows =
     (if is_proto rows then parseExecDetailsProtoEvent F rows
      else
        let start = (if 2 < length rows \<and> orderEventIntOK (rows ! 1) then 2 else 1);
            ev = legacy_exec_details_event F start rows
        in if length rows \<le> start + 19 then None else if exec_identified ev then Some ev else None)"

definition ParseOrderLifecycleEvent :: "float_text \<Rightarrow> string list \<Rightarrow> OrderLifecycleEvent option" where
  "ParseOrderLifecycleEvent F rows =
     (case rows of
        [] \<Rightarrow> None
      | first # _ \<Rightarrow>
          if \<not> orderEventIntOK first then None
          else if orderEventInt first = msgOpenOrder then parseOpenOrderEvent F rows
          else if orderEventInt first = msgOrderStatus then parseOrderStatusEvent F rows
          else if orderEventInt first = msgExecDetails then parseExecDetailsEvent F rows
          else None)"

end
