(* ===== verification/Order_Wire.thy ===== *)
theory Order_Wire
  imports Order_Proto
begin

text \<open>
  What is written is what is read: an encoded order or cancellation is read back with every term it was
  given, and only orders of the supported slice are encoded at all.
\<close>

subsection \<open>Optional fields\<close>

lemma bytes_of_empty [simp]: "bytes_of [] = []" "string_of [] = []"
  by (simp_all add: string_of_def)

text \<open>A field that is written only when it is set is read back as its value or as the default it leaves in
  the summary. Both the writing and the omission of a field become one step of the walk.\<close>

context wire_value
begin

lemma forEach_set:
  assumes "field_number f" and "ok v" and "fn f wire (got d) s = Inr s" and "\<exists>s'. fn f wire (got v) s = Inr s'"
  shows "forEachProtoField ((if c then uvarint_bytes (proto_tag f wire) @ put v else []) @ rest) fn s =
    forEachProtoField rest fn (projr (fn f wire (got (if c then v else d)) s))"
  using assms forEach_step [OF assms(1,2), of rest fn s] by (cases c) auto

end

lemma forEach_set_double:
  assumes "field_number f" and "fn f protoWireFixed64 (LittleEndian_AppendUint64 [] 0) s = Inr s"
    and "\<exists>s'. fn f protoWireFixed64 (LittleEndian_AppendUint64 [] v) s = Inr s'"
  shows "forEachProtoField ((if c then double_field f v else []) @ rest) fn s =
    forEachProtoField rest fn (projr (fn f protoWireFixed64 (LittleEndian_AppendUint64 [] (if c then v else 0)) s))"
  using fixed64.forEach_set [where f = f and fn = fn and s = s and v = v and d = 0 and c = c and rest = rest] assms
  by (cases c) (simp_all add: double_field_def)

lemma forEach_set_bool:
  assumes "field_number f" and "fn f protoWireVarint (uvarint_bytes 0) s = Inr s"
    and "\<exists>s'. fn f protoWireVarint (uvarint_bytes 1) s = Inr s'"
  shows "forEachProtoField ((if c then varint_field f 1 else []) @ rest) fn s =
    forEachProtoField rest fn (projr (fn f protoWireVarint (uvarint_bytes (of_bool c)) s))"
  using varint.forEach_set [where f = f and fn = fn and s = s and v = 1 and d = 0 and c = c and rest = rest] assms
  by (cases c) (simp_all add: varint_field_def)

lemma forEach_set_string:
  assumes "field_number f" and "sized v" and "fn f protoWireBytes (bytes_of []) s = Inr s"
    and "\<exists>s'. fn f protoWireBytes (bytes_of v) s = Inr s'"
  shows "forEachProtoField (string_field f v @ rest) fn s = forEachProtoField rest fn (projr (fn f protoWireBytes (bytes_of v) s))"
  using chunk.forEach_set [where f = f and fn = fn and s = s and v = "bytes_of v" and d = "[]" and c = "v \<noteq> []" and rest = rest] assms
  by (cases "v = []") (simp_all add: string_field_def chunk_field_def sized_def)

lemma forEach_ignored:
  assumes "\<And>x s. x \<in> set xs \<Longrightarrow> fn f protoWireBytes (g x) s = Inr s" and "field_number f" and "\<And>x. x \<in> set xs \<Longrightarrow> sized (g x)"
  shows "forEachProtoField (concat (map (\<lambda>x. chunk_field f (g x)) xs) @ rest) fn s = forEachProtoField rest fn s"
  using assms by (induction xs) (simp_all add: forEach_chunk)

subsection \<open>Messages as segments\<close>

lemma append_when_segment [append_segments]: "append_when c (\<lambda>m. m @ x) msg = msg @ (if c then x else [])"
  by (simp add: append_when_def)

lemma append_when_segments [append_segments]: "append_when c (\<lambda>m. m @ x @ y) msg = msg @ (if c then x @ y else [])"
  by (simp add: append_when_def)

lemma fold_segments: "fold (\<lambda>x m. m @ g x) xs msg = msg @ concat (map g xs)"
  by (induction xs arbitrary: msg) simp_all

lemma sized_parts:
  "sized (x @ y) \<Longrightarrow> sized x" "sized (x @ y) \<Longrightarrow> sized y" "sized (chunk_field f v) \<Longrightarrow> sized v"
  "sized (string_field f t) \<Longrightarrow> sized t"
  by (auto simp: sized_def chunk_field_def string_field_def split: if_splits)

lemma sized_append: "sized (x @ y) \<Longrightarrow> sized x \<and> sized y"
  by (simp add: sized_def)

lemma sized_Nil [simp]: "sized []"
  by (simp add: sized_def)

lemma contract_segments:
  "encodePlaceOrderContractProto ord = Inr (varint_field 1 (scast (go_int32 (ord_ConID ord))) @ string_field 2 (ord_Symbol ord) @
     string_field 3 (ToUpper (ord_SecType ord)) @ string_field 4 (ord_Expiry ord) @
     (if f64_nonzero (ord_Strike ord) then double_field 5 (ord_Strike ord) else []) @ string_field 6 (ToUpper (ord_Right ord)) @
     string_field 7 (ord_Multiplier ord) @ string_field 8 (ord_Exchange ord) @ string_field 9 (ord_PrimaryExch ord) @
     string_field 10 (ord_Currency ord) @ string_field 11 (ord_LocalSymbol ord) @ string_field 12 (ord_TradingClass ord) @
     string_field 13 (ord_SecIDType ord) @ string_field 14 (ord_SecID ord) @
     concat (map (\<lambda>leg. chunk_field 20 (encodeComboLegProto leg)) (ord_ComboLegs ord)))"
  unfolding encodePlaceOrderContractProto_def Let_def append_segments fold_segments by simp

lemma order_segments:
  "encodePlaceOrderOrderProto ord = Inr (varint_field 1 (scast (go_int32 (ord_ClientID ord))) @
     varint_field 3 (word_of_int (oo_PermID (ord_counts ord))) @ varint_field 4 (scast (go_int32 (ord_ParentID ord))) @
     string_field 5 (ToUpper (ord_Action ord)) @ string_field 6 (Itoa (ord_TotalQty ord)) @
     varint_field 7 (scast (go_int32 (oo_DisplaySize (ord_counts ord)))) @ string_field 8 (ToUpper (ord_OrderType ord)) @
     (if f64_nonzero (ord_LmtPrice ord) \<or> ord_LmtPriceSet ord then double_field 9 (ord_LmtPrice ord) else []) @
     (if f64_nonzero (ord_AuxPrice ord) then double_field 10 (ord_AuxPrice ord) else []) @
     string_field 11 (ToUpper (ord_TIF ord)) @ string_field 12 (ord_Account ord) @
     (if ord_OutsideRth ord then varint_field 19 1 else []) @ string_field 27 (ord_OcaGroup ord) @ string_field 28 (ord_OrderRef ord) @
     varint_field 30 (scast (go_int32 (ord_OcaType ord))) @ varint_field 31 (scast (go_int32 (ord_TriggerMethod ord))) @
     (if f64_nonzero (ord_TrailingPercent ord) then double_field 22 (ord_TrailingPercent ord) else []) @
     (if f64_nonzero (ord_TrailStopPrice ord) then double_field 23 (ord_TrailStopPrice ord) else []) @
     varint_field 43 (scast (go_int32 (oo_DeltaNeutralConID (ord_counts ord)))) @
     varint_field 46 (scast (go_int32 (oo_DeltaNeutralShortSaleSlot (ord_counts ord)))) @
     (if ord_AdaptivePriority ord \<noteq> [] then string_field 61 ''Adaptive'' @ chunk_field 62 (adaptive_entry (ord_AdaptivePriority ord)) else []) @
     (if ord_WhatIf ord then varint_field 65 1 else []) @ (if ord_Transmit ord then varint_field 66 1 else []) @
     string_field 68 (ord_OpenClose ord) @ varint_field 69 (scast (go_int32 (ord_Origin ord))) @
     varint_field 70 (scast (go_int32 (oo_ShortSaleSlot (ord_counts ord)))) @ varint_field 72 (scast (go_int32 (-1))) @
     double_field 76 (oo_DiscretionaryAmt (ord_amounts ord)) @ varint_field 88 0 @ double_field 89 0 @ double_field 91 0 @
     (if f64_nonzero (ord_LmtPriceOffset ord) then double_field 99 (ord_LmtPriceOffset ord) else []) @ varint_field 98 0 @ chunk_field 105 [])"
  unfolding encodePlaceOrderOrderProto_def Let_def append_segments by (simp add: append_segments)


subsection \<open>Orders are read back\<close>

lemma field_number_numeral [simp]: "field_number 1" "field_number (numeral n) \<longleftrightarrow> (numeral n :: int) < 2 ^ 60"
  by (simp_all add: field_number_def)

lemma go_int_of_int32 [simp]:
  assumes "minProtoInt32 \<le> v" and "v \<le> maxProtoInt32"
  shows "go_int (scast (go_int32 v)) = v"
proof -
  have "sint (word_of_int v :: 32 word) = v"
    using assms by (simp add: signed_of_int signed_take_bit_int_eq_self minProtoInt32_def maxProtoInt32_def)
  moreover have "signed_take_bit 63 v = v" using assms
    by (intro signed_take_bit_int_eq_self) (simp_all add: minProtoInt32_def maxProtoInt32_def)
  ultimately show ?thesis by (simp add: go_int_def go_int32_def signed_scast_eq)
qed

lemmas read_segments = forEach_varint forEach_double forEach_chunk forEach_set_double forEach_set_bool forEach_set_string
  forEach_chunk_last protoVarintValue_written protoFixed64Value_written
  set_varint_def setProtoDouble_def

lemma contract_read_back:
  assumes "encodePlaceOrderContractProto ord = Inr msg" and "sized msg"
  shows "parseContractProtoSummary msg (zero_summary\<lparr>sum_orderID := i\<rparr>) =
    Inr (zero_summary\<lparr>sum_orderID := i, sum_conID := go_int (scast (go_int32 (ord_ConID ord))), sum_symbol := ord_Symbol ord,
      sum_secType := ToUpper (ord_SecType ord), sum_expiry := ord_Expiry ord,
      sum_strike := (if f64_nonzero (ord_Strike ord) then ord_Strike ord else 0),
      sum_right := ToUpper (ord_Right ord), sum_multiplier := ord_Multiplier ord\<rparr>)"
proof -
  have msg: "Inr msg = encodePlaceOrderContractProto ord" by (simp add: assms(1))
  have legs: "sized (encodeComboLegProto leg)" if "leg \<in> set (ord_ComboLegs ord)" for leg
  proof -
    have "length (chunk_field 20 (encodeComboLegProto leg)) \<le> length (concat (map (\<lambda>leg. chunk_field 20 (encodeComboLegProto leg)) (ord_ComboLegs ord)))"
      using that by (auto simp: length_concat intro!: member_le_sum_list)
    also have "\<dots> \<le> length msg" using msg by (simp add: contract_segments)
    finally show ?thesis using assms(2) by (simp add: sized_def chunk_field_def)
  qed
  have walk: "forEachProtoField (concat (map (\<lambda>leg. chunk_field 20 (encodeComboLegProto leg)) (ord_ComboLegs ord))) contract_summary_field s = Inr s" for s
    using forEach_ignored [where rest = "[]" and fn = contract_summary_field and g = encodeComboLegProto and f = 20 and xs = "ord_ComboLegs ord" and s = s] legs
    by (simp add: contract_summary_field_def)
  have sz: "sized (ord_Symbol ord)" "sized (ToUpper (ord_SecType ord))" "sized (ord_Expiry ord)" "sized (ToUpper (ord_Right ord))"
    "sized (ord_Multiplier ord)" "sized (ord_Exchange ord)" "sized (ord_PrimaryExch ord)" "sized (ord_Currency ord)" "sized (ord_LocalSymbol ord)"
    "sized (ord_TradingClass ord)" "sized (ord_SecIDType ord)" "sized (ord_SecID ord)"
    using assms(2) msg by (auto simp: contract_segments dest!: sized_append dest: sized_parts)
  have "parseContractProtoSummary msg (zero_summary\<lparr>sum_orderID := i\<rparr>) =
     forEachProtoField (projr (encodePlaceOrderContractProto ord)) contract_summary_field (zero_summary\<lparr>sum_orderID := i\<rparr>)"
    by (simp add: parseContractProtoSummary_def flip: msg)
  then show ?thesis
    by (simp add: contract_segments read_segments walk sz contract_summary_field_def zero_summary_def split del: if_split)
qed

lemma forEach_adaptive:
  assumes "c \<Longrightarrow> sized (adaptive_entry p)" and "\<And>w v. fn 61 w v s = Inr s" and "\<And>w v. fn 62 w v s = Inr s"
  shows "forEachProtoField ((if c then string_field 61 ''Adaptive'' @ chunk_field 62 (adaptive_entry p) else []) @ rest) fn s = forEachProtoField rest fn s"
  using assms by (simp add: forEach_string forEach_chunk sized_def)

text \<open>What the terms of an order read back as.\<close>

definition order_terms :: "IBKROrder \<Rightarrow> placeOrderProtoSummary" where
  "order_terms ord = \<lparr>sum_parentID = go_int (scast (go_int32 (ord_ParentID ord))), sum_orderID = ord_OrderID ord, sum_conID = ord_ConID ord,
     sum_symbol = ord_Symbol ord, sum_secType = ToUpper (ord_SecType ord), sum_expiry = ord_Expiry ord,
     sum_strike = (if f64_nonzero (ord_Strike ord) then ord_Strike ord else 0),
     sum_right = ToUpper (ord_Right ord), sum_multiplier = ord_Multiplier ord, sum_clientID = ord_ClientID ord,
     sum_action = ToUpper (ord_Action ord), sum_quantity = Itoa (ord_TotalQty ord), sum_orderType = ToUpper (ord_OrderType ord),
     sum_lmtPrice = (if f64_nonzero (ord_LmtPrice ord) \<or> ord_LmtPriceSet ord then ord_LmtPrice ord else 0),
     sum_auxPrice = (if f64_nonzero (ord_AuxPrice ord) then ord_AuxPrice ord else 0),
     sum_trailingPercent = (if f64_nonzero (ord_TrailingPercent ord) then ord_TrailingPercent ord else 0),
     sum_trailStopPrice = (if f64_nonzero (ord_TrailStopPrice ord) then ord_TrailStopPrice ord else 0),
     sum_lmtPriceOffset = (if f64_nonzero (ord_LmtPriceOffset ord) then ord_LmtPriceOffset ord else 0),
     sum_tif = ToUpper (ord_TIF ord), sum_triggerMethod = ord_TriggerMethod ord, sum_account = ord_Account ord,
     sum_orderRef = ord_OrderRef ord, sum_outsideRth = ord_OutsideRth ord, sum_whatIf = ord_WhatIf ord, sum_transmit = ord_Transmit ord,
     sum_openClose = ord_OpenClose ord\<rparr>"

lemma order_read_back:
  assumes "encodePlaceOrderOrderProto ord = Inr msg" and "sized msg"
    and "s = zero_summary\<lparr>sum_orderID := i, sum_conID := c, sum_symbol := sy, sum_secType := st, sum_expiry := ex, sum_strike := k,
      sum_right := ri, sum_multiplier := mu\<rparr>"
    and "minProtoInt32 \<le> ord_TriggerMethod ord" and "ord_TriggerMethod ord \<le> maxProtoInt32"
  shows "parseOrderProtoSummary msg s =
    Inr ((order_terms ord)\<lparr>sum_clientID := go_int (scast (go_int32 (ord_ClientID ord))), sum_orderID := i, sum_conID := c, sum_symbol := sy,
      sum_secType := st, sum_expiry := ex, sum_strike := k, sum_right := ri, sum_multiplier := mu\<rparr>)"
proof -
  have msg: "Inr msg = encodePlaceOrderOrderProto ord" by (simp add: assms(1))
  have "sized (if ord_AdaptivePriority ord \<noteq> [] then string_field 61 ''Adaptive'' @ chunk_field 62 (adaptive_entry (ord_AdaptivePriority ord)) else [])"
    and sz: "sized (ToUpper (ord_Action ord))" "sized (Itoa (ord_TotalQty ord))" "sized (ToUpper (ord_OrderType ord))"
    "sized (ToUpper (ord_TIF ord))" "sized (ord_Account ord)" "sized (ord_OcaGroup ord)" "sized (ord_OrderRef ord)" "sized (ord_OpenClose ord)"
    using assms(2) msg by (auto simp: order_segments simp del: append_assoc dest!: sized_append dest: sized_parts split del: if_split)
  then have ad: "sized (adaptive_entry (ord_AdaptivePriority ord))" if "ord_AdaptivePriority ord \<noteq> []"
    using that by (auto dest!: sized_append dest: sized_parts)
  have "parseOrderProtoSummary msg s = forEachProtoField (projr (encodePlaceOrderOrderProto ord)) order_summary_field s"
    by (simp add: parseOrderProtoSummary_def flip: msg)
  also have "\<dots> = Inr ((order_terms ord)\<lparr>sum_clientID := go_int (scast (go_int32 (ord_ClientID ord))), sum_orderID := i, sum_conID := c, sum_symbol := sy,
      sum_secType := st, sum_expiry := ex, sum_strike := k, sum_right := ri, sum_multiplier := mu\<rparr>)"
    by (simp add: order_segments read_segments forEach_adaptive ad sz order_summary_field_def zero_summary_def order_terms_def assms(3-5) split del: if_split)
  finally show ?thesis .
qed

lemma supported_checks:
  assumes "validatePlaceOrderProtoSupported (Some ord) = None"
  shows "validateProtoInt32 ''orderID'' (ord_OrderID ord) = None" and "validateProtoInt32 ''clientID'' (ord_ClientID ord) = None"
    and "validateProtoInt32 ''conID'' (ord_ConID ord) = None" and "validateProtoInt32 ''totalQty'' (ord_TotalQty ord) = None"
    and "validatePlaceOrderTriggerMethod (ToUpper (TrimSpace (ord_OrderType ord))) (ord_TriggerMethod ord) = None"
    and "validateProtoOrderTypePrices (ToUpper (TrimSpace (ord_OrderType ord))) ord = None"
    and "validate_contract_shape (ToUpper (ord_SecType ord)) ord = None"
    and "validate_bond_shape (ToUpper (ord_SecType ord)) (ToUpper (TrimSpace (ord_OrderType ord))) ord = None"
    and "validate_future_shape (ToUpper (ord_SecType ord)) (ToUpper (TrimSpace (ord_OrderType ord))) ord = None"
    and "validatePlaceOrderOCA ord = None" and "validateAdaptiveOrder ord = None"
    and "refuse_populated (\<lambda>v. v \<noteq> []) (unsupported_texts (ord_texts ord)) = None"
    and "refuse_populated (\<lambda>v. v \<noteq> 0) (unsupported_counts (ord_counts ord)) = None"
    and "refuse_populated f64_nonzero (unsupported_amounts (ord_amounts ord)) = None"
    and "refuse_populated (\<lambda>v. v) (unsupported_flags (ord_flags ord)) = None"
    and "ToUpper (TrimSpace (ord_OrderType ord)) \<in> {''LMT'', ''TRAIL'', ''TRAIL LIMIT'', ''STP''}"
    and "ToUpper (TrimSpace (ord_OrderType ord)) = ''STP'' \<Longrightarrow> ToUpper (ord_SecType ord) = ''STK'' \<and> 0 < ord_ParentID ord \<and>
      ord_Action ord = ''SELL'' \<and> ord_TIF ord = ''GTC'' \<and> ord_TriggerMethod ord = 2 \<and> \<not> ord_OutsideRth ord \<and> (ord_Transmit ord \<or> ord_WhatIf ord)"
    and "ord_ParentID ord = 0 \<or> ToUpper (TrimSpace (ord_OrderType ord)) = ''STP''"
    and "ToUpper (ord_TIF ord) = ''DAY'' \<or>
      ToUpper (ord_TIF ord) = ''GTC'' \<and> ToUpper (TrimSpace (ord_OrderType ord)) \<in> {''TRAIL'', ''TRAIL LIMIT'', ''STP''}"
    and "ToUpper (ord_SecType ord) \<in> {''STK'', ''ETF'', ''OPT'', ''BAG'', ''CASH'', ''FUT''} \<or> IsBillOrBond (ToUpper (ord_SecType ord))"
  using assms unfolding validatePlaceOrderProtoSupported_def Let_def option.case first_refusal_Cons_None reject_if_None
  by (blast | linarith)+

lemma supported_ids:
  assumes "validatePlaceOrderProtoSupported (Some ord) = None"
  shows "minProtoInt32 \<le> ord_OrderID ord \<and> ord_OrderID ord \<le> maxProtoInt32"
    and "minProtoInt32 \<le> ord_ClientID ord \<and> ord_ClientID ord \<le> maxProtoInt32"
    and "minProtoInt32 \<le> ord_ConID ord \<and> ord_ConID ord \<le> maxProtoInt32"
    and "minProtoInt32 \<le> ord_TotalQty ord \<and> ord_TotalQty ord \<le> maxProtoInt32"
    and "minProtoInt32 \<le> ord_TriggerMethod ord \<and> ord_TriggerMethod ord \<le> maxProtoInt32"
  using supported_checks(1-5) [OF assms]
  by (auto simp: validateProtoInt32_def validatePlaceOrderTriggerMethod_def minProtoInt32_def maxProtoInt32_def split: if_splits)

lemma body_read_back:
  assumes enc: "encodePlaceOrderProtoBody (Some ord) = Inr body" and "sized body"
  shows "parsePlaceOrderProtoSummary body = Inr (order_terms ord)"
proof -
  obtain contract orderMsg where ok: "validatePlaceOrderProtoSupported (Some ord) = None"
    and c: "encodePlaceOrderContractProto ord = Inr contract" and m: "encodePlaceOrderOrderProto ord = Inr orderMsg"
    and body: "body = varint_field 1 (scast (go_int32 (ord_OrderID ord))) @ chunk_field 2 contract @ chunk_field 3 orderMsg @ chunk_field 4 []"
    using enc by (cases "validatePlaceOrderProtoSupported (Some ord)")
      (auto simp: encodePlaceOrderProtoBody_def append_segments contract_segments order_segments)
  have sz: "sized contract" "sized orderMsg"
    using assms(2) unfolding body by (auto dest!: sized_append dest: sized_parts)
  have tail: "forEachProtoField (chunk_field 3 orderMsg @ chunk_field 4 []) place_summary_field s = parseOrderProtoSummary orderMsg s" for s
    by (cases "parseOrderProtoSummary orderMsg s") (simp_all add: read_segments sz place_summary_field_def)
  have step: "forEachProtoField body place_summary_field zero_summary =
      bind_result (parseContractProtoSummary contract (zero_summary\<lparr>sum_orderID := ord_OrderID ord\<rparr>)) (parseOrderProtoSummary orderMsg)"
    unfolding body using supported_ids(1) [OF ok]
    by (cases "parseContractProtoSummary contract (zero_summary\<lparr>sum_orderID := ord_OrderID ord\<rparr>)")
       (simp_all add: forEach_varint forEach_chunk set_varint_def protoVarintValue_written tail sz place_summary_field_def)
  show ?thesis
    using supported_ids [OF ok]
    by (simp add: parsePlaceOrderProtoSummary_def step contract_read_back [OF c sz(1)] order_read_back [OF m sz(2) refl] order_terms_def)
qed

subsection \<open>A worked order\<close>

definition no_texts :: order_texts where
  "no_texts = \<lparr>oo_GoodAfterTime = [], oo_GoodTillDate = [], oo_FaGroup = [], oo_FaMethod = [], oo_FaPercentage = [], oo_FaProfile = [],
     oo_ModelCode = [], oo_DesignatedLocation = [], oo_Rule80A = [], oo_SettlingFirm = [], oo_DeltaNeutralOrderType = [],
     oo_DeltaNeutralSettlingFirm = [], oo_DeltaNeutralClearingAccount = [], oo_DeltaNeutralClearingIntent = [], oo_DeltaNeutralOpenClose = [],
     oo_DeltaNeutralDesignatedLocation = [], oo_HedgeType = [], oo_HedgeParam = [], oo_ClearingAccount = [], oo_ClearingIntent = []\<rparr>"

definition no_counts :: order_counts where
  "no_counts = \<lparr>oo_PermID = 0, oo_DisplaySize = 0, oo_ShortSaleSlot = 0, oo_MinQty = 0, oo_AuctionStrategy = 0, oo_VolatilityType = 0,
     oo_DeltaNeutralConID = 0, oo_DeltaNeutralShortSaleSlot = 0, oo_ContinuousUpdate = 0, oo_ReferencePriceType = 0, oo_BasisPointsType = 0,
     oo_ScaleInitLevelSize = 0, oo_ScaleSubsLevelSize = 0, oo_ScalePriceAdjustInterval = 0, oo_ScaleInitPosition = 0, oo_ScaleInitFillQty = 0\<rparr>"

definition no_amounts :: order_amounts where
  "no_amounts = \<lparr>oo_DiscretionaryAmt = 0, oo_PercentOffset = 0, oo_NbboPriceCap = 0, oo_StartingPrice = 0, oo_StockRefPrice = 0, oo_Delta = 0,
     oo_StockRangeLower = 0, oo_StockRangeUpper = 0, oo_Volatility = 0, oo_DeltaNeutralAuxPrice = 0, oo_BasisPoints = 0,
     oo_ScalePriceIncrement = 0, oo_ScalePriceAdjustValue = 0, oo_ScaleProfitOffset = 0\<rparr>"

definition no_flags :: order_flags where
  "no_flags = \<lparr>oo_BlockOrder = False, oo_SweepToFill = False, oo_Hidden = False, oo_AllOrNone = False, oo_ETradeOnly = False,
     oo_FirmQuoteOnly = False, oo_OverridePercentageConstraints = False, oo_DeltaNeutralShortSale = False, oo_ScaleAutoReset = False,
     oo_ScaleRandomPercent = False, oo_OptOutSmartRouting = False, oo_NotHeld = False\<rparr>"

text \<open>Ten shares at 98.5, a day order on SMART.\<close>

definition sample_order :: IBKROrder where
  "sample_order = \<lparr>ord_AdaptivePriority = [], ord_OrderID = 7, ord_ClientID = 1, ord_Account = ''DU1'', ord_Symbol = ''ABC'', ord_SecType = ''STK'',
     ord_ConID = 42, ord_Exchange = ''SMART'', ord_Currency = ''USD'', ord_Expiry = [], ord_Strike = 0, ord_Right = [], ord_Multiplier = [],
     ord_PrimaryExch = [], ord_LocalSymbol = [], ord_TradingClass = [], ord_SecIDType = [], ord_SecID = [], ord_BondRules = None,
     ord_Action = ''BUY'', ord_TotalQty = 10, ord_OrderType = ''LMT'', ord_LmtPrice = 0x4058A00000000000, ord_LmtPriceSet = False,
     ord_AuxPrice = 0, ord_ComboLegs = [], ord_TIF = ''DAY'', ord_OcaGroup = [], ord_OcaType = 0, ord_OrderRef = ''r1'', ord_Transmit = True,
     ord_WhatIf = False, ord_OpenClose = [], ord_Origin = 0, ord_ParentID = 0, ord_TriggerMethod = 0, ord_OutsideRth = False,
     ord_TrailStopPrice = 0, ord_TrailingPercent = 0, ord_LmtPriceOffset = 0, ord_ExemptCode = 0,
     ord_texts = no_texts, ord_counts = no_counts, ord_amounts = no_amounts, ord_flags = no_flags\<rparr>"

lemma sample_supported: "validatePlaceOrderProtoSupported (Some sample_order) = None"
  by code_simp

definition sample_frame :: bytes where
  "sample_frame = projr (encodePlaceOrderProtoFrame (Some sample_order))"

lemma sample_encoded: "encodePlaceOrderProtoFrame (Some sample_order) = Inr sample_frame"
  by (simp add: sample_frame_def encodePlaceOrderProtoFrame_def encodePlaceOrderProtoBody_def sample_supported contract_segments order_segments)

lemma sample_frame_sized: "sized sample_frame"
proof -
  have "length sample_frame < 300" by code_simp
  then show ?thesis by (simp add: sized_def)
qed

subsection \<open>Properties\<close>

lemma frame_parts:
  assumes "encodePlaceOrderProtoFrame (Some ord) = Inr frame"
  obtains body where "encodePlaceOrderProtoBody (Some ord) = Inr body" "frame = [0, 0, 0, 203] @ body"
  using assms by (cases "encodePlaceOrderProtoBody (Some ord)")
    (auto simp: encodePlaceOrderProtoFrame_def BigEndian_AppendUint32_def protoPlaceOrderMsgID_def msg_placeOrder_def protoBufMsgID_def)

text \<open>C3. A place-order frame is read back with every term of the order it was made from: identifiers,
  contract, side, quantity, order type, every price bit by bit, time in force, account, reference and flags. Only a
  price that compares equal to zero reads as plain zero, and a parent identifier is carried in 32 bits.\<close>

theorem place_order_round_trip:
  assumes "encodePlaceOrderProtoFrame (Some ord) = Inr frame" and "length frame < 2 ^ 63"
  shows "take 4 frame = [0, 0, 0, 203] \<and> parsePlaceOrderProtoSummary (drop 4 frame) = Inr (order_terms ord)"
proof -
  obtain body where "encodePlaceOrderProtoBody (Some ord) = Inr body" and frame: "frame = [0, 0, 0, 203] @ body"
    using frame_parts [OF assms(1)] by blast
  moreover have "sized body" using assms(2) by (simp add: frame sized_def)
  ultimately show ?thesis using body_read_back by (simp add: frame)
qed

theorem place_order_round_trip_witness:
  "\<exists>frame. encodePlaceOrderProtoFrame (Some sample_order) = Inr frame \<and> parsePlaceOrderProtoSummary (drop 4 frame) = Inr (order_terms sample_order) \<and>
     sum_lmtPrice (order_terms sample_order) = 0x4058A00000000000 \<and> sum_quantity (order_terms sample_order) = ''10''"
proof -
  have "parsePlaceOrderProtoSummary (drop 4 sample_frame) = Inr (order_terms sample_order)"
    using place_order_round_trip [OF sample_encoded] sample_frame_sized by (simp add: sized_def)
  moreover have "sum_lmtPrice (order_terms sample_order) = 0x4058A00000000000" and "sum_quantity (order_terms sample_order) = ''10''"
    by code_simp+
  ultimately show ?thesis using sample_encoded by blast
qed

lemma combo_legs_distinct:
  "validateComboLegs_from seen legs = None \<Longrightarrow> distinct (map leg_ConID legs) \<and> set (map leg_ConID legs) \<inter> set seen = {}"
  by (induction seen legs rule: validateComboLegs_from.induct) auto

lemma refuse_populated_None: "refuse_populated p xs = None \<longleftrightarrow> (\<forall>(_, v)\<in>set xs. \<not> p v)"
  by (auto simp: refuse_populated_def guard_simps)

lemma not_le_zero: "\<not> f64_le x 0 \<longleftrightarrow> f64_positive x \<or> f64_IsNaN x"
  by (auto simp: f64_le_def f64_less_def)



text \<open>A cancellation is read back with the order identifier it names, negative ones included, and an identifier
  that does not fit into 32 bits never becomes a frame for another order.\<close>

theorem cancel_order_round_trip:
  assumes "validateProtoInt32 ''orderID'' orderID = None"
  shows "parseCancelOrderProtoSummary (drop 4 (encodeCancelOrderProtoFrame orderID)) = Inr \<lparr>cos_orderID = orderID, cos_hasOrderCancel = True\<rparr>"
proof -
  have "minProtoInt32 \<le> orderID" "orderID \<le> maxProtoInt32" using assms by (auto simp: validateProtoInt32_def)
  moreover have "drop 4 (encodeCancelOrderProtoFrame orderID) = varint_field 1 (scast (go_int32 orderID)) @ chunk_field 2 []"
    by (simp add: encodeCancelOrderProtoFrame_def encodeCancelOrderProtoBody_def append_segments BigEndian_AppendUint32_def)
  ultimately show ?thesis
    by (simp add: parseCancelOrderProtoSummary_def cancel_summary_field_def parseOrderCancelProtoSummary_def read_segments)
qed

theorem cancel_order_round_trip_witness:
  "parseCancelOrderProtoSummary (drop 4 (encodeCancelOrderProtoFrame (-1))) = Inr \<lparr>cos_orderID = -1, cos_hasOrderCancel = True\<rparr>"
  by (rule cancel_order_round_trip) (simp add: validateProtoInt32_def minProtoInt32_def maxProtoInt32_def)

subsection \<open>Three gaps of the order checks\<close>

definition nan_limit_order :: IBKROrder where
  "nan_limit_order = sample_order\<lparr>ord_LmtPrice := f64_NaN\<rparr>"

definition wide_parent_order :: IBKROrder where
  "wide_parent_order = sample_order\<lparr>ord_OrderType := ''STP'', ord_Action := ''SELL'', ord_TIF := ''GTC'', ord_TriggerMethod := 2,
     ord_LmtPrice := 0, ord_AuxPrice := 0x4058A00000000000, ord_ParentID := 2 ^ 32 + 5\<rparr>"

definition option_with_legs :: IBKROrder where
  "option_with_legs = sample_order\<lparr>ord_SecType := ''OPT'', ord_Expiry := ''20270115'', ord_Right := ''C'', ord_Strike := 0x4058A00000000000,
     ord_Multiplier := ''100'', ord_ComboLegs := [\<lparr>leg_ConID = 9, leg_Ratio = 0, leg_Action = [], leg_Exchange = [], leg_OpenClose = 0\<rparr>]\<rparr>"

lemma gaps_supported:
  "validatePlaceOrderProtoSupported (Some nan_limit_order) = None"
  "validatePlaceOrderProtoSupported (Some wide_parent_order) = None"
  "validatePlaceOrderProtoSupported (Some option_with_legs) = None"
  by code_simp+

lemma encode_supported: "validatePlaceOrderProtoSupported (Some ord) = None \<Longrightarrow> \<exists>frame. encodePlaceOrderProtoFrame (Some ord) = Inr frame"
  by (simp add: encodePlaceOrderProtoFrame_def encodePlaceOrderProtoBody_def contract_segments order_segments)

text \<open>C40. The checks before encoding have three gaps. A limit price that is not a number passes the comparison that
  asks for a positive one; a parent identifier beyond 32 bits is not refused and is carried as
  a different one; and combination legs are refused on every single-contract order except an option.\<close>

theorem order_check_gaps:
  "(\<exists>frame. encodePlaceOrderProtoFrame (Some nan_limit_order) = Inr frame) \<and> f64_IsNaN (sum_lmtPrice (order_terms nan_limit_order)) \<and>
   (\<exists>frame. encodePlaceOrderProtoFrame (Some wide_parent_order) = Inr frame) \<and> ord_ParentID wide_parent_order = 4294967301 \<and>
     sum_parentID (order_terms wide_parent_order) = 5 \<and>
   (\<exists>frame. encodePlaceOrderProtoFrame (Some option_with_legs) = Inr frame) \<and> ord_ComboLegs option_with_legs \<noteq> []"
proof -
  have "f64_IsNaN (sum_lmtPrice (order_terms nan_limit_order))" and "ord_ParentID wide_parent_order = 4294967301"
    and "sum_parentID (order_terms wide_parent_order) = 5" and "ord_ComboLegs option_with_legs \<noteq> []"
    by code_simp+
  then show ?thesis using gaps_supported encode_supported by blast
qed

end
