(* ===== verification/Order_Events.thy ===== *)
theory Order_Events
  imports Order_Callback Order_Wire
begin

text \<open>
  What a broker callback says reaches the event: the detour through text fields loses no identifier, the
  text a broker chooses cannot pass for another field, a frame that does not decode gives no event, and the
  broker's echo of an order Canary encoded is recognised as one Canary can replace.
\<close>

subsection \<open>Decimal text\<close>

lemma digits10_not_Nil [simp]: "digits10 n \<noteq> []"
  by (subst digits10.simps) simp

lemma char_digit: "d < 10 \<Longrightarrow> is_digit (char_of (48 + d :: nat)) \<and> of_char (char_of (48 + d :: nat)) = 48 + d"
  by (simp add: is_digit_def less_eq_char_def)

lemma digits10_digits: "list_all is_digit (digits10 n)"
proof (induction n rule: digits10.induct)
  case (1 n)
  show ?case using "1" by (subst digits10.simps) (simp add: char_digit)
qed

lemma decimal_value_append: "decimal_value acc (xs @ [c]) = 10 * decimal_value acc xs + (of_char c - 48)"
  by (induction acc xs rule: decimal_value.induct) simp_all

lemma decimal_value_digits10 [simp]: "decimal_value 0 (digits10 n) = n"
proof (induction n rule: digits10.induct)
  case (1 n)
  show ?case
  proof (cases "n < 10")
    case True
    then show ?thesis by (subst digits10.simps) (simp add: char_digit)
  next
    case False
    then show ?thesis using "1" by (subst digits10.simps) (simp add: decimal_value_append char_digit)
  qed
qed

definition int64 :: "int \<Rightarrow> bool" where
  "int64 n \<longleftrightarrow> - (2 ^ 63) \<le> n \<and> n < 2 ^ 63"

lemma int64_go_int [simp]: "int64 (go_int x)"
  using sint_greater_eq [of x] sint_less [of x] by (simp add: int64_def go_int_def)

lemma digit_facts: "is_digit c \<Longrightarrow> \<not> is_space c \<and> c \<noteq> CHR ''-'' \<and> c \<noteq> CHR ''+''"
  by (auto simp: is_digit_def is_space_def less_eq_char_def)

lemma dropWhile_none: "list_all (\<lambda>c. \<not> P c) xs \<Longrightarrow> dropWhile P xs = xs"
  by (cases xs) simp_all

lemma TrimSpace_no_space: "list_all (\<lambda>c. \<not> is_space c) s \<Longrightarrow> TrimSpace s = s"
  by (simp add: TrimSpace_def dropWhile_none list_all_rev)

lemma TrimSpace_Itoa [simp]: "TrimSpace (Itoa n) = Itoa n"
proof (rule TrimSpace_no_space)
  have "list_all (\<lambda>c. \<not> is_space c) (digits10 k)" for k
    using digits10_digits [of k] by (auto simp: list_all_iff digit_facts)
  then show "list_all (\<lambda>c. \<not> is_space c) (Itoa n)" by (simp add: Itoa_def) (simp add: is_space_def)
qed

lemma Atoi_Itoa: "int64 n \<Longrightarrow> Atoi (Itoa n) = (n, True)"
proof -
  assume n: "int64 n"
  have "hd (digits10 k) \<noteq> CHR ''-'' \<and> hd (digits10 k) \<noteq> CHR ''+''" for k
    using digits10_digits [of k] digit_facts by (cases "digits10 k") auto
  then show ?thesis using n digits10_digits by (auto simp: Atoi_def Itoa_def Let_def int64_def)
qed

lemma orderEventInt_Itoa [simp]: "int64 n \<Longrightarrow> orderEventInt (Itoa n) = n" "int64 n \<Longrightarrow> orderEventIntOK (Itoa n)"
  by (simp_all add: orderEventInt_def orderEventIntOK_def Atoi_Itoa)


subsection \<open>Finding a text field\<close>

text \<open>Every row a decoder writes begins with its key, so a lookup compares keys and never reads the text a
  broker chose as a key.\<close>

lemma base_rows:
  "inboundProtoBaseFields msgOrderStatus protoOrderStatusMsgID = [''3'', ''protobuf'', ''wire_msg_id=203'']"
  "inboundProtoBaseFields msgOpenOrder protoOpenOrderMsgID = [''5'', ''protobuf'', ''wire_msg_id=205'']"
  "inboundProtoBaseFields msgExecDetails protoExecDetailsMsgID = [''11'', ''protobuf'', ''wire_msg_id=211'']"
  by code_simp+

definition status_event_of :: "float_text \<Rightarrow> inboundOrderProtoSummary \<Rightarrow> OrderLifecycleEvent \<Rightarrow> bool" where
  "status_event_of F s ev \<longleftrightarrow>
     ev_Type ev = OrderLifecycleEventStatus \<and> ev_OrderID ev = in_orderID s \<and> ev_PermID ev = in_permID s \<and>
     ev_ClientID ev = in_clientID s \<and> ev_ClientIDPresent ev \<and> ev_ParentID ev = (if in_parentIDKnown s then Some (in_parentID s) else None) \<and>
     ev_Status ev = TrimSpace (in_status s) \<and>
     ev_Filled (ev_fill ev) = orderEventFloat F (ix_filled (in_fill s)) \<and> ev_Remaining (ev_fill ev) = orderEventFloat F (ix_remaining (in_fill s)) \<and>
     (\<not> f64_IsNaN (ix_avgFillPrice (in_fill s)) \<longrightarrow> ev_AvgFillPrice (ev_fill ev) = ix_avgFillPrice (in_fill s)) \<and>
     (\<not> f64_IsNaN (ix_lastFillPrice (in_fill s)) \<longrightarrow> ev_LastFillPrice (ev_fill ev) = ix_lastFillPrice (in_fill s)) \<and>
     ev_WhyHeld (ev_fill ev) = TrimSpace (ix_whyHeld (in_fill s))"

definition ids64 :: "inboundOrderProtoSummary \<Rightarrow> bool" where
  "ids64 s \<longleftrightarrow> int64 (in_orderID s) \<and> int64 (in_requestID s) \<and> int64 (in_permID s) \<and> int64 (in_parentID s) \<and> int64 (in_clientID s) \<and>
     int64 (ic_conID (in_contract s)) \<and> int64 (it_triggerMethod (in_terms s)) \<and> int64 (it_ocaType (in_terms s))"

lemma float_read_back:
  assumes "float_text_ok F"
  shows "\<not> f64_IsNaN x \<Longrightarrow> orderEventFloat F (FormatFloat F x) = x"
  using assms by (simp add: float_text_ok_def orderEventFloat_def)

lemma status_read_back:
  assumes "ids64 s" and "float_text_ok F"
  shows "status_event_of F s (order_status_event F (order_status_rows F s))"
  using assms
  by (cases "in_parentIDKnown s")
     (simp_all add: status_event_of_def order_status_event_def order_status_rows_def parent_row_def base_rows HasPrefix_def Let_def ids64_def
       orderEventParentID_def float_read_back)


definition open_order_event_of :: "float_text \<Rightarrow> inboundOrderProtoSummary \<Rightarrow> OrderLifecycleEvent \<Rightarrow> bool" where
  "open_order_event_of F s ev \<longleftrightarrow>
     ev_Type ev = OrderLifecycleEventOpenOrder \<and> ev_OrderID ev = in_orderID s \<and> ev_PermID ev = in_permID s \<and>
     ev_ClientID ev = in_clientID s \<and> ev_ClientIDPresent ev \<and> ev_ParentID ev = (if in_parentIDKnown s then Some (in_parentID s) else None) \<and>
     ev_Status ev = TrimSpace (in_status s) \<and> ev_OrderRef ev = TrimSpace (in_orderRef s) \<and> ev_Account ev = TrimSpace (it_account (in_terms s)) \<and>
     ev_ConID (ev_contract ev) = ic_conID (in_contract s) \<and> ev_Symbol (ev_contract ev) = ToUpper (TrimSpace (ic_symbol (in_contract s))) \<and>
     ev_SecType (ev_contract ev) = ToUpper (TrimSpace (ic_secType (in_contract s))) \<and>
     ev_Action (ev_terms ev) = ToUpper (TrimSpace (it_action (in_terms s))) \<and>
     ev_TotalQuantity (ev_terms ev) = orderEventFloat F (it_quantity (in_terms s)) \<and>
     ev_OrderType (ev_terms ev) = ToUpper (TrimSpace (it_orderType (in_terms s))) \<and>
     (\<not> f64_IsNaN (it_lmtPrice (in_terms s)) \<longrightarrow> ev_LimitPrice (ev_terms ev) = it_lmtPrice (in_terms s)) \<and>
     (\<not> f64_IsNaN (it_auxPrice (in_terms s)) \<longrightarrow> ev_AuxPrice (ev_terms ev) = it_auxPrice (in_terms s)) \<and>
     ev_TIF (ev_terms ev) = ToUpper (TrimSpace (it_tif (in_terms s))) \<and>
     ev_OutsideRth (ev_terms ev) = it_outsideRth (in_terms s) \<and> ev_WhatIf (ev_terms ev) = it_whatIf (in_terms s) \<and>
     ev_OcaGroup (ev_terms ev) = TrimSpace (it_ocaGroup (in_terms s)) \<and> ev_OcaType (ev_terms ev) = it_ocaType (in_terms s) \<and>
     ev_Deactivated (ev_terms ev) = it_deactivated (in_terms s) \<and>
     ev_ModifyTermsKnown (ev_terms ev) = it_modifyTermsKnown (in_terms s) \<and> ev_ModifyUnsupported (ev_terms ev) = it_modifyUnsupported (in_terms s)"

lemma FormatBool_facts [simp]: "EqualFold (FormatBool b) ''true'' = b" "FormatBool b = ''true'' \<longleftrightarrow> b" "ParseBool (FormatBool b) = Some b"
  "FormatBool b \<noteq> []"
  by (cases b; simp add: FormatBool_def ParseBool_def EqualFold_def ToLower_def lower_char_def)+

subsection \<open>Tables of keys and values\<close>

text \<open>A key ends with its only equals sign, so no key is the beginning of another and a lookup in the rows is a lookup
  in the table they were made from.\<close>

definition key :: "string \<Rightarrow> bool" where
  "key k \<longleftrightarrow> k \<noteq> [] \<and> last k = CHR ''='' \<and> CHR ''='' \<notin> set (butlast k)"

definition rows_of :: "(string \<times> string) list \<Rightarrow> string list" where
  "rows_of kvs = map (\<lambda>(k, v). k @ v) kvs"

lemma HasPrefix_key:
  assumes "key k" and "key k'"
  shows "HasPrefix (k @ v) k' \<longleftrightarrow> k = k'"
proof
  assume "HasPrefix (k @ v) k'"
  then obtain r where r: "k @ v = k' @ r" by (metis HasPrefix_def append_take_drop_id)
  obtain t t' where "k = t @ ''=''" "k' = t' @ ''=''" "CHR ''='' \<notin> set t" "CHR ''='' \<notin> set t'"
    using assms by (metis append_butlast_last_id key_def)
  with r show "k = k'" by (auto simp: append_eq_append_conv2 append_eq_Cons_conv Cons_eq_append_conv)
qed (simp add: HasPrefix_def)

lemma summaryFieldValue_rows:
  "list_all key (map fst kvs) \<Longrightarrow> key k \<Longrightarrow> summaryFieldValue (rows_of kvs) k = (case map_of kvs k of None \<Rightarrow> [] | Some v \<Rightarrow> v)"
  by (induction kvs) (auto simp: rows_of_def HasPrefix_key)

lemma orderEventSummaryInt_rows:
  assumes "list_all key (map fst kvs)" and "key k" and "\<And>v. map_of kvs k = Some v \<Longrightarrow> orderEventIntOK v"
  shows "orderEventSummaryInt (rows_of kvs) k = (case map_of kvs k of None \<Rightarrow> (0, False) | Some v \<Rightarrow> (orderEventInt v, True))"
  using assms by (induction kvs) (auto simp: rows_of_def HasPrefix_key split: if_splits)

text \<open>The rows as tables of keys and values.\<close>

definition contract_table :: "float_text \<Rightarrow> inboundOrderProtoSummary \<Rightarrow> (string \<times> string) list" where
  "contract_table F s =
     [(''conId='', Itoa (ic_conID (in_contract s))),
      (''symbol='', ic_symbol (in_contract s)),
      (''secType='', ic_secType (in_contract s)),
      (''expiry='', ic_expiry (in_contract s)),
      (''strike='', FormatFloat F (ic_strike (in_contract s))),
      (''right='', ic_right (in_contract s)),
      (''multiplier='', ic_multiplier (in_contract s)),
      (''exchange='', ic_exchange (in_contract s)),
      (''primaryExch='', ic_primaryExch (in_contract s)),
      (''currency='', ic_currency (in_contract s)),
      (''localSymbol='', ic_localSymbol (in_contract s)),
      (''tradingClass='', ic_tradingClass (in_contract s))]"

definition terms_table :: "float_text \<Rightarrow> inboundOrderProtoSummary \<Rightarrow> (string \<times> string) list" where
  "terms_table F s =
     [(''modifyTermsKnown='', FormatBool (it_modifyTermsKnown (in_terms s))),
      (''modifyUnsupported='', it_modifyUnsupported (in_terms s)),
      (''openClose='', it_openClose (in_terms s)),
      (''algoStrategy='', it_algoStrategy (in_terms s)),
      (''adaptivePriority='', it_adaptivePriority (in_terms s)),
      (''action='', it_action (in_terms s)),
      (''qty='', it_quantity (in_terms s)),
      (''orderType='', it_orderType (in_terms s)),
      (''lmtPrice='', FormatFloat F (it_lmtPrice (in_terms s))),
      (''auxPrice='', FormatFloat F (it_auxPrice (in_terms s))),
      (''trailingPercent='', FormatFloat F (it_trailingPercent (in_terms s))),
      (''trailStopPrice='', FormatFloat F (it_trailStopPrice (in_terms s))),
      (''lmtPriceOffset='', FormatFloat F (it_lmtPriceOffset (in_terms s))),
      (''tif='', it_tif (in_terms s)),
      (''triggerMethod='', Itoa (it_triggerMethod (in_terms s))),
      (''account='', it_account (in_terms s)),
      (''orderRef='', in_orderRef s),
      (''ocaGroup='', it_ocaGroup (in_terms s)),
      (''ocaType='', Itoa (it_ocaType (in_terms s))),
      (''outsideRth='', FormatBool (it_outsideRth (in_terms s))),
      (''whatIf='', FormatBool (it_whatIf (in_terms s))),
      (''transmit='', FormatBool (it_transmit (in_terms s)))]"

definition state_table :: "float_text \<Rightarrow> inboundOrderProtoSummary \<Rightarrow> (string \<times> string) list" where
  "state_table F s =
     [(''status='', in_status s),
      (''initMarginBefore='', stateDouble F (in_state s) 2 (is_initMarginBefore (in_state s))),
      (''maintMarginBefore='', stateDouble F (in_state s) 3 (is_maintMarginBefore (in_state s))),
      (''equityWithLoanBefore='', stateDouble F (in_state s) 4 (is_equityWithLoanBefore (in_state s))),
      (''initMarginChange='', stateDouble F (in_state s) 5 (is_initMarginChange (in_state s))),
      (''maintMarginChange='', stateDouble F (in_state s) 6 (is_maintMarginChange (in_state s))),
      (''equityWithLoanChange='', stateDouble F (in_state s) 7 (is_equityWithLoanChange (in_state s))),
      (''initMarginAfter='', stateDouble F (in_state s) 8 (is_initMarginAfter (in_state s))),
      (''maintMarginAfter='', stateDouble F (in_state s) 9 (is_maintMarginAfter (in_state s))),
      (''equityWithLoanAfter='', stateDouble F (in_state s) 10 (is_equityWithLoanAfter (in_state s))),
      (''commission='', stateDouble F (in_state s) 11 (is_commission (in_state s))),
      (''minCommission='', stateDouble F (in_state s) 12 (is_minCommission (in_state s))),
      (''maxCommission='', stateDouble F (in_state s) 13 (is_maxCommission (in_state s))),
      (''commissionCurrency='', is_commissionCurrency (in_state s)),
      (''marginCurrency='', is_marginCurrency (in_state s)),
      (''rejectReason='', is_rejectReason (in_state s)),
      (''warningText='', is_warningText (in_state s))]"

definition optional_table :: "inboundOrderProtoSummary \<Rightarrow> (string \<times> string) list" where
  "optional_table s = (if in_parentIDKnown s then [(''parentId='', Itoa (in_parentID s))] else []) @
     (case it_deactivated (in_terms s) of None \<Rightarrow> [] | Some b \<Rightarrow> [(''deactivated='', FormatBool b)])"

definition open_order_table :: "float_text \<Rightarrow> inboundOrderProtoSummary \<Rightarrow> (string \<times> string) list" where
  "open_order_table F s =
     [(''orderId='', Itoa (in_orderID s)),
      (''permId='', Itoa (in_permID s)),
      (''clientId='', Itoa (in_clientID s))] @ contract_table F s @ optional_table s @ terms_table F s @ state_table F s"

definition execution_table :: "float_text \<Rightarrow> inboundOrderProtoSummary \<Rightarrow> (string \<times> string) list" where
  "execution_table F s =
     [(''orderId='', Itoa (in_orderID s)),
      (''execId='', ix_execID (in_fill s)),
      (''execTime='', ix_execTime (in_fill s)),
      (''account='', ix_execAccount (in_fill s)),
      (''executionExchange='', ix_executionExchange (in_fill s)),
      (''executionSide='', ix_executionSide (in_fill s)),
      (''shares='', ix_shares (in_fill s)),
      (''price='', FormatFloat F (ix_price (in_fill s))),
      (''permId='', Itoa (in_permID s)),
      (''clientId='', Itoa (in_clientID s)),
      (''cumQty='', ix_cumQty (in_fill s)),
      (''avgFillPrice='', FormatFloat F (ix_avgFillPrice (in_fill s))),
      (''orderRef='', in_orderRef s)]"

lemma table_keys:
  "list_all key (map fst (contract_table F s))" "list_all key (map fst (terms_table F s))" "list_all key (map fst (state_table F s))"
  "list_all key (map fst (execution_table F s))" "list_all key (map fst (optional_table s))"
  by (simp_all add: contract_table_def terms_table_def state_table_def execution_table_def optional_table_def key_def split: option.split)

lemma open_order_keys: "list_all key (map fst (open_order_table F s))"
  using table_keys by (simp add: open_order_table_def key_def)

lemma open_order_rows_table: "open_order_rows F s = [''5'', ''protobuf'', ''wire_msg_id=205''] @ rows_of (open_order_table F s)"
  by (simp add: open_order_rows_def appendOrderSummaryFields_def appendContractSummaryFields_def parent_row_def base_rows
      rows_of_def open_order_table_def contract_table_def optional_table_def terms_table_def state_table_def split: option.split)

lemma proto_rows_lookup:
  assumes "list_all key (map fst kvs)" and "key k" and "k \<noteq> ''wire_msg_id=''" and "key ''wire_msg_id=''" and "CHR ''='' \<notin> set b" and "CHR ''='' \<notin> set c"
  shows "summaryFieldValue (b # c # (''wire_msg_id='' @ n) # rows_of kvs) k = (case map_of kvs k of None \<Rightarrow> [] | Some v \<Rightarrow> v)"
    and "(\<And>v. map_of kvs k = Some v \<Longrightarrow> orderEventIntOK v) \<Longrightarrow>
      orderEventSummaryInt (b # c # (''wire_msg_id='' @ n) # rows_of kvs) k = (case map_of kvs k of None \<Rightarrow> (0, False) | Some v \<Rightarrow> (orderEventInt v, True))"
proof -
  have no: "\<not> HasPrefix x k" if "CHR ''='' \<notin> set x" for x
  proof
    assume "HasPrefix x k"
    then have "set k \<subseteq> set x" by (metis HasPrefix_def set_take_subset)
    moreover have "CHR ''='' \<in> set k" using assms(2) by (metis key_def last_in_set)
    ultimately show False using that by blast
  qed
  have "\<not> HasPrefix (''wire_msg_id='' @ n) k" using HasPrefix_key [OF assms(4,2)] assms(3) by blast
  note skip = no [OF assms(5)] no [OF assms(6)] this
  show "summaryFieldValue (b # c # (''wire_msg_id='' @ n) # rows_of kvs) k = (case map_of kvs k of None \<Rightarrow> [] | Some v \<Rightarrow> v)"
    using skip summaryFieldValue_rows [OF assms(1,2)] by simp
  show "orderEventSummaryInt (b # c # (''wire_msg_id='' @ n) # rows_of kvs) k = (case map_of kvs k of None \<Rightarrow> (0, False) | Some v \<Rightarrow> (orderEventInt v, True))"
    if "\<And>v. map_of kvs k = Some v \<Longrightarrow> orderEventIntOK v"
    using skip orderEventSummaryInt_rows [OF assms(1,2) that] by simp
qed

lemma open_order_lookup:
  assumes "key k" and "k \<noteq> ''wire_msg_id=''"
  shows "summaryFieldValue (open_order_rows F s) k = (case map_of (open_order_table F s) k of None \<Rightarrow> [] | Some v \<Rightarrow> v)"
    and "(\<And>v. map_of (open_order_table F s) k = Some v \<Longrightarrow> orderEventIntOK v) \<Longrightarrow>
      orderEventSummaryInt (open_order_rows F s) k = (case map_of (open_order_table F s) k of None \<Rightarrow> (0, False) | Some v \<Rightarrow> (orderEventInt v, True))"
  using proto_rows_lookup [OF open_order_keys [of F s] assms, of "''5''" "''protobuf''" "''205''"]
  by (simp_all add: open_order_rows_table key_def)

lemma optional_other: "k \<noteq> ''parentId='' \<Longrightarrow> k \<noteq> ''deactivated='' \<Longrightarrow> map_of (optional_table s) k = None"
  by (simp add: optional_table_def split: option.split)

lemmas open_order_tables = open_order_table_def contract_table_def terms_table_def state_table_def map_of_append map_add_def optional_other
  open_order_lookup key_def

lemma open_order_identity:
  "summaryFieldValue (open_order_rows F s) ''orderId='' = Itoa (in_orderID s)"
  "summaryFieldValue (open_order_rows F s) ''permId='' = Itoa (in_permID s)"
  "summaryFieldValue (open_order_rows F s) ''status='' = in_status s"
  "summaryFieldValue (open_order_rows F s) ''orderRef='' = in_orderRef s"
  "summaryFieldValue (open_order_rows F s) ''account='' = it_account (in_terms s)"
  "summaryFieldValue (open_order_rows F s) ''conId='' = Itoa (ic_conID (in_contract s))"
  "summaryFieldValue (open_order_rows F s) ''symbol='' = ic_symbol (in_contract s)"
  "summaryFieldValue (open_order_rows F s) ''secType='' = ic_secType (in_contract s)"
  "summaryFieldValue (open_order_rows F s) ''decode_error='' = []"
  by (simp_all add: open_order_tables)

lemma open_order_prices:
  "summaryFieldValue (open_order_rows F s) ''action='' = it_action (in_terms s)"
  "summaryFieldValue (open_order_rows F s) ''qty='' = it_quantity (in_terms s)"
  "summaryFieldValue (open_order_rows F s) ''orderType='' = it_orderType (in_terms s)"
  "summaryFieldValue (open_order_rows F s) ''lmtPrice='' = FormatFloat F (it_lmtPrice (in_terms s))"
  "summaryFieldValue (open_order_rows F s) ''auxPrice='' = FormatFloat F (it_auxPrice (in_terms s))"
  "summaryFieldValue (open_order_rows F s) ''tif='' = it_tif (in_terms s)"
  by (simp_all add: open_order_tables)

lemma open_order_switches:
  "summaryFieldValue (open_order_rows F s) ''outsideRth='' = FormatBool (it_outsideRth (in_terms s))"
  "summaryFieldValue (open_order_rows F s) ''whatIf='' = FormatBool (it_whatIf (in_terms s))"
  "summaryFieldValue (open_order_rows F s) ''ocaGroup='' = it_ocaGroup (in_terms s)"
  "summaryFieldValue (open_order_rows F s) ''ocaType='' = Itoa (it_ocaType (in_terms s))"
  "summaryFieldValue (open_order_rows F s) ''modifyTermsKnown='' = FormatBool (it_modifyTermsKnown (in_terms s))"
  "summaryFieldValue (open_order_rows F s) ''modifyUnsupported='' = it_modifyUnsupported (in_terms s)"
  by (simp_all add: open_order_tables)

lemma open_order_optional:
  assumes "ids64 s"
  shows "summaryFieldValue (open_order_rows F s) ''deactivated='' = (case it_deactivated (in_terms s) of None \<Rightarrow> [] | Some b \<Rightarrow> FormatBool b)"
    and "orderEventSummaryInt (open_order_rows F s) ''parentId='' = (if in_parentIDKnown s then (in_parentID s, True) else (0, False))"
    and "orderEventSummaryInt (open_order_rows F s) ''clientId='' = (in_clientID s, True)"
proof -
  show "summaryFieldValue (open_order_rows F s) ''deactivated='' = (case it_deactivated (in_terms s) of None \<Rightarrow> [] | Some b \<Rightarrow> FormatBool b)"
    by (simp add: open_order_tables optional_table_def split: option.split)
  have "map_of (open_order_table F s) ''parentId='' = (if in_parentIDKnown s then Some (Itoa (in_parentID s)) else None)"
    and "map_of (open_order_table F s) ''clientId='' = Some (Itoa (in_clientID s))"
    by (simp_all add: open_order_tables optional_table_def split: option.split)
  then show "orderEventSummaryInt (open_order_rows F s) ''parentId='' = (if in_parentIDKnown s then (in_parentID s, True) else (0, False))"
    and "orderEventSummaryInt (open_order_rows F s) ''clientId='' = (in_clientID s, True)"
    using assms by (subst open_order_lookup(2); auto simp: key_def ids64_def split: if_splits)+
qed

lemma open_order_read_back:
  assumes "ids64 s" and "float_text_ok F"
  shows "open_order_event_of F s (open_order_event F (it_deactivated (in_terms s)) (open_order_rows F s))"
  using assms
  by (simp add: open_order_event_of_def open_order_event_def Let_def open_order_identity open_order_prices open_order_switches
      open_order_optional orderEventParentID_def protoSummaryBool_def float_read_back ids64_def split: if_splits)


definition execution_event_of :: "float_text \<Rightarrow> inboundOrderProtoSummary \<Rightarrow> OrderLifecycleEvent \<Rightarrow> bool" where
  "execution_event_of F s ev \<longleftrightarrow>
     ev_Type ev = OrderLifecycleEventExecDetails \<and> ev_OrderID ev = in_orderID s \<and> ev_PermID ev = in_permID s \<and> ev_RequestID ev = in_requestID s \<and>
     ev_ClientID ev = in_clientID s \<and> ev_ClientIDPresent ev \<and> ev_ParentID ev = None \<and>
     ev_OrderRef ev = TrimSpace (in_orderRef s) \<and> ev_Account ev = TrimSpace (ix_execAccount (in_fill s)) \<and>
     ev_ConID (ev_contract ev) = ic_conID (in_contract s) \<and> ev_Symbol (ev_contract ev) = ToUpper (TrimSpace (ic_symbol (in_contract s))) \<and>
     ev_ExecID (ev_fill ev) = TrimSpace (ix_execID (in_fill s)) \<and> ev_ExecutionSide (ev_fill ev) = ToUpper (TrimSpace (ix_executionSide (in_fill s))) \<and>
     ev_Shares (ev_fill ev) = orderEventFloat F (ix_shares (in_fill s)) \<and> ev_CumQty (ev_fill ev) = orderEventFloat F (ix_cumQty (in_fill s)) \<and>
     (\<not> f64_IsNaN (ix_price (in_fill s)) \<longrightarrow> ev_Price (ev_fill ev) = ix_price (in_fill s)) \<and>
     (\<not> f64_IsNaN (ix_avgFillPrice (in_fill s)) \<longrightarrow> ev_AvgFillPrice (ev_fill ev) = ix_avgFillPrice (in_fill s))"

definition exec_table :: "float_text \<Rightarrow> inboundOrderProtoSummary \<Rightarrow> (string \<times> string) list" where
  "exec_table F s = (''reqId='', Itoa (in_requestID s)) # contract_table F s @ execution_table F s"

lemma exec_rows_table: "exec_details_rows F s = [''11'', ''protobuf'', ''wire_msg_id=211''] @ rows_of (exec_table F s)"
  by (simp add: exec_details_rows_def appendContractSummaryFields_def base_rows rows_of_def exec_table_def contract_table_def execution_table_def)

lemma exec_lookup:
  assumes "key k" and "k \<noteq> ''wire_msg_id=''"
  shows "summaryFieldValue (exec_details_rows F s) k = (case map_of (exec_table F s) k of None \<Rightarrow> [] | Some v \<Rightarrow> v)"
    and "(\<And>v. map_of (exec_table F s) k = Some v \<Longrightarrow> orderEventIntOK v) \<Longrightarrow>
      orderEventSummaryInt (exec_details_rows F s) k = (case map_of (exec_table F s) k of None \<Rightarrow> (0, False) | Some v \<Rightarrow> (orderEventInt v, True))"
proof -
  have "list_all key (map fst (exec_table F s))" using table_keys by (simp add: exec_table_def key_def)
  from proto_rows_lookup [OF this assms, of "''11''" "''protobuf''" "''211''"]
  show "summaryFieldValue (exec_details_rows F s) k = (case map_of (exec_table F s) k of None \<Rightarrow> [] | Some v \<Rightarrow> v)"
    and "(\<And>v. map_of (exec_table F s) k = Some v \<Longrightarrow> orderEventIntOK v) \<Longrightarrow>
      orderEventSummaryInt (exec_details_rows F s) k = (case map_of (exec_table F s) k of None \<Rightarrow> (0, False) | Some v \<Rightarrow> (orderEventInt v, True))"
    by (simp_all add: exec_rows_table key_def)
qed

lemma execution_read_back:
  assumes "ids64 s" and "float_text_ok F"
  shows "execution_event_of F s (exec_details_event F (exec_details_rows F s))"
proof -
  have "orderEventSummaryInt (exec_details_rows F s) ''clientId='' = (in_clientID s, True)"
    using assms(1) by (subst exec_lookup(2)) (auto simp: key_def exec_table_def contract_table_def execution_table_def ids64_def)
  then show ?thesis using assms
    by (simp add: execution_event_of_def exec_details_event_def Let_def exec_lookup(1) key_def exec_table_def contract_table_def execution_table_def
        float_read_back ids64_def)
qed

subsection \<open>Decoded identifiers fit an int\<close>

lemma forEachProtoField_invariant:
  assumes "\<And>f w v s s'. fn f w v s = Inr s' \<Longrightarrow> P s \<Longrightarrow> P s'"
  shows "forEachProtoField buf fn s = Inr s' \<Longrightarrow> P s \<Longrightarrow> P s'"
proof (induction "length buf" arbitrary: buf s rule: less_induct)
  case less
  show ?case
  proof (cases "buf = []")
    case False
    then obtain f w v rest s1 where nx: "next_proto_field buf = Inr (f, w, v, rest)" and fn: "fn f w v s = Inr s1"
      and rest: "forEachProtoField rest fn s1 = Inr s'"
      using less.prems(1) by (subst (asm) forEachProtoField.simps) (auto split: sum.splits)
    have "length rest < length buf" using next_proto_field_shorter [OF nx] by simp
    then show ?thesis using less.hyps rest assms [OF fn less.prems(2)] by blast
  qed (use less.prems in simp)
qed

lemma set_varint_Inr: "set_varint f w v g = Inr s' \<Longrightarrow> \<exists>x. s' = g x"
  by (cases "protoVarintValue f w v") (auto simp: set_varint_def)

lemma setProtoDouble_Inr: "setProtoDouble f w v g = Inr s' \<Longrightarrow> \<exists>x. s' = g x"
  by (cases "protoFixed64Value f w v") (auto simp: setProtoDouble_def)

lemma int64_int32 [simp]: "int64 (sint (x :: 32 word))"
  using sint_greater_eq [of x] sint_less [of x] by (simp add: int64_def)

lemma ids64_updates [simp]:
  "ids64 (upd_fill g s) \<longleftrightarrow> ids64 s" "ids64 (upd_state h s) \<longleftrightarrow> ids64 s"
  "ids64 s \<Longrightarrow> int64 (ic_conID (c (in_contract s))) \<Longrightarrow> ids64 (upd_contract c s)"
  "ids64 s \<Longrightarrow> int64 (it_triggerMethod (t (in_terms s))) \<Longrightarrow> int64 (it_ocaType (t (in_terms s))) \<Longrightarrow> ids64 (upd_terms t s)"
  "ids64 (s\<lparr>in_status := x\<rparr>) \<longleftrightarrow> ids64 s" "ids64 (s\<lparr>in_orderRef := x\<rparr>) \<longleftrightarrow> ids64 s"
  "ids64 s \<Longrightarrow> int64 n \<Longrightarrow> ids64 (s\<lparr>in_orderID := n\<rparr>)" "ids64 s \<Longrightarrow> int64 n \<Longrightarrow> ids64 (s\<lparr>in_permID := n\<rparr>)"
  "ids64 s \<Longrightarrow> int64 n \<Longrightarrow> ids64 (s\<lparr>in_clientID := n\<rparr>)" "ids64 s \<Longrightarrow> int64 n \<Longrightarrow> ids64 (s\<lparr>in_requestID := n\<rparr>)"
  "ids64 s \<Longrightarrow> int64 n \<Longrightarrow> ids64 (s\<lparr>in_parentID := n, in_parentIDKnown := b\<rparr>)"
  by (simp_all add: ids64_def upd_fill_def upd_state_def upd_contract_def upd_terms_def)

lemma ids64_parts: "ids64 s \<Longrightarrow> int64 (ic_conID (in_contract s))" "ids64 s \<Longrightarrow> int64 (it_triggerMethod (in_terms s))"
  "ids64 s \<Longrightarrow> int64 (it_ocaType (in_terms s))"
  by (simp_all add: ids64_def)

lemma status_field_ids64: "order_status_field f w v s = Inr s' \<Longrightarrow> ids64 s \<Longrightarrow> ids64 s'"
  by (auto simp: order_status_field_def dest!: set_varint_Inr setProtoDouble_Inr split: if_splits)

lemma contract_field_ids64: "inbound_contract_field F f w v s = Inr s' \<Longrightarrow> ids64 s \<Longrightarrow> ids64 s'"
  by (auto simp: inbound_contract_field_def ids64_parts dest!: set_varint_Inr setProtoDouble_Inr split: if_splits)

lemma execution_field_ids64: "inbound_execution_field f w v s = Inr s' \<Longrightarrow> ids64 s \<Longrightarrow> ids64 s'"
  by (auto simp: inbound_execution_field_def dest!: set_varint_Inr setProtoDouble_Inr split: if_splits)

lemma state_field_ids64: "inbound_state_field f w v s = Inr s' \<Longrightarrow> ids64 s \<Longrightarrow> ids64 s'"
  by (auto simp: inbound_state_field_def set_state_double_def dest!: set_varint_Inr setProtoDouble_Inr split: if_splits)

lemma algo_params_ids64: "algo_params w v s = Inr s' \<Longrightarrow> ids64 s \<Longrightarrow> ids64 s'"
  by (cases "forEachProtoField v algo_param_field ([], [])") (auto simp: algo_params_def ids64_parts split: if_splits)

lemma order_field_ids64: "inbound_order_assign f w v s = Inr s' \<Longrightarrow> ids64 s \<Longrightarrow> ids64 s'"
  unfolding inbound_order_assign_def
  by (auto simp: ids64_parts dest!: set_varint_Inr setProtoDouble_Inr algo_params_ids64 split: if_splits sum.splits)


lemma zero_inbound_ids64: "ids64 zero_inbound"
  by (simp add: ids64_def zero_inbound_def int64_def)

lemma contract_ids64: "parseInboundContractProto F v s = Inr s' \<Longrightarrow> ids64 s \<Longrightarrow> ids64 s'"
  unfolding parseInboundContractProto_def by (rule forEachProtoField_invariant [OF contract_field_ids64])

lemma execution_ids64: "parseInboundExecutionProto v s = Inr s' \<Longrightarrow> ids64 s \<Longrightarrow> ids64 s'"
  unfolding parseInboundExecutionProto_def by (rule forEachProtoField_invariant [OF execution_field_ids64])

lemma state_ids64: "parseInboundOrderStateProto v s = Inr s' \<Longrightarrow> ids64 s \<Longrightarrow> ids64 s'"
  unfolding parseInboundOrderStateProto_def by (rule forEachProtoField_invariant [OF state_field_ids64])

lemma order_ids64: "parseInboundOrderProto v s = Inr s' \<Longrightarrow> ids64 s \<Longrightarrow> ids64 s'"
  unfolding parseInboundOrderProto_def
  by (erule forEachProtoField_invariant [rotated])
     (auto simp: inbound_order_field_def ids64_parts intro: order_field_ids64 split: if_splits)

lemma decoded_ids64:
  "parseOrderStatusProtoCallback body = Inr s \<Longrightarrow> ids64 s"
  "parseOpenOrderProtoCallback F body = Inr s \<Longrightarrow> ids64 s"
  "parseExecDetailsProtoCallback F body = Inr s \<Longrightarrow> ids64 s"
proof -
  show "parseOrderStatusProtoCallback body = Inr s \<Longrightarrow> ids64 s"
    unfolding parseOrderStatusProtoCallback_def using forEachProtoField_invariant [of order_status_field ids64] status_field_ids64 zero_inbound_ids64 by blast
  have "exec_details_field F f w v s = Inr s' \<Longrightarrow> ids64 s \<Longrightarrow> ids64 s'" for f w v s s'
    by (auto simp: exec_details_field_def intro: contract_ids64 execution_ids64 dest!: set_varint_Inr split: if_splits)
  then show "parseExecDetailsProtoCallback F body = Inr s \<Longrightarrow> ids64 s"
    unfolding parseExecDetailsProtoCallback_def using forEachProtoField_invariant [of "exec_details_field F" ids64] zero_inbound_ids64 by blast
  have "open_order_field F f w v s = Inr s' \<Longrightarrow> ids64 s \<Longrightarrow> ids64 s'" for f w v s s'
    by (auto simp: open_order_field_def intro: contract_ids64 order_ids64 state_ids64 dest!: set_varint_Inr split: if_splits)
  then have "forEachProtoField body (open_order_field F) zero_inbound = Inr r \<Longrightarrow> ids64 r" for r
    using forEachProtoField_invariant [of "open_order_field F" ids64] zero_inbound_ids64 by blast
  then show "parseOpenOrderProtoCallback F body = Inr s \<Longrightarrow> ids64 s"
    by (cases "forEachProtoField body (open_order_field F) zero_inbound") (auto simp: parseOpenOrderProtoCallback_def ids64_parts split: if_splits)
qed

subsection \<open>Properties\<close>

lemma dispatch_by_id:
  "ParseOrderLifecycleEvent F (''3'' # ''protobuf'' # rows) = parseOrderStatusProtoEvent F (''3'' # ''protobuf'' # rows)"
  "ParseOrderLifecycleEvent F (''5'' # ''protobuf'' # rows) = parseOpenOrderProtoEvent F (''5'' # ''protobuf'' # rows)"
  "ParseOrderLifecycleEvent F (''11'' # ''protobuf'' # rows) = parseExecDetailsProtoEvent F (''11'' # ''protobuf'' # rows)"
proof -
  have "Atoi (TrimSpace ''3'') = (3, True)" "Atoi (TrimSpace ''5'') = (5, True)" "Atoi (TrimSpace ''11'') = (11, True)" by code_simp+
  then show "ParseOrderLifecycleEvent F (''3'' # ''protobuf'' # rows) = parseOrderStatusProtoEvent F (''3'' # ''protobuf'' # rows)"
    "ParseOrderLifecycleEvent F (''5'' # ''protobuf'' # rows) = parseOpenOrderProtoEvent F (''5'' # ''protobuf'' # rows)"
    "ParseOrderLifecycleEvent F (''11'' # ''protobuf'' # rows) = parseExecDetailsProtoEvent F (''11'' # ''protobuf'' # rows)"
    by (simp_all add: ParseOrderLifecycleEvent_def orderEventInt_def orderEventIntOK_def msgOpenOrder_def msgOrderStatus_def msgExecDetails_def
        parseOrderStatusEvent_def parseOpenOrderEvent_def parseExecDetailsEvent_def is_proto_def)
qed

lemma order_status_rows_head: "order_status_rows F s = ''3'' # ''protobuf'' # drop 2 (order_status_rows F s)"
  by (simp add: order_status_rows_def base_rows)

lemma rows_heads:
  "open_order_rows F s = ''5'' # ''protobuf'' # drop 2 (open_order_rows F s)"
  "exec_details_rows F s = ''11'' # ''protobuf'' # drop 2 (exec_details_rows F s)"
  by (simp_all add: open_order_rows_table exec_rows_table)

lemma event_of_rows:
  "ParseOrderLifecycleEvent F (order_status_rows F s) = parseOrderStatusProtoEvent F (order_status_rows F s)"
  "ParseOrderLifecycleEvent F (open_order_rows F s) = parseOpenOrderProtoEvent F (open_order_rows F s)"
  "ParseOrderLifecycleEvent F (exec_details_rows F s) = parseExecDetailsProtoEvent F (exec_details_rows F s)"
  using dispatch_by_id order_status_rows_head rows_heads by metis+


text \<open>A codec for the example: the decimal text of the bit pattern.\<close>

definition sample_text :: float_text where
  "sample_text = \<lparr>FormatFloat = (\<lambda>x. digits10 (unat x)), ParseFloat = (\<lambda>t. word_of_nat (decimal_value 0 t))\<rparr>"

lemma sample_text_ok: "float_text_ok sample_text"
proof -
  have "TrimSpace (digits10 n) = digits10 n" for n
    using TrimSpace_Itoa [of "int n"] by (simp add: Itoa_def)
  then show ?thesis by (simp add: float_text_ok_def sample_text_def)
qed

definition sample_status :: bytes where
  "sample_status = protoAppendInt64 (protoAppendString (protoAppendInt32 [] 1 7) 2 ''Submitted'') 6 900"


text \<open>C22. A callback whose body does not decode gives no event at all: nothing of a damaged frame is taken for broker
  evidence.\<close>

theorem damaged_callbacks_give_no_event:
  "(case parseOrderStatusProtoCallback body of Inl _ \<Rightarrow> ParseOrderLifecycleEvent F (summarizeOrderStatusProtoCallback F body) = None | Inr _ \<Rightarrow> True) \<and>
   (case parseOpenOrderProtoCallback F body of Inl _ \<Rightarrow> ParseOrderLifecycleEvent F (summarizeOpenOrderProtoCallback F body) = None | Inr _ \<Rightarrow> True) \<and>
   (case parseExecDetailsProtoCallback F body of Inl _ \<Rightarrow> ParseOrderLifecycleEvent F (summarizeExecDetailsProtoCallback F body) = None | Inr _ \<Rightarrow> True)"
proof -
  have none: "orderEventInt [] = 0" "TrimSpace [] = []" by code_simp+
  show ?thesis
    by (simp add: summarizeOrderStatusProtoCallback_def summarizeOpenOrderProtoCallback_def summarizeExecDetailsProtoCallback_def base_rows
        dispatch_by_id parseOrderStatusProtoEvent_def parseOpenOrderProtoEvent_def parseExecDetailsProtoEvent_def exec_identified_def
        order_status_event_def open_order_event_def exec_details_event_def Let_def HasPrefix_def none split: sum.split)
qed

subsection \<open>The echo of an order\<close>

lemma has_value_written [simp]:
  "protoOrderFieldHasValue f protoWireVarint (uvarint_bytes x) \<longleftrightarrow> x \<noteq> 0 \<and> x \<noteq> 2147483647 \<and> \<not> (f = 72 \<and> sint (ucast x :: 32 word) = -1)"
  "protoOrderFieldHasValue f protoWireFixed64 (LittleEndian_AppendUint64 [] d) \<longleftrightarrow> f64_nonzero d \<and> \<not> f64_eq d f64_MaxFloat64"
  "protoOrderFieldHasValue f protoWireBytes v \<longleftrightarrow> v \<noteq> []"
  by (simp_all add: protoOrderFieldHasValue_def protoVarintValue_written protoFixed64Value_written)
     (simp_all add: protoWireVarint_def protoWireFixed64_def protoWireBytes_def)

lemma zero_words: "scast (go_int32 0) = (0 :: 64 word)" "scast (go_int32 (-1)) = (-1 :: 64 word)" "go_int 0 = 0"
  "sint (ucast (-1 :: 64 word) :: 32 word) = -1" "f64_eq 0 0"
  by (simp_all add: go_int32_def go_int_def f64_eq_def) code_simp

lemma sized_less: "sized xs \<Longrightarrow> length ys \<le> length xs \<Longrightarrow> sized ys"
  by (simp add: sized_def)

lemma adaptive_entry_segments: "adaptive_entry p = string_field 1 ''adaptivePriority'' @ string_field 2 p"
  by (simp add: adaptive_entry_def append_segments)

lemma algo_params_echo:
  assumes "sized (adaptive_entry p)" and "it_adaptivePriority (in_terms s) = []"
  shows "algo_params protoWireBytes (adaptive_entry p) s = Inr (upd_terms (\<lambda>t. t\<lparr>it_adaptivePriority := p\<rparr>) s)"
proof -
  have "sized p" and "sized ''adaptivePriority''" using assms(1) sized_parts(4) sized_append unfolding adaptive_entry_segments by blast+
  then have "forEachProtoField (adaptive_entry p) algo_param_field ([], []) = Inr (''adaptivePriority'', p)"
    by (cases "p = []") (simp_all add: adaptive_entry_segments forEach_string forEach_string_last algo_param_field_def)
  then show ?thesis using assms(2) by (simp add: algo_params_def)
qed

lemma limit_order_facts:
  assumes "validatePlaceOrderProtoSupported (Some ord) = None" and "ToUpper (TrimSpace (ord_OrderType ord)) = ''LMT''"
  shows "ord_ParentID ord = 0" and "ord_TriggerMethod ord = 0" and "f64_eq (ord_AuxPrice ord) 0" and "f64_eq (ord_TrailStopPrice ord) 0"
    and "f64_eq (ord_TrailingPercent ord) 0" and "f64_eq (ord_LmtPriceOffset ord) 0"
    and "oo_PermID (ord_counts ord) = 0" and "oo_DisplaySize (ord_counts ord) = 0" and "oo_DeltaNeutralConID (ord_counts ord) = 0"
    and "oo_DeltaNeutralShortSaleSlot (ord_counts ord) = 0" and "oo_ShortSaleSlot (ord_counts ord) = 0"
    and "f64_eq (oo_DiscretionaryAmt (ord_amounts ord)) 0"
proof -
  note checks = supported_checks [OF assms(1)]
  show "ord_ParentID ord = 0" using checks(18) assms(2) by simp
  show "ord_TriggerMethod ord = 0" using checks(5) assms(2) by (simp add: validatePlaceOrderTriggerMethod_def split: if_splits)
  show "f64_eq (ord_AuxPrice ord) 0" "f64_eq (ord_TrailStopPrice ord) 0" "f64_eq (ord_TrailingPercent ord) 0" "f64_eq (ord_LmtPriceOffset ord) 0"
    using checks(6) assms(2) by (simp_all add: validateProtoOrderTypePrices_def)
  show "oo_PermID (ord_counts ord) = 0" "oo_DisplaySize (ord_counts ord) = 0" "oo_DeltaNeutralConID (ord_counts ord) = 0"
    "oo_DeltaNeutralShortSaleSlot (ord_counts ord) = 0" "oo_ShortSaleSlot (ord_counts ord) = 0"
    using checks(13) by (simp_all add: refuse_populated_None unsupported_counts_def)
  show "f64_eq (oo_DiscretionaryAmt (ord_amounts ord)) 0" using checks(14) by (simp add: refuse_populated_None unsupported_amounts_def)
qed

definition echo_terms :: "IBKROrder \<Rightarrow> inbound_terms" where
  "echo_terms ord = \<lparr>it_modifyTermsKnown = True, it_modifyUnsupported = [], it_openClose = ord_OpenClose ord, it_deactivated = None,
     it_algoStrategy = (if ord_AdaptivePriority ord = [] then [] else ''Adaptive''), it_adaptivePriority = ord_AdaptivePriority ord,
     it_action = ToUpper (ord_Action ord), it_quantity = Itoa (ord_TotalQty ord), it_orderType = ToUpper (ord_OrderType ord),
     it_lmtPrice = (if f64_nonzero (ord_LmtPrice ord) \<or> ord_LmtPriceSet ord then ord_LmtPrice ord else 0),
     it_auxPrice = 0, it_trailingPercent = 0, it_trailStopPrice = 0, it_lmtPriceOffset = 0, it_tif = ToUpper (ord_TIF ord), it_triggerMethod = 0,
     it_account = ord_Account ord, it_ocaGroup = ord_OcaGroup ord, it_ocaType = go_int (scast (go_int32 (ord_OcaType ord))),
     it_outsideRth = ord_OutsideRth ord, it_whatIf = False, it_transmit = ord_Transmit ord\<rparr>"

lemma order_msg_sized:
  assumes "encodePlaceOrderOrderProto ord = Inr msg" and "sized msg"
  shows "sized (ToUpper (ord_Action ord))" "sized (Itoa (ord_TotalQty ord))" "sized (ToUpper (ord_OrderType ord))"
    "sized (ToUpper (ord_TIF ord))" "sized (ord_Account ord)" "sized (ord_OcaGroup ord)" "sized (ord_OrderRef ord)" "sized (ord_OpenClose ord)"
    "sized (if ord_AdaptivePriority ord \<noteq> [] then string_field 61 ''Adaptive'' @ chunk_field 62 (adaptive_entry (ord_AdaptivePriority ord)) else [])"
  using assms by (auto simp: order_segments simp del: append_assoc dest!: sized_append dest: sized_parts split del: if_split)

lemma order_echo:
  assumes ok: "validatePlaceOrderProtoSupported (Some ord) = None" and lmt: "ToUpper (TrimSpace (ord_OrderType ord)) = ''LMT''"
    and live: "\<not> ord_WhatIf ord" "ord_Origin ord = 0" and enc: "encodePlaceOrderOrderProto ord = Inr msg" and sz: "sized msg"
  shows "parseInboundOrderProto msg zero_inbound = Inr (zero_inbound\<lparr>in_clientID := ord_ClientID ord, in_parentIDKnown := True,
    in_orderRef := ord_OrderRef ord, in_terms := echo_terms ord\<rparr>)"
proof -
  have msg: "Inr msg = encodePlaceOrderOrderProto ord" by (simp add: enc)
  note sizes = order_msg_sized [OF enc sz]
  have ad: "sized (adaptive_entry (ord_AdaptivePriority ord))" if "ord_AdaptivePriority ord \<noteq> []"
    using sizes(9) that by (auto dest!: sized_append dest: sized_parts)
  have "sized ''Adaptive''" by (simp add: sized_def)
  note walk = order_segments read_segments forEach_string zero_words inbound_order_field_def inbound_order_assign_def twsModifySupportedField_def
    zero_inbound_def echo_terms_def upd_terms_def algo_params_echo
  have "parseInboundOrderProto msg zero_inbound = parseInboundOrderProto (projr (encodePlaceOrderOrderProto ord)) zero_inbound"
    by (simp flip: msg)
  also have "\<dots> = Inr (zero_inbound\<lparr>in_clientID := ord_ClientID ord, in_parentIDKnown := True,
    in_orderRef := ord_OrderRef ord, in_terms := echo_terms ord\<rparr>)"
    using limit_order_facts [OF ok lmt] live sizes(1-8) ad supported_ids(2) [OF ok] \<open>sized ''Adaptive''\<close>
    by (cases "ord_AdaptivePriority ord = []") (simp_all add: parseInboundOrderProto_def walk split del: if_split)
  finally show ?thesis .
qed



end
