(* ===== verification/Order_Journal.thy ===== *)
theory Order_Journal
  imports Order_Callback
begin

text \<open>
  The order journal's data and the meaning of its events: the record types of \<^verbatim>\<open>internal/daemon/order_journal.go\<close> and
  \<^verbatim>\<open>internal/rpc\<close>, the classification of broker statuses and the translation of a broker callback into a journal event
  (\<^verbatim>\<open>internal/daemon/order_read_model.go\<close>), and the keys by which events and rows are identified.
  \<^item> \<open>orderJournalEvent\<close> and \<open>OrderView\<close> hold the fields that the pairing and the read model read or write; contract and mutable
    order terms are grouped. Review, bond, strategy and fee evidence is carried along untouched by that code and left out.
  \<^item> A lifecycle is a \<open>datatype\<close>; \<open>OrderLifecycleUnset\<close> is the empty string of a row that is still being folded.
\<close>

subsection \<open>Events and rows\<close>

record AttachedStockStop =
  as_Price :: float64

record StockEntryLink =
  sl_PairRef :: string
  sl_ParentRef :: string
  sl_ParentID :: int
  sl_EntryQuantity :: int

record OrderTrailSpec =
  trail_Basis :: string
  trail_OffsetType :: string
  trail_TrailingPercent :: "float64 option"
  trail_TrailingAmount :: "float64 option"
  trail_InitialStopPrice :: float64
  trail_LimitOffset :: "float64 option"

record contract_terms =
  oc_ConID :: int
  oc_Symbol :: string
  oc_SecType :: string
  oc_Exchange :: string
  oc_PrimaryExch :: string
  oc_Currency :: string
  oc_LocalSymbol :: string
  oc_TradingClass :: string
  oc_Expiry :: string
  oc_Strike :: float64
  oc_Right :: string
  oc_Multiplier :: int

record mutable_terms =
  ot_Action :: string
  ot_OrderType :: string
  ot_TIF :: string
  ot_TriggerMethod :: int
  ot_OutsideRTH :: bool
  ot_Quantity :: float64
  ot_LimitPrice :: float64
  ot_Trail :: "OrderTrailSpec option"
  ot_OpenClose :: string

text \<open>The lifecycle of an order row.\<close>

datatype OrderLifecycle =
    OrderLifecycleUnset | OrderLifecyclePreviewed | OrderLifecyclePendingSubmit | OrderLifecyclePreSubmitted | OrderLifecycleSubmitted | OrderLifecyclePartiallyFilled
  | OrderLifecycleFilled | OrderLifecyclePendingCancel | OrderLifecycleCancelled | OrderLifecycleRejected | OrderLifecycleInactive
  | OrderLifecycleDeactivated | OrderLifecycleUnknownReconcileRequired | OrderLifecycleExpiredInferred | OrderLifecycleClosedReconciled

record orderJournalEvent =
  je_AttachedStop :: "AttachedStockStop option"
  je_EntryLink :: "StockEntryLink option"
  je_FixedStopPrice :: float64
  je_BrokerParentID :: "int option"
  je_Deactivated :: "bool option"
  je_AlgoStrategy :: string
  je_AlgoKnown :: bool
  je_AdaptivePriority :: string
  je_At :: gotime
  je_Type :: string
  je_OrderRef :: string
  je_PreviewTokenID :: string
  je_ReservedOrderID :: int
  je_ClientID :: int
  je_clientIDPresent :: bool
  je_PermID :: int
  je_Account :: string
  je_Endpoint :: string
  je_Mode :: string
  je_Source :: string
  je_Origin :: string
  je_PurgeID :: string
  je_LegID :: string
  je_BypassPreview :: bool
  je_OCAGroup :: string
  je_OCAType :: int
  je_Status :: string
  je_Filled :: float64
  je_Remaining :: float64
  je_AvgFillPrice :: float64
  je_LastFillPrice :: float64
  je_WhyHeld :: string
  je_MktCapPrice :: float64
  je_ExecID :: string
  je_ExecTime :: string
  je_ExecShares :: float64
  je_ExecSide :: string
  je_ErrorCode :: int
  je_SendState :: string
  je_AttemptID :: string
  je_ActionKind :: string
  je_SendDisposition :: string
  je_Message :: string
  je_contract :: contract_terms
  je_terms :: mutable_terms

record OrderView =
  ov_AttachedStop :: "AttachedStockStop option"
  ov_EntryLink :: "StockEntryLink option"
  ov_FixedStopPrice :: float64
  ov_BrokerParentID :: "int option"
  ov_EntryState :: string
  ov_Deactivated :: "bool option"
  ov_AlgoStrategy :: string
  ov_AlgoKnown :: bool
  ov_AdaptivePriority :: string
  ov_OrderRef :: string
  ov_PreviewTokenID :: string
  ov_ReservedOrderID :: int
  ov_ClientID :: int
  ov_PermID :: int
  ov_Account :: string
  ov_Endpoint :: string
  ov_Mode :: string
  ov_Source :: string
  ov_PurgeID :: string
  ov_LegID :: string
  ov_BypassPreview :: bool
  ov_contract :: contract_terms
  ov_terms :: mutable_terms
  ov_OCAGroup :: string
  ov_OCAType :: int
  ov_Status :: string
  ov_LifecycleStatus :: OrderLifecycle
  ov_Filled :: float64
  ov_Remaining :: float64
  ov_AvgFillPrice :: float64
  ov_LastFillPrice :: float64
  ov_WhyHeld :: string
  ov_MktCapPrice :: float64
  ov_SendState :: string
  ov_LastEvent :: string
  ov_LastErrorCode :: int
  ov_LastMessage :: string
  ov_UpdatedAt :: gotime
  ov_Open :: bool
  ov_ModifyEligible :: bool
  ov_CancelEligible :: bool
  ov_Origin :: string

definition orderJournalEventPreviewed :: string where "orderJournalEventPreviewed = ''previewed''"
definition orderJournalEventTokenConfirmed :: string where "orderJournalEventTokenConfirmed = ''token-confirmed''"
definition orderJournalEventSendAttempted :: string where "orderJournalEventSendAttempted = ''send-attempted''"
definition orderJournalEventSendCompleted :: string where "orderJournalEventSendCompleted = ''send-completed''"
definition orderJournalEventSendError :: string where "orderJournalEventSendError = ''send-error''"
definition orderJournalEventBrokerError :: string where "orderJournalEventBrokerError = ''broker-error''"
definition orderJournalEventBrokerAcknowledged :: string where "orderJournalEventBrokerAcknowledged = ''broker-acknowledged''"
definition orderJournalEventStatusUpdated :: string where "orderJournalEventStatusUpdated = ''status-updated''"
definition orderJournalEventModifyRequested :: string where "orderJournalEventModifyRequested = ''modify-requested''"
definition orderJournalEventCancelRequested :: string where "orderJournalEventCancelRequested = ''cancel-requested''"
definition orderJournalEventReconciledUnknown :: string where "orderJournalEventReconciledUnknown = ''reconciled-unknown''"
definition orderJournalEventReconciledAbsent :: string where "orderJournalEventReconciledAbsent = ''reconciled-absent''"
definition orderSendStateReserved :: string where "orderSendStateReserved = ''reserved''"
definition orderSendStateSendAttempted :: string where "orderSendStateSendAttempted = ''send_attempted''"
definition orderSendStateBrokerAcknowledged :: string where "orderSendStateBrokerAcknowledged = ''broker_acknowledged''"
definition orderSendStateUncertainSend :: string where "orderSendStateUncertainSend = ''uncertain_send''"
definition orderSendStateTerminal :: string where "orderSendStateTerminal = ''terminal''"

definition ActionPlace :: string where "ActionPlace = ''place''"
definition ActionModify :: string where "ActionModify = ''modify''"
definition ActionCancel :: string where "ActionCancel = ''cancel''"
definition ActionPurge :: string where "ActionPurge = ''purge''"
definition ActionRestore :: string where "ActionRestore = ''restore''"
definition ActionExercise :: string where "ActionExercise = ''exercise''"
definition ActionSmokeCleanup :: string where "ActionSmokeCleanup = ''smoke_cleanup''"
definition SendDispositionDefinitelyUnsent :: string where "SendDispositionDefinitelyUnsent = ''definitely_unsent''"
definition SendDispositionMayHaveWritten :: string where "SendDispositionMayHaveWritten = ''may_have_written''"
definition SendDispositionUnknown :: string where "SendDispositionUnknown = ''unknown''"

text \<open>The zero values of Go.\<close>

definition zero_contract :: contract_terms where
  "zero_contract = \<lparr>oc_ConID = 0, oc_Symbol = [], oc_SecType = [], oc_Exchange = [], oc_PrimaryExch = [], oc_Currency = [], oc_LocalSymbol = [],
     oc_TradingClass = [], oc_Expiry = [], oc_Strike = 0, oc_Right = [], oc_Multiplier = 0\<rparr>"

definition zero_terms :: mutable_terms where
  "zero_terms = \<lparr>ot_Action = [], ot_OrderType = [], ot_TIF = [], ot_TriggerMethod = 0, ot_OutsideRTH = False, ot_Quantity = 0, ot_LimitPrice = 0,
     ot_Trail = None, ot_OpenClose = []\<rparr>"

definition zero_event :: orderJournalEvent where
  "zero_event = \<lparr>je_AttachedStop = None, je_EntryLink = None, je_FixedStopPrice = 0, je_BrokerParentID = None, je_Deactivated = None,
     je_AlgoStrategy = [], je_AlgoKnown = False, je_AdaptivePriority = [], je_At = zero_time, je_Type = [], je_OrderRef = [], je_PreviewTokenID = [],
     je_ReservedOrderID = 0, je_ClientID = 0, je_clientIDPresent = False, je_PermID = 0, je_Account = [], je_Endpoint = [], je_Mode = [],
     je_Source = [], je_Origin = [], je_PurgeID = [], je_LegID = [], je_BypassPreview = False, je_OCAGroup = [], je_OCAType = 0, je_Status = [],
     je_Filled = 0, je_Remaining = 0, je_AvgFillPrice = 0, je_LastFillPrice = 0, je_WhyHeld = [], je_MktCapPrice = 0, je_ExecID = [],
     je_ExecTime = [], je_ExecShares = 0, je_ExecSide = [], je_ErrorCode = 0, je_SendState = [], je_AttemptID = [], je_ActionKind = [],
     je_SendDisposition = [], je_Message = [], je_contract = zero_contract, je_terms = zero_terms\<rparr>"

definition zero_view :: OrderView where
  "zero_view = \<lparr>ov_AttachedStop = None, ov_EntryLink = None, ov_FixedStopPrice = 0, ov_BrokerParentID = None, ov_EntryState = [],
     ov_Deactivated = None, ov_AlgoStrategy = [], ov_AlgoKnown = False, ov_AdaptivePriority = [], ov_OrderRef = [], ov_PreviewTokenID = [],
     ov_ReservedOrderID = 0, ov_ClientID = 0, ov_PermID = 0, ov_Account = [], ov_Endpoint = [], ov_Mode = [], ov_Source = [], ov_PurgeID = [],
     ov_LegID = [], ov_BypassPreview = False, ov_contract = zero_contract, ov_terms = zero_terms, ov_OCAGroup = [], ov_OCAType = 0,
     ov_Status = [], ov_LifecycleStatus = OrderLifecycleUnset, ov_Filled = 0, ov_Remaining = 0, ov_AvgFillPrice = 0, ov_LastFillPrice = 0,
     ov_WhyHeld = [], ov_MktCapPrice = 0, ov_SendState = [], ov_LastEvent = [], ov_LastErrorCode = 0, ov_LastMessage = [],
     ov_UpdatedAt = zero_time, ov_Open = False, ov_ModifyEligible = False, ov_CancelEligible = False, ov_Origin = []\<rparr>"

lemmas event_types = orderJournalEventPreviewed_def orderJournalEventTokenConfirmed_def orderJournalEventSendAttempted_def
  orderJournalEventSendCompleted_def orderJournalEventSendError_def orderJournalEventBrokerError_def
  orderJournalEventBrokerAcknowledged_def orderJournalEventStatusUpdated_def orderJournalEventModifyRequested_def
  orderJournalEventCancelRequested_def orderJournalEventReconciledUnknown_def orderJournalEventReconciledAbsent_def
lemmas send_states = orderSendStateReserved_def orderSendStateSendAttempted_def orderSendStateBrokerAcknowledged_def
  orderSendStateUncertainSend_def orderSendStateTerminal_def
lemmas action_kinds = ActionPlace_def ActionModify_def ActionCancel_def ActionPurge_def ActionRestore_def ActionExercise_def
  ActionSmokeCleanup_def
lemmas send_dispositions = SendDispositionDefinitelyUnsent_def SendDispositionMayHaveWritten_def SendDispositionUnknown_def

text \<open>The lifecycle a broker status or error code stands for.\<close>

definition orderLifecycleStatusIsTerminal :: "OrderLifecycle \<Rightarrow> bool" where
  "orderLifecycleStatusIsTerminal st \<longleftrightarrow> st \<in> {OrderLifecycleFilled, OrderLifecycleCancelled, OrderLifecycleRejected, OrderLifecycleInactive,
     OrderLifecycleExpiredInferred, OrderLifecycleClosedReconciled}"

definition mapBrokerOrderLifecycleStatus :: "string \<Rightarrow> float64 \<Rightarrow> float64 \<Rightarrow> OrderLifecycle" where
  "mapBrokerOrderLifecycleStatus status filled remaining =
     (let st = ToLower (TrimSpace status); partly = (f64_positive filled \<and> f64_positive remaining)
      in if st = ''pendingcancel'' then OrderLifecyclePendingCancel
         else if st = ''pendingsubmit'' then OrderLifecyclePendingSubmit
         else if st = ''presubmitted'' then OrderLifecyclePreSubmitted
         else if st = ''apipending'' then OrderLifecyclePendingSubmit
         else if st = ''submitted'' then (if partly then OrderLifecyclePartiallyFilled else OrderLifecycleSubmitted)
         else if st = ''filled'' then OrderLifecycleFilled
         else if st = ''cancelled'' \<or> st = ''apicancelled'' then OrderLifecycleCancelled
         else if st = ''inactive'' then OrderLifecycleInactive
         else if st = ''rejected'' then OrderLifecycleRejected
         else if st = ''execution'' then OrderLifecyclePartiallyFilled
         else if partly then OrderLifecyclePartiallyFilled
         else if f64_positive filled \<and> f64_eq remaining 0 then OrderLifecycleFilled
         else OrderLifecycleUnknownReconcileRequired)"

definition mapBrokerOrderLifecycleWithDeactivation :: "string \<Rightarrow> float64 \<Rightarrow> float64 \<Rightarrow> bool option \<Rightarrow> OrderLifecycle" where
  "mapBrokerOrderLifecycleWithDeactivation status filled remaining deactivated =
     (let base = mapBrokerOrderLifecycleStatus status filled remaining
      in if deactivated = Some True \<and> (base = OrderLifecycleInactive \<or> \<not> orderLifecycleStatusIsTerminal base) \<and> base \<noteq> OrderLifecyclePendingCancel
         then OrderLifecycleDeactivated else base)"

definition brokerOrderStatusIsUncertainPending :: "string \<Rightarrow> bool" where
  "brokerOrderStatusIsUncertainPending status \<longleftrightarrow> EqualFold (TrimSpace status) ''ApiPending''"

definition mapBrokerErrorLifecycleStatus :: "int \<Rightarrow> string \<Rightarrow> OrderLifecycle" where
  "mapBrokerErrorLifecycleStatus errorCode status =
     (let st = ToLower (TrimSpace status)
      in if errorCode = 0 then OrderLifecycleUnknownReconcileRequired
         else if errorCode \<in> {103, 110, 201} then OrderLifecycleRejected
         else if errorCode = 202 then OrderLifecycleCancelled
         else if errorCode = 135 then OrderLifecycleInactive
         else if errorCode = 321 then OrderLifecycleUnknownReconcileRequired
         else if st = ''filled'' then OrderLifecycleFilled
         else if st = ''cancelled'' \<or> st = ''apicancelled'' then OrderLifecycleCancelled
         else if st = ''inactive'' then OrderLifecycleInactive
         else if st = ''rejected'' then OrderLifecycleRejected
         else OrderLifecycleUnknownReconcileRequired)"

definition trailSpecFromLifecycle :: "OrderLifecycleEvent \<Rightarrow> OrderTrailSpec option" where
  "trailSpecFromLifecycle ev =
     (let t = ev_terms ev;
          trail = \<lparr>trail_Basis = ''instrument_price'',
            trail_OffsetType = (if f64_positive (ev_TrailingPercent t) then ''percent'' else if f64_positive (ev_AuxPrice t) then ''amount'' else []),
            trail_TrailingPercent = (if f64_positive (ev_TrailingPercent t) then Some (ev_TrailingPercent t) else None),
            trail_TrailingAmount = (if \<not> f64_positive (ev_TrailingPercent t) \<and> f64_positive (ev_AuxPrice t) then Some (ev_AuxPrice t) else None),
            trail_InitialStopPrice = ev_TrailStopPrice t,
            trail_LimitOffset = (if f64_positive (ev_LmtPriceOffset t) then Some (ev_LmtPriceOffset t) else None)\<rparr>
      in if ToUpper (TrimSpace (ev_OrderType t)) \<notin> {''TRAIL'', ''TRAIL LIMIT''} then None
         else if f64_le (trail_InitialStopPrice trail) 0 \<and> trail_TrailingPercent trail = None \<and> trail_TrailingAmount trail = None \<and>
           trail_LimitOffset trail = None then None
         else Some trail)"

text \<open>\<^verbatim>\<open>filled >= quantity-1e-9\<close>.\<close>

definition fills_quantity :: "float64 \<Rightarrow> float64 \<Rightarrow> bool" where
  "fills_quantity filled quantity \<longleftrightarrow> f64_positive quantity \<and> f64_le (f64_sub quantity (f64_round False (1 / 10 ^ 9))) filled"

definition callback_contract :: "event_contract \<Rightarrow> contract_terms" where
  "callback_contract c = \<lparr>oc_ConID = ev_ConID c, oc_Symbol = ev_Symbol c, oc_SecType = ev_SecType c, oc_Exchange = ev_Exchange c, oc_PrimaryExch = [],
     oc_Currency = ev_Currency c, oc_LocalSymbol = ev_LocalSymbol c, oc_TradingClass = ev_TradingClass c, oc_Expiry = ev_Expiry c,
     oc_Strike = ev_Strike c, oc_Right = ev_Right c, oc_Multiplier = ev_Multiplier c\<rparr>"

definition callback_event :: "OrderLifecycleEvent \<Rightarrow> gotime \<Rightarrow> orderJournalEvent" where
  "callback_event ev now =
     (let t = ev_terms ev; x = ev_fill ev in
      \<lparr>je_AttachedStop = None, je_EntryLink = None,
       je_FixedStopPrice = (if ev_OrderType t = ''STP'' \<and> f64_positive (ev_AuxPrice t) then ev_AuxPrice t else 0),
       je_BrokerParentID = ev_ParentID ev, je_Deactivated = ev_Deactivated t, je_AlgoStrategy = ev_AlgoStrategy t, je_AlgoKnown = ev_AlgoKnown t,
       je_AdaptivePriority = ev_AdaptivePriority t, je_At = now, je_Type = [], je_OrderRef = ev_OrderRef ev, je_PreviewTokenID = [],
       je_ReservedOrderID = ev_OrderID ev, je_ClientID = ev_ClientID ev, je_clientIDPresent = ev_ClientIDPresent ev, je_PermID = ev_PermID ev,
       je_Account = ev_Account ev, je_Endpoint = [], je_Mode = [], je_Source = [], je_Origin = [], je_PurgeID = [], je_LegID = [], je_BypassPreview = False,
       je_OCAGroup = ev_OcaGroup t, je_OCAType = ev_OcaType t, je_Status = ev_Status ev, je_Filled = ev_Filled x, je_Remaining = ev_Remaining x,
       je_AvgFillPrice = ev_AvgFillPrice x, je_LastFillPrice = ev_LastFillPrice x, je_WhyHeld = ev_WhyHeld x, je_MktCapPrice = ev_MktCapPrice x,
       je_ExecID = ev_ExecID x, je_ExecTime = ev_ExecTime x, je_ExecShares = 0, je_ExecSide = [], je_ErrorCode = ev_ErrorCode ev, je_SendState = [],
       je_AttemptID = [], je_ActionKind = [], je_SendDisposition = [],
       je_Message = ev_Message ev,
       je_contract = callback_contract (ev_contract ev),
       je_terms = \<lparr>ot_Action = ev_Action t, ot_OrderType = ev_OrderType t, ot_TIF = ev_TIF t, ot_TriggerMethod = ev_TriggerMethod t,
         ot_OutsideRTH = ev_OutsideRth t, ot_Quantity = ev_TotalQuantity t, ot_LimitPrice = ev_LimitPrice t, ot_Trail = trailSpecFromLifecycle ev,
         ot_OpenClose = []\<rparr>\<rparr>)"

definition orderJournalEventFromLifecycle :: "OrderLifecycleEvent \<Rightarrow> gotime \<Rightarrow> orderJournalEvent option" where
  "orderJournalEventFromLifecycle ev now =
     (let out = callback_event ev now; x = ev_fill ev;
          typed =
            (if ev_Type ev = OrderLifecycleEventOpenOrder then
               Some (out\<lparr>je_Type := orderJournalEventBrokerAcknowledged, je_SendState := orderSendStateBrokerAcknowledged,
                 je_Status := (if je_Status out = [] then ''Submitted'' else je_Status out)\<rparr>)
             else if ev_Type ev = OrderLifecycleEventStatus then
               Some (out\<lparr>je_Type := orderJournalEventStatusUpdated,
                 je_SendState := (if orderLifecycleStatusIsTerminal (mapBrokerOrderLifecycleWithDeactivation (ev_Status ev) (ev_Filled x) (ev_Remaining x)
                     (ev_Deactivated (ev_terms ev))) then orderSendStateTerminal
                   else if brokerOrderStatusIsUncertainPending (ev_Status ev) then orderSendStateUncertainSend
                   else if ev_Status ev \<noteq> [] then orderSendStateBrokerAcknowledged else [])\<rparr>)
             else if ev_Type ev = OrderLifecycleEventExecDetails then
               (let done = fills_quantity (ev_CumQty x) (ev_TotalQuantity (ev_terms ev)) in
                Some (out\<lparr>je_Type := orderJournalEventStatusUpdated, je_Status := (if done then ''Filled'' else ''Execution''),
                  je_Filled := ev_CumQty x, je_LastFillPrice := ev_Price x, je_ExecShares := ev_Shares x, je_ExecSide := ev_ExecutionSide x,
                  je_AvgFillPrice := ev_AvgFillPrice x, je_Remaining := (if done then 0 else je_Remaining out),
                  je_SendState := (if done then orderSendStateTerminal else [])\<rparr>))
             else if ev_Type ev = OrderLifecycleEventError then
               Some (out\<lparr>je_Type := orderJournalEventBrokerError,
                 je_SendState := (if orderLifecycleStatusIsTerminal (mapBrokerErrorLifecycleStatus (je_ErrorCode out) (je_Status out))
                   then orderSendStateTerminal else orderSendStateUncertainSend)\<rparr>)
             else None)
      in case typed of None \<Rightarrow> None
         | Some je \<Rightarrow> if 0 < je_ReservedOrderID je \<or> je_OrderRef je \<noteq> [] \<or> 0 < je_PermID je then Some je else None)"

subsection \<open>Keys\<close>

definition orderJournalRouteIdentity :: "string \<Rightarrow> int \<Rightarrow> string \<Rightarrow> string \<Rightarrow> string" where
  "orderJournalRouteIdentity endpoint clientID account mode =
     TrimSpace endpoint @ CHR 0x1F # Itoa clientID @ CHR 0x1F # ToUpper (TrimSpace account) @ CHR 0x1F # ToLower (TrimSpace mode)"

definition orderViewKey :: "OrderView \<Rightarrow> string" where
  "orderViewKey view =
     (let scope = orderJournalRouteIdentity (ov_Endpoint view) (ov_ClientID view) (ov_Account view) (ov_Mode view)
      in if ov_OrderRef view \<noteq> [] then scope @ ''|ref:'' @ ov_OrderRef view
         else if ov_ReservedOrderID view \<noteq> 0 then scope @ ''|order:'' @ Itoa (ov_ReservedOrderID view)
         else if ov_PermID view \<noteq> 0 then scope @ ''|perm:'' @ Itoa (ov_PermID view)
         else [])"

definition orderJournalKey :: "orderJournalEvent \<Rightarrow> string" where
  "orderJournalKey ev =
     (let scope = orderJournalRouteIdentity (je_Endpoint ev) (je_ClientID ev) (je_Account ev) (je_Mode ev)
      in if je_OrderRef ev \<noteq> [] then scope @ ''|ref:'' @ je_OrderRef ev
         else if je_ReservedOrderID ev \<noteq> 0 then scope @ ''|order:'' @ Itoa (je_ReservedOrderID ev)
         else if je_PermID ev \<noteq> 0 then scope @ ''|perm:'' @ Itoa (je_PermID ev)
         else [])"

end
