(* ===== verification/Order_Pairing.thy ===== *)
theory Order_Pairing
  imports Order_Journal
begin

text \<open>
  Broker callbacks and the order journal: \<^verbatim>\<open>internal/daemon/order_lifecycle.go\<close>. A callback is turned into a journal event, bound to the current route, paired with the row of the
  order it is about, completed with that row's identity and appended; a callback that cannot be accounted for latches
  persistence uncertainty.
  \<^item> The journal is the list of appended events. The outcome of an append, the rows that the journal currently reduces
    to, the current route and the clock are arguments. What is offered to other components after an append (markouts,
    fill quotes, proposal outcomes) does not change the result and is left out.
\<close>

subsection \<open>Pairing\<close>

definition orderJournalEventOnViewSocket :: "orderJournalEvent \<Rightarrow> OrderView \<Rightarrow> bool" where
  "orderJournalEventOnViewSocket ev view \<longleftrightarrow> TrimSpace (je_Endpoint ev) = TrimSpace (ov_Endpoint view)"

definition orderJournalRefsDiffer :: "orderJournalEvent \<Rightarrow> OrderView \<Rightarrow> bool" where
  "orderJournalRefsDiffer ev view \<longleftrightarrow> je_OrderRef ev \<noteq> [] \<and> ov_OrderRef view \<noteq> [] \<and> je_OrderRef ev \<noteq> ov_OrderRef view"

definition orderJournalRefNames :: "orderJournalEvent \<Rightarrow> OrderView \<Rightarrow> bool" where
  "orderJournalRefNames ev view \<longleftrightarrow> je_OrderRef ev \<noteq> [] \<and> ov_OrderRef view = je_OrderRef ev"

definition orderJournalOrderIDNames :: "orderJournalEvent \<Rightarrow> OrderView \<Rightarrow> bool" where
  "orderJournalOrderIDNames ev view \<longleftrightarrow> 0 < je_ReservedOrderID ev \<and> ov_ReservedOrderID view = je_ReservedOrderID ev"

definition orderViewPlacedByCanary :: "OrderView \<Rightarrow> bool" where
  "orderViewPlacedByCanary view \<longleftrightarrow> TrimSpace (ov_PreviewTokenID view) \<noteq> [] \<or> ov_BypassPreview view"

definition orderJournalEventScopeMatchesView :: "orderJournalEvent \<Rightarrow> OrderView \<Rightarrow> bool" where
  "orderJournalEventScopeMatchesView ev view \<longleftrightarrow> je_ClientID ev = ov_ClientID view \<and>
     EqualFold (TrimSpace (je_Account ev)) (TrimSpace (ov_Account view)) \<and> EqualFold (TrimSpace (je_Mode ev)) (TrimSpace (ov_Mode view))"

definition orderJournalViewForPermID :: "orderJournalEvent \<Rightarrow> OrderView list \<Rightarrow> OrderView option" where
  "orderJournalViewForPermID ev scope =
     (let holders = filter (\<lambda>view. ov_PermID view = je_PermID ev) scope;
          placed = filter orderViewPlacedByCanary holders;
          candidates = filter (\<lambda>view. \<not> (ov_PermID view \<noteq> 0 \<or> \<not> ov_Open view \<or> orderJournalRefsDiffer ev view) \<and>
              (orderJournalRefNames ev view \<or> orderJournalOrderIDNames ev view)) scope
      in if holders \<noteq> [] then
           (case (if length holders = 1 then Some (hd holders) else if length placed = 1 then Some (hd placed) else None) of
              None \<Rightarrow> None
            | Some holder \<Rightarrow> if \<not> orderJournalEventOnViewSocket ev holder \<and> \<not> je_clientIDPresent ev then None else Some holder)
         else if je_Type ev \<noteq> orderJournalEventBrokerAcknowledged \<or> je_OrderRef ev = [] then None
         else if length candidates \<noteq> 1 \<or> \<not> orderJournalRefNames ev (hd candidates) then None
         else if orderJournalEventOnViewSocket ev (hd candidates) then Some (hd candidates)
         else if je_clientIDPresent ev \<and> orderJournalOrderIDNames ev (hd candidates) then Some (hd candidates)
         else None)"

definition orderJournalViewWithoutPermID :: "orderJournalEvent \<Rightarrow> OrderView list \<Rightarrow> OrderView option" where
  "orderJournalViewWithoutPermID ev scope =
     (case (if je_OrderRef ev \<noteq> [] then find_first (\<lambda>view. ov_OrderRef view = je_OrderRef ev \<and> orderJournalEventOnViewSocket ev view) scope else None) of
        Some view \<Rightarrow> Some view
      | None \<Rightarrow>
          if je_ReservedOrderID ev = 0 \<or> \<not> je_clientIDPresent ev then None
          else
            let found = filter (\<lambda>view. \<not> (ov_ReservedOrderID view \<noteq> je_ReservedOrderID ev \<or> \<not> orderJournalEventOnViewSocket ev view \<or>
                   orderJournalRefsDiffer ev view)) scope;
                openMatches = filter ov_Open found
            in if length openMatches = 1 then Some (hd openMatches)
               else if length found = 1 then Some (hd found)
               else None)"

definition orderJournalPairingContradicted :: "orderJournalEvent \<Rightarrow> OrderView \<Rightarrow> OrderView list \<Rightarrow> bool" where
  "orderJournalPairingContradicted ev view scope \<longleftrightarrow>
     (if orderJournalRefsDiffer ev view then True
      else if je_PermID ev \<noteq> 0 \<and> ov_PermID view \<noteq> 0 \<and> je_PermID ev \<noteq> ov_PermID view then True
      else if je_PermID ev \<noteq> 0 \<and> ov_PermID view = je_PermID ev \<and> je_ReservedOrderID ev \<noteq> 0 \<and> ov_ReservedOrderID view \<noteq> 0 \<and>
        je_ReservedOrderID ev \<noteq> ov_ReservedOrderID view then True
      else if je_PermID ev = 0 then False
      else list_ex (\<lambda>other. orderViewKey other \<noteq> orderViewKey view \<and>
        je_OrderRef ev \<noteq> [] \<and> ov_OrderRef other = je_OrderRef ev \<and> ov_PermID other \<noteq> 0 \<and> ov_PermID other \<noteq> je_PermID ev) scope)"

definition orderJournalViewForLifecycleEvent :: "orderJournalEvent \<Rightarrow> OrderView list \<Rightarrow> OrderView option" where
  "orderJournalViewForLifecycleEvent ev views =
     (let scope = filter (orderJournalEventScopeMatchesView ev) views
      in case (if je_PermID ev \<noteq> 0 then orderJournalViewForPermID ev scope else orderJournalViewWithoutPermID ev scope) of
           None \<Rightarrow> None
         | Some view \<Rightarrow> if orderJournalPairingContradicted ev view scope then None else Some view)"

subsection \<open>Completing an event with the row's identity\<close>

definition or_text :: "string \<Rightarrow> string \<Rightarrow> string" where
  "or_text s d = (if s = [] then d else s)"

definition or_int :: "int \<Rightarrow> int \<Rightarrow> int" where
  "or_int n d = (if n = 0 then d else n)"

definition or_float :: "float64 \<Rightarrow> float64 \<Rightarrow> float64" where
  "or_float x d = (if f64_eq x 0 then d else x)"

definition or_some :: "'a option \<Rightarrow> 'a option \<Rightarrow> 'a option" where
  "or_some x d = (if x = None then d else x)"

definition copy_contract :: "contract_terms \<Rightarrow> contract_terms \<Rightarrow> contract_terms" where
  "copy_contract c v = \<lparr>oc_ConID = or_int (oc_ConID c) (oc_ConID v), oc_Symbol = or_text (oc_Symbol c) (oc_Symbol v),
     oc_SecType = or_text (oc_SecType c) (oc_SecType v), oc_Exchange = or_text (oc_Exchange c) (oc_Exchange v),
     oc_PrimaryExch = or_text (oc_PrimaryExch c) (oc_PrimaryExch v), oc_Currency = or_text (oc_Currency c) (oc_Currency v),
     oc_LocalSymbol = or_text (oc_LocalSymbol c) (oc_LocalSymbol v), oc_TradingClass = or_text (oc_TradingClass c) (oc_TradingClass v),
     oc_Expiry = or_text (oc_Expiry c) (oc_Expiry v), oc_Strike = or_float (oc_Strike c) (oc_Strike v), oc_Right = or_text (oc_Right c) (oc_Right v),
     oc_Multiplier = or_int (oc_Multiplier c) (oc_Multiplier v)\<rparr>"

definition copy_terms :: "mutable_terms \<Rightarrow> mutable_terms \<Rightarrow> mutable_terms" where
  "copy_terms t v = \<lparr>ot_Action = or_text (ot_Action t) (ot_Action v), ot_OrderType = or_text (ot_OrderType t) (ot_OrderType v),
     ot_TIF = or_text (ot_TIF t) (ot_TIF v), ot_TriggerMethod = or_int (ot_TriggerMethod t) (ot_TriggerMethod v),
     ot_OutsideRTH = (ot_OutsideRTH t \<or> ot_OutsideRTH v), ot_Quantity = or_float (ot_Quantity t) (ot_Quantity v),
     ot_LimitPrice = or_float (ot_LimitPrice t) (ot_LimitPrice v), ot_Trail = or_some (ot_Trail t) (ot_Trail v),
     ot_OpenClose = or_text (ot_OpenClose t) (ot_OpenClose v)\<rparr>"

definition copyOrderJournalIdentityFromView :: "orderJournalEvent \<Rightarrow> OrderView \<Rightarrow> orderJournalEvent" where
  "copyOrderJournalIdentityFromView ev view = ev\<lparr>
     je_EntryLink := or_some (je_EntryLink ev) (ov_EntryLink view),
     je_AttachedStop := or_some (je_AttachedStop ev) (ov_AttachedStop view),
     je_FixedStopPrice := (if f64_eq (je_FixedStopPrice ev) 0 \<and> je_Type ev \<noteq> orderJournalEventBrokerAcknowledged then ov_FixedStopPrice view
       else je_FixedStopPrice ev),
     je_OrderRef := or_text (je_OrderRef ev) (ov_OrderRef view),
     je_PreviewTokenID := or_text (je_PreviewTokenID ev) (ov_PreviewTokenID view),
     je_Source := or_text (je_Source ev) (ov_Source view),
     je_PurgeID := or_text (je_PurgeID ev) (ov_PurgeID view),
     je_LegID := or_text (je_LegID ev) (ov_LegID view),
     je_BypassPreview := (je_BypassPreview ev \<or> ov_BypassPreview view),
     je_Account := or_text (je_Account ev) (ov_Account view),
     je_Endpoint := or_text (je_Endpoint ev) (ov_Endpoint view),
     je_Mode := or_text (je_Mode ev) (ov_Mode view),
     je_ClientID := (if \<not> je_clientIDPresent ev then ov_ClientID view else je_ClientID ev),
     je_clientIDPresent := True,
     je_OCAGroup := or_text (je_OCAGroup ev) (ov_OCAGroup view),
     je_OCAType := (if je_OCAGroup ev = [] then ov_OCAType view else je_OCAType ev),
     je_contract := copy_contract (je_contract ev) (ov_contract view),
     je_terms := (if je_Type ev = orderJournalEventBrokerAcknowledged then je_terms ev else copy_terms (je_terms ev) (ov_terms view))\<rparr>"

subsection \<open>Appending\<close>

definition normalizeOrderLifecycleJournalEvent :: "orderJournalEvent \<Rightarrow> orderJournalEvent" where
  "normalizeOrderLifecycleJournalEvent ev =
     (if je_Type ev \<noteq> orderJournalEventStatusUpdated \<or> \<not> EqualFold (je_Status ev) ''Execution'' then ev
      else if fills_quantity (je_Filled ev) (ot_Quantity (je_terms ev))
      then ev\<lparr>je_Status := ''Filled'', je_Remaining := 0, je_SendState := orderSendStateTerminal\<rparr>
      else if f64_positive (je_Remaining ev) then ev\<lparr>je_SendState := orderSendStateBrokerAcknowledged\<rparr>
      else ev)"

record trading_route =
  tr_Account :: string
  tr_Endpoint :: string
  tr_Mode :: string
  tr_ClientID :: int

record lifecycle_env =
  le_now :: gotime
  le_route :: trading_route
  le_views :: "OrderView list option"
  le_appendErr :: bool

text \<open>Binding to the current route: the route fills what the callback does not say.\<close>

definition bind_route :: "trading_route \<Rightarrow> orderJournalEvent \<Rightarrow> orderJournalEvent" where
  "bind_route r ev = ev\<lparr>je_Account := or_text (je_Account ev) (tr_Account r), je_Endpoint := or_text (je_Endpoint ev) (tr_Endpoint r),
     je_Mode := or_text (je_Mode ev) (tr_Mode r), je_ClientID := (if je_clientIDPresent ev then je_ClientID ev else tr_ClientID r)\<rparr>"

text \<open>The completed event, whether a row claimed it and whether the rows could be loaded.\<close>

definition enrichOrderLifecycleEventFromJournal :: "OrderView list option \<Rightarrow> orderJournalEvent \<Rightarrow> orderJournalEvent \<times> bool \<times> bool" where
  "enrichOrderLifecycleEventFromJournal views ev =
     (case views of
        None \<Rightarrow> (ev, False, False)
      | Some vs \<Rightarrow>
         (case orderJournalViewForLifecycleEvent ev vs of
            None \<Rightarrow> (ev, False, True)
          | Some view \<Rightarrow> (copyOrderJournalIdentityFromView (ev\<lparr>je_Endpoint := ov_Endpoint view\<rparr>) view, True, True)))"

record order_journal =
  oj_events :: "orderJournalEvent list option"
  oj_failures :: "64 word"
  oj_uncertain :: bool

definition appendOrderLifecycleEvent :: "lifecycle_env \<Rightarrow> OrderLifecycleEvent \<Rightarrow> order_journal \<Rightarrow> order_journal \<times> bool" where
  "appendOrderLifecycleEvent env ev j =
     (case oj_events j of
        None \<Rightarrow> (j, False)
      | Some events \<Rightarrow>
         (case orderJournalEventFromLifecycle ev (le_now env) of
            None \<Rightarrow> (j, True)
          | Some je0 \<Rightarrow>
             (case enrichOrderLifecycleEventFromJournal (le_views env) (bind_route (le_route env) je0) of
                (je, matched, viewsLoaded) \<Rightarrow>
                  if viewsLoaded \<and> \<not> matched \<and> (ev_Type ev = OrderLifecycleEventOpenOrder \<or> ev_Type ev = OrderLifecycleEventStatus) then (j, True)
                  else if le_appendErr env then (j, False)
                  else (j\<lparr>oj_events := Some (events @ [normalizeOrderLifecycleJournalEvent je])\<rparr>, True))))"

definition markOrderLifecyclePersistenceUncertain :: "order_journal \<Rightarrow> order_journal" where
  "markOrderLifecyclePersistenceUncertain j = j\<lparr>oj_failures := oj_failures j + 1, oj_uncertain := True\<rparr>"

text \<open>The receipt handler: a doubtful receipt, a stale session or a connector that is no longer published is not
  journaled.\<close>

definition boundOrderLifecycleHandler :: "lifecycle_env \<Rightarrow> bool \<Rightarrow> bool \<Rightarrow> bool \<Rightarrow> OrderLifecycleEvent \<Rightarrow> order_journal \<Rightarrow> order_journal" where
  "boundOrderLifecycleHandler env uncertain sessionCurrent publicationCurrent ev j =
     (if uncertain \<or> \<not> sessionCurrent \<or> \<not> publicationCurrent then markOrderLifecyclePersistenceUncertain j
      else case appendOrderLifecycleEvent env ev j of
          (j', ok) \<Rightarrow> if ok then j' else markOrderLifecyclePersistenceUncertain j')"


subsection \<open>What a pairing means\<close>

lemma singleton_filter: "length (filter P xs) = 1 \<Longrightarrow> hd (filter P xs) \<in> set xs \<and> P (hd (filter P xs))"
  using hd_in_set [of "filter P xs"] by fastforce

lemma sole_pick:
  "(if length xs = 1 then Some (hd xs) else if length ys = 1 then Some (hd ys) else None) = Some v \<Longrightarrow> v \<in> set xs \<or> v \<in> set ys"
  using hd_in_set [of xs] hd_in_set [of ys] by (fastforce split: if_splits)

text \<open>The ways a callback with a permanent identifier is paired.\<close>

lemma permID_pairing:
  assumes "orderJournalViewForPermID ev scope = Some view"
  shows "view \<in> set scope"
    and "ov_PermID view = je_PermID ev \<or>
      ov_PermID view = 0 \<and> (\<forall>v\<in>set scope. ov_PermID v \<noteq> je_PermID ev) \<and> je_Type ev = orderJournalEventBrokerAcknowledged \<and> ov_Open view \<and>
      orderJournalRefNames ev view"
    and "orderJournalEventOnViewSocket ev view \<or> je_clientIDPresent ev \<and> (ov_PermID view = je_PermID ev \<or> orderJournalOrderIDNames ev view)"
proof -
  let ?holders = "filter (\<lambda>view. ov_PermID view = je_PermID ev) scope"
  let ?placed = "filter orderViewPlacedByCanary ?holders"
  let ?candidates = "filter (\<lambda>view. \<not> (ov_PermID view \<noteq> 0 \<or> \<not> ov_Open view \<or> orderJournalRefsDiffer ev view) \<and>
    (orderJournalRefNames ev view \<or> orderJournalOrderIDNames ev view)) scope"
  have "view \<in> set scope \<and> (ov_PermID view = je_PermID ev \<or>
      ov_PermID view = 0 \<and> (\<forall>v\<in>set scope. ov_PermID v \<noteq> je_PermID ev) \<and> je_Type ev = orderJournalEventBrokerAcknowledged \<and> ov_Open view \<and>
      orderJournalRefNames ev view) \<and>
      (orderJournalEventOnViewSocket ev view \<or> je_clientIDPresent ev \<and> (ov_PermID view = je_PermID ev \<or> orderJournalOrderIDNames ev view))"
  proof (cases "?holders = []")
    case False
    then have pick: "(if length ?holders = 1 then Some (hd ?holders) else if length ?placed = 1 then Some (hd ?placed) else None) = Some view"
      and "orderJournalEventOnViewSocket ev view \<or> je_clientIDPresent ev"
      using assms by (auto simp: orderJournalViewForPermID_def Let_def split: option.splits if_splits)
    moreover have "view \<in> set scope \<and> ov_PermID view = je_PermID ev"
      using pick singleton_filter [of "\<lambda>view. ov_PermID view = je_PermID ev" scope] singleton_filter [of orderViewPlacedByCanary ?holders]
      by (auto split: if_splits)
    ultimately show ?thesis by blast
  next
    case True
    then have "\<forall>v\<in>set scope. ov_PermID v \<noteq> je_PermID ev" by (auto simp: filter_empty_conv)
    moreover have one: "length ?candidates = 1" and "view = hd ?candidates" and "je_Type ev = orderJournalEventBrokerAcknowledged"
      and "orderJournalRefNames ev view"
      and "orderJournalEventOnViewSocket ev view \<or> je_clientIDPresent ev \<and> orderJournalOrderIDNames ev view"
      using assms True by (auto simp: orderJournalViewForPermID_def Let_def split: if_splits)
    ultimately show ?thesis using singleton_filter [OF one] by blast
  qed
  then show "view \<in> set scope" and "ov_PermID view = je_PermID ev \<or>
      ov_PermID view = 0 \<and> (\<forall>v\<in>set scope. ov_PermID v \<noteq> je_PermID ev) \<and> je_Type ev = orderJournalEventBrokerAcknowledged \<and> ov_Open view \<and>
      orderJournalRefNames ev view"
    and "orderJournalEventOnViewSocket ev view \<or> je_clientIDPresent ev \<and> (ov_PermID view = je_PermID ev \<or> orderJournalOrderIDNames ev view)"
    by blast+
qed

lemma no_permID_pairing:
  assumes "orderJournalViewWithoutPermID ev scope = Some view"
  shows "view \<in> set scope \<and> orderJournalEventOnViewSocket ev view \<and>
    (orderJournalRefNames ev view \<or> je_clientIDPresent ev \<and> je_ReservedOrderID ev \<noteq> 0 \<and> ov_ReservedOrderID view = je_ReservedOrderID ev)"
proof (cases "(if je_OrderRef ev \<noteq> [] then find_first (\<lambda>view. ov_OrderRef view = je_OrderRef ev \<and> orderJournalEventOnViewSocket ev view) scope else None)")
  case (Some v)
  then have "v = view" using assms by (simp add: orderJournalViewWithoutPermID_def)
  then show ?thesis using Some by (auto simp: orderJournalRefNames_def split: if_splits dest: find_first_Some)
next
  case None
  let ?found = "filter (\<lambda>view. \<not> (ov_ReservedOrderID view \<noteq> je_ReservedOrderID ev \<or> \<not> orderJournalEventOnViewSocket ev view \<or>
    orderJournalRefsDiffer ev view)) scope"
  from None assms have "je_ReservedOrderID ev \<noteq> 0 \<and> je_clientIDPresent ev"
    and pick: "(if length (filter ov_Open ?found) = 1 then Some (hd (filter ov_Open ?found)) else if length ?found = 1 then Some (hd ?found) else None) = Some view"
    by (auto simp: orderJournalViewWithoutPermID_def Let_def split: if_splits)
  moreover have "view \<in> set ?found"
    using sole_pick [OF pick] by auto
  ultimately show ?thesis by auto
qed

text \<open>C4. A broker callback is paired with a journal row only on evidence. The row is in the callback's account, mode
  and client, and its reference is the callback's wherever both carry one. A row that holds the callback's permanent identifier
  has its order identifier too, where both carry one. A permanent identifier that no row holds is introduced only by an acknowledgement, to an open row that it names
  by reference. A row of another socket is paired only through a permanent identifier and a client
  the callback names itself. Without a permanent identifier the row is on the callback's own socket and named by reference
  or by the order identifier of a named client.\<close>

theorem pairing_needs_identity:
  assumes "orderJournalViewForLifecycleEvent ev views = Some view"
  shows "view \<in> set views \<and> orderJournalEventScopeMatchesView ev view \<and>
    (je_OrderRef ev \<noteq> [] \<and> ov_OrderRef view \<noteq> [] \<longrightarrow> ov_OrderRef view = je_OrderRef ev) \<and>
    (je_PermID ev \<noteq> 0 \<longrightarrow>
       ov_PermID view = je_PermID ev \<and> (je_ReservedOrderID ev \<noteq> 0 \<and> ov_ReservedOrderID view \<noteq> 0 \<longrightarrow> ov_ReservedOrderID view = je_ReservedOrderID ev) \<or>
       ov_PermID view = 0 \<and> (\<forall>v\<in>set views. orderJournalEventScopeMatchesView ev v \<longrightarrow> ov_PermID v \<noteq> je_PermID ev) \<and>
       je_Type ev = orderJournalEventBrokerAcknowledged \<and> ov_Open view \<and> je_OrderRef ev \<noteq> [] \<and> ov_OrderRef view = je_OrderRef ev) \<and>
    (TrimSpace (je_Endpoint ev) \<noteq> TrimSpace (ov_Endpoint view) \<longrightarrow> je_PermID ev \<noteq> 0 \<and> je_clientIDPresent ev \<and>
       (ov_PermID view = 0 \<longrightarrow> ov_ReservedOrderID view = je_ReservedOrderID ev)) \<and>
    (je_PermID ev = 0 \<longrightarrow> je_OrderRef ev \<noteq> [] \<and> ov_OrderRef view = je_OrderRef ev \<or>
       je_clientIDPresent ev \<and> je_ReservedOrderID ev \<noteq> 0 \<and> ov_ReservedOrderID view = je_ReservedOrderID ev)"
proof -
  let ?scope = "filter (orderJournalEventScopeMatchesView ev) views"
  have ok: "\<not> orderJournalPairingContradicted ev view ?scope"
    using assms by (auto simp: orderJournalViewForLifecycleEvent_def Let_def split: option.splits if_splits)
  then have refs: "\<not> orderJournalRefsDiffer ev view"
    and ids: "je_PermID ev \<noteq> 0 \<Longrightarrow> ov_PermID view = je_PermID ev \<Longrightarrow> je_ReservedOrderID ev \<noteq> 0 \<Longrightarrow> ov_ReservedOrderID view \<noteq> 0 \<Longrightarrow>
      ov_ReservedOrderID view = je_ReservedOrderID ev"
    by (auto simp: orderJournalPairingContradicted_def split: if_splits)
  show ?thesis
  proof (cases "je_PermID ev = 0")
    case True
    then have "orderJournalViewWithoutPermID ev ?scope = Some view"
      using assms by (auto simp: orderJournalViewForLifecycleEvent_def Let_def split: option.splits if_splits)
    from no_permID_pairing [OF this] show ?thesis using True refs
      by (auto simp: orderJournalEventOnViewSocket_def orderJournalRefNames_def orderJournalRefsDiffer_def)
  next
    case False
    then have "orderJournalViewForPermID ev ?scope = Some view"
      using assms by (auto simp: orderJournalViewForLifecycleEvent_def Let_def split: option.splits if_splits)
    note pair = permID_pairing [OF this]
    have "view \<in> set views \<and> orderJournalEventScopeMatchesView ev view" using pair(1) by simp
    moreover have "ov_PermID view = je_PermID ev \<and> (je_ReservedOrderID ev \<noteq> 0 \<and> ov_ReservedOrderID view \<noteq> 0 \<longrightarrow> ov_ReservedOrderID view = je_ReservedOrderID ev) \<or>
       ov_PermID view = 0 \<and> (\<forall>v\<in>set views. orderJournalEventScopeMatchesView ev v \<longrightarrow> ov_PermID v \<noteq> je_PermID ev) \<and>
       je_Type ev = orderJournalEventBrokerAcknowledged \<and> ov_Open view \<and> je_OrderRef ev \<noteq> [] \<and> ov_OrderRef view = je_OrderRef ev"
      using pair(2) ids False by (auto simp: orderJournalRefNames_def)
    moreover have "TrimSpace (je_Endpoint ev) \<noteq> TrimSpace (ov_Endpoint view) \<longrightarrow> je_clientIDPresent ev \<and>
       (ov_PermID view = 0 \<longrightarrow> ov_ReservedOrderID view = je_ReservedOrderID ev)"
      using pair(3) False by (auto simp: orderJournalEventOnViewSocket_def orderJournalOrderIDNames_def)
    ultimately show ?thesis using refs False by (auto simp: orderJournalRefsDiffer_def)
  qed
qed

theorem pairing_needs_identity_witness:
  "orderJournalViewForLifecycleEvent (zero_event\<lparr>je_PermID := 7, je_OrderRef := ''c1'', je_Type := orderJournalEventBrokerAcknowledged\<rparr>)
     [zero_view\<lparr>ov_OrderRef := ''c1'', ov_Open := True\<rparr>] = Some (zero_view\<lparr>ov_OrderRef := ''c1'', ov_Open := True\<rparr>) \<and>
   ov_PermID (zero_view\<lparr>ov_OrderRef := ''c1'', ov_Open := True\<rparr>) = 0"
proof -
  let ?ev = "zero_event\<lparr>je_PermID := 7, je_OrderRef := ''c1'', je_Type := orderJournalEventBrokerAcknowledged\<rparr>"
  let ?view = "zero_view\<lparr>ov_OrderRef := ''c1'', ov_Open := True\<rparr>"
  have "orderJournalViewForLifecycleEvent ?ev [?view] = Some ?view" by code_simp
  from pairing_needs_identity [OF this] this show ?thesis by (simp add: zero_event_def zero_view_def)
qed

lemma sole_of_mset: "mset xs = mset ys \<Longrightarrow> length xs = 1 \<Longrightarrow> hd xs = hd ys"
  by (auto simp: length_Suc_conv)

lemma permID_row_order:
  assumes "mset scope = mset scope'"
  shows "orderJournalViewForPermID ev scope = orderJournalViewForPermID ev scope'"
proof -
  have same: "mset (filter P scope) = mset (filter P scope')" for P using assms by simp
  then have len: "length (filter P scope) = length (filter P scope')" for P by (metis size_mset)
  then have empty: "filter P scope = [] \<longleftrightarrow> filter P scope' = []" for P by (metis length_0_conv)
  have sole: "length (filter P scope') = 1 \<Longrightarrow> hd (filter P scope) = hd (filter P scope')" for P
    using sole_of_mset [OF same [of P]] len [of P] by simp
  show ?thesis
    unfolding orderJournalViewForPermID_def Let_def filter_filter empty len by (auto simp: sole cong: if_cong)
qed

text \<open>With a permanent identifier the pairing does not depend on the order in which the rows are read: the same rows in any
  order give the same row, or none.\<close>

theorem pairing_ignores_row_order:
  assumes "je_PermID ev \<noteq> 0" and "mset views = mset views'"
  shows "orderJournalViewForLifecycleEvent ev views = orderJournalViewForLifecycleEvent ev views'"
proof -
  let ?scope = "filter (orderJournalEventScopeMatchesView ev)"
  have m: "mset (?scope views) = mset (?scope views')" using assms(2) by simp
  have "orderJournalPairingContradicted ev view (?scope views) = orderJournalPairingContradicted ev view (?scope views')" for view
    unfolding orderJournalPairingContradicted_def list_ex_iff mset_eq_setD [OF m] ..
  with permID_row_order [OF m] assms(1) show ?thesis
    by (simp add: orderJournalViewForLifecycleEvent_def Let_def split: option.split)
qed

theorem pairing_ignores_row_order_witness:
  "orderJournalViewForLifecycleEvent (zero_event\<lparr>je_PermID := 7\<rparr>) [zero_view, zero_view\<lparr>ov_PermID := 7\<rparr>] =
   orderJournalViewForLifecycleEvent (zero_event\<lparr>je_PermID := 7\<rparr>) [zero_view\<lparr>ov_PermID := 7\<rparr>, zero_view]"
  by (rule pairing_ignores_row_order) simp_all

subsection \<open>What becomes of a callback\<close>

lemma enriched_identifiers:
  "enrichOrderLifecycleEventFromJournal views ev = (je, m, l) \<Longrightarrow> je_PermID je = je_PermID ev \<and> je_ReservedOrderID je = je_ReservedOrderID ev \<and> je_ExecID je = je_ExecID ev"
  by (auto simp: enrichOrderLifecycleEventFromJournal_def copyOrderJournalIdentityFromView_def split: option.splits)

lemma normalized_identifiers [simp]:
  "je_PermID (normalizeOrderLifecycleJournalEvent je) = je_PermID je"
  "je_ReservedOrderID (normalizeOrderLifecycleJournalEvent je) = je_ReservedOrderID je"
  "je_ExecID (normalizeOrderLifecycleJournalEvent je) = je_ExecID je"
  "orderJournalKey (normalizeOrderLifecycleJournalEvent je) = orderJournalKey je"
  by (auto simp: normalizeOrderLifecycleJournalEvent_def orderJournalKey_def Let_def)

lemma callback_identifiers:
  "orderJournalEventFromLifecycle ev now = Some je \<Longrightarrow> je_PermID je = ev_PermID ev \<and> je_ReservedOrderID je = ev_OrderID ev \<and> je_ExecID je = ev_ExecID (ev_fill ev)"
  by (auto simp: orderJournalEventFromLifecycle_def callback_event_def Let_def split: if_splits option.splits)

lemma bound_identifiers [simp]:
  "je_PermID (bind_route r je) = je_PermID je" "je_ReservedOrderID (bind_route r je) = je_ReservedOrderID je" "je_ExecID (bind_route r je) = je_ExecID je"
  by (simp_all add: bind_route_def)

text \<open>A callback names no order: it has no usable identifier, or it is of an unknown type.\<close>

definition names_no_order :: "OrderLifecycleEvent \<Rightarrow> bool" where
  "names_no_order ev \<longleftrightarrow> ev_OrderID ev \<le> 0 \<and> ev_OrderRef ev = [] \<and> ev_PermID ev \<le> 0 \<or>
     ev_Type ev \<notin> {OrderLifecycleEventOpenOrder, OrderLifecycleEventStatus, OrderLifecycleEventExecDetails, OrderLifecycleEventError}"

lemma callback_names_order: "orderJournalEventFromLifecycle ev now = None \<longleftrightarrow> names_no_order ev"
  by (auto simp: orderJournalEventFromLifecycle_def names_no_order_def callback_event_def Let_def split: option.splits)


lemma unmatched_by_rows:
  "enrichOrderLifecycleEventFromJournal views ev = (je, False, True) \<Longrightarrow> \<exists>vs. views = Some vs \<and> orderJournalViewForLifecycleEvent ev vs = None"
  by (auto simp: enrichOrderLifecycleEventFromJournal_def split: option.splits)

lemma append_outcome:
  assumes "snd (appendOrderLifecycleEvent env ev j)"
  shows "(\<exists>events je. oj_events j = Some events \<and> fst (appendOrderLifecycleEvent env ev j) = j\<lparr>oj_events := Some (events @ [je])\<rparr> \<and>
       je_PermID je = ev_PermID ev \<and> je_ReservedOrderID je = ev_OrderID ev \<and> je_ExecID je = ev_ExecID (ev_fill ev)) \<or>
    fst (appendOrderLifecycleEvent env ev j) = j \<and> (names_no_order ev \<or> (ev_Type ev = OrderLifecycleEventOpenOrder \<or> ev_Type ev = OrderLifecycleEventStatus) \<and>
       (\<exists>views je. le_views env = Some views \<and> orderJournalEventFromLifecycle ev (le_now env) = Some je \<and>
          orderJournalViewForLifecycleEvent (bind_route (le_route env) je) views = None))"
proof -
  from assms obtain events where events: "oj_events j = Some events" by (cases "oj_events j") (auto simp: appendOrderLifecycleEvent_def)
  show ?thesis
  proof (cases "orderJournalEventFromLifecycle ev (le_now env)")
    case None
    then show ?thesis using events callback_names_order [of ev "le_now env"] by (simp add: appendOrderLifecycleEvent_def)
  next
    case (Some je0)
    obtain je m l where enr: "enrichOrderLifecycleEventFromJournal (le_views env) (bind_route (le_route env) je0) = (je, m, l)"
      by (metis prod_cases3)
    show ?thesis
    proof (cases "l \<and> \<not> m \<and> (ev_Type ev = OrderLifecycleEventOpenOrder \<or> ev_Type ev = OrderLifecycleEventStatus)")
      case True
      then have "enrichOrderLifecycleEventFromJournal (le_views env) (bind_route (le_route env) je0) = (je, False, True)" using enr by simp
      then show ?thesis using True Some events enr unmatched_by_rows by (auto simp: appendOrderLifecycleEvent_def)
    next
      case False
      then show ?thesis using assms Some events enr enriched_identifiers [OF enr] callback_identifiers [OF Some]
        by (auto simp: appendOrderLifecycleEvent_def split: if_splits)
    qed
  qed
qed

text \<open>C11. No broker callback is lost. The handler either latches persistence uncertainty, leaving the journal's events, or
  appends one event with the callback's identifiers, or changes nothing because the callback names no order or is an open-order or
  status callback that no row of a readable journal claims. In particular an execution or an error that names an order is
  journaled or latches uncertainty.\<close>

theorem no_callback_is_lost:
  fixes env :: lifecycle_env and ev :: OrderLifecycleEvent and j :: order_journal and stale sessionCurrent publicationCurrent :: bool
  defines "j' \<equiv> boundOrderLifecycleHandler env stale sessionCurrent publicationCurrent ev j"
  shows "j' = j\<lparr>oj_failures := oj_failures j + 1, oj_uncertain := True\<rparr> \<or>
    (\<exists>events je. oj_events j = Some events \<and> j' = j\<lparr>oj_events := Some (events @ [je])\<rparr> \<and>
       je_PermID je = ev_PermID ev \<and> je_ReservedOrderID je = ev_OrderID ev \<and> je_ExecID je = ev_ExecID (ev_fill ev)) \<or>
    j' = j \<and> (names_no_order ev \<or> (ev_Type ev = OrderLifecycleEventOpenOrder \<or> ev_Type ev = OrderLifecycleEventStatus) \<and>
       (\<exists>views je. le_views env = Some views \<and> orderJournalEventFromLifecycle ev (le_now env) = Some je \<and>
          orderJournalViewForLifecycleEvent (bind_route (le_route env) je) views = None))"
proof -
  have "j' = j\<lparr>oj_failures := oj_failures j + 1, oj_uncertain := True\<rparr> \<or> j' = fst (appendOrderLifecycleEvent env ev j) \<and> snd (appendOrderLifecycleEvent env ev j)"
    by (auto simp: j'_def boundOrderLifecycleHandler_def markOrderLifecyclePersistenceUncertain_def appendOrderLifecycleEvent_def
        split: prod.splits option.splits)
  moreover have "snd (appendOrderLifecycleEvent env ev j) \<Longrightarrow>
    (\<exists>events je. oj_events j = Some events \<and> fst (appendOrderLifecycleEvent env ev j) = j\<lparr>oj_events := Some (events @ [je])\<rparr> \<and>
       je_PermID je = ev_PermID ev \<and> je_ReservedOrderID je = ev_OrderID ev \<and> je_ExecID je = ev_ExecID (ev_fill ev)) \<or>
    fst (appendOrderLifecycleEvent env ev j) = j \<and> (names_no_order ev \<or> (ev_Type ev = OrderLifecycleEventOpenOrder \<or> ev_Type ev = OrderLifecycleEventStatus) \<and>
       (\<exists>views je. le_views env = Some views \<and> orderJournalEventFromLifecycle ev (le_now env) = Some je \<and>
          orderJournalViewForLifecycleEvent (bind_route (le_route env) je) views = None))"
    by (rule append_outcome)
  ultimately show ?thesis by metis
qed


lemma paired_event_route:
  assumes "orderJournalViewForLifecycleEvent ev vs = Some view"
  defines "je \<equiv> copyOrderJournalIdentityFromView (ev\<lparr>je_Endpoint := ov_Endpoint view\<rparr>) view"
  shows "orderJournalRouteIdentity (je_Endpoint je) (je_ClientID je) (je_Account je) (je_Mode je) =
      orderJournalRouteIdentity (ov_Endpoint view) (ov_ClientID view) (ov_Account view) (ov_Mode view)"
    and "ov_OrderRef view \<noteq> [] \<Longrightarrow> je_OrderRef je = ov_OrderRef view"
proof -
  let ?scope = "filter (orderJournalEventScopeMatchesView ev) vs"
  have ok: "\<not> orderJournalPairingContradicted ev view ?scope"
    using assms(1) by (auto simp: orderJournalViewForLifecycleEvent_def Let_def split: option.splits if_splits)
  have "view \<in> set ?scope"
    using assms(1) permID_pairing(1) [of ev ?scope view] no_permID_pairing [of ev ?scope view]
    by (auto simp: orderJournalViewForLifecycleEvent_def Let_def split: option.splits if_splits simp del: set_filter)
  then have scope: "orderJournalEventScopeMatchesView ev view" by simp
  then have acct: "ToUpper (TrimSpace (je_Account ev)) = ToUpper (TrimSpace (ov_Account view))"
    by (intro EqualFold_ToUpper) (simp add: orderJournalEventScopeMatchesView_def)
  from scope have mode: "ToLower (TrimSpace (je_Mode ev)) = ToLower (TrimSpace (ov_Mode view))"
    and client: "je_ClientID ev = ov_ClientID view"
    by (simp_all add: orderJournalEventScopeMatchesView_def EqualFold_def)
  from acct mode client have "ToUpper (TrimSpace (je_Account je)) = ToUpper (TrimSpace (ov_Account view))" "je_ClientID je = ov_ClientID view"
    "ToLower (TrimSpace (je_Mode je)) = ToLower (TrimSpace (ov_Mode view))" "je_Endpoint je = ov_Endpoint view"
    by (simp_all add: je_def copyOrderJournalIdentityFromView_def or_text_def)
  then show "orderJournalRouteIdentity (je_Endpoint je) (je_ClientID je) (je_Account je) (je_Mode je) =
      orderJournalRouteIdentity (ov_Endpoint view) (ov_ClientID view) (ov_Account view) (ov_Mode view)"
    by (simp add: orderJournalRouteIdentity_def)
  show "ov_OrderRef view \<noteq> [] \<Longrightarrow> je_OrderRef je = ov_OrderRef view"
    using ok by (auto simp: je_def copyOrderJournalIdentityFromView_def or_text_def orderJournalPairingContradicted_def orderJournalRefsDiffer_def split: if_splits)
qed

lemmas pairing_eval = orderJournalViewForLifecycleEvent_def orderJournalViewForPermID_def orderJournalViewWithoutPermID_def
  orderJournalPairingContradicted_def orderJournalEventScopeMatchesView_def orderJournalRefsDiffer_def orderJournalRefNames_def
  orderJournalOrderIDNames_def orderJournalEventOnViewSocket_def EqualFold_def TrimSpace_def ToLower_def zero_event_def zero_view_def

text \<open>An order identifier is not compared where the reference pairs: the callback of a different broker order identifier on the
  row's own socket pairs with the row that carries its reference.\<close>

definition reused_reference_row :: OrderView where
  "reused_reference_row = zero_view\<lparr>ov_OrderRef := ''c1'', ov_ReservedOrderID := 4, ov_Open := True\<rparr>"

definition reused_reference_callback :: orderJournalEvent where
  "reused_reference_callback = zero_event\<lparr>je_PermID := 7, je_OrderRef := ''c1'', je_ReservedOrderID := 5, je_clientIDPresent := True,
     je_Type := orderJournalEventBrokerAcknowledged\<rparr>"

text \<open>The shared check does not compare order identifiers unless the row already holds the callback's permanent
  identifier: an acknowledgement of order 5 is paired with the open row of order 4 that carries the same reference, with and
  without a permanent identifier.\<close>

theorem pairing_can_change_order_id:
  "orderJournalViewForLifecycleEvent reused_reference_callback [reused_reference_row] = Some reused_reference_row \<and>
   orderJournalViewForLifecycleEvent (reused_reference_callback\<lparr>je_PermID := 0\<rparr>) [reused_reference_row] = Some reused_reference_row \<and>
   je_ReservedOrderID reused_reference_callback = 5 \<and> ov_ReservedOrderID reused_reference_row = 4"
  by (simp add: reused_reference_callback_def reused_reference_row_def pairing_eval)

end
