(* ===== verification/Order_Fold.thy ===== *)
theory Order_Fold
  imports Order_Pairing "HOL-Library.AList"
begin

text \<open>
  The order read model: \<^verbatim>\<open>internal/daemon/order_read_model.go\<close>, \<^verbatim>\<open>stock_entry_stop_lifecycle.go\<close> and
  \<^verbatim>\<open>order_read_cache.go\<close>. Journal events are grouped by a key, aliases of the key being resolved, and each group is
  folded into one row: its identity, its send attempts, whether it is settled, whether it is open and what may be done with it.
  \<^item> Go maps are association lists in the order of insertion. Iteration over a map has no fixed order in Go; the loops
    modelled here update each entry independently or only ask whether an entry exists.
  \<^item> The calendar that decides when the session of a DAY order closes is an argument.
  \<^item> Events by key keep the journal events; their rendering for clients copies the time.
\<close>

subsection \<open>Merging an event into a row\<close>

definition orderOriginForRead :: "string \<Rightarrow> string" where
  "orderOriginForRead origin = (if origin \<in> {''agent'', ''human-tty'', ''human-paired-device'', ''daemon-preauthorised'',
     ''daemon-owner-queued'', ''daemon-protective-guard'', ''desk-automatic''} then origin else [])"

definition orderJournalEventPlacesWithOrigin :: "orderJournalEvent \<Rightarrow> bool" where
  "orderJournalEventPlacesWithOrigin ev \<longleftrightarrow> \<not> (je_Type ev \<noteq> orderJournalEventSendAttempted \<or> je_Origin ev = []) \<and>
     je_ActionKind ev \<in> {[], ActionPlace, ActionExercise, ActionPurge, ActionRestore}"

definition mapOrderJournalLifecycleStatus :: "orderJournalEvent \<Rightarrow> OrderLifecycle" where
  "mapOrderJournalLifecycleStatus ev =
     (if je_Type ev = orderJournalEventSendError \<and> je_SendDisposition ev = SendDispositionDefinitelyUnsent \<and>
        (je_ActionKind ev = ActionPlace \<or> je_ActionKind ev = ActionExercise) then OrderLifecycleRejected
      else if je_Type ev = orderJournalEventBrokerError then mapBrokerErrorLifecycleStatus (je_ErrorCode ev) (je_Status ev)
      else if je_Status ev \<noteq> [] then mapBrokerOrderLifecycleWithDeactivation (je_Status ev) (je_Filled ev) (je_Remaining ev) (je_Deactivated ev)
      else if je_Type ev = orderJournalEventPreviewed \<or> je_Type ev = orderJournalEventTokenConfirmed then OrderLifecyclePreviewed
      else if je_Type ev = orderJournalEventSendAttempted then OrderLifecyclePendingSubmit
      else if je_Type ev = orderJournalEventSendCompleted then
        (if je_ActionKind ev = ActionCancel \<or> je_ActionKind ev = ActionSmokeCleanup then OrderLifecyclePendingCancel
         else if je_ActionKind ev = ActionModify then OrderLifecycleSubmitted else OrderLifecyclePendingSubmit)
      else if je_Type ev = orderJournalEventBrokerAcknowledged then OrderLifecycleSubmitted
      else if je_Type ev = orderJournalEventModifyRequested then OrderLifecycleSubmitted
      else if je_Type ev = orderJournalEventCancelRequested then OrderLifecyclePendingCancel
      else if je_Type ev = orderJournalEventReconciledUnknown then OrderLifecycleUnknownReconcileRequired
      else if je_Type ev = orderJournalEventReconciledAbsent then OrderLifecycleClosedReconciled
      else if je_SendState ev = orderSendStateUncertainSend then OrderLifecycleUnknownReconcileRequired
      else OrderLifecyclePreviewed)"

definition orderJournalEventCarriesZeroRemaining :: "orderJournalEvent \<Rightarrow> bool" where
  "orderJournalEventCarriesZeroRemaining ev \<longleftrightarrow>
     (if f64_nonzero (je_Remaining ev) then True
      else EqualFold (je_Status ev) ''Filled'' \<or>
        EqualFold (je_Status ev) ''Cancelled'' \<and> f64_eq (je_Filled ev) (ot_Quantity (je_terms ev)) \<and> f64_positive (ot_Quantity (je_terms ev)))"

definition brokerErrorShouldPreserveWorkingOrder :: "OrderView \<Rightarrow> orderJournalEvent \<Rightarrow> bool" where
  "brokerErrorShouldPreserveWorkingOrder view ev \<longleftrightarrow>
     (if je_Type ev \<noteq> orderJournalEventBrokerError then False
      else if mapBrokerErrorLifecycleStatus (je_ErrorCode ev) (je_Status ev) \<in> {OrderLifecycleFilled, OrderLifecycleCancelled, OrderLifecycleInactive}
      then False
      else ov_LastEvent view = orderJournalEventModifyRequested \<or> ov_LastEvent view = orderJournalEventCancelRequested)"

text \<open>The order terms: what the event says replaces what the row says.\<close>

definition merge_contract :: "contract_terms \<Rightarrow> contract_terms \<Rightarrow> contract_terms" where
  "merge_contract v c = copy_contract c v"

definition merge_terms :: "mutable_terms \<Rightarrow> mutable_terms \<Rightarrow> mutable_terms" where
  "merge_terms v t = copy_terms t v"

definition mergeOrderJournalEventIntoView :: "OrderView \<Rightarrow> orderJournalEvent \<Rightarrow> OrderView" where
  "mergeOrderJournalEventIntoView view ev =
     (let link = or_some (ov_EntryLink view) (je_EntryLink ev);
          preserve = brokerErrorShouldPreserveWorkingOrder view ev;
          isError = (je_Type ev = orderJournalEventBrokerError);
          acknowledged = (je_Type ev = orderJournalEventBrokerAcknowledged);
          errorStatus = (if isError then mapBrokerErrorLifecycleStatus (je_ErrorCode ev) (je_Status ev) else OrderLifecycleUnset)
      in view\<lparr>
       ov_AttachedStop := or_some (ov_AttachedStop view) (je_AttachedStop ev),
       ov_EntryLink := link,
       ov_FixedStopPrice := (if f64_positive (je_FixedStopPrice ev) \<or> acknowledged \<and> link \<noteq> None then je_FixedStopPrice ev else ov_FixedStopPrice view),
       ov_BrokerParentID := or_some (je_BrokerParentID ev) (ov_BrokerParentID view),
       ov_OrderRef := or_text (ov_OrderRef view) (je_OrderRef ev),
       ov_PreviewTokenID := or_text (ov_PreviewTokenID view) (je_PreviewTokenID ev),
       ov_ReservedOrderID := or_int (je_ReservedOrderID ev) (ov_ReservedOrderID view),
       ov_ClientID := or_int (je_ClientID ev) (ov_ClientID view),
       ov_PermID := or_int (je_PermID ev) (ov_PermID view),
       ov_Account := or_text (je_Account ev) (ov_Account view),
       ov_Endpoint := or_text (je_Endpoint ev) (ov_Endpoint view),
       ov_Mode := or_text (je_Mode ev) (ov_Mode view),
       ov_Source := or_text (je_Source ev) (ov_Source view),
       ov_Origin := (if ov_Origin view = [] \<and> orderJournalEventPlacesWithOrigin ev then orderOriginForRead (je_Origin ev) else ov_Origin view),
       ov_PurgeID := or_text (je_PurgeID ev) (ov_PurgeID view),
       ov_LegID := or_text (je_LegID ev) (ov_LegID view),
       ov_BypassPreview := (je_BypassPreview ev \<or> ov_BypassPreview view),
       ov_contract := merge_contract (ov_contract view) (je_contract ev),
       ov_terms := merge_terms (ov_terms view) (je_terms ev),
       ov_AlgoStrategy := (if acknowledged then je_AlgoStrategy ev else ov_AlgoStrategy view),
       ov_AlgoKnown := (if acknowledged then je_AlgoKnown ev else ov_AlgoKnown view),
       ov_AdaptivePriority := (if je_Type ev = orderJournalEventPreviewed \<or> je_Type ev = orderJournalEventSendAttempted \<or>
           je_Type ev = orderJournalEventModifyRequested \<or> acknowledged \<and> je_AlgoKnown ev
         then je_AdaptivePriority ev else ov_AdaptivePriority view),
       ov_OCAGroup := or_text (je_OCAGroup ev) (ov_OCAGroup view),
       ov_OCAType := (if je_OCAGroup ev \<noteq> [] then je_OCAType ev else ov_OCAType view),
       ov_Deactivated := or_some (je_Deactivated ev) (ov_Deactivated view),
       ov_Status := (if je_Status ev \<noteq> [] \<and> \<not> preserve \<and> (\<not> isError \<or> orderLifecycleStatusIsTerminal errorStatus) then je_Status ev else ov_Status view),
       ov_Filled := or_float (je_Filled ev) (ov_Filled view),
       ov_Remaining := (if f64_nonzero (je_Remaining ev) \<or> orderJournalEventCarriesZeroRemaining ev then je_Remaining ev else ov_Remaining view),
       ov_AvgFillPrice := or_float (je_AvgFillPrice ev) (ov_AvgFillPrice view),
       ov_LastFillPrice := or_float (je_LastFillPrice ev) (ov_LastFillPrice view),
       ov_WhyHeld := (if je_WhyHeld ev \<noteq> [] \<or> acknowledged \<or> je_Type ev = orderJournalEventStatusUpdated \<and> je_Status ev \<noteq> ''Execution''
         then je_WhyHeld ev else ov_WhyHeld view),
       ov_MktCapPrice := or_float (je_MktCapPrice ev) (ov_MktCapPrice view),
       ov_LastErrorCode := (if isError then je_ErrorCode ev else 0),
       ov_SendState := (if isError then
           (if preserve \<and> errorStatus = OrderLifecycleUnknownReconcileRequired \<and> ov_SendState view = orderSendStateBrokerAcknowledged then ov_SendState view
            else if preserve then orderSendStateUncertainSend
            else if orderLifecycleStatusIsTerminal errorStatus then orderSendStateTerminal
            else orderSendStateUncertainSend)
         else or_text (je_SendState ev) (ov_SendState view)),
       ov_LastMessage := or_text (je_Message ev) (ov_LastMessage view),
       ov_LastEvent := je_Type ev,
       ov_UpdatedAt := (if \<not> IsZero (je_At ev) then je_At ev else ov_UpdatedAt view)\<rparr>)"

subsection \<open>Folding the events of a row\<close>

record orderAttemptFold =
  oa_action :: string
  oa_intent :: orderJournalEvent
  oa_before :: OrderView
  oa_beforeLast :: orderJournalEvent
  oa_completed :: bool
  oa_resolved :: bool
  oa_uncertain :: bool

record orderViewFold =
  of_view :: OrderView
  of_last :: orderJournalEvent
  of_attempts :: "(string \<times> orderAttemptFold) list"
  of_terminal :: bool
  of_definitiveTerminal :: bool

definition new_fold :: orderViewFold where
  "new_fold = \<lparr>of_view = zero_view, of_last = zero_event, of_attempts = [], of_terminal = False, of_definitiveTerminal = False\<rparr>"

definition orderJournalEventStartsAttempt :: "orderJournalEvent \<Rightarrow> bool" where
  "orderJournalEventStartsAttempt ev \<longleftrightarrow> \<not> (je_AttemptID ev = [] \<or> je_ActionKind ev = []) \<and>
     (if je_Type ev = orderJournalEventSendAttempted then je_ActionKind ev \<in> {ActionPlace, ActionExercise, ActionPurge, ActionRestore}
      else if je_Type ev = orderJournalEventModifyRequested then je_ActionKind ev = ActionModify
      else if je_Type ev = orderJournalEventCancelRequested then je_ActionKind ev = ActionCancel \<or> je_ActionKind ev = ActionSmokeCleanup
      else False)"

definition orderJournalEventIsTerminal :: "orderJournalEvent \<Rightarrow> bool" where
  "orderJournalEventIsTerminal ev \<longleftrightarrow>
     (if je_Type ev = orderJournalEventReconciledAbsent then True
      else if je_Type ev = orderJournalEventBrokerError then orderLifecycleStatusIsTerminal (mapBrokerErrorLifecycleStatus (je_ErrorCode ev) (je_Status ev))
      else if je_Type ev = orderJournalEventStatusUpdated \<or> je_Type ev = orderJournalEventBrokerAcknowledged
      then orderLifecycleStatusIsTerminal (mapOrderJournalLifecycleStatus ev)
      else je_SendState ev = orderSendStateTerminal)"

text \<open>\<^verbatim>\<open>math.Abs(x-y) <= 1e-9\<close>.\<close>

definition f64_close :: "float64 \<Rightarrow> float64 \<Rightarrow> bool" where
  "f64_close x y \<longleftrightarrow> f64_le (f64_Abs (f64_sub x y)) (f64_round False (1 / 10 ^ 9))"

definition close_options :: "float64 option \<Rightarrow> float64 option \<Rightarrow> bool" where
  "close_options x y \<longleftrightarrow> (case (x, y) of (Some a, Some b) \<Rightarrow> f64_close a b | _ \<Rightarrow> x = None \<and> y = None)"

definition trailSpecsEquivalent :: "OrderTrailSpec option \<Rightarrow> OrderTrailSpec option \<Rightarrow> bool" where
  "trailSpecsEquivalent a b \<longleftrightarrow> (case (a, b) of
       (Some s, Some t) \<Rightarrow> close_options (trail_TrailingAmount s) (trail_TrailingAmount t) \<and> close_options (trail_TrailingPercent s) (trail_TrailingPercent t) \<and>
         close_options (trail_LimitOffset s) (trail_LimitOffset t) \<and> f64_close (trail_InitialStopPrice s) (trail_InitialStopPrice t)
     | _ \<Rightarrow> a = None \<and> b = None)"

definition orderModifyAcknowledgementTrailMatches :: "OrderTrailSpec option \<Rightarrow> OrderTrailSpec option \<Rightarrow> bool" where
  "orderModifyAcknowledgementTrailMatches intent ack \<longleftrightarrow> (case (intent, ack) of
       (Some s, Some t) \<Rightarrow> EqualFold (TrimSpace (trail_Basis s)) (TrimSpace (trail_Basis t)) \<and>
         EqualFold (TrimSpace (trail_OffsetType s)) (TrimSpace (trail_OffsetType t)) \<and> trailSpecsEquivalent intent ack
     | _ \<Rightarrow> intent = None \<and> ack = None)"

definition orderAlgorithmMatches :: "string \<Rightarrow> string \<Rightarrow> string \<Rightarrow> bool \<Rightarrow> bool" where
  "orderAlgorithmMatches expectedPriority observedPriority observedStrategy known \<longleftrightarrow>
     (if expectedPriority \<noteq> observedPriority then False
      else if expectedPriority \<noteq> [] then known \<and> observedStrategy = ''Adaptive''
      else observedStrategy = [])"

definition equal_text :: "string \<Rightarrow> string \<Rightarrow> bool" where
  "equal_text a b \<longleftrightarrow> EqualFold (TrimSpace a) (TrimSpace b)"

definition orderModifyAcknowledgementMatches :: "orderJournalEvent \<Rightarrow> orderJournalEvent \<Rightarrow> bool" where
  "orderModifyAcknowledgementMatches intent ack \<longleftrightarrow>
     (let i = je_terms intent; a = je_terms ack in
      \<not> (je_Type intent \<noteq> orderJournalEventModifyRequested \<or> je_Type ack \<noteq> orderJournalEventBrokerAcknowledged) \<and>
      (case je_EntryLink intent of
         None \<Rightarrow> True
       | Some link \<Rightarrow> \<not> (je_BrokerParentID ack = None \<or> je_BrokerParentID ack \<noteq> Some (sl_ParentID link) \<or>
            \<not> f64_eq (je_FixedStopPrice intent) (je_FixedStopPrice ack))) \<and>
      equal_text (ot_Action i) (ot_Action a) \<and> equal_text (ot_OrderType i) (ot_OrderType a) \<and> equal_text (ot_TIF i) (ot_TIF a) \<and>
      orderAlgorithmMatches (je_AdaptivePriority intent) (je_AdaptivePriority ack) (je_AlgoStrategy ack) (je_AlgoKnown ack) \<and>
      ot_TriggerMethod i = ot_TriggerMethod a \<and> ot_OutsideRTH i = ot_OutsideRTH a \<and>
      f64_close (ot_Quantity i) (ot_Quantity a) \<and> f64_close (ot_LimitPrice i) (ot_LimitPrice a) \<and>
      orderModifyAcknowledgementTrailMatches (ot_Trail i) (ot_Trail a))"

definition resolve_where :: "(orderAttemptFold \<Rightarrow> bool) \<Rightarrow> (string \<times> orderAttemptFold) list \<Rightarrow> (string \<times> orderAttemptFold) list" where
  "resolve_where P = map (\<lambda>(k, a). (k, if P a then a\<lparr>oa_resolved := True, oa_uncertain := False\<rparr> else a))"

definition resolveAttempts :: "string list \<Rightarrow> orderViewFold \<Rightarrow> orderViewFold" where
  "resolveAttempts actions f = f\<lparr>of_attempts := resolve_where (\<lambda>a. oa_action a \<in> set actions) (of_attempts f)\<rparr>"

definition resolveMatchingModifyAttempt :: "orderJournalEvent \<Rightarrow> orderViewFold \<Rightarrow> orderViewFold" where
  "resolveMatchingModifyAttempt ack f = f\<lparr>of_attempts :=
     resolve_where (\<lambda>a. \<not> (oa_action a \<noteq> ActionModify \<or> oa_resolved a \<or> \<not> orderModifyAcknowledgementMatches (oa_intent a) ack)) (of_attempts f)\<rparr>"

text \<open>A callback that omits the flag cannot clear explicit deactivation evidence.\<close>

definition inherit_deactivation :: "OrderView \<Rightarrow> orderJournalEvent \<Rightarrow> orderJournalEvent" where
  "inherit_deactivation view ev =
     (if (je_Type ev = orderJournalEventStatusUpdated \<or> je_Type ev = orderJournalEventBrokerAcknowledged) \<and> je_Deactivated ev = None
      then let ev' = ev\<lparr>je_Deactivated := ov_Deactivated view\<rparr>
           in if je_Deactivated ev' = Some True \<and> \<not> orderLifecycleStatusIsTerminal (mapOrderJournalLifecycleStatus ev')
              then ev'\<lparr>je_SendState := orderSendStateBrokerAcknowledged\<rparr> else ev'
      else ev)"

definition merge_plain :: "orderJournalEvent \<Rightarrow> orderViewFold \<Rightarrow> orderViewFold" where
  "merge_plain ev f = f\<lparr>of_view := mergeOrderJournalEventIntoView (of_view f) ev, of_last := ev\<rparr>"

text \<open>The local outcome of a staged send.\<close>

definition merge_outcome :: "orderJournalEvent \<Rightarrow> orderViewFold \<Rightarrow> orderViewFold" where
  "merge_outcome ev f =
     (let attempt0 = (case map_of (of_attempts f) (je_AttemptID ev) of
            None \<Rightarrow> \<lparr>oa_action = je_ActionKind ev, oa_intent = zero_event, oa_before = of_view f, oa_beforeLast = of_last f, oa_completed = False,
              oa_resolved = False, oa_uncertain = True\<rparr>
          | Some a \<Rightarrow> a);
          attempt = (if oa_action attempt0 \<noteq> je_ActionKind ev then attempt0\<lparr>oa_uncertain := True\<rparr> else attempt0);
          store = (\<lambda>a. f\<lparr>of_attempts := AList.update (je_AttemptID ev) a (of_attempts f)\<rparr>)
      in if oa_resolved attempt \<or> of_terminal f then store attempt
         else if je_Type ev = orderJournalEventSendCompleted then merge_plain ev (store (attempt\<lparr>oa_completed := True\<rparr>))
         else if je_SendDisposition ev = SendDispositionDefinitelyUnsent then
           (let f' = store (attempt\<lparr>oa_resolved := True\<rparr>)
            in if oa_action attempt = ActionPlace \<or> oa_action attempt = ActionExercise
               then f'\<lparr>of_view := (mergeOrderJournalEventIntoView (of_view f) ev)\<lparr>ov_SendState := orderSendStateTerminal\<rparr>, of_last := ev\<rparr>
               else f'\<lparr>of_view := (oa_before attempt)\<lparr>ov_LastMessage := or_text (je_Message ev) (ov_LastMessage (oa_before attempt))\<rparr>,
                      of_last := oa_beforeLast attempt\<rparr>)
         else merge_plain ev (store (attempt\<lparr>oa_uncertain := True\<rparr>)))"

definition orderViewFold_merge :: "orderViewFold \<Rightarrow> orderJournalEvent \<Rightarrow> orderViewFold" where
  "orderViewFold_merge f0 ev0 =
     (let ev = inherit_deactivation (of_view f0) ev0;
          f = (if of_terminal f0 \<and> \<not> of_definitiveTerminal f0 \<and> je_Type ev = orderJournalEventBrokerAcknowledged \<and> je_Deactivated ev = Some True \<and>
                 EqualFold (ov_Status (of_view f0)) ''Inactive'' then f0\<lparr>of_terminal := False\<rparr> else f0)
      in if of_terminal f \<and> \<not> orderJournalEventIsTerminal ev then f
         else if orderJournalEventStartsAttempt ev then
           merge_plain ev (f\<lparr>of_attempts := AList.update (je_AttemptID ev)
             \<lparr>oa_action = je_ActionKind ev, oa_intent = ev, oa_before = of_view f, oa_beforeLast = of_last f, oa_completed = False, oa_resolved = False,
              oa_uncertain = False\<rparr> (of_attempts f)\<rparr>)
         else if je_AttemptID ev \<noteq> [] \<and> (je_Type ev = orderJournalEventSendCompleted \<or> je_Type ev = orderJournalEventSendError) then merge_outcome ev f
         else let g = merge_plain ev f
              in if orderJournalEventIsTerminal ev then
                   g\<lparr>of_definitiveTerminal := (if je_Type ev = orderJournalEventBrokerError \<or> mapOrderJournalLifecycleStatus ev \<noteq> OrderLifecycleInactive
                       then True else of_definitiveTerminal g),
                     of_terminal := True, of_attempts := map (\<lambda>(k, a). (k, a\<lparr>oa_resolved := True\<rparr>)) (of_attempts g)\<rparr>
                 else if je_Type ev = orderJournalEventBrokerAcknowledged then resolveMatchingModifyAttempt ev (resolveAttempts [ActionPlace] g)
                 else if je_Type ev = orderJournalEventStatusUpdated \<and> EqualFold (TrimSpace (je_Status ev)) ''PendingCancel''
                 then resolveAttempts [ActionCancel, ActionSmokeCleanup] g
                 else g)"

definition orderViewFold_finish :: "orderViewFold \<Rightarrow> OrderView \<times> orderJournalEvent \<times> bool" where
  "orderViewFold_finish f =
     (if \<not> of_terminal f \<and> list_ex (\<lambda>(k, a). \<not> (oa_resolved a \<or> oa_completed a \<and> \<not> oa_uncertain a)) (of_attempts f)
      then ((of_view f)\<lparr>ov_SendState := orderSendStateUncertainSend\<rparr>, of_last f, True)
      else (of_view f, of_last f, False))"

subsection \<open>What a row says\<close>

definition mapOrderViewLifecycleStatus :: "OrderView \<Rightarrow> orderJournalEvent \<Rightarrow> bool \<Rightarrow> OrderLifecycle" where
  "mapOrderViewLifecycleStatus view latest attemptUncertain =
     (if je_Type latest = orderJournalEventReconciledAbsent then OrderLifecycleClosedReconciled
      else if je_Type latest = orderJournalEventBrokerError then
        (let status = mapBrokerErrorLifecycleStatus (je_ErrorCode latest) (je_Status latest)
         in if status = OrderLifecycleInactive then status
            else if ov_SendState view = orderSendStateUncertainSend then OrderLifecycleUnknownReconcileRequired
            else if orderLifecycleStatusIsTerminal status then status
            else if ov_Status view \<noteq> [] \<and> ov_SendState view = orderSendStateBrokerAcknowledged
            then mapBrokerOrderLifecycleWithDeactivation (ov_Status view) (ov_Filled view) (ov_Remaining view) (ov_Deactivated view)
            else OrderLifecycleUnknownReconcileRequired)
      else if je_Type latest = orderJournalEventSendError \<and> je_SendDisposition latest = SendDispositionDefinitelyUnsent \<and>
        (je_ActionKind latest = ActionPlace \<or> je_ActionKind latest = ActionExercise) then OrderLifecycleRejected
      else if attemptUncertain then OrderLifecycleUnknownReconcileRequired
      else if je_Type latest = orderJournalEventSendCompleted \<and> (je_ActionKind latest = ActionCancel \<or> je_ActionKind latest = ActionSmokeCleanup)
      then OrderLifecyclePendingCancel
      else if ov_Status view \<noteq> []
      then mapBrokerOrderLifecycleWithDeactivation (ov_Status view) (ov_Filled view) (ov_Remaining view) (ov_Deactivated view)
      else if ov_LastEvent view = orderJournalEventPreviewed \<or> ov_LastEvent view = orderJournalEventTokenConfirmed then OrderLifecyclePreviewed
      else if ov_LastEvent view = orderJournalEventSendAttempted then OrderLifecyclePendingSubmit
      else if ov_LastEvent view = orderJournalEventSendCompleted then
        (if je_ActionKind latest = ActionCancel \<or> je_ActionKind latest = ActionSmokeCleanup then OrderLifecyclePendingCancel
         else if je_ActionKind latest = ActionModify then OrderLifecycleSubmitted else OrderLifecyclePendingSubmit)
      else if ov_LastEvent view = orderJournalEventBrokerAcknowledged then OrderLifecycleSubmitted
      else if ov_LastEvent view = orderJournalEventModifyRequested then OrderLifecycleSubmitted
      else if ov_LastEvent view = orderJournalEventCancelRequested then OrderLifecyclePendingCancel
      else if ov_LastEvent view = orderJournalEventBrokerError then OrderLifecycleUnknownReconcileRequired
      else if ov_LastEvent view = orderJournalEventReconciledUnknown then OrderLifecycleUnknownReconcileRequired
      else if ov_SendState view = orderSendStateUncertainSend then OrderLifecycleUnknownReconcileRequired
      else OrderLifecyclePreviewed)"

definition orderViewIsOpen :: "OrderView \<Rightarrow> bool" where
  "orderViewIsOpen view \<longleftrightarrow>
     (if ov_SendState view = orderSendStateTerminal then False
      else if orderLifecycleStatusIsTerminal (ov_LifecycleStatus view) then False
      else if ov_LastEvent view \<in> {orderJournalEventSendAttempted, orderJournalEventBrokerAcknowledged, orderJournalEventStatusUpdated,
        orderJournalEventModifyRequested, orderJournalEventCancelRequested, orderJournalEventBrokerError, orderJournalEventReconciledUnknown} then True
      else ov_SendState view \<in> {orderSendStateReserved, orderSendStateSendAttempted, orderSendStateBrokerAcknowledged, orderSendStateUncertainSend})"

definition orderViewBrokerConfirmedForWrite :: "OrderView \<Rightarrow> bool" where
  "orderViewBrokerConfirmedForWrite view \<longleftrightarrow> \<not> ov_SendState view \<noteq> orderSendStateBrokerAcknowledged \<and>
     ov_LifecycleStatus view \<in> {OrderLifecycleSubmitted, OrderLifecyclePreSubmitted, OrderLifecyclePartiallyFilled}"

definition positiveFinite :: "float64 \<Rightarrow> bool" where
  "positiveFinite v \<longleftrightarrow> f64_positive v \<and> \<not> f64_IsNaN v \<and> \<not> f64_IsInf v"

definition orderViewModifyEligible :: "OrderView \<Rightarrow> bool" where
  "orderViewModifyEligible view \<longleftrightarrow>
     (let t = ov_terms view; orderType = ToUpper (TrimSpace (ot_OrderType t)); secType = oc_SecType (ov_contract view) in
      if ov_AttachedStop view \<noteq> None \<or> ov_EntryLink view \<noteq> None \<and> ov_EntryState view \<noteq> ''active'' then False
      else if \<not> ov_Open view \<or> ov_ReservedOrderID view \<le> 0 \<or> \<not> orderViewBrokerConfirmedForWrite view \<or>
        ov_LifecycleStatus view = OrderLifecyclePendingCancel \<or> \<not> EqualFold secType ''STK'' \<and> \<not> EqualFold secType ''OPT'' then False
      else if orderType = ''STP'' then ov_EntryLink view \<noteq> None \<and> ov_EntryState view = ''active'' \<and> ot_TIF t = ''GTC'' \<and> ot_TriggerMethod t = 2 \<and>
        \<not> ot_OutsideRTH t \<and> positiveFinite (ov_FixedStopPrice view)
      else if orderType = ''LMT'' then EqualFold (ot_TIF t) ''DAY''
      else if orderType = ''TRAIL'' \<or> orderType = ''TRAIL LIMIT'' then EqualFold (ot_TIF t) ''DAY'' \<or> EqualFold (ot_TIF t) ''GTC''
      else False)"

definition orderViewCancelEligibleWithAttemptTruth :: "OrderView \<Rightarrow> bool \<Rightarrow> bool" where
  "orderViewCancelEligibleWithAttemptTruth view attemptUncertain \<longleftrightarrow>
     (if \<not> ov_Open view \<or> ov_ReservedOrderID view \<le> 0 \<or> ov_LifecycleStatus view = OrderLifecyclePendingCancel then False
      else if attemptUncertain then True
      else orderViewBrokerConfirmedForWrite view)"

text \<open>The row of a fold: one iteration of the second loop of \<^verbatim>\<open>buildOrderViews\<close>.\<close>

definition finished_view :: "orderViewFold \<Rightarrow> OrderView" where
  "finished_view f =
     (case orderViewFold_finish f of (view, latest, attemptUncertain) \<Rightarrow>
        let v1 = view\<lparr>ov_LifecycleStatus := mapOrderViewLifecycleStatus view latest attemptUncertain\<rparr>;
            v2 = v1\<lparr>ov_Open := orderViewIsOpen v1\<rparr>;
            v3 = v2\<lparr>ov_ModifyEligible := orderViewModifyEligible v2\<rparr>
        in v3\<lparr>ov_CancelEligible := orderViewCancelEligibleWithAttemptTruth v3 attemptUncertain\<rparr>)"

subsection \<open>Keys and their aliases\<close>

definition event_scope :: "orderJournalEvent \<Rightarrow> string" where
  "event_scope ev = orderJournalRouteIdentity (je_Endpoint ev) (je_ClientID ev) (je_Account ev) (je_Mode ev)"

definition orderJournalScopedOrderIDKey :: "orderJournalEvent \<Rightarrow> string" where
  "orderJournalScopedOrderIDKey ev = event_scope ev @ CHR 0x1F # Itoa (je_ReservedOrderID ev)"

text \<open>Order identifiers that two references share, and order identifiers seen without a reference before one with.\<close>

definition ambiguousReservedOrderIDs :: "orderJournalEvent list \<Rightarrow> string \<Rightarrow> bool" where
  "ambiguousReservedOrderIDs events key \<longleftrightarrow>
     1 < length (remdups (map je_OrderRef (filter (\<lambda>ev. \<not> (je_ReservedOrderID ev = 0 \<or> je_OrderRef ev = []) \<and> orderJournalScopedOrderIDKey ev = key) events)))"

definition first_ref_index :: "orderJournalEvent list \<Rightarrow> string \<Rightarrow> nat option" where
  "first_ref_index events key =
     map_option fst (find_first (\<lambda>(i, ev). \<not> (je_ReservedOrderID ev = 0 \<or> je_OrderRef ev = []) \<and> orderJournalScopedOrderIDKey ev = key) (enumerate 0 events))"

definition reservedOrderIDsWithPrelinkedBrokerOnlyEvents :: "orderJournalEvent list \<Rightarrow> string \<Rightarrow> bool" where
  "reservedOrderIDsWithPrelinkedBrokerOnlyEvents events key \<longleftrightarrow>
     list_ex (\<lambda>(i, ev). \<not> (je_ReservedOrderID ev = 0 \<or> je_OrderRef ev \<noteq> []) \<and> orderJournalScopedOrderIDKey ev = key \<and>
       (case first_ref_index events key of None \<Rightarrow> False | Some refIndex \<Rightarrow> i < refIndex)) (enumerate 0 events)"

definition orderJournalIdentityKeysForAliases :: "orderJournalEvent \<Rightarrow> (string \<Rightarrow> bool) \<Rightarrow> (string \<Rightarrow> bool) \<Rightarrow> string list" where
  "orderJournalIdentityKeysForAliases ev ambiguousOrderIDs prelinkedOrderIDs =
     (if je_OrderRef ev \<noteq> [] then [event_scope ev @ ''|ref:'' @ je_OrderRef ev] else []) @
     (let orderIDKey = orderJournalScopedOrderIDKey ev
      in if je_ReservedOrderID ev \<noteq> 0 \<and> \<not> (je_OrderRef ev \<noteq> [] \<and> (ambiguousOrderIDs orderIDKey \<or> prelinkedOrderIDs orderIDKey))
         then [event_scope ev @ ''|order:'' @ Itoa (je_ReservedOrderID ev)] else []) @
     (if je_PermID ev \<noteq> 0 then [event_scope ev @ ''|perm:'' @ Itoa (je_PermID ev)] else [])"

type_synonym aliases = "(string \<times> string) list"

function resolve_from :: "aliases \<Rightarrow> string list \<Rightarrow> string \<Rightarrow> string" where
  "resolve_from aliases seen key =
     (case map_of aliases key of
        None \<Rightarrow> key
      | Some target \<Rightarrow> if target = [] \<or> target = key \<or> key \<in> set seen then key else resolve_from aliases (key # seen) target)"
  by auto
termination
proof (relation "measure (\<lambda>(aliases, seen, key). card (fst ` set aliases - set seen))", goal_cases)
  case (2 aliases seen key target)
  then have "key \<in> fst ` set aliases - set seen" by (auto dest: map_of_SomeD intro: rev_image_eqI)
  then have "card (fst ` set aliases - set seen - {key}) < card (fst ` set aliases - set seen)" by (intro card_Diff1_less) auto
  moreover have "fst ` set aliases - set (key # seen) = fst ` set aliases - set seen - {key}" by auto
  ultimately show ?case by simp
qed simp

declare resolve_from.simps [simp del]

definition resolveOrderJournalAlias :: "string \<Rightarrow> aliases \<Rightarrow> string" where
  "resolveOrderJournalAlias key aliases = (if key = [] then [] else resolve_from aliases [] key)"

text \<open>One event: its keys are given one canonical key, and so are the keys that stood for one of them.\<close>

definition canonical_of :: "orderJournalEvent \<Rightarrow> string list \<Rightarrow> aliases \<Rightarrow> string" where
  "canonical_of ev keys aliases =
     (if je_OrderRef ev \<noteq> [] then event_scope ev @ ''|ref:'' @ je_OrderRef ev
      else case find_first (\<lambda>resolved. resolved \<noteq> []) (map (\<lambda>key. resolveOrderJournalAlias key aliases) keys) of
          None \<Rightarrow> hd keys
        | Some resolved \<Rightarrow> resolved)"

definition alias_event :: "(string \<Rightarrow> bool) \<Rightarrow> (string \<Rightarrow> bool) \<Rightarrow> aliases \<Rightarrow> orderJournalEvent \<Rightarrow> aliases" where
  "alias_event ambiguousOrderIDs prelinkedOrderIDs aliases ev =
     (let keys = orderJournalIdentityKeysForAliases ev ambiguousOrderIDs prelinkedOrderIDs; canonical = canonical_of ev keys aliases
      in if keys = [] then aliases
         else map (\<lambda>(key, resolved). (key, if resolved \<noteq> canonical \<and> resolved \<in> set keys then canonical else resolved))
           (foldl (\<lambda>al key. AList.update key canonical al) aliases keys))"

definition orderJournalKeyAliases :: "orderJournalEvent list \<Rightarrow> aliases" where
  "orderJournalKeyAliases events =
     (let aliases = foldl (alias_event (ambiguousReservedOrderIDs events) (reservedOrderIDsWithPrelinkedBrokerOnlyEvents events)) [] events
      in foldl (\<lambda>al key. AList.update key (resolveOrderJournalAlias key al) al) aliases (map fst aliases))"

definition orderJournalCanonicalKey :: "orderJournalEvent \<Rightarrow> aliases \<Rightarrow> string" where
  "orderJournalCanonicalKey ev aliases = resolveOrderJournalAlias (orderJournalKey ev) aliases"


subsection \<open>Stock entries and their attached stops\<close>

definition float64_of_int :: "int \<Rightarrow> float64" where
  "float64_of_int n = f64_round (n < 0) (of_int \<bar>n\<bar>)"

definition working_lifecycle :: "OrderView \<Rightarrow> bool" where
  "working_lifecycle view \<longleftrightarrow> ov_LifecycleStatus view = OrderLifecycleSubmitted \<or> ov_LifecycleStatus view = OrderLifecyclePreSubmitted \<or>
     ov_LifecycleStatus view = OrderLifecyclePartiallyFilled"

definition stockEntryLinksEqual :: "StockEntryLink option \<Rightarrow> StockEntryLink option \<Rightarrow> bool" where
  "stockEntryLinksEqual a b \<longleftrightarrow> (case (a, b) of (Some x, Some y) \<Rightarrow> x = y | _ \<Rightarrow> a = None \<and> b = None)"

definition is_entry_parent :: "StockEntryLink \<Rightarrow> OrderView \<Rightarrow> OrderView \<Rightarrow> bool" where
  "is_entry_parent link child p \<longleftrightarrow> ov_OrderRef p = sl_ParentRef link \<and> ov_ReservedOrderID p = sl_ParentID link \<and> ov_Account p = ov_Account child \<and>
     ov_ClientID p = ov_ClientID child \<and> ov_Endpoint p = ov_Endpoint child \<and> ov_Mode p = ov_Mode child"

text \<open>The pair is refused unless parent and child are the two halves of one protected entry.\<close>

definition entry_pair_refused :: "StockEntryLink \<Rightarrow> OrderView \<Rightarrow> OrderView \<Rightarrow> bool" where
  "entry_pair_refused link child parent \<longleftrightarrow>
     (let t = ov_terms child; full = float64_of_int (sl_EntryQuantity link) in
      (case ov_AttachedStop parent of
         None \<Rightarrow> True
       | Some attached \<Rightarrow>
          sl_PairRef link \<noteq> ov_OrderRef parent \<or> ot_Action (ov_terms parent) \<noteq> ''BUY'' \<or> oc_SecType (ov_contract parent) \<noteq> ''STK'' \<or>
          oc_ConID (ov_contract parent) \<noteq> oc_ConID (ov_contract child) \<or> oc_Currency (ov_contract parent) \<noteq> oc_Currency (ov_contract child) \<or>
          \<not> f64_eq (ot_Quantity (ov_terms parent)) full \<or> f64_le (ot_Quantity t) 0 \<or> f64_less full (ot_Quantity t) \<or>
          ot_OrderType t \<noteq> ''STP'' \<or> ot_Action t \<noteq> ''SELL'' \<or> \<not> f64_eq (ov_FixedStopPrice child) (as_Price attached) \<or>
          ot_TIF t \<noteq> ''GTC'' \<or> ot_OutsideRTH t \<or> ot_TriggerMethod t \<noteq> 2))"

record entry_scan =
  es_index :: int
  es_fullAt :: int
  es_workingAt :: int
  es_shrinkProven :: bool
  es_shrinkIntent :: "orderJournalEvent option"

definition scan_event :: "StockEntryLink \<Rightarrow> OrderView \<Rightarrow> OrderView \<Rightarrow> entry_scan \<Rightarrow> orderJournalEvent \<Rightarrow> entry_scan" where
  "scan_event link child parent s e =
     (let n = es_index s;
          ofChild = (orderJournalKey e = orderViewKey child);
          price = (case ov_AttachedStop parent of None \<Rightarrow> 0 | Some attached \<Rightarrow> as_Price attached);
          intent = (if ofChild \<and> je_Type e = orderJournalEventModifyRequested \<and> je_EntryLink e \<noteq> None \<and> stockEntryLinksEqual (je_EntryLink e) (Some link) \<and>
              f64_eq (je_FixedStopPrice e) price \<and> f64_eq (ot_Quantity (je_terms e)) (ot_Quantity (ov_terms child)) then Some e else es_shrinkIntent s);
          proven = (case intent of Some i \<Rightarrow> if ofChild \<and> orderModifyAcknowledgementMatches i e then True else es_shrinkProven s | None \<Rightarrow> es_shrinkProven s);
          broker = (je_Type e = orderJournalEventBrokerAcknowledged \<or> je_Type e = orderJournalEventStatusUpdated);
          fullAt = (if broker \<and> orderJournalKey e = orderViewKey parent \<and> je_ReservedOrderID e = ov_ReservedOrderID parent \<and>
              f64_le (float64_of_int (sl_EntryQuantity link)) (je_Filled e) \<and> es_fullAt s < 0 then n else es_fullAt s);
          workingAt = (if broker \<and> ofChild \<and> je_ReservedOrderID e = ov_ReservedOrderID child \<and> je_Status e \<noteq> ''Execution'' then
              (if je_BrokerParentID e = Some (sl_ParentID link) \<and> (je_Status e = ''Submitted'' \<or> je_Status e = ''PreSubmitted'') \<and> je_WhyHeld e = [] \<and>
                 je_Deactivated e \<noteq> Some True then n else - 1)
            else es_workingAt s)
      in \<lparr>es_index = n + 1, es_fullAt = fullAt, es_workingAt = workingAt, es_shrinkProven = proven, es_shrinkIntent = intent\<rparr>)"

definition entry_scan_of :: "StockEntryLink \<Rightarrow> OrderView \<Rightarrow> OrderView \<Rightarrow> orderJournalEvent list \<Rightarrow> entry_scan" where
  "entry_scan_of link child parent events =
     foldl (scan_event link child parent) \<lparr>es_index = 0, es_fullAt = - 1, es_workingAt = - 1,
       es_shrinkProven = f64_eq (ot_Quantity (ov_terms child)) (float64_of_int (sl_EntryQuantity link)), es_shrinkIntent = None\<rparr> events"

definition derive_child :: "OrderView list \<Rightarrow> orderJournalEvent list \<Rightarrow> OrderView \<Rightarrow> OrderView" where
  "derive_child views events view =
     (case ov_EntryLink view of
        None \<Rightarrow> view
      | Some link \<Rightarrow>
          let child = view\<lparr>ov_ModifyEligible := False, ov_EntryState := ''relationship_unknown''\<rparr>;
              parents = filter (is_entry_parent link child) views; parent = last parents
          in if length parents \<noteq> 1 \<or> entry_pair_refused link child parent then child
             else if ov_BrokerParentID child \<noteq> None \<and> ov_BrokerParentID child \<noteq> Some (sl_ParentID link) then child
             else if ov_BrokerParentID child = None
             then (if ov_SendState child = orderSendStateSendAttempted then child\<lparr>ov_EntryState := ''awaiting_broker''\<rparr> else child)
             else
               let s = entry_scan_of link child parent events
               in if \<not> es_shrinkProven s then child
                  else if 0 \<le> es_fullAt s \<and> f64_le (float64_of_int (sl_EntryQuantity link)) (ov_Filled parent) then
                    (let pending = child\<lparr>ov_EntryState := ''activation_pending''\<rparr>; active = child\<lparr>ov_EntryState := ''active''\<rparr>;
                         c = (if es_fullAt s < es_workingAt s \<and> ov_Open child \<and> working_lifecycle child \<and> ov_Deactivated child \<noteq> Some True
                           then active\<lparr>ov_ModifyEligible := orderViewModifyEligible active\<rparr> else pending)
                     in if \<not> ov_Open c then c\<lparr>ov_EntryState := ''terminal''\<rparr> else c)
                  else if ov_Open parent \<and> working_lifecycle parent \<and> ov_Open child \<and> EqualFold (ov_Status child) ''PreSubmitted''
                  then child\<lparr>ov_EntryState := ''held''\<rparr>
                  else child)"

text \<open>The loop writes only the entry state and the modify eligibility of the child, which it reads of no other row.\<close>

definition deriveStockEntryStates :: "OrderView list \<Rightarrow> orderJournalEvent list \<Rightarrow> OrderView list" where
  "deriveStockEntryStates views events = map (derive_child views events) views"

subsection \<open>The rows\<close>

definition fold_event :: "aliases \<Rightarrow> (string \<times> orderViewFold) list \<Rightarrow> orderJournalEvent \<Rightarrow> (string \<times> orderViewFold) list" where
  "fold_event aliases folds ev =
     (let key = orderJournalCanonicalKey ev aliases
      in if key = [] then folds
         else AList.update key (orderViewFold_merge (case map_of folds key of None \<Rightarrow> new_fold | Some f \<Rightarrow> f) ev) folds)"

definition order_folds :: "orderJournalEvent list \<Rightarrow> (string \<times> orderViewFold) list" where
  "order_folds events = foldl (fold_event (orderJournalKeyAliases events)) [] events"

definition sortOrderViews :: "OrderView list \<Rightarrow> OrderView list" where
  "sortOrderViews = sort_key (\<lambda>view. - nanos (ov_UpdatedAt view))"

definition buildOrderViews :: "orderJournalEvent list \<Rightarrow> OrderView list" where
  "buildOrderViews events = sortOrderViews (deriveStockEntryStates (map (finished_view \<circ> snd) (order_folds events)) events)"

definition buildOrderEventsByKey :: "orderJournalEvent list \<Rightarrow> (string \<times> orderJournalEvent list) list" where
  "buildOrderEventsByKey events =
     (let aliases = orderJournalKeyAliases events
      in foldl (\<lambda>groups ev. let key = orderJournalCanonicalKey ev aliases
           in if key = [] then groups else AList.update key ((case map_of groups key of None \<Rightarrow> [] | Some evs \<Rightarrow> evs) @ [ev]) groups) [] events)"

subsection \<open>DAY orders past their session\<close>

definition quoteMarketForStockContract :: "string \<Rightarrow> string \<Rightarrow> string \<Rightarrow> string" where
  "quoteMarketForStockContract market0 exchange0 primaryExch =
     (let market = ToLower (TrimSpace market0); exchange = ToUpper (TrimSpace exchange0); primary = ToUpper (TrimSpace primaryExch)
      in if market \<in> {''de'', ''germany'', ''xetra'', ''ibis''} then ''de_xetra''
         else if exchange = ''IBIS'' \<or> primary = ''IBIS'' \<or> exchange = ''IBIS2'' \<or> primary = ''IBIS2'' then ''de_xetra''
         else if market \<in> {''uk'', ''london'', ''lse''} then ''uk_lse''
         else if exchange = ''LSE'' \<or> exchange = ''LSEETF'' \<or> primary = ''LSE'' \<or> primary = ''LSEETF'' then ''uk_lse''
         else ''us_equity'')"

text \<open>What the calendar says of a market at an instant: the close of the current session (zero when there is none) and the next close.\<close>

type_synonym session_at = "string \<Rightarrow> gotime \<Rightarrow> (gotime \<times> gotime option) option"

definition dayOrderSessionDeadline :: "session_at \<Rightarrow> OrderView \<Rightarrow> gotime \<Rightarrow> gotime option" where
  "dayOrderSessionDeadline sessionAt view placed =
     (case sessionAt (quoteMarketForStockContract [] (oc_Exchange (ov_contract view)) (oc_PrimaryExch (ov_contract view))) placed of
        None \<Rightarrow> None
      | Some (sessionClose, nextClose) \<Rightarrow> if \<not> IsZero sessionClose \<and> placed < sessionClose then Some sessionClose else nextClose)"

definition orderViewPlacedAt :: "OrderView \<Rightarrow> (string \<times> orderJournalEvent list) list \<Rightarrow> gotime" where
  "orderViewPlacedAt view eventsByKey =
     (if ov_OrderRef view \<noteq> [] then
        (case map_of eventsByKey (''ref:'' @ ov_OrderRef view) of
           Some (e # es) \<Rightarrow> je_At e
         | _ \<Rightarrow> ov_UpdatedAt view)
      else ov_UpdatedAt view)"

definition infer_expiry :: "session_at \<Rightarrow> (string \<times> orderJournalEvent list) list \<Rightarrow> gotime \<Rightarrow> OrderView \<Rightarrow> OrderView" where
  "infer_expiry sessionAt eventsByKey now view =
     (let placed = orderViewPlacedAt view eventsByKey
      in if \<not> ov_Open view \<or> \<not> EqualFold (ot_TIF (ov_terms view)) ''DAY'' then view
         else if \<not> EqualFold (oc_SecType (ov_contract view)) ''STK'' \<and> \<not> EqualFold (oc_SecType (ov_contract view)) ''ETF'' then view
         else if IsZero placed then view
         else case dayOrderSessionDeadline sessionAt view placed of
             None \<Rightarrow> view
           | Some deadline \<Rightarrow> if now < time_Add deadline (3600 * 1000000000) then view
               else view\<lparr>ov_LifecycleStatus := OrderLifecycleExpiredInferred, ov_Open := False, ov_ModifyEligible := False, ov_CancelEligible := False,
                 ov_LastMessage := ''DAY order is past its session close; expiry inferred locally (not broker-confirmed)''\<rparr>)"

definition inferDayOrderExpiry :: "session_at \<Rightarrow> OrderView list \<Rightarrow> (string \<times> orderJournalEvent list) list \<Rightarrow> gotime \<Rightarrow> OrderView list" where
  "inferDayOrderExpiry sessionAt views eventsByKey now = map (infer_expiry sessionAt eventsByKey now) views"

text \<open>What a reader of the journal is shown.\<close>

definition loadOrderViews :: "session_at \<Rightarrow> gotime \<Rightarrow> orderJournalEvent list \<Rightarrow> OrderView list" where
  "loadOrderViews sessionAt now events = inferDayOrderExpiry sessionAt (buildOrderViews events) (buildOrderEventsByKey events) now"

end
