(* ===== verification/Order_Rows.thy ===== *)
theory Order_Rows
  imports Order_Fold
begin

text \<open>
  What the rows of the order read model are. The aliases of keys form a flat table, so that every key resolves in one step and
  the order of Go's map iteration does not matter; a row keeps to one write route; each row is the fold of its own
  events; a callback that was paired with a row is folded into that row.
\<close>

subsection \<open>Aliases resolve in one step\<close>

text \<open>A table of aliases is flat when every target stands for itself, and clean when no key and no target is empty.\<close>

definition flat_aliases :: "aliases \<Rightarrow> bool" where
  "flat_aliases al \<longleftrightarrow> (\<forall>k v. map_of al k = Some v \<longrightarrow> k \<noteq> [] \<and> v \<noteq> [] \<and> map_of al v = Some v)"

definition alias_target :: "aliases \<Rightarrow> string \<Rightarrow> string" where
  "alias_target al k = (case map_of al k of None \<Rightarrow> k | Some v \<Rightarrow> v)"

lemma resolve_flat:
  assumes "flat_aliases al"
  shows "resolve_from al [] k = alias_target al k"
proof (cases "map_of al k")
  case None
  then show ?thesis by (simp add: resolve_from.simps [of al "[]" k] alias_target_def)
next
  case (Some v)
  then have v: "v \<noteq> []" "map_of al v = Some v" using assms by (auto simp: flat_aliases_def)
  then have "resolve_from al s v = v" for s by (simp add: resolve_from.simps [of al s v])
  then show ?thesis using Some v by (simp add: resolve_from.simps [of al "[]" k] alias_target_def)
qed

lemma resolve_alias_flat: "flat_aliases al \<Longrightarrow> k \<noteq> [] \<Longrightarrow> resolveOrderJournalAlias k al = alias_target al k"
  by (simp add: resolveOrderJournalAlias_def resolve_flat)

lemma identity_keys_nonempty: "k \<in> set (orderJournalIdentityKeysForAliases ev amb pre) \<Longrightarrow> k \<noteq> []"
  by (auto simp: orderJournalIdentityKeysForAliases_def Let_def split: if_splits)

text \<open>The table after one event, as a map.\<close>

lemma map_of_update_all:
  "map_of (foldl (\<lambda>al key. AList.update key c al) al keys) k = (if k \<in> set keys then Some c else map_of al k)"
  by (induction keys arbitrary: al) (auto simp: AList.update_conv')

lemma map_of_retarget: "map_of (map (\<lambda>(k, v). (k, g v)) al) k = map_option g (map_of al k)"
  by (induction al) auto

lemma map_of_alias_event:
  fixes al :: aliases and ev :: orderJournalEvent
  assumes "orderJournalIdentityKeysForAliases ev amb pre \<noteq> []"
  defines "keys \<equiv> orderJournalIdentityKeysForAliases ev amb pre"
  defines "c \<equiv> canonical_of ev keys al"
  shows "map_of (alias_event amb pre al ev) k =
    (if k \<in> set keys then Some c else map_option (\<lambda>v. if v \<in> set keys then c else v) (map_of al k))"
proof -
  have g: "(\<lambda>v. if v \<noteq> c \<and> v \<in> set keys then c else v) = (\<lambda>v. if v \<in> set keys then c else v)" by auto
  have "keys \<noteq> []" using assms(1) by (simp add: keys_def)
  then have "alias_event amb pre al ev = map (\<lambda>(key, v). (key, (\<lambda>v. if v \<noteq> c \<and> v \<in> set keys then c else v) v))
      (foldl (\<lambda>al key. AList.update key c al) al keys)"
    unfolding alias_event_def Let_def keys_def [symmetric] c_def by simp
  then show ?thesis by (simp add: map_of_retarget map_of_update_all g)
qed

lemma canonical_flat:
  assumes "flat_aliases al" and "keys \<noteq> []" and "keys = orderJournalIdentityKeysForAliases ev amb pre"
  shows "canonical_of ev keys al = (if je_OrderRef ev \<noteq> [] then hd keys else alias_target al (hd keys))"
    and "canonical_of ev keys al \<noteq> []"
    and "map_of al (canonical_of ev keys al) = Some (canonical_of ev keys al) \<or> canonical_of ev keys al \<in> set keys"
proof -
  obtain k ks where keys: "keys = k # ks" using assms(2) by (cases keys) auto
  have k: "k \<noteq> []" using identity_keys_nonempty [of k ev amb pre] assms(3) keys by (metis list.set_intros(1))
  have t: "alias_target al k \<noteq> []" using k assms(1) by (auto simp: alias_target_def flat_aliases_def split: option.splits)
  show c: "canonical_of ev keys al = (if je_OrderRef ev \<noteq> [] then hd keys else alias_target al (hd keys))"
  proof (cases "je_OrderRef ev = []")
    case True
    then show ?thesis using t k by (simp add: canonical_of_def keys resolve_alias_flat [OF assms(1)])
  next
    case False
    then show ?thesis using assms(3) by (simp add: canonical_of_def orderJournalIdentityKeysForAliases_def)
  qed
  show "canonical_of ev keys al \<noteq> []" using c k t keys by simp
  show "map_of al (canonical_of ev keys al) = Some (canonical_of ev keys al) \<or> canonical_of ev keys al \<in> set keys"
    unfolding c using assms(1) by (auto simp: keys alias_target_def flat_aliases_def split: option.splits)
qed

lemma alias_event_flat:
  assumes "flat_aliases al"
  shows "flat_aliases (alias_event amb pre al ev)"
proof (cases "orderJournalIdentityKeysForAliases ev amb pre = []")
  case True
  then show ?thesis using assms by (simp add: alias_event_def)
next
  case False
  let ?keys = "orderJournalIdentityKeysForAliases ev amb pre"
  note c = canonical_flat [OF assms False refl]
  show ?thesis unfolding flat_aliases_def map_of_alias_event [OF False]
  proof (intro allI impI)
    fix k v
    assume v: "(if k \<in> set ?keys then Some (canonical_of ev ?keys al)
      else map_option (\<lambda>v. if v \<in> set ?keys then canonical_of ev ?keys al else v) (map_of al k)) = Some v"
    then consider "v = canonical_of ev ?keys al" | "v \<notin> set ?keys" "map_of al k = Some v"
      by (auto split: if_splits)
    moreover have "k \<noteq> []" using v identity_keys_nonempty [of k ev amb pre] assms by (auto simp: flat_aliases_def split: if_splits)
    ultimately show "k \<noteq> [] \<and> v \<noteq> [] \<and> (if v \<in> set ?keys then Some (canonical_of ev ?keys al)
      else map_option (\<lambda>v. if v \<in> set ?keys then canonical_of ev ?keys al else v) (map_of al v)) = Some v"
      using c assms by cases (auto simp: flat_aliases_def)
  qed
qed

lemma aliases_flat: "flat_aliases al \<Longrightarrow> flat_aliases (foldl (alias_event amb pre) al events)"
  by (induction events arbitrary: al) (auto intro: alias_event_flat)

text \<open>The final loop of \<^verbatim>\<open>orderJournalKeyAliases\<close> finds nothing to do.\<close>

lemma update_same: "map_of al k = Some v \<Longrightarrow> AList.update k v al = al"
  by (induction al) auto

lemma resolve_all_flat:
  assumes "flat_aliases al" and "set ks \<subseteq> fst ` set al"
  shows "foldl (\<lambda>al key. AList.update key (resolveOrderJournalAlias key al) al) al ks = al"
  using assms(2)
proof (induction ks)
  case (Cons k ks)
  then obtain v where v: "map_of al k = Some v" by (metis insert_subset list.simps(15) map_of_eq_None_iff not_None_eq)
  have "resolveOrderJournalAlias k al = v"
  proof (cases "k = []")
    case True
    then show ?thesis using v assms(1) by (auto simp: flat_aliases_def resolveOrderJournalAlias_def)
  next
    case False
    then show ?thesis using v by (simp add: resolve_alias_flat [OF assms(1)] alias_target_def)
  qed
  then show ?case using Cons v by (simp add: update_same)
qed simp


lemma flat_orderJournalKeyAliases:
  "flat_aliases (orderJournalKeyAliases events)"
  "orderJournalKeyAliases events = foldl (alias_event (ambiguousReservedOrderIDs events) (reservedOrderIDsWithPrelinkedBrokerOnlyEvents events)) [] events"
proof -
  have flat: "flat_aliases (foldl (alias_event amb pre) [] events)" for amb pre
    by (rule aliases_flat) (simp add: flat_aliases_def)
  show same: "orderJournalKeyAliases events = foldl (alias_event (ambiguousReservedOrderIDs events) (reservedOrderIDsWithPrelinkedBrokerOnlyEvents events)) [] events"
    unfolding orderJournalKeyAliases_def Let_def by (rule resolve_all_flat [OF flat]) simp
  show "flat_aliases (orderJournalKeyAliases events)" unfolding same by (rule flat)
qed

lemma canonical_key: "orderJournalKey ev \<noteq> [] \<Longrightarrow> orderJournalCanonicalKey ev (orderJournalKeyAliases events) = alias_target (orderJournalKeyAliases events) (orderJournalKey ev)"
  by (simp add: orderJournalCanonicalKey_def resolve_alias_flat [OF flat_orderJournalKeyAliases(1)])

lemma no_key: "orderJournalKey ev = [] \<Longrightarrow> orderJournalCanonicalKey ev al = []"
  by (simp add: orderJournalCanonicalKey_def resolveOrderJournalAlias_def)

text \<open>The key of an event is its first identity key, unless its order identifier is excluded.\<close>

lemma event_key:
  "orderJournalKey ev = (if je_OrderRef ev \<noteq> [] then event_scope ev @ ''|ref:'' @ je_OrderRef ev
     else if je_ReservedOrderID ev \<noteq> 0 then event_scope ev @ ''|order:'' @ Itoa (je_ReservedOrderID ev)
     else if je_PermID ev \<noteq> 0 then event_scope ev @ ''|perm:'' @ Itoa (je_PermID ev) else [])"
  by (simp add: orderJournalKey_def event_scope_def Let_def)

lemma event_key_is_identity_key: "orderJournalKey ev \<noteq> [] \<Longrightarrow> orderJournalKey ev = hd (orderJournalIdentityKeysForAliases ev amb pre) \<and> orderJournalIdentityKeysForAliases ev amb pre \<noteq> []"
  by (auto simp: event_key orderJournalIdentityKeysForAliases_def Let_def)

subsection \<open>Rows keep to one route\<close>

text \<open>The route part of a key is what stands before the bar.\<close>

definition route_of_key :: "string \<Rightarrow> string" where
  "route_of_key key = takeWhile (\<lambda>c. c \<noteq> CHR ''|'') key"

lemma identity_key_route:
  assumes "CHR ''|'' \<notin> set (event_scope ev)" and "k \<in> set (orderJournalIdentityKeysForAliases ev amb pre)"
  shows "route_of_key k = event_scope ev"
proof -
  obtain rest where "k = event_scope ev @ CHR ''|'' # rest"
    using assms(2) by (auto simp: orderJournalIdentityKeysForAliases_def Let_def split: if_splits)
  moreover have "takeWhile (\<lambda>c. c \<noteq> CHR ''|'') (event_scope ev @ CHR ''|'' # rest) = event_scope ev"
    using assms(1) by (subst takeWhile_append2) auto
  ultimately show ?thesis by (simp add: route_of_key_def)
qed

definition routed_aliases :: "aliases \<Rightarrow> bool" where
  "routed_aliases al \<longleftrightarrow> (\<forall>k v. map_of al k = Some v \<longrightarrow> route_of_key v = route_of_key k)"

lemma alias_event_routed:
  assumes "flat_aliases al" and "routed_aliases al" and "CHR ''|'' \<notin> set (event_scope ev)"
  shows "routed_aliases (alias_event amb pre al ev)"
proof (cases "orderJournalIdentityKeysForAliases ev amb pre = []")
  case True
  then show ?thesis using assms by (simp add: alias_event_def)
next
  case False
  let ?keys = "orderJournalIdentityKeysForAliases ev amb pre"
  have "hd ?keys \<in> set ?keys" using False by simp
  then have "route_of_key (hd ?keys) = event_scope ev" by (rule identity_key_route [OF assms(3)])
  moreover have "route_of_key (alias_target al k) = route_of_key k" for k
    using assms(2) by (auto simp: alias_target_def routed_aliases_def split: option.splits)
  ultimately have c: "route_of_key (canonical_of ev ?keys al) = event_scope ev"
    by (simp add: canonical_flat(1) [OF assms(1) False refl])
  show ?thesis unfolding routed_aliases_def map_of_alias_event [OF False]
    using c assms(2) identity_key_route [OF assms(3), of _ amb pre] by (auto simp: routed_aliases_def) metis
qed

lemma aliases_routed:
  "flat_aliases al \<Longrightarrow> routed_aliases al \<Longrightarrow> \<forall>ev\<in>set events. CHR ''|'' \<notin> set (event_scope ev) \<Longrightarrow> routed_aliases (foldl (alias_event amb pre) al events)"
  by (induction events arbitrary: al) (auto intro: alias_event_flat alias_event_routed)




subsection \<open>Each row is the fold of its own events\<close>

lemma fold_event_lookup:
  "k \<noteq> [] \<Longrightarrow> map_of (foldl (fold_event al) folds events) k =
     (let mine = filter (\<lambda>ev. orderJournalCanonicalKey ev al = k) events
      in if mine = [] then map_of folds k
         else Some (foldl orderViewFold_merge (case map_of folds k of None \<Rightarrow> new_fold | Some f \<Rightarrow> f) mine))"
proof (induction events arbitrary: folds)
  case (Cons ev events)
  let ?key = "orderJournalCanonicalKey ev al"
  have "map_of (fold_event al folds ev) k = (if ?key = k then Some (orderViewFold_merge (case map_of folds k of None \<Rightarrow> new_fold | Some f \<Rightarrow> f) ev) else map_of folds k)"
    using Cons.prems by (simp add: fold_event_def Let_def AList.update_conv')
  then show ?case using Cons.IH [of "fold_event al folds ev"] Cons.prems by (auto simp: Let_def)
qed (simp add: Let_def)

lemma distinct_keys_fold_event: "distinct (map fst folds) \<Longrightarrow> distinct (map fst (foldl (fold_event al) folds events))"
  by (induction events arbitrary: folds) (auto simp: fold_event_def Let_def AList.distinct_update)

lemma nonempty_keys_fold_event: "[] \<notin> fst ` set folds \<Longrightarrow> [] \<notin> fst ` set (foldl (fold_event al) folds events)"
proof (induction events arbitrary: folds)
  case (Cons ev events)
  have "[] \<notin> fst ` set (fold_event al folds ev)" using Cons.prems by (simp add: fold_event_def Let_def AList.dom_update)
  then show ?case using Cons.IH by simp
qed simp

text \<open>The rows of a journal, one for each key that an event has: the reference definition.\<close>

definition row_keys :: "orderJournalEvent list \<Rightarrow> string set" where
  "row_keys events = {orderJournalCanonicalKey ev (orderJournalKeyAliases events) |ev. ev \<in> set events} - {[]}"

definition row_of :: "orderJournalEvent list \<Rightarrow> string \<Rightarrow> OrderView" where
  "row_of events key = finished_view (foldl orderViewFold_merge new_fold
     (filter (\<lambda>ev. orderJournalCanonicalKey ev (orderJournalKeyAliases events) = key) events))"

lemma order_folds_rows:
  "distinct (map fst (order_folds events))"
  "fst ` set (order_folds events) = row_keys events"
  "(k, f) \<in> set (order_folds events) \<Longrightarrow> finished_view f = row_of events k"
proof -
  let ?al = "orderJournalKeyAliases events"
  show d: "distinct (map fst (order_folds events))" by (simp add: order_folds_def distinct_keys_fold_event)
  have ne: "[] \<notin> fst ` set (order_folds events)" by (simp add: order_folds_def nonempty_keys_fold_event)
  have look: "k \<noteq> [] \<Longrightarrow> map_of (order_folds events) k = (let mine = filter (\<lambda>ev. orderJournalCanonicalKey ev ?al = k) events
      in if mine = [] then None else Some (foldl orderViewFold_merge new_fold mine))" for k
    by (simp add: order_folds_def fold_event_lookup Let_def)
  show "fst ` set (order_folds events) = row_keys events"
  proof (rule set_eqI)
    fix k
    show "k \<in> fst ` set (order_folds events) \<longleftrightarrow> k \<in> row_keys events"
    proof (cases "k = []")
      case False
      have "k \<in> fst ` set (order_folds events) \<longleftrightarrow> map_of (order_folds events) k \<noteq> None" by (simp add: map_of_eq_None_iff)
      also have "\<dots> \<longleftrightarrow> k \<in> row_keys events" using False by (auto simp: look Let_def filter_empty_conv row_keys_def split: if_splits)
      finally show ?thesis .
    qed (use ne in \<open>auto simp: row_keys_def\<close>)
  qed
  assume kf: "(k, f) \<in> set (order_folds events)"
  then have "k \<noteq> []" using ne by force
  moreover have "map_of (order_folds events) k = Some f" using kf d by simp
  ultimately show "finished_view f = row_of events k" by (auto simp: look Let_def row_of_def split: if_splits)
qed



subsection \<open>A paired callback joins the row it was paired with\<close>

definition is_ref_key :: "string \<Rightarrow> bool" where
  "is_ref_key key \<longleftrightarrow> HasPrefix (dropWhile (\<lambda>c. c \<noteq> CHR ''|'') key) ''|ref:''"

lemma is_ref_key_scoped: "CHR ''|'' \<notin> set scope \<Longrightarrow> is_ref_key (scope @ CHR ''|'' # rest) \<longleftrightarrow> HasPrefix rest ''ref:''"
  by (subst is_ref_key_def, subst dropWhile_append2) (auto simp: HasPrefix_def)

lemma identity_ref_key:
  assumes "CHR ''|'' \<notin> set (event_scope ev)" and "k \<in> set (orderJournalIdentityKeysForAliases ev amb pre)" and "is_ref_key k"
  shows "je_OrderRef ev \<noteq> [] \<and> k = hd (orderJournalIdentityKeysForAliases ev amb pre)"
  using assms(2,3)
  by (auto simp: orderJournalIdentityKeysForAliases_def Let_def is_ref_key_scoped [OF assms(1)] HasPrefix_def split: if_splits)

definition ref_keys_fixed :: "aliases \<Rightarrow> bool" where
  "ref_keys_fixed al \<longleftrightarrow> (\<forall>k v. map_of al k = Some v \<longrightarrow> is_ref_key k \<longrightarrow> v = k)"

lemma alias_event_ref_keys:
  assumes "flat_aliases al" and "ref_keys_fixed al" and "CHR ''|'' \<notin> set (event_scope ev)"
  shows "ref_keys_fixed (alias_event amb pre al ev)"
proof (cases "orderJournalIdentityKeysForAliases ev amb pre = []")
  case True
  then show ?thesis using assms by (simp add: alias_event_def)
next
  case False
  show ?thesis unfolding ref_keys_fixed_def map_of_alias_event [OF False] canonical_flat(1) [OF assms(1) False refl]
    using assms(2) identity_ref_key [OF assms(3), of _ amb pre] by (auto simp: ref_keys_fixed_def split: if_splits)
qed

lemma aliases_ref_keys:
  "flat_aliases al \<Longrightarrow> ref_keys_fixed al \<Longrightarrow> \<forall>ev\<in>set events. CHR ''|'' \<notin> set (event_scope ev) \<Longrightarrow> ref_keys_fixed (foldl (alias_event amb pre) al events)"
  by (induction events arbitrary: al) (auto intro: alias_event_flat alias_event_ref_keys)

lemma referenced_event_keeps_key:
  assumes "\<forall>ev\<in>set events. CHR ''|'' \<notin> set (event_scope ev)" and "CHR ''|'' \<notin> set (event_scope e)" and "je_OrderRef e \<noteq> []"
  shows "orderJournalCanonicalKey e (orderJournalKeyAliases events) = event_scope e @ ''|ref:'' @ je_OrderRef e"
proof -
  have "ref_keys_fixed (orderJournalKeyAliases events)"
    unfolding flat_orderJournalKeyAliases(2) using assms(1) by (intro aliases_ref_keys) (auto simp: flat_aliases_def ref_keys_fixed_def)
  moreover have "is_ref_key (event_scope e @ ''|ref:'' @ je_OrderRef e)"
    using is_ref_key_scoped [OF assms(2), of "''ref:'' @ je_OrderRef e"] by (simp add: HasPrefix_def)
  ultimately have "alias_target (orderJournalKeyAliases events) (event_scope e @ ''|ref:'' @ je_OrderRef e) = event_scope e @ ''|ref:'' @ je_OrderRef e"
    by (auto simp: alias_target_def ref_keys_fixed_def split: option.splits)
  then show ?thesis using canonical_key [of e events] assms(3) by (simp add: event_key)
qed

text \<open>C19. One order, one row: a callback that was paired with a row that carries a reference is completed with the row's route and
  reference, so that in the journal it is appended to it is folded into the row with that row's key.\<close>

theorem paired_callback_joins_its_row:
  assumes "orderJournalViewForLifecycleEvent ev views = Some view" and "ov_OrderRef view \<noteq> []"
    and "enrichOrderLifecycleEventFromJournal (Some views) ev = (je, True, True)"
    and "\<forall>e\<in>set events. CHR ''|'' \<notin> set (event_scope e)"
    and "CHR ''|'' \<notin> set (orderJournalRouteIdentity (ov_Endpoint view) (ov_ClientID view) (ov_Account view) (ov_Mode view))"
  shows "orderJournalCanonicalKey (normalizeOrderLifecycleJournalEvent je) (orderJournalKeyAliases (events @ [normalizeOrderLifecycleJournalEvent je])) =
    orderViewKey view"
proof -
  let ?e = "normalizeOrderLifecycleJournalEvent je"
  have je: "je = copyOrderJournalIdentityFromView (ev\<lparr>je_Endpoint := ov_Endpoint view\<rparr>) view"
    using assms(1,3) by (simp add: enrichOrderLifecycleEventFromJournal_def)
  have e: "event_scope ?e = event_scope je" "je_OrderRef ?e = je_OrderRef je"
    by (auto simp: normalizeOrderLifecycleJournalEvent_def event_scope_def)
  have scope: "event_scope ?e = orderJournalRouteIdentity (ov_Endpoint view) (ov_ClientID view) (ov_Account view) (ov_Mode view)"
    unfolding e(1) unfolding event_scope_def je by (rule paired_event_route(1) [OF assms(1)])
  have ref: "je_OrderRef ?e = ov_OrderRef view" unfolding e(2) unfolding je by (rule paired_event_route(2) [OF assms(1,2)])
  have "orderJournalCanonicalKey ?e (orderJournalKeyAliases (events @ [?e])) = event_scope ?e @ ''|ref:'' @ je_OrderRef ?e"
    using assms(2,4,5) scope ref by (intro referenced_event_keeps_key) auto
  then show ?thesis using assms(2) by (simp add: scope ref orderViewKey_def Let_def)
qed

theorem paired_callback_joins_its_row_witness:
  "let view = zero_view\<lparr>ov_OrderRef := ''c1'', ov_PermID := 7, ov_Endpoint := ''gw''\<rparr>; ev = zero_event\<lparr>je_PermID := 7, je_clientIDPresent := True\<rparr>;
       je = fst (enrichOrderLifecycleEventFromJournal (Some [view]) ev)
   in orderJournalCanonicalKey (normalizeOrderLifecycleJournalEvent je) (orderJournalKeyAliases ([] @ [normalizeOrderLifecycleJournalEvent je])) =
      orderViewKey view"
  unfolding Let_def
proof (rule paired_callback_joins_its_row)
  let ?view = "zero_view\<lparr>ov_OrderRef := ''c1'', ov_PermID := 7, ov_Endpoint := ''gw''\<rparr>"
  let ?ev = "zero_event\<lparr>je_PermID := 7, je_clientIDPresent := True\<rparr>"
  show pair: "orderJournalViewForLifecycleEvent ?ev [?view] = Some ?view" by (simp add: pairing_eval)
  show "ov_OrderRef ?view \<noteq> []" by simp
  show "enrichOrderLifecycleEventFromJournal (Some [?view]) ?ev = (fst (enrichOrderLifecycleEventFromJournal (Some [?view]) ?ev), True, True)"
    using pair by (simp add: enrichOrderLifecycleEventFromJournal_def)
  show "\<forall>e\<in>set []. CHR ''|'' \<notin> set (event_scope e)" by simp
  show "CHR ''|'' \<notin> set (orderJournalRouteIdentity (ov_Endpoint ?view) (ov_ClientID ?view) (ov_Account ?view) (ov_Mode ?view))"
    by code_simp
qed

end
