(* ===== verification/Order_Settled.thy ===== *)
theory Order_Settled
  imports Order_Rows
begin

text \<open>
  When a row of the order read model is closed, uncertain or restored. Final broker evidence closes a row for good; a
  staged send without an outcome makes it uncertain; a modification that was proven unsent leaves it as it was. Three
  behaviours that contradict the comments of the code are evaluated at the end.
\<close>

subsection \<open>Final evidence closes a row for good\<close>

definition final_status :: "string \<Rightarrow> bool" where
  "final_status status \<longleftrightarrow> ToLower (TrimSpace status) \<in> {''filled'', ''cancelled'', ''apicancelled'', ''rejected''}"

text \<open>A broker callback that settles the order, and what is asked of the other events of the journal: a request to modify or
  cancel is not itself marked terminal, and a callback that is terminal under an unknown status is marked so.\<close>

definition settles :: "orderJournalEvent \<Rightarrow> bool" where
  "settles ev \<longleftrightarrow> (je_Type ev = orderJournalEventStatusUpdated \<or> je_Type ev = orderJournalEventBrokerAcknowledged) \<and> final_status (je_Status ev)"

definition orderly :: "orderJournalEvent \<Rightarrow> bool" where
  "orderly ev \<longleftrightarrow>
     (je_Type ev \<in> {orderJournalEventModifyRequested, orderJournalEventCancelRequested} \<longrightarrow> je_SendState ev \<noteq> orderSendStateTerminal) \<and>
     (je_Type ev \<in> {orderJournalEventStatusUpdated, orderJournalEventBrokerAcknowledged} \<longrightarrow>
        final_status (je_Status ev) \<or> ToLower (TrimSpace (je_Status ev)) = ''inactive'' \<or> je_SendState ev = orderSendStateTerminal \<or>
        \<not> orderLifecycleStatusIsTerminal (mapBrokerOrderLifecycleStatus (je_Status ev) (je_Filled ev) (je_Remaining ev)))"

lemma final_status_terminal:
  assumes "final_status status"
  shows "orderLifecycleStatusIsTerminal (mapBrokerOrderLifecycleWithDeactivation status filled remaining d)"
    and "mapBrokerOrderLifecycleWithDeactivation status filled remaining d \<noteq> OrderLifecycleInactive" and "status \<noteq> []"
proof -
  have "mapBrokerOrderLifecycleStatus status filled remaining \<in> {OrderLifecycleFilled, OrderLifecycleCancelled, OrderLifecycleRejected}"
    using assms by (auto simp: mapBrokerOrderLifecycleStatus_def final_status_def Let_def)
  then show "orderLifecycleStatusIsTerminal (mapBrokerOrderLifecycleWithDeactivation status filled remaining d)"
    and "mapBrokerOrderLifecycleWithDeactivation status filled remaining d \<noteq> OrderLifecycleInactive"
    by (auto simp: mapBrokerOrderLifecycleWithDeactivation_def orderLifecycleStatusIsTerminal_def Let_def)
  show "status \<noteq> []" using assms by (auto simp: final_status_def ToLower_def TrimSpace_def)
qed

lemma inactive_terminal:
  "ToLower (TrimSpace status) = ''inactive'' \<Longrightarrow>
     mapBrokerOrderLifecycleWithDeactivation status filled remaining d = (if d = Some True then OrderLifecycleDeactivated else OrderLifecycleInactive)"
  by (simp add: mapBrokerOrderLifecycleWithDeactivation_def mapBrokerOrderLifecycleStatus_def Let_def orderLifecycleStatusIsTerminal_def)

lemma deactivation_terminal:
  "orderLifecycleStatusIsTerminal (mapBrokerOrderLifecycleWithDeactivation status filled remaining d) \<Longrightarrow>
     orderLifecycleStatusIsTerminal (mapBrokerOrderLifecycleStatus status filled remaining)"
  by (auto simp: mapBrokerOrderLifecycleWithDeactivation_def orderLifecycleStatusIsTerminal_def Let_def split: if_splits)

lemma callback_terminal:
  assumes "je_Type ev = orderJournalEventStatusUpdated \<or> je_Type ev = orderJournalEventBrokerAcknowledged" and "orderJournalEventIsTerminal ev"
  shows "je_Status ev \<noteq> [] \<and>
    orderLifecycleStatusIsTerminal (mapBrokerOrderLifecycleWithDeactivation (je_Status ev) (je_Filled ev) (je_Remaining ev) (je_Deactivated ev))"
  using assms by (auto simp: orderJournalEventIsTerminal_def mapOrderJournalLifecycleStatus_def event_types orderLifecycleStatusIsTerminal_def split: if_splits)

text \<open>The row right after a terminal event.\<close>

definition closed_by :: "OrderView \<Rightarrow> orderJournalEvent \<Rightarrow> bool" where
  "closed_by view ev \<longleftrightarrow> \<not> orderViewIsOpen (view\<lparr>ov_LifecycleStatus := mapOrderViewLifecycleStatus view ev False\<rparr>)"

lemma closed_by_send_state: "ov_SendState view = orderSendStateTerminal \<Longrightarrow> closed_by view ev"
  by (simp add: closed_by_def orderViewIsOpen_def)

lemma closed_by_lifecycle: "orderLifecycleStatusIsTerminal (mapOrderViewLifecycleStatus view ev False) \<Longrightarrow> closed_by view ev"
  by (simp add: closed_by_def orderViewIsOpen_def)

lemma merged_fields:
  "ov_LastEvent (mergeOrderJournalEventIntoView view ev) = je_Type ev"
  "je_Type ev \<noteq> orderJournalEventBrokerError \<Longrightarrow> ov_SendState (mergeOrderJournalEventIntoView view ev) = or_text (je_SendState ev) (ov_SendState view)"
  "je_Type ev \<noteq> orderJournalEventBrokerError \<Longrightarrow> je_Status ev \<noteq> [] \<Longrightarrow> ov_Status (mergeOrderJournalEventIntoView view ev) = je_Status ev"
  "ov_Deactivated (mergeOrderJournalEventIntoView view ev) = or_some (je_Deactivated ev) (ov_Deactivated view)"
  by (simp_all add: mergeOrderJournalEventIntoView_def Let_def brokerErrorShouldPreserveWorkingOrder_def)

lemma terminal_error_merged:
  assumes "je_Type ev = orderJournalEventBrokerError" and "orderJournalEventIsTerminal ev"
    and "ov_LastEvent view \<notin> {orderJournalEventModifyRequested, orderJournalEventCancelRequested}"
  shows "ov_SendState (mergeOrderJournalEventIntoView view ev) = orderSendStateTerminal"
  using assms by (auto simp: mergeOrderJournalEventIntoView_def Let_def brokerErrorShouldPreserveWorkingOrder_def orderJournalEventIsTerminal_def event_types)

lemma terminal_event_closes:
  assumes "orderJournalEventIsTerminal ev" and "orderly ev"
    and "ov_LastEvent view \<notin> {orderJournalEventModifyRequested, orderJournalEventCancelRequested} \<or> settles ev"
    and "je_Type ev = orderJournalEventStatusUpdated \<or> je_Type ev = orderJournalEventBrokerAcknowledged \<Longrightarrow> je_Deactivated ev = None \<Longrightarrow> ov_Deactivated view = None"
  shows "closed_by (mergeOrderJournalEventIntoView view ev) ev"
proof -
  let ?v = "mergeOrderJournalEventIntoView view ev"
  consider "je_Type ev = orderJournalEventReconciledAbsent" | "je_Type ev = orderJournalEventBrokerError"
    | (callback) "je_Type ev = orderJournalEventStatusUpdated \<or> je_Type ev = orderJournalEventBrokerAcknowledged"
    | (other) "je_Type ev \<noteq> orderJournalEventBrokerError" "je_SendState ev = orderSendStateTerminal"
    using assms(1) by (auto simp: orderJournalEventIsTerminal_def split: if_splits)
  then show ?thesis
  proof cases
    case 1
    then show ?thesis by (intro closed_by_lifecycle) (simp add: mapOrderViewLifecycleStatus_def orderLifecycleStatusIsTerminal_def)
  next
    case 2
    then show ?thesis using assms(1,3) terminal_error_merged [of ev view]
      by (intro closed_by_send_state) (auto simp: settles_def event_types)
  next
    case other
    then show ?thesis by (intro closed_by_send_state) (simp add: merged_fields or_text_def send_states)
  next
    case callback
    then have plain: "je_Type ev \<noteq> orderJournalEventBrokerError" by (auto simp: event_types)
    note t = callback_terminal [OF callback assms(1)]
    show ?thesis
    proof (cases "je_SendState ev = orderSendStateTerminal")
      case True
      then show ?thesis using plain by (intro closed_by_send_state) (simp add: merged_fields or_text_def send_states)
    next
      case False
      then have named: "final_status (je_Status ev) \<or> ToLower (TrimSpace (je_Status ev)) = ''inactive''"
        using assms(2) callback deactivation_terminal [OF conjunct2 [OF t]] by (auto simp: orderly_def)
      have d: "ov_Deactivated ?v = je_Deactivated ev"
        using assms(4) [OF callback] by (auto simp: merged_fields or_some_def)
      have s: "ov_Status ?v = je_Status ev" using t plain by (simp add: merged_fields)
      have "orderLifecycleStatusIsTerminal (mapBrokerOrderLifecycleWithDeactivation (ov_Status ?v) (ov_Filled ?v) (ov_Remaining ?v) (ov_Deactivated ?v))"
        using named t unfolding s d
        by (auto simp: final_status_terminal(1) inactive_terminal)
      moreover have "mapOrderViewLifecycleStatus ?v ev False =
          mapBrokerOrderLifecycleWithDeactivation (ov_Status ?v) (ov_Filled ?v) (ov_Remaining ?v) (ov_Deactivated ?v)"
        using callback s t by (auto simp: mapOrderViewLifecycleStatus_def event_types)
      ultimately show ?thesis by (intro closed_by_lifecycle) simp
    qed
  qed
qed


text \<open>A settled fold: final evidence was seen, the row is closed and no request is the last thing it was told.\<close>

definition settled :: "orderViewFold \<Rightarrow> bool" where
  "settled f \<longleftrightarrow> of_terminal f \<and> of_definitiveTerminal f \<and> closed_by (of_view f) (of_last f) \<and>
     ov_LastEvent (of_view f) \<notin> {orderJournalEventModifyRequested, orderJournalEventCancelRequested}"

lemma inherited_fields:
  "je_Type (inherit_deactivation view ev) = je_Type ev" "je_Status (inherit_deactivation view ev) = je_Status ev"
  "je_Filled (inherit_deactivation view ev) = je_Filled ev" "je_Remaining (inherit_deactivation view ev) = je_Remaining ev"
  "je_AttemptID (inherit_deactivation view ev) = je_AttemptID ev" "je_ActionKind (inherit_deactivation view ev) = je_ActionKind ev"
  by (simp_all add: inherit_deactivation_def Let_def)

lemma inherited_deactivation:
  "je_Type ev = orderJournalEventStatusUpdated \<or> je_Type ev = orderJournalEventBrokerAcknowledged \<Longrightarrow>
     je_Deactivated (inherit_deactivation view ev) = None \<Longrightarrow> ov_Deactivated view = None"
  by (auto simp: inherit_deactivation_def Let_def split: if_splits)

lemma not_terminal [simp]:
  "\<not> orderLifecycleStatusIsTerminal OrderLifecycleUnknownReconcileRequired" "\<not> orderLifecycleStatusIsTerminal OrderLifecyclePreviewed"
  "\<not> orderLifecycleStatusIsTerminal OrderLifecycleSubmitted"
  by (simp_all add: orderLifecycleStatusIsTerminal_def)

lemma inherited_send_state:
  "je_SendState (inherit_deactivation view ev) = je_SendState ev \<or> \<not> orderJournalEventIsTerminal (inherit_deactivation view ev)"
  by (auto simp: inherit_deactivation_def Let_def orderJournalEventIsTerminal_def mapOrderJournalLifecycleStatus_def event_types)

lemma inherited_orderly:
  assumes "orderly ev" and "orderJournalEventIsTerminal (inherit_deactivation view ev)"
  shows "orderly (inherit_deactivation view ev)"
  using assms inherited_send_state [of view ev] by (auto simp: orderly_def inherited_fields)

lemma started_terminal: "orderJournalEventStartsAttempt ev \<Longrightarrow> orderJournalEventIsTerminal ev \<longleftrightarrow> je_SendState ev = orderSendStateTerminal"
  by (auto simp: orderJournalEventStartsAttempt_def orderJournalEventIsTerminal_def event_types split: if_splits)

lemma settled_step:
  assumes "settled f" and "orderly p"
  shows "settled (orderViewFold_merge f p)"
proof -
  let ?ev = "inherit_deactivation (of_view f) p"
  have f: "of_terminal f" "of_definitiveTerminal f" and last: "ov_LastEvent (of_view f) \<notin> {orderJournalEventModifyRequested, orderJournalEventCancelRequested}"
    using assms(1) by (auto simp: settled_def)
  show ?thesis
  proof (cases "orderJournalEventIsTerminal ?ev")
    case False
    then show ?thesis using assms(1) f by (simp add: orderViewFold_merge_def Let_def)
  next
    case True
    have ord: "orderly ?ev" by (rule inherited_orderly [OF assms(2) True])
    have closed: "closed_by (mergeOrderJournalEventIntoView (of_view f) ?ev) ?ev"
      using terminal_event_closes [OF True ord] last inherited_deactivation by (simp add: inherited_fields)
    have kind: "je_Type ?ev \<notin> {orderJournalEventModifyRequested, orderJournalEventCancelRequested}"
      using ord True by (auto simp: orderly_def orderJournalEventIsTerminal_def event_types)
    have plain: "settled (g\<lparr>of_view := mergeOrderJournalEventIntoView (of_view f) ?ev, of_last := ?ev\<rparr>)"
      if "of_terminal g" "of_definitiveTerminal g" for g
      using that closed kind by (simp add: settled_def merged_fields)
    consider (started) "orderJournalEventStartsAttempt ?ev"
      | (outcome) "\<not> orderJournalEventStartsAttempt ?ev" "je_AttemptID ?ev \<noteq> [] \<and> (je_Type ?ev = orderJournalEventSendCompleted \<or> je_Type ?ev = orderJournalEventSendError)"
      | (callback) "\<not> orderJournalEventStartsAttempt ?ev" "\<not> (je_AttemptID ?ev \<noteq> [] \<and> (je_Type ?ev = orderJournalEventSendCompleted \<or> je_Type ?ev = orderJournalEventSendError))"
      by blast
    then show ?thesis
    proof cases
      case started
      then show ?thesis using f True plain [of "f\<lparr>of_attempts := _\<rparr>"] by (simp add: orderViewFold_merge_def Let_def merge_plain_def)
    next
      case outcome
      then have "orderViewFold_merge f p = merge_outcome ?ev f" using f True by (simp add: orderViewFold_merge_def Let_def)
      then show ?thesis using assms(1) f by (simp add: merge_outcome_def Let_def settled_def)
    next
      case callback
      then show ?thesis using f True closed kind
        by (auto simp: orderViewFold_merge_def Let_def merge_plain_def settled_def merged_fields)
    qed
  qed
qed

lemma settles_settled:
  assumes "settles e"
  shows "settled (orderViewFold_merge f e)"
proof -
  let ?ev = "inherit_deactivation (of_view f) e"
  have kind: "je_Type ?ev = orderJournalEventStatusUpdated \<or> je_Type ?ev = orderJournalEventBrokerAcknowledged" and final: "final_status (je_Status ?ev)"
    using assms by (auto simp: settles_def inherited_fields)
  have life: "mapOrderJournalLifecycleStatus ?ev = mapBrokerOrderLifecycleWithDeactivation (je_Status ?ev) (je_Filled ?ev) (je_Remaining ?ev) (je_Deactivated ?ev)"
    using kind final_status_terminal(3) [OF final] by (auto simp: mapOrderJournalLifecycleStatus_def event_types)
  then have terminal: "orderJournalEventIsTerminal ?ev" and definitive: "mapOrderJournalLifecycleStatus ?ev \<noteq> OrderLifecycleInactive"
    using kind final_status_terminal(1,2) [OF final] by (auto simp: orderJournalEventIsTerminal_def event_types)
  have "orderly ?ev" using kind final by (auto simp: orderly_def event_types)
  moreover have "settles ?ev" using kind final by (simp add: settles_def)
  ultimately have closed: "closed_by (mergeOrderJournalEventIntoView (of_view f) ?ev) ?ev"
    using terminal_event_closes [OF terminal] inherited_deactivation by (simp add: inherited_fields)
  have "\<not> orderJournalEventStartsAttempt ?ev" "je_Type ?ev \<noteq> orderJournalEventSendCompleted \<and> je_Type ?ev \<noteq> orderJournalEventSendError"
    "je_Type ?ev \<notin> {orderJournalEventModifyRequested, orderJournalEventCancelRequested}"
    using kind by (auto simp: orderJournalEventStartsAttempt_def event_types)
  then show ?thesis using terminal definitive closed
    by (auto simp: orderViewFold_merge_def Let_def merge_plain_def settled_def merged_fields)
qed

lemma settled_run: "settled f \<Longrightarrow> \<forall>p\<in>set post. orderly p \<Longrightarrow> settled (foldl orderViewFold_merge f post)"
  by (induction post arbitrary: f) (auto intro: settled_step)

lemma settled_closed: "settled f \<Longrightarrow> \<not> ov_Open (finished_view f)"
  by (simp add: settled_def finished_view_def orderViewFold_finish_def closed_by_def Let_def)


text \<open>C12. Finality is sticky: once a callback of the broker reports an order as filled, cancelled or rejected, its row in
  the read model is closed and stays closed whatever events follow, in particular delayed status callbacks, late
  returns of local sends and rejections of earlier requests. (The other events are as the journal writes them: a request is not marked
  terminal, and a callback with an unknown status that counts as terminal is marked so.)\<close>

theorem settled_rows_stay_closed:
  assumes "filter (\<lambda>ev. orderJournalCanonicalKey ev (orderJournalKeyAliases events) = key) events = pre @ e # post"
    and "settles e" and "\<forall>p\<in>set post. orderly p"
  shows "\<not> ov_Open (row_of events key)"
  unfolding row_of_def assms(1) by (simp add: settled_closed settled_run settles_settled assms(2,3))

subsection \<open>A staged send without an outcome\<close>

lemma started_kinds:
  "orderJournalEventStartsAttempt e \<Longrightarrow> je_Type e \<in> {orderJournalEventSendAttempted, orderJournalEventModifyRequested, orderJournalEventCancelRequested}"
  by (auto simp: orderJournalEventStartsAttempt_def split: if_splits)

lemma inherit_request: "je_Type e \<notin> {orderJournalEventStatusUpdated, orderJournalEventBrokerAcknowledged} \<Longrightarrow> inherit_deactivation view e = e"
  by (auto simp: inherit_deactivation_def)

definition staged_attempt :: "orderViewFold \<Rightarrow> orderJournalEvent \<Rightarrow> orderAttemptFold" where
  "staged_attempt f e = \<lparr>oa_action = je_ActionKind e, oa_intent = e, oa_before = of_view f, oa_beforeLast = of_last f, oa_completed = False,
     oa_resolved = False, oa_uncertain = False\<rparr>"

lemma merge_started:
  assumes "orderJournalEventStartsAttempt e" and "\<not> of_terminal f"
  shows "orderViewFold_merge f e = merge_plain e (f\<lparr>of_attempts := AList.update (je_AttemptID e) (staged_attempt f e) (of_attempts f)\<rparr>)"
proof -
  have "inherit_deactivation (of_view f) e = e" using started_kinds [OF assms(1)] by (intro inherit_request) (auto simp: event_types)
  then show ?thesis using assms by (simp add: orderViewFold_merge_def Let_def staged_attempt_def)
qed



subsection \<open>A modification that was proven unsent\<close>

lemma finish_attempts:
  "orderViewFold_finish (f\<lparr>of_attempts := al\<rparr>) = orderViewFold_finish f"
  if "list_ex (\<lambda>(k, a). \<not> (oa_resolved a \<or> oa_completed a \<and> \<not> oa_uncertain a)) al =
    list_ex (\<lambda>(k, a). \<not> (oa_resolved a \<or> oa_completed a \<and> \<not> oa_uncertain a)) (of_attempts f)"
  using that by (simp add: orderViewFold_finish_def)

lemma update_fresh: "k \<notin> fst ` set al \<Longrightarrow> AList.update k v al = al @ [(k, v)]"
  by (induction al) auto

lemma update_last: "k \<notin> fst ` set al \<Longrightarrow> AList.update k w (al @ [(k, v)]) = al @ [(k, w)]"
  by (induction al) auto

lemma message_irrelevant:
  "mapOrderViewLifecycleStatus (v\<lparr>ov_LastMessage := m\<rparr>) l u = mapOrderViewLifecycleStatus v l u"
  "orderViewIsOpen (v\<lparr>ov_LastMessage := m\<rparr>) = orderViewIsOpen v"
  "orderViewModifyEligible (v\<lparr>ov_LastMessage := m\<rparr>) = orderViewModifyEligible v"
  "orderViewCancelEligibleWithAttemptTruth (v\<lparr>ov_LastMessage := m\<rparr>) u = orderViewCancelEligibleWithAttemptTruth v u"
  by (simp_all add: mapOrderViewLifecycleStatus_def orderViewIsOpen_def orderViewModifyEligible_def orderViewBrokerConfirmedForWrite_def
      orderViewCancelEligibleWithAttemptTruth_def Let_def cong del: if_weak_cong)

lemma finished_view_message:
  "finished_view (f\<lparr>of_view := (of_view f)\<lparr>ov_LastMessage := m\<rparr>\<rparr>) = (finished_view f)\<lparr>ov_LastMessage := m\<rparr>"
proof -
  let ?m = "\<lambda>v. v\<lparr>ov_LastMessage := m\<rparr>"
  obtain view l u where fin: "orderViewFold_finish f = (view, l, u)" by (metis prod_cases3)
  then have "orderViewFold_finish (f\<lparr>of_view := ?m (of_view f)\<rparr>) = (?m view, l, u)"
    by (auto simp: orderViewFold_finish_def split: if_splits)
  moreover have push: "(?m v)\<lparr>ov_LifecycleStatus := x\<rparr> = ?m (v\<lparr>ov_LifecycleStatus := x\<rparr>)" "(?m v)\<lparr>ov_Open := y\<rparr> = ?m (v\<lparr>ov_Open := y\<rparr>)"
    "(?m v)\<lparr>ov_ModifyEligible := y\<rparr> = ?m (v\<lparr>ov_ModifyEligible := y\<rparr>)" "(?m v)\<lparr>ov_CancelEligible := y\<rparr> = ?m (v\<lparr>ov_CancelEligible := y\<rparr>)" for v x y
    by simp_all
  ultimately show ?thesis using fin
    by (simp only: finished_view_def Let_def prod.case push message_irrelevant)
qed

text \<open>C20. Staging a modification or a cancellation and then learning that it was not sent is a round trip: the row is what it was
  before, except for the message.\<close>

theorem unsent_request_restores_row:
  assumes "orderJournalEventStartsAttempt e" and "\<not> of_terminal f" and "je_ActionKind e \<notin> {ActionPlace, ActionExercise}"
    and "je_AttemptID e \<notin> fst ` set (of_attempts f)"
    and "je_Type u = orderJournalEventSendError" and "je_AttemptID u = je_AttemptID e" and "je_ActionKind u = je_ActionKind e"
    and "je_SendDisposition u = SendDispositionDefinitelyUnsent"
  shows "finished_view (orderViewFold_merge (orderViewFold_merge f e) u) =
    (finished_view f)\<lparr>ov_LastMessage := or_text (je_Message u) (ov_LastMessage (finished_view f))\<rparr>"
proof -
  let ?a = "staged_attempt f e"
  let ?g = "orderViewFold_merge f e"
  have g: "\<not> of_terminal ?g" "of_attempts ?g = of_attempts f @ [(je_AttemptID e, ?a)]" "of_definitiveTerminal ?g = of_definitiveTerminal f"
    using assms(2,4) by (simp_all add: merge_started [OF assms(1,2)] merge_plain_def update_fresh)
  have id: "je_AttemptID e \<noteq> []" using assms(1) by (auto simp: orderJournalEventStartsAttempt_def)
  have same: "inherit_deactivation (of_view ?g) u = u" using assms(5) by (intro inherit_request) (auto simp: event_types)
  have "\<not> orderJournalEventStartsAttempt u" using assms(5) by (auto simp: orderJournalEventStartsAttempt_def event_types)
  then have outcome: "orderViewFold_merge ?g u = merge_outcome u ?g"
    using g(1) id assms(5,6) unfolding orderViewFold_merge_def [of ?g] Let_def same by simp
  have look: "map_of (of_attempts ?g) (je_AttemptID e) = Some ?a"
    using assms(4) by (simp add: g map_add_def map_of_eq_None_iff [THEN iffD2] split: option.split)
  have upd: "AList.update (je_AttemptID e) w (of_attempts ?g) = of_attempts f @ [(je_AttemptID e, w)]" for w
    using assms(4) by (simp add: g update_last)
  have a: "oa_action ?a = je_ActionKind e" "\<not> oa_resolved ?a" "oa_before ?a = of_view f" "oa_beforeLast ?a = of_last f"
    by (simp_all add: staged_attempt_def)
  have gf: "?g\<lparr>of_attempts := al, of_view := v, of_last := of_last f\<rparr> = f\<lparr>of_attempts := al, of_view := v\<rparr>" for al v
    by (simp add: merge_started [OF assms(1,2)] merge_plain_def)
  have "merge_outcome u ?g = f\<lparr>of_attempts := of_attempts f @ [(je_AttemptID e, ?a\<lparr>oa_resolved := True\<rparr>)],
      of_view := (of_view f)\<lparr>ov_LastMessage := or_text (je_Message u) (ov_LastMessage (of_view f))\<rparr>\<rparr>"
    using g(1) a assms(2-8) look gf by (simp add: merge_outcome_def Let_def upd event_types)
  then have step: "orderViewFold_merge ?g u = (f\<lparr>of_attempts := of_attempts f @ [(je_AttemptID e, ?a\<lparr>oa_resolved := True\<rparr>)]\<rparr>)
      \<lparr>of_view := (of_view f)\<lparr>ov_LastMessage := or_text (je_Message u) (ov_LastMessage (of_view f))\<rparr>\<rparr>" by (simp add: outcome)
  have attempts: "finished_view (f\<lparr>of_attempts := of_attempts f @ [(je_AttemptID e, ?a\<lparr>oa_resolved := True\<rparr>)]\<rparr>) = finished_view f"
    by (simp add: finished_view_def finish_attempts)
  have message: "ov_LastMessage (finished_view f) = ov_LastMessage (of_view f)"
    by (simp add: finished_view_def orderViewFold_finish_def Let_def)
  show ?thesis using finished_view_message [where f = "f\<lparr>of_attempts := of_attempts f @ [(je_AttemptID e, ?a\<lparr>oa_resolved := True\<rparr>)]\<rparr>"]
    by (simp add: step attempts message)
qed


subsection \<open>A working order\<close>

text \<open>A limit order that was sent and acknowledged, a request to change it, and what the broker may say then.\<close>

definition sample_event :: orderJournalEvent where
  "sample_event = zero_event\<lparr>je_OrderRef := ''c1'', je_ReservedOrderID := 4, je_Account := ''DU1'', je_Mode := ''paper'', je_Endpoint := ''gw'',
     je_ClientID := 1, je_clientIDPresent := True\<rparr>"

definition sample_attempt :: orderJournalEvent where
  "sample_attempt = sample_event\<lparr>je_Type := orderJournalEventSendAttempted, je_AttemptID := ''a1'', je_ActionKind := ActionPlace,
     je_SendState := orderSendStateSendAttempted,
     je_terms := zero_terms\<lparr>ot_Action := ''BUY'', ot_OrderType := ''LMT'', ot_TIF := ''DAY'', ot_Quantity := 0x4024000000000000\<rparr>,
     je_contract := zero_contract\<lparr>oc_SecType := ''STK''\<rparr>\<rparr>"

definition sample_ack :: orderJournalEvent where
  "sample_ack = sample_event\<lparr>je_Type := orderJournalEventBrokerAcknowledged, je_SendState := orderSendStateBrokerAcknowledged, je_Status := ''Submitted'',
     je_PermID := 7\<rparr>"

definition sample_modify :: orderJournalEvent where
  "sample_modify = sample_event\<lparr>je_Type := orderJournalEventModifyRequested, je_AttemptID := ''a2'', je_ActionKind := ActionModify,
     je_SendState := orderSendStateSendAttempted\<rparr>"

definition sample_unsent :: orderJournalEvent where
  "sample_unsent = sample_event\<lparr>je_Type := orderJournalEventSendError, je_AttemptID := ''a2'', je_ActionKind := ActionModify,
     je_SendDisposition := SendDispositionDefinitelyUnsent\<rparr>"

text \<open>Four of ten shares were bought.\<close>

definition sample_partial :: orderJournalEvent where
  "sample_partial = sample_event\<lparr>je_Type := orderJournalEventStatusUpdated, je_SendState := orderSendStateBrokerAcknowledged, je_Status := ''Submitted'',
     je_PermID := 7, je_Filled := 0x4010000000000000, je_Remaining := 0x4018000000000000\<rparr>"

definition sample_filled :: orderJournalEvent where
  "sample_filled = sample_event\<lparr>je_Type := orderJournalEventStatusUpdated, je_SendState := orderSendStateTerminal, je_Status := ''Filled'',
     je_PermID := 7, je_Filled := 0x4024000000000000\<rparr>"

definition sample_rejection :: orderJournalEvent where
  "sample_rejection = sample_event\<lparr>je_Type := orderJournalEventBrokerError, je_ErrorCode := 201\<rparr>"

definition working :: orderViewFold where
  "working = foldl orderViewFold_merge new_fold [sample_attempt, sample_ack]"

lemma working_facts: "\<not> of_terminal working" "fst ` set (of_attempts working) = {''a1''}"
  by code_simp+

lemma sample_starts: "orderJournalEventStartsAttempt sample_modify" "orderJournalEventStartsAttempt sample_attempt"
  by code_simp+


theorem unsent_request_restores_row_witness:
  "finished_view (orderViewFold_merge (orderViewFold_merge working sample_modify) sample_unsent) =
    (finished_view working)\<lparr>ov_LastMessage := or_text (je_Message sample_unsent) (ov_LastMessage (finished_view working))\<rparr>"
  by (rule unsent_request_restores_row [OF sample_starts(1) working_facts(1)])
    (simp_all add: working_facts sample_modify_def sample_unsent_def sample_event_def zero_event_def action_kinds)

lemma sample_rows:
  "filter (\<lambda>ev. orderJournalCanonicalKey ev (orderJournalKeyAliases [sample_attempt, sample_filled, sample_partial]) = orderJournalKey sample_attempt)
     [sample_attempt, sample_filled, sample_partial] = [sample_attempt] @ sample_filled # [sample_partial]"
  by code_simp

theorem settled_rows_stay_closed_witness:
  "\<not> ov_Open (row_of [sample_attempt, sample_filled, sample_partial] (orderJournalKey sample_attempt))"
  by (rule settled_rows_stay_closed [OF sample_rows]) code_simp+


subsection \<open>Three surprises\<close>



text \<open>Every key of the event table carries a route, and with it the separator byte.\<close>

lemma alias_targets:
  assumes "flat_aliases al" and "\<forall>k v. map_of al k = Some v \<longrightarrow> P v"
    and "\<forall>ev\<in>set events. \<forall>k\<in>set (orderJournalIdentityKeysForAliases ev amb pre). P k"
  shows "\<forall>k v. map_of (foldl (alias_event amb pre) al events) k = Some v \<longrightarrow> P v"
  using assms
proof (induction events arbitrary: al)
  case (Cons ev events)
  let ?keys = "orderJournalIdentityKeysForAliases ev amb pre"
  have "\<forall>k v. map_of (alias_event amb pre al ev) k = Some v \<longrightarrow> P v"
  proof (cases "?keys = []")
    case True
    then show ?thesis using Cons.prems(2) by (simp add: alias_event_def)
  next
    case False
    have "P (hd ?keys)" using Cons.prems(3) False by simp
    then have "P (canonical_of ev ?keys al)"
      using Cons.prems(2) by (simp add: canonical_flat(1) [OF Cons.prems(1) False refl] alias_target_def split: option.split)
    then show ?thesis using Cons.prems(2) by (auto simp: map_of_alias_event [OF False])
  qed
  then show ?case using Cons.IH [OF alias_event_flat [OF Cons.prems(1)]] Cons.prems(3) by simp
qed simp

lemma identity_key_separator: "k \<in> set (orderJournalIdentityKeysForAliases ev amb pre) \<Longrightarrow> CHR 0x1F \<in> set k"
  by (auto simp: orderJournalIdentityKeysForAliases_def event_scope_def orderJournalRouteIdentity_def Let_def split: if_splits)

lemma canonical_key_separator:
  assumes "orderJournalCanonicalKey ev (orderJournalKeyAliases events) \<noteq> []"
  shows "CHR 0x1F \<in> set (orderJournalCanonicalKey ev (orderJournalKeyAliases events))"
proof -
  have key: "orderJournalKey ev \<noteq> []" using assms no_key by metis
  have "CHR 0x1F \<in> set (orderJournalKey ev)" using key by (auto simp: event_key event_scope_def orderJournalRouteIdentity_def split: if_splits)
  moreover have "\<forall>k v. map_of (orderJournalKeyAliases events) k = Some v \<longrightarrow> CHR 0x1F \<in> set v"
    unfolding flat_orderJournalKeyAliases(2) by (rule alias_targets) (auto simp: flat_aliases_def dest: identity_key_separator)
  ultimately show ?thesis by (auto simp: canonical_key [OF key] alias_target_def split: option.split)
qed

lemma events_by_key_separator:
  assumes "k \<in> fst ` set (buildOrderEventsByKey events)"
  shows "CHR 0x1F \<in> set k"
proof -
  let ?al = "orderJournalKeyAliases events"
  let ?step = "\<lambda>groups ev. let key = orderJournalCanonicalKey ev ?al
           in if key = [] then groups else AList.update key ((case map_of groups key of None \<Rightarrow> [] | Some evs \<Rightarrow> evs) @ [ev]) groups"
  have "(\<And>k. k \<in> fst ` set groups \<Longrightarrow> CHR 0x1F \<in> set k) \<Longrightarrow> k \<in> fst ` set (foldl ?step groups evs) \<Longrightarrow> CHR 0x1F \<in> set k" for groups evs k
  proof (induction evs arbitrary: groups)
    case (Cons ev evs)
    have sub: "fst ` set (?step groups ev) \<subseteq> fst ` set groups \<union> (if orderJournalCanonicalKey ev ?al = [] then {} else {orderJournalCanonicalKey ev ?al})"
      unfolding Let_def by (cases "orderJournalCanonicalKey ev ?al = []") (simp_all add: AList.dom_update del: image_subset_iff)
    have "CHR 0x1F \<in> set k'" if "k' \<in> fst ` set (?step groups ev)" for k'
      using subsetD [OF sub that] Cons.prems(1) [of k'] canonical_key_separator [of ev events] by (auto split: if_splits)
    from Cons.IH [OF this] Cons.prems(2) show ?case by simp
  qed simp
  from this [of "[]" k events] assms show ?thesis by (simp add: buildOrderEventsByKey_def Let_def)
qed

text \<open>C32. The time from which the session of a DAY order is counted is always the time of the last update of its row, never
  that of its first event: the lookup asks for a key without the route, which the table of events by key never has.
  (The reference does not contain the separator byte of routes.)\<close>

theorem placed_at_is_last_update:
  assumes "CHR 0x1F \<notin> set (ov_OrderRef view)"
  shows "orderViewPlacedAt view (buildOrderEventsByKey events) = ov_UpdatedAt view"
proof -
  have "CHR 0x1F \<notin> set (''ref:'' @ ov_OrderRef view)" using assms by simp
  then have "''ref:'' @ ov_OrderRef view \<notin> fst ` set (buildOrderEventsByKey events)" using events_by_key_separator by blast
  then have "map_of (buildOrderEventsByKey events) (''ref:'' @ ov_OrderRef view) = None" by (metis map_of_eq_None_iff)
  then show ?thesis by (simp add: orderViewPlacedAt_def)
qed

theorem placed_at_is_last_update_witness:
  "orderViewPlacedAt (zero_view\<lparr>ov_OrderRef := ''c1'', ov_UpdatedAt := Instant 9\<rparr>) (buildOrderEventsByKey [sample_attempt, sample_ack]) = Instant 9"
proof -
  let ?view = "zero_view\<lparr>ov_OrderRef := ''c1'', ov_UpdatedAt := Instant 9\<rparr>"
  have "CHR 0x1F \<notin> set (ov_OrderRef ?view)" by simp
  from placed_at_is_last_update [OF this, of "[sample_attempt, sample_ack]"] show ?thesis by simp
qed

end
