(* ===== verification/Spec2Isabelle.thy ===== *)
theory Spec2Isabelle
  imports Alert_Registry_Store Delivery_Observe Delivery_Findings Order_Events Order_Settled
begin

text \<open>
  A verification library for two paths of \<^verbatim>\<open>canary\<close>: the alert pipeline, which decides what the operator is told about
  an account and makes sure that it is told once, and the broker order path, which puts orders on the wire, reads what
  the broker says about them and keeps the journal from which every order's state is derived.

  \<^bold>\<open>The program's parts and how they meet.\<close> Producers in the daemon observe the account and the market.
  Their observations are folded into durable \<^emph>\<open>episodes\<close> by the alert episode registry, which lives as one
  versioned document in the daemon's SQLite authority store. The registry publishes a \<^emph>\<open>candidate snapshot\<close>
  per authority scope (an account in a mode) under a contract both sides validate. The app takes
  snapshots into its delivery ledger, which reserves, confirms and completes push deliveries to the
  operator's devices, keeps an attention cursor, and is written to a file after every change.

  An order is checked and encoded as a protobuf message before it is sent. The broker answers with open-order, order-status and
  execution callbacks, which are decoded into text fields and parsed into lifecycle events. The daemon turns an event
  into a journal event, binds it to the current write route, pairs it with the journal row it is about and appends it.
  The read model groups the journal by canonical keys and folds each group into one row, which says whether the order is open and
  whether it may be modified or cancelled.

  \<^bold>\<open>Theories and sources\<close> (files under \<^verbatim>\<open>src/internal\<close>, and \<^verbatim>\<open>src/pkg/ibkr\<close> where the path says so):
  \<^item> \<open>Canary_Prelude\<close>: what the sources use of Go (instants, slices, wrapped errors, early returns, maps,
    hashing as the parameter \<open>golib\<close>), generic lemmas, and the simulation locale \<open>op_simulation\<close>.
  \<^item> \<open>Alert_Contract\<close>: \<^verbatim>\<open>risk/alert_candidate.go\<close>. The vocabulary, the snapshot structures, the builders of
    scopes and keys, and the validators.
  \<^item> \<open>Alert_Registry_Types\<close>, \<open>Alert_Registry_Validate\<close>, \<open>Alert_Registry\<close>, \<open>Alert_Registry_Snapshot\<close>:
    \<^verbatim>\<open>daemon/alert_episode_registry.go\<close>. The document, its validator, the application of one evaluation
    (\<open>applyAlertEpisodeEvaluation\<close>), the storage bound and the projection to a snapshot.
  \<^item> \<open>Corestore\<close>: \<^verbatim>\<open>daemon/corestore/state.go\<close>, \<^verbatim>\<open>store.go\<close>, \<^verbatim>\<open>types.go\<close>. State documents with revisions, the
    critical mutation with its transaction outcomes and health latches, and the interface
    \<open>cas_documents\<close> that clients rely on.
  \<^item> \<open>Alert_Registry_Store\<close>: the registry's operations on that store (\<open>Apply\<close>, \<open>RecordInputDisposition\<close>,
    \<open>RecordApplyFailure\<close>, \<open>Snapshot\<close>), proved against the interface.
  \<^item> \<open>Delivery_Types\<close>, \<open>Delivery_Ledger\<close>, \<open>Delivery_Views\<close>, \<open>Delivery_Intake\<close>, \<open>Delivery_Validate\<close>:
    \<^verbatim>\<open>app/state/alert_delivery.go\<close> and \<^verbatim>\<open>app/state/alert_source_baseline.go\<close>. The ledger's data, its operations,
    its views and the validator of the persisted form.
  \<^item> \<open>Delivery_Runs\<close>: the operations as values, their runs, and for every operation what it may write.
    \<open>Delivery_Transport\<close>, \<open>Delivery_Attention\<close>, \<open>Delivery_Safety\<close>, \<open>Delivery_Observe\<close>, \<open>Delivery_Findings\<close>: what holds
    over the runs. \<open>Delivery_Example\<close>: a worked run on which the theorems are instantiated.
  \<^item> \<open>Proto_Wire\<close>: the append and iteration routines of \<^verbatim>\<open>pkg/ibkr/place_order_proto.go\<close> over Go's varints, with the locale
    \<open>wire_value\<close> of what a written value promises to the field walk. \<open>Go_Float\<close>: \<^verbatim>\<open>float64\<close> as bit patterns.
  \<^item> \<open>Order_Proto\<close>: \<^verbatim>\<open>pkg/ibkr/place_order_proto.go\<close>, \<^verbatim>\<open>cancel_order_proto.go\<close>, the checks of \<^verbatim>\<open>orders.go\<close> and \<^verbatim>\<open>bond_order.go\<close>. The validators,
    the encoders and the decoder of outgoing frames. \<open>Order_Wire\<close>: what is written is what is read.
  \<^item> \<open>Order_Callback\<close>: \<^verbatim>\<open>pkg/ibkr/order_proto_callbacks.go\<close> and \<^verbatim>\<open>order_events.go\<close>. The decoding of callbacks and the
    parsing of lifecycle events. \<open>Order_Events\<close>: what a callback says reaches the event.
  \<^item> \<open>Order_Journal\<close>, \<open>Order_Pairing\<close>: \<^verbatim>\<open>daemon/order_journal.go\<close> and \<^verbatim>\<open>daemon/order_lifecycle.go\<close>. The journal's data, the
    pairing of callbacks with rows and the receipt handler.
  \<^item> \<open>Order_Fold\<close>: \<^verbatim>\<open>daemon/order_read_model.go\<close> and \<^verbatim>\<open>stock_entry_stop_lifecycle.go\<close>. Keys and aliases, the fold of a row and the inference of expiry.
    \<open>Order_Rows\<close>: rows, keys and routes. \<open>Order_Settled\<close>: when a row is closed, uncertain or restored.

  \<^bold>\<open>State and effects.\<close> A Go structure is a record with the same fields, an enumerated string a datatype with
    a constructor for every other string, a map an association list, a \<^verbatim>\<open>uint64\<close> counter a \<open>64 word\<close>. An
    operation takes the state and returns the new one with its result; errors are values. What the
    outside world decides is an argument: the clock, the outcome of a file write, the outcome of each part
    of a SQLite transaction, the writes of other processes between two attempts, the order in which Go
    visits a map, the digest, the decimal text of a float, the market calendar, the current write route and the outcome of
    a journal append. Operations of one store are serialised by a mutex, so an
    interleaving of callers is a sequence of operations.

  \<^bold>\<open>What the theorems show.\<close>
  \<^item> Contract: a snapshot that reads clear is completely and currently covered; keys and scopes are canonical.
  \<^item> Registry: an active episode ends only on evidence; active observations are never lost; occurrences are
    minted exactly on opening, reopening and escalation, and counted; replays mint nothing; other scopes are
    untouched; time is monotone; the bound drops the oldest recovered episodes only.
  \<^item> Store: a successful swap replaced exactly the expected revision; errors are accounted for; a revision has
    one winner; a blocked store stays blocked until the eligible recovery; lost writes are latched.
  \<^item> Registry on the store: \<open>Apply\<close> is an atomic read-modify-write whatever other writers do, and two attempts
    suffice on a quiet store.
  \<^item> Delivery: the ledger in memory is what was last written; generations grow; attempts and receipts refine an
    abstract transport machine in which an occurrence is accepted for a target at most once; transport is
    granted only on current authority; reservations are exclusive; unread numbers have no gap and can be
    read; ended occurrences stay ended; retention is safe; the item limit holds; health does not depend on
    map order; episodes are resolved only on evidence; accepted snapshots replay.
  \<^item> Orders on the wire: an encoded order is read back term by term, and only orders that satisfy the rules of their
    instrument are encoded; walking the fields of any message ends.
  \<^item> Callbacks: identifiers, status, quantities and prices survive the detour through text; a body that does not decode gives
    no event; an order that Canary encoded is recognised as one it can replace.
  \<^item> Journal: a callback is paired only on identifying evidence within its account, mode and client; it is appended, latches
    persistence uncertainty, or is dropped for a stated reason.
  \<^item> Read model: rows keep to one route; each row is the fold of its own events whatever the order of map iteration; a paired
    callback joins the row it was paired with; final evidence closes a row for good; a staged send without an outcome
    leaves it uncertain; a modification that was proven unsent restores it.
  \<^item> Behaviours that contradict the code's own intent are evaluated in \<open>Delivery_Findings\<close>, \<open>Order_Wire\<close> (three orders
    that pass the validator), \<open>Order_Pairing\<close> (pairing across order identifiers) and \<open>Order_Settled\<close> (fills that a
    restored row forgets, a rejected request that freezes a working row, the placing time of a DAY order).

  \<^bold>\<open>Bounds.\<close> The compare-and-swap loop of the registry makes at most eight attempts
    (\<open>alertEpisodeRegistryCASAttempts\<close>); it is modelled with that count as fuel, and running out is the error the
    code returns. Counters wrap only where the code lets them: the occurrence sequence modulo \<open>2 ^ 64\<close>, while
    the generation, attention and archive counters refuse to wrap. The storage bound (256 recovered episodes) and
    the item limit (4096 unless set) are the code's constants. The walk over protobuf fields and the chase of key
    aliases are recursive functions with a decreasing measure (the bytes left, the keys not yet seen), not fuel. Integers of
    orders and callbacks are words where the code casts them to 32 or 64 bits.

  \<^bold>\<open>Not modelled.\<close> Of \<^verbatim>\<open>pkg/ibkr\<close> only the encoding of orders and the decoding of order callbacks are modelled; its
    connections, subscriptions and market data are network and time-out code. Of the daemon's order path the submission of
    previewed orders, the broker snapshot reconciliation and the request handlers are not modelled; neither are the
    proposal engine, the analytics and the rule book, which are floating-point code around broker data. Of the shadow composer only the
    vocabulary and the metrics structure that the registry stores are modelled. Of the authority store the opening,
    migration and backup of the database file are not modelled; of the app's store, pairing, sessions and settings.
    Quarantining moves files. JSON encoding enters as a parameter with its documented laws.
\<close>

end
